(* ===== verification/LabPrelude.thy ===== *)
theory LabPrelude
  imports Main "HOL-Library.State_Monad" "HOL-Library.AList"
begin

text \<open>
  Shared foundations of the development.

  The controller is stateful code against an external system (the Kubernetes API server, the
  clock, the message broker).  It is modelled in the state monad of the library over a
  \<^emph>\<open>world\<close>: the external system's own state, of an arbitrary type, and the trace of the
  interactions the controller had with it.  One primitive, \<open>call\<close>, performs an interaction;
  it runs the external function (always a parameter of the model) and appends the request
  together with its response to the trace.

  A Go function that may panic returns an \<open>outcome\<close>; \<open>onRet\<close> sequences such a function
  with what follows it and lets a panic abort the rest.

  \<open>yields m Q\<close> is the program logic used throughout: in every world and whatever the external
  system answers, running \<open>m\<close> appends some actions \<open>es\<close> to the trace and returns a result
  \<open>r\<close> with \<open>Q r es\<close>.
\<close>

named_theorems yields_rules \<open>rules of the trace logic, one per construct of the monad\<close>
named_theorems go_simps \<open>equations of the modelled Go library functions\<close>

section \<open>World, interactions and panics\<close>

record ('w, 'e) world =
  ext :: 'w
  trace :: "'e list"

type_synonym ('w, 'e, 'a) prog = "(('w, 'e) world, 'a) state"

abbreviation ret :: "'a \<Rightarrow> ('s, 'a) state" where
  "ret \<equiv> State_Monad.return"

definition call :: "('w \<Rightarrow> 'r \<times> 'w) \<Rightarrow> ('r \<Rightarrow> 'e) \<Rightarrow> ('w, 'e, 'r) prog" where
  "call f act = State (\<lambda>w. case f (ext w) of
     (r, x) \<Rightarrow> (r, w\<lparr>ext := x, trace := trace w @ [act r]\<rparr>))"

lemma run_state_call [simp]:
  "run_state (call f act) w =
     (case f (ext w) of (r, x) \<Rightarrow> (r, w\<lparr>ext := x, trace := trace w @ [act r]\<rparr>))"
  by (simp add: call_def)

datatype 'a outcome = Returned 'a | Panicked string

definition onRet :: "('s, 'a outcome) state \<Rightarrow> ('a \<Rightarrow> ('s, 'b outcome) state) \<Rightarrow> ('s, 'b outcome) state" where
  "onRet m f = do {
     x \<leftarrow> m;
     (case x of Panicked p \<Rightarrow> ret (Panicked p) | Returned a \<Rightarrow> f a) }"

lemma run_state_onRet [simp]:
  "run_state (onRet m f) w =
     (case run_state m w of
        (Panicked p, w') \<Rightarrow> (Panicked p, w')
      | (Returned a, w') \<Rightarrow> run_state (f a) w')"
  by (auto simp: onRet_def split: prod.splits outcome.splits)

section \<open>The trace logic\<close>

definition yields :: "('w, 'e, 'a) prog \<Rightarrow> ('a \<Rightarrow> 'e list \<Rightarrow> bool) \<Rightarrow> bool" where
  "yields m Q \<longleftrightarrow> (\<forall>w. \<exists>es. trace (snd (run_state m w)) = trace w @ es \<and> Q (fst (run_state m w)) es)"

lemma yieldsI:
  assumes "\<And>w. \<exists>es. trace (snd (run_state m w)) = trace w @ es \<and> Q (fst (run_state m w)) es"
  shows "yields m Q"
  using assms by (simp add: yields_def)

lemma yieldsD:
  assumes "yields m Q" and "run_state m w = (r, w')"
  obtains es where "trace w' = trace w @ es" and "Q r es"
  using assms by (metis fst_conv snd_conv yields_def)

lemma yields_conseq:
  assumes "yields m R" and "\<And>a es. R a es \<Longrightarrow> Q a es"
  shows "yields m Q"
  using assms unfolding yields_def by meson

lemma yields_ret [yields_rules]: "Q x [] \<Longrightarrow> yields (ret x) Q"
  by (simp add: yields_def)

lemma yields_call [yields_rules]: "(\<And>r. Q r [act r]) \<Longrightarrow> yields (call f act) Q"
  by (auto simp: yields_def split: prod.splits)

lemma yields_bind:
  assumes "yields m R" and "\<And>a es1. R a es1 \<Longrightarrow> yields (f a) (\<lambda>b es2. Q b (es1 @ es2))"
  shows "yields (State_Monad.bind m f) Q"
proof (rule yieldsI)
  fix w
  obtain a w1 where m: "run_state m w = (a, w1)" by fastforce
  obtain es1 where e1: "trace w1 = trace w @ es1" and "R a es1"
    using assms(1) m by (rule yieldsD)
  then have fa: "yields (f a) (\<lambda>b es2. Q b (es1 @ es2))" using assms(2) by blast
  obtain b w2 where f: "run_state (f a) w1 = (b, w2)" by fastforce
  obtain es2 where "trace w2 = trace w1 @ es2" and "Q b (es1 @ es2)"
    using fa f by (rule yieldsD)
  with e1 m f show "\<exists>es. trace (snd (run_state (State_Monad.bind m f) w)) = trace w @ es
      \<and> Q (fst (run_state (State_Monad.bind m f) w)) es"
    by auto
qed

lemma yields_bind_call [yields_rules]:
  assumes "\<And>r. yields (g r) (\<lambda>b es. Q b (act r # es))"
  shows "yields (State_Monad.bind (call f act) g) Q"
  by (rule yields_bind [where R = "\<lambda>r es. es = [act r]"])
    (auto intro: yields_call assms)

lemma yields_bind_call_known:
  \<comment> \<open>The answer is known in advance.\<close>
  assumes "\<And>w. fst (f w) = r" and "yields (g r) (\<lambda>b es. Q b (act r # es))"
  shows "yields (State_Monad.bind (call f act) g) Q"
proof (rule yields_bind [where R = "\<lambda>x es. x = r \<and> es = [act r]"])
  show "yields (call f act) (\<lambda>x es. x = r \<and> es = [act r])"
    using assms(1) by (auto simp: yields_def split: prod.splits) (metis fst_conv)+
qed (use assms(2) in auto)

lemma yields_onRet:
  assumes "yields m R"
    and "\<And>p es. R (Panicked p) es \<Longrightarrow> Q (Panicked p) es"
    and "\<And>a es1. R (Returned a) es1 \<Longrightarrow> yields (f a) (\<lambda>b es2. Q b (es1 @ es2))"
  shows "yields (onRet m f) Q"
  unfolding onRet_def
proof (rule yields_bind [OF assms(1)])
  fix x es1
  assume "R x es1"
  then show "yields (case x of Panicked p \<Rightarrow> ret (Panicked p) | Returned a \<Rightarrow> f a)
      (\<lambda>b es2. Q b (es1 @ es2))"
    using assms(2,3) by (cases x) (auto intro: yields_ret)
qed

lemma yields_if [yields_rules]:
  "(b \<Longrightarrow> yields m Q) \<Longrightarrow> (\<not> b \<Longrightarrow> yields n Q) \<Longrightarrow> yields (if b then m else n) Q"
  by simp

lemma yields_case_option [yields_rules]:
  "(x = None \<Longrightarrow> yields m Q) \<Longrightarrow> (\<And>a. x = Some a \<Longrightarrow> yields (n a) Q) \<Longrightarrow>
   yields (case x of None \<Rightarrow> m | Some a \<Rightarrow> n a) Q"
  by (cases x) auto

lemma yields_case_sum [yields_rules]:
  "(\<And>a. x = Inl a \<Longrightarrow> yields (m a) Q) \<Longrightarrow> (\<And>b. x = Inr b \<Longrightarrow> yields (n b) Q) \<Longrightarrow>
   yields (case x of Inl a \<Rightarrow> m a | Inr b \<Rightarrow> n b) Q"
  by (cases x) auto

lemma yields_case_prod [yields_rules]:
  "(\<And>a b. x = (a, b) \<Longrightarrow> yields (m a b) Q) \<Longrightarrow> yields (case x of (a, b) \<Rightarrow> m a b) Q"
  by (cases x) auto

lemma yields_case_outcome [yields_rules]:
  "(\<And>a. x = Returned a \<Longrightarrow> yields (m a) Q) \<Longrightarrow> (\<And>p. x = Panicked p \<Longrightarrow> yields (n p) Q) \<Longrightarrow>
   yields (case x of Returned a \<Rightarrow> m a | Panicked p \<Rightarrow> n p) Q"
  by (cases x) auto

text \<open>
  The same constructs as the first step of a sequence: with these rules \<open>intro yields_rules\<close> runs a
  handler symbolically, down to one goal for each path through it.
\<close>

lemma yields_let [yields_rules]: "yields (f x) Q \<Longrightarrow> yields (Let x f) Q"
  by simp

lemma yields_bind_let [yields_rules]:
  "yields (State_Monad.bind (f x) g) Q \<Longrightarrow> yields (State_Monad.bind (Let x f) g) Q"
  by simp

lemma yields_bind_ret [yields_rules]: "yields (f x) Q \<Longrightarrow> yields (State_Monad.bind (ret x) f) Q"
  by simp

lemma yields_bind_bind [yields_rules]:
  "yields (State_Monad.bind m (\<lambda>x. State_Monad.bind (f x) g)) Q \<Longrightarrow>
   yields (State_Monad.bind (State_Monad.bind m f) g) Q"
  by (simp add: State_Monad.bind_assoc)

lemma yields_bind_if [yields_rules]:
  "(b \<Longrightarrow> yields (State_Monad.bind m f) Q) \<Longrightarrow> (\<not> b \<Longrightarrow> yields (State_Monad.bind n f) Q) \<Longrightarrow>
   yields (State_Monad.bind (if b then m else n) f) Q"
  by simp

lemma yields_bind_case_option [yields_rules]:
  "(x = None \<Longrightarrow> yields (State_Monad.bind m f) Q) \<Longrightarrow>
   (\<And>a. x = Some a \<Longrightarrow> yields (State_Monad.bind (n a) f) Q) \<Longrightarrow>
   yields (State_Monad.bind (case x of None \<Rightarrow> m | Some a \<Rightarrow> n a) f) Q"
  by (cases x) auto

lemma yields_bind_case_sum [yields_rules]:
  "(\<And>a. x = Inl a \<Longrightarrow> yields (State_Monad.bind (m a) f) Q) \<Longrightarrow>
   (\<And>b. x = Inr b \<Longrightarrow> yields (State_Monad.bind (n b) f) Q) \<Longrightarrow>
   yields (State_Monad.bind (case x of Inl a \<Rightarrow> m a | Inr b \<Rightarrow> n b) f) Q"
  by (cases x) auto

lemma yields_bind_case_prod [yields_rules]:
  "(\<And>a b. x = (a, b) \<Longrightarrow> yields (State_Monad.bind (m a b) f) Q) \<Longrightarrow>
   yields (State_Monad.bind (case x of (a, b) \<Rightarrow> m a b) f) Q"
  by (cases x) auto

lemma yields_map:
  assumes "yields m (\<lambda>x es. Q (f x) es)"
  shows "yields (State_Monad.bind m (\<lambda>x. ret (f x))) Q"
  by (rule yields_bind [OF assms]) (simp add: yields_ret)

text \<open>Conjunction and what a run says about the final trace.\<close>

lemma yields_conj:
  assumes "yields m Q" and "yields m R"
  shows "yields m (\<lambda>a es. Q a es \<and> R a es)"
proof (rule yieldsI)
  fix w
  obtain a w1 where m: "run_state m w = (a, w1)" by fastforce
  obtain es1 where 1: "trace w1 = trace w @ es1" "Q a es1"
    using assms(1) m by (rule yieldsD)
  obtain es2 where 2: "trace w1 = trace w @ es2" "R a es2"
    using assms(2) m by (rule yieldsD)
  from 1 2 m show "\<exists>es. trace (snd (run_state m w)) = trace w @ es \<and>
      Q (fst (run_state m w)) es \<and> R (fst (run_state m w)) es"
    by auto
qed

lemma yields_run:
  assumes "yields m Q"
  shows "Q (fst (run_state m w)) (drop (length (trace w)) (trace (snd (run_state m w))))"
proof -
  obtain a w1 where m: "run_state m w = (a, w1)" by fastforce
  obtain es where "trace w1 = trace w @ es" "Q a es"
    using assms m by (rule yieldsD)
  with m show ?thesis by simp
qed

text \<open>A program as a part of a larger one, whose trace has further kinds of actions.\<close>

definition embed :: "('e \<Rightarrow> 'f) \<Rightarrow> ('w, 'e, 'a) prog \<Rightarrow> ('w, 'f, 'a) prog" where
  "embed g m = State (\<lambda>w. case run_state m \<lparr> ext = ext w, trace = [] \<rparr> of
     (a, w') \<Rightarrow> (a, \<lparr> ext = ext w', trace = trace w @ map g (trace w') \<rparr>))"

lemma run_state_embed [simp]:
  "run_state (embed g m) w = (case run_state m \<lparr> ext = ext w, trace = [] \<rparr> of
     (a, w') \<Rightarrow> (a, \<lparr> ext = ext w', trace = trace w @ map g (trace w') \<rparr>))"
  by (simp add: embed_def)

lemma yields_embed:
  assumes "yields m Q"
  shows "yields (embed g m) (\<lambda>a es. \<exists>fs. es = map g fs \<and> Q a fs)"
proof (rule yieldsI)
  fix w :: "('a, 'd) world"
  obtain a w' where m: "run_state m \<lparr> ext = ext w, trace = [] \<rparr> = (a, w')" by fastforce
  obtain fs where "trace w' = trace \<lparr> ext = ext w, trace = [] \<rparr> @ fs" "Q a fs"
    using assms m by (rule yieldsD)
  with m show "\<exists>es. trace (snd (run_state (embed g m) w)) = trace w @ es \<and>
      (\<exists>fs. es = map g fs \<and> Q (fst (run_state (embed g m) w)) fs)"
    by auto
qed

lemma yields_bind_embed:
  assumes "yields m R" and "\<And>a fs. R a fs \<Longrightarrow> yields (f a) (\<lambda>b es. Q b (map g fs @ es))"
  shows "yields (State_Monad.bind (embed g m) f) Q"
  by (rule yields_bind [OF yields_embed [OF assms(1)]]) (auto intro: assms(2))

lemma embed_call [simp]: "embed g (call f act) = call f (g \<circ> act)"
  by (simp add: embed_def call_def fun_eq_iff split: prod.splits)

section \<open>Go maps as association lists\<close>

type_synonym gomap = "(string \<times> string) list"

definition mget :: "gomap \<Rightarrow> string \<Rightarrow> string" where
  \<comment> \<open>Go's \<open>m[k]\<close>: the zero value when the key is missing (or the map is nil).\<close>
  "mget m k = (case map_of m k of None \<Rightarrow> [] | Some v \<Rightarrow> v)"

definition mput :: "gomap \<Rightarrow> string \<Rightarrow> string \<Rightarrow> gomap" where
  \<comment> \<open>Go's \<open>m[k] = v\<close>.\<close>
  "mput m k v = AList.update k v m"

lemma map_of_mput [simp]: "map_of (mput m k v) = (map_of m)(k \<mapsto> v)"
  by (simp add: mput_def AList.update_conv')

lemma mget_mput [simp]: "mget (mput m k v) k' = (if k' = k then v else mget m k')"
  by (simp add: mget_def)

lemma mput_nonempty [simp]: "mput m k v \<noteq> []"
  by (simp add: mput_def)

section \<open>64-bit integers\<close>

definition wrap64 :: "int \<Rightarrow> int" where
  \<comment> \<open>The value an \<open>int64\<close> (and, on the controller's platforms, an \<open>int\<close>) holds.\<close>
  "wrap64 x = (x + 2 ^ 63) mod 2 ^ 64 - 2 ^ 63"

definition int64 :: "int \<Rightarrow> bool" where
  "int64 x \<longleftrightarrow> - (2 ^ 63) \<le> x \<and> x < 2 ^ 63"

lemma wrap64_id: "int64 x \<Longrightarrow> wrap64 x = x"
  by (simp add: wrap64_def int64_def)

lemma wrap64_above: "2 ^ 63 \<le> x \<Longrightarrow> x < 2 ^ 63 + 2 ^ 64 \<Longrightarrow> wrap64 x = x - 2 ^ 64"
  using mod_add_self2 [of "x - 2 ^ 63" "2 ^ 64 :: int"] by (simp add: wrap64_def algebra_simps)

lemma int64_wrap64 [simp]: "int64 (wrap64 x)"
  by (simp add: wrap64_def int64_def)

end
