(* ===== verification/GoLib.thy ===== *)
theory GoLib
  imports LabPrelude
begin

text \<open>
  The part of the Go language and its standard library that the controller uses: error values
  (\<^verbatim>\<open>errors.New\<close>, \<^verbatim>\<open>fmt.Errorf\<close> with \<^verbatim>\<open>%w\<close>), decimal printing and parsing
  (\<^verbatim>\<open>strconv\<close>, \<^verbatim>\<open>%d\<close>), the \<^verbatim>\<open>strings\<close> functions and durations.  Strings are
  byte strings; the white space that \<^verbatim>\<open>TrimSpace\<close> and \<^verbatim>\<open>Sscanf\<close> skip is the ASCII
  white space.

  The lemmas are the laws the components use: printing a number and parsing it back, splitting
  and joining, what trimming leaves.
\<close>

section \<open>Errors\<close>

text \<open>
  An \<^verbatim>\<open>error\<close> value: a message, a wrapped error, the controller's own
  \<^verbatim>\<open>notOwnedError\<close>, or an error that an external library returned (an API status with
  its reason and message, or any other external error).
\<close>

datatype goerror =
    ErrNew string
  | ErrWrap string goerror
  | ErrNotOwned string string
  | ErrExternal string string

fun errorString :: "goerror \<Rightarrow> string" where
  "errorString (ErrNew m) = m"
| "errorString (ErrWrap p e) = p @ '': '' @ errorString e"
| "errorString (ErrNotOwned k n) = k @ '' '' @ n @ '' exists and is not owned by this session''"
| "errorString (ErrExternal r m) = m"

fun asNotOwned :: "goerror \<Rightarrow> bool" where
  \<comment> \<open>\<open>errors.As(err, &notOwned)\<close>: some error of the chain is a \<open>*notOwnedError\<close>.\<close>
  "asNotOwned (ErrNotOwned k n) = True"
| "asNotOwned (ErrWrap p e) = asNotOwned e"
| "asNotOwned _ = False"

section \<open>Durations\<close>

text \<open>Times and durations are nanosecond counts.\<close>

type_synonym time = int
type_synonym duration = int

definition Second :: duration where "Second = 1000000000"
definition Minute :: duration where "Minute = 60 * Second"

definition unixTime :: "time option \<Rightarrow> int" where
  \<comment> \<open>Seconds since 1970; the zero time is the start of year 1.\<close>
  "unixTime t = (case t of None \<Rightarrow> - 62135596800 | Some ns \<Rightarrow> ns div Second)"

section \<open>Decimal numbers\<close>

definition digitChar :: "nat \<Rightarrow> char" where
  "digitChar d = (char_of (48 + d) :: char)"

definition isDigit :: "char \<Rightarrow> bool" where
  "isDigit c \<longleftrightarrow> 48 \<le> (of_char c :: nat) \<and> (of_char c :: nat) \<le> 57"

definition digitVal :: "char \<Rightarrow> nat" where
  "digitVal c = (of_char c :: nat) - 48"

fun showNat :: "nat \<Rightarrow> string" where
  "showNat n = (if n < 10 then [digitChar n] else showNat (n div 10) @ [digitChar (n mod 10)])"

declare showNat.simps [simp del]

definition Itoa :: "int \<Rightarrow> string" where
  \<comment> \<open>\<open>strconv.Itoa\<close>, \<open>strconv.FormatInt(_, 10)\<close> and the verb \<open>%d\<close>.\<close>
  "Itoa i = (if i < 0 then ''-'' @ showNat (nat (- i)) else showNat (nat i))"

definition readDigits :: "string \<Rightarrow> nat" where
  "readDigits ds = foldl (\<lambda>acc c. 10 * acc + digitVal c) 0 ds"

fun signed :: "string \<Rightarrow> bool \<times> string" where
  \<comment> \<open>An optional sign: whether it is a minus, and the rest.\<close>
  "signed (c # cs) =
     (if c = CHR ''-'' then (True, cs) else if c = CHR ''+'' then (False, cs) else (False, c # cs))"
| "signed [] = (False, [])"

definition inRange :: "int \<Rightarrow> int option" where
  "inRange x = (if int64 x then Some x else None)"

definition Atoi :: "string \<Rightarrow> int option" where
  \<comment> \<open>\<open>strconv.Atoi\<close>; \<open>None\<close> is a syntax or range error.\<close>
  "Atoi s = (case signed s of (neg, ds) \<Rightarrow>
     if ds = [] \<or> \<not> list_all isDigit ds then None
     else inRange (if neg then - int (readDigits ds) else int (readDigits ds)))"

definition isSpace :: "char \<Rightarrow> bool" where
  "isSpace c \<longleftrightarrow> (of_char c :: nat) = 32 \<or> (9 \<le> (of_char c :: nat) \<and> (of_char c :: nat) \<le> 13)"

fun skipSpace :: "string \<Rightarrow> string option" where
  \<comment> \<open>\<open>SkipSpace\<close> of a \<open>Sscanf\<close>: a newline is an error.\<close>
  "skipSpace [] = Some []"
| "skipSpace (c # cs) =
     (if (of_char c :: nat) = 10 then None else if isSpace c then skipSpace cs else Some (c # cs))"

definition SscanfD :: "string \<Rightarrow> int option" where
  \<comment> \<open>\<open>fmt.Sscanf(s, "%d", &x)\<close>: the value stored in \<open>x\<close>; \<open>None\<close> when the scan
      fails and \<open>x\<close> keeps its value.\<close>
  "SscanfD s = (case skipSpace s of None \<Rightarrow> None | Some t \<Rightarrow>
     (case signed t of (neg, u) \<Rightarrow>
        let ds = takeWhile isDigit u in
        if ds = [] then None
        else inRange (if neg then - int (readDigits ds) else int (readDigits ds))))"

subsection \<open>Laws of decimal numbers\<close>

lemma of_char_digitChar: "d < 10 \<Longrightarrow> (of_char (digitChar d) :: nat) = 48 + d"
  by (simp add: digitChar_def)

lemma isDigit_digitChar [simp]: "d < 10 \<Longrightarrow> isDigit (digitChar d)"
  by (simp add: isDigit_def of_char_digitChar)

lemma digitVal_digitChar [simp]: "d < 10 \<Longrightarrow> digitVal (digitChar d) = d"
  by (simp add: digitVal_def of_char_digitChar)

lemma readDigits_snoc [simp]: "readDigits (ds @ [c]) = 10 * readDigits ds + digitVal c"
  by (simp add: readDigits_def)

lemma showNat_digits: "list_all isDigit (showNat n)"
proof (induction n rule: showNat.induct)
  case (1 n)
  then show ?case by (cases "n < 10") (auto simp: showNat.simps [of n])
qed

lemma showNat_nonempty [simp]: "showNat n \<noteq> []"
  by (subst showNat.simps) simp

lemma readDigits_showNat [simp]: "readDigits (showNat n) = n"
proof (induction n rule: showNat.induct)
  case (1 n)
  show ?case
  proof (cases "n < 10")
    case True
    then show ?thesis by (simp add: showNat.simps [of n] readDigits_def)
  next
    case False
    with 1 have "readDigits (showNat (n div 10)) = n div 10" by simp
    with False show ?thesis by (simp add: showNat.simps [of n])
  qed
qed

lemma signed_showNat [simp]: "signed (showNat n) = (False, showNat n)"
proof (cases "showNat n")
  case (Cons c cs)
  with showNat_digits [of n] have "isDigit c" by simp
  then have "c \<noteq> CHR ''-''" "c \<noteq> CHR ''+''" by (auto simp: isDigit_def)
  with Cons show ?thesis by simp
qed simp

theorem Atoi_Itoa: "int64 i \<Longrightarrow> Atoi (Itoa i) = Some i"
  by (cases "i < 0") (auto simp: Atoi_def Itoa_def inRange_def showNat_digits)

lemma Itoa_inj: "int64 i \<Longrightarrow> int64 j \<Longrightarrow> Itoa i = Itoa j \<Longrightarrow> i = j"
  by (metis Atoi_Itoa option.inject)

lemma skipSpace_showNat [simp]: "skipSpace (showNat n) = Some (showNat n)"
proof (cases "showNat n")
  case (Cons c cs)
  with showNat_digits [of n] have "isDigit c" by simp
  then have "\<not> isSpace c" "(of_char c :: nat) \<noteq> 10" by (auto simp: isDigit_def isSpace_def)
  with Cons show ?thesis by simp
qed simp

lemma takeWhile_digits [simp]: "takeWhile isDigit (showNat n) = showNat n"
  using showNat_digits [of n] by (simp add: list_all_iff takeWhile_eq_all_conv)

lemma SscanfD_showNat: "n < 2 ^ 63 \<Longrightarrow> SscanfD (showNat n) = Some (int n)"
  by (simp add: SscanfD_def inRange_def int64_def)

lemma showNat_no_dot: "CHR ''.'' \<notin> set (showNat n)"
  using showNat_digits [of n] by (auto simp: list_all_iff isDigit_def)

section \<open>Strings\<close>

fun Split :: "char \<Rightarrow> string \<Rightarrow> string list" where
  \<comment> \<open>\<open>strings.Split(s, sep)\<close> for a one-byte separator.\<close>
  "Split c [] = [[]]"
| "Split c (x # xs) =
     (if x = c then [] # Split c xs
      else (case Split c xs of [] \<Rightarrow> [[x]] | y # ys \<Rightarrow> (x # y) # ys))"

fun Join :: "char \<Rightarrow> string list \<Rightarrow> string" where
  \<comment> \<open>\<open>strings.Join(xs, sep)\<close> for a one-byte separator.\<close>
  "Join c [] = []"
| "Join c [x] = x"
| "Join c (x # y # zs) = x @ [c] @ Join c (y # zs)"

definition TrimRight :: "string \<Rightarrow> char \<Rightarrow> string" where
  "TrimRight s c = rev (dropWhile (\<lambda>x. x = c) (rev s))"

definition TrimSpace :: "string \<Rightarrow> string" where
  "TrimSpace s = rev (dropWhile isSpace (rev (dropWhile isSpace s)))"

lemma Split_nonempty [simp]: "Split c s \<noteq> []"
  by (induction s) (auto split: list.splits)

lemma Join_Cons_head: "Join c ((x # a) # zs) = x # Join c (a # zs)"
  by (cases zs) auto

lemma Join_Split [simp]: "Join c (Split c s) = s"
proof (induction s)
  case (Cons x xs)
  then show ?case
    by (cases "Split c xs") (auto simp: Join_Cons_head)
qed simp

lemma Split_no_sep: "p \<in> set (Split c s) \<Longrightarrow> c \<notin> set p"
proof (induction s arbitrary: p)
  case (Cons x xs)
  then show ?case
    by (cases "Split c xs") (auto split: if_splits)
qed simp

lemma Split_single: "c \<notin> set s \<Longrightarrow> Split c s = [s]"
  by (induction s) auto

lemma Split_append: "c \<notin> set x \<Longrightarrow> Split c (x @ c # s) = x # Split c s"
  by (induction x) auto

lemma Split_Join:
  "xs \<noteq> [] \<Longrightarrow> (\<And>x. x \<in> set xs \<Longrightarrow> c \<notin> set x) \<Longrightarrow> Split c (Join c xs) = xs"
  by (induction c xs rule: Join.induct) (auto simp: Split_single Split_append)

lemma TrimRight_last: "TrimRight s c = [] \<or> last (TrimRight s c) \<noteq> c"
proof -
  have "dropWhile (\<lambda>x. x = c) (rev s) = [] \<or> hd (dropWhile (\<lambda>x. x = c) (rev s)) \<noteq> c"
    using hd_dropWhile [of "\<lambda>x. x = c" "rev s"] by blast
  then show ?thesis by (auto simp: TrimRight_def last_rev)
qed

lemma TrimRight_decomp: "\<exists>n. s = TrimRight s c @ replicate n c"
proof -
  let ?t = "takeWhile (\<lambda>x. x = c) (rev s)"
  have "?t = replicate (length ?t) c"
    by (rule replicate_eqI) (auto dest: set_takeWhileD)
  moreover have "s = TrimRight s c @ rev ?t"
    by (metis TrimRight_def rev_append rev_rev_ident takeWhile_dropWhile_id)
  ultimately show ?thesis by (metis rev_replicate)
qed

lemma TrimSpace_set: "set (TrimSpace s) \<subseteq> set s"
  by (auto simp: TrimSpace_def dest!: set_dropWhileD)

lemma TrimSpace_last: "TrimSpace s \<noteq> [] \<Longrightarrow> \<not> isSpace (last (TrimSpace s))"
  using hd_dropWhile [of isSpace "rev (dropWhile isSpace s)"]
  by (simp add: TrimSpace_def last_rev del: dropWhile_eq_Nil_conv)

lemma TrimSpace_hd:
  assumes "TrimSpace s \<noteq> []"
  shows "\<not> isSpace (hd (TrimSpace s))"
proof -
  let ?u = "dropWhile isSpace s"
  have "rev ?u = takeWhile isSpace (rev ?u) @ rev (TrimSpace s)"
    by (metis TrimSpace_def rev_rev_ident takeWhile_dropWhile_id)
  then have u: "?u = TrimSpace s @ rev (takeWhile isSpace (rev ?u))"
    by (metis rev_append rev_rev_ident)
  with assms have "hd ?u = hd (TrimSpace s)" "?u \<noteq> []"
    by (metis hd_append2) (metis u assms append_is_Nil_conv)
  then show ?thesis using hd_dropWhile [of isSpace s] by simp
qed

lemma TrimSpace_id:
  assumes "s \<noteq> []" "\<not> isSpace (hd s)" "\<not> isSpace (last s)"
  shows "TrimSpace s = s"
proof -
  have "dropWhile isSpace s = s" using assms(1,2) by (cases s) auto
  moreover have "dropWhile isSpace (rev s) = rev s"
    using assms(1,3) by (cases s rule: rev_cases) auto
  ultimately show ?thesis by (simp add: TrimSpace_def)
qed

section \<open>Dynamic values\<close>

text \<open>The values of an \<^verbatim>\<open>interface{}\<close> as the sources build them: what JSON can express.\<close>

datatype json =
    JNull
  | JBool bool
  | JInt int
  | JString string
  | JArray "json list"
  | JObject "(string \<times> json) list"

type_synonym jobject = "(string \<times> json) list"

end
