(* ===== verification/KubeTypes.thy ===== *)
theory KubeTypes
  imports GoLib Complex_Main
begin

text \<open>
  The Kubernetes API objects the controller builds and reads, with the fields the sources set or
  read, and the functions of the Kubernetes libraries that the sources call.

  The libraries are not part of the repository, so their functions are parameters of the model,
  collected in the record \<open>k8slib\<close>; resource quantities are values of an arbitrary type
  \<open>'q\<close>.  Where a theorem relies on documented behaviour of a library function, the behaviour
  is a named hypothesis of the theorem (\<open>quantity_laws\<close>, \<open>condition_laws\<close>, \<dots>, defined at the
  end of this theory).
\<close>

section \<open>Metadata\<close>

record NamespacedName =
  nn_Namespace :: string
  nn_Name :: string

record OwnerReference =
  or_Kind :: string
  or_Name :: string
  or_UID :: string
  or_Controller :: bool

record ObjectMeta =
  om_Name :: string
  om_Namespace :: string
  om_UID :: string
  om_ResourceVersion :: string
  om_Generation :: int
  om_DeletionTimestamp :: "time option"
  om_Labels :: gomap
  om_Annotations :: gomap
  om_Finalizers :: "string list"
  om_OwnerReferences :: "OwnerReference list"

definition emptyMeta :: ObjectMeta where
  "emptyMeta = \<lparr> om_Name = [], om_Namespace = [], om_UID = [], om_ResourceVersion = [],
     om_Generation = 0, om_DeletionTimestamp = None, om_Labels = [], om_Annotations = [],
     om_Finalizers = [], om_OwnerReferences = [] \<rparr>"

definition keyOf :: "ObjectMeta \<Rightarrow> NamespacedName" where
  "keyOf m = \<lparr> nn_Namespace = om_Namespace m, nn_Name = om_Name m \<rparr>"

record Condition =
  cond_Type :: string
  cond_Status :: string
  cond_ObservedGeneration :: int
  cond_LastTransitionTime :: time
  cond_Reason :: string
  cond_Message :: string

abbreviation ConditionTrue :: string where "ConditionTrue \<equiv> ''True''"
abbreviation ConditionFalse :: string where "ConditionFalse \<equiv> ''False''"

section \<open>Pods\<close>

record SecretKeySelector =
  sks_Name :: string
  sks_Key :: string

record EnvVar =
  env_Name :: string
  env_Value :: string
  env_SecretKeyRef :: "SecretKeySelector option"

record ContainerPort =
  cp_Name :: string
  cp_ContainerPort :: int

record VolumeMount =
  vm_Name :: string
  vm_MountPath :: string
  vm_ReadOnly :: bool

datatype ProbeHandler = HTTPGet string int | TCPSocket int

record Probe =
  pr_Handler :: ProbeHandler
  pr_InitialDelaySeconds :: int
  pr_PeriodSeconds :: int
  pr_TimeoutSeconds :: int
  pr_FailureThreshold :: int

definition probe :: "ProbeHandler \<Rightarrow> Probe" where
  \<comment> \<open>A probe with the handler and every other field zero.\<close>
  "probe h = \<lparr> pr_Handler = h, pr_InitialDelaySeconds = 0, pr_PeriodSeconds = 0,
     pr_TimeoutSeconds = 0, pr_FailureThreshold = 0 \<rparr>"

type_synonym 'q ResourceList = "(string \<times> 'q) list"

record 'q Container =
  ct_Name :: string
  ct_Image :: string
  ct_ImagePullPolicy :: string
  ct_Command :: "string list"
  ct_Args :: "string list"
  ct_Env :: "EnvVar list"
  ct_Ports :: "ContainerPort list"
  ct_Limits :: "'q ResourceList"
  ct_Requests :: "'q ResourceList"
  ct_VolumeMounts :: "VolumeMount list"
  ct_LivenessProbe :: "Probe option"
  ct_StartupProbe :: "Probe option"
  ct_ReadinessProbe :: "Probe option"
  ct_AddedCapabilities :: "string list"

definition container :: "string \<Rightarrow> string \<Rightarrow> 'q Container" where
  \<comment> \<open>A container with its name and image and every other field unset.\<close>
  "container n i = \<lparr> ct_Name = n, ct_Image = i, ct_ImagePullPolicy = [], ct_Command = [],
     ct_Args = [], ct_Env = [], ct_Ports = [], ct_Limits = [], ct_Requests = [],
     ct_VolumeMounts = [], ct_LivenessProbe = None, ct_StartupProbe = None,
     ct_ReadinessProbe = None, ct_AddedCapabilities = [] \<rparr>"

datatype 'q VolumeSource = PersistentVolumeClaimSource string | EmptyDir "'q option"

record 'q Volume =
  vol_Name :: string
  vol_Source :: "'q VolumeSource"

record LocalObjectReference =
  lor_Name :: string

record 'q PodSpec =
  ps_RestartPolicy :: string
  ps_Sysctls :: gomap
  ps_SeccompProfile :: string
  ps_InitContainers :: "'q Container list"
  ps_Containers :: "'q Container list"
  ps_Volumes :: "'q Volume list"
  ps_ImagePullSecrets :: "LocalObjectReference list"

record Terminated =
  tm_Reason :: string
  tm_ExitCode :: int

record ContainerStatus =
  cs_Name :: string
  cs_Terminated :: "Terminated option"

record PodCondition =
  pc_Type :: string
  pc_Status :: string

record PodStatus =
  pst_Phase :: string
  pst_Message :: string
  pst_PodIP :: string
  pst_Conditions :: "PodCondition list"
  pst_ContainerStatuses :: "ContainerStatus list"

definition emptyPodStatus :: PodStatus where
  "emptyPodStatus = \<lparr> pst_Phase = [], pst_Message = [], pst_PodIP = [], pst_Conditions = [],
     pst_ContainerStatuses = [] \<rparr>"

abbreviation PodPending :: string where "PodPending \<equiv> ''Pending''"
abbreviation PodRunning :: string where "PodRunning \<equiv> ''Running''"
abbreviation PodSucceeded :: string where "PodSucceeded \<equiv> ''Succeeded''"
abbreviation PodFailed :: string where "PodFailed \<equiv> ''Failed''"
abbreviation PodReady :: string where "PodReady \<equiv> ''Ready''"

record 'q Pod =
  pod_Meta :: ObjectMeta
  pod_Spec :: "'q PodSpec"
  pod_Status :: PodStatus

section \<open>Services, Ingresses, claims and Secrets\<close>

record ServicePort =
  sp_Name :: string
  sp_Port :: int
  sp_TargetPort :: int
  sp_Protocol :: string

record LoadBalancerIngress =
  lb_IP :: string
  lb_Hostname :: string

record Service =
  svc_Meta :: ObjectMeta
  svc_Type :: string
  svc_Selector :: gomap
  svc_Ports :: "ServicePort list"
  svc_ClusterIP :: string
  svc_LoadBalancerIngress :: "LoadBalancerIngress list"

abbreviation ServiceTypeLoadBalancer :: string where
  "ServiceTypeLoadBalancer \<equiv> ''LoadBalancer''"

record IngressPath =
  ip_Path :: string
  ip_PathType :: string
  ip_ServiceName :: string
  ip_ServicePort :: int

record IngressRule =
  ir_Host :: string
  ir_Paths :: "IngressPath list"

record Ingress =
  ing_Meta :: ObjectMeta
  ing_ClassName :: "string option"
  ing_Rules :: "IngressRule list"

record 'q PersistentVolumeClaim =
  pvc_Meta :: ObjectMeta
  pvc_AccessModes :: "string list"
  pvc_Requests :: "'q ResourceList"
  pvc_StorageClassName :: "string option"

record Secret =
  sec_Meta :: ObjectMeta
  sec_Type :: string
  sec_Data :: "(string \<times> string) list"

section \<open>Library functions\<close>

datatype QuantityFormat = DecimalSI | BinarySI

record 'q k8slib =
  IsNotFound :: "goerror \<Rightarrow> bool"
  IsAlreadyExists :: "goerror \<Rightarrow> bool"
  IsInvalid :: "goerror \<Rightarrow> bool"
  IsBadRequest :: "goerror \<Rightarrow> bool"
  IsConflict :: "goerror \<Rightarrow> bool"
  ParseQuantity :: "string \<Rightarrow> goerror + 'q"
  QSign :: "'q \<Rightarrow> int"
  QValue :: "'q \<Rightarrow> int"
  QMilliValue :: "'q \<Rightarrow> int"
  QAdd :: "'q \<Rightarrow> 'q \<Rightarrow> 'q"
  QCmp :: "'q \<Rightarrow> 'q \<Rightarrow> int"
  QIsZero :: "'q \<Rightarrow> bool"
  QString :: "'q \<Rightarrow> string"
  QZero :: "'q"
  NewQuantity :: "int \<Rightarrow> QuantityFormat \<Rightarrow> 'q"
  NewMilliQuantity :: "int \<Rightarrow> QuantityFormat \<Rightarrow> 'q"
  IsControlledBy :: "ObjectMeta \<Rightarrow> ObjectMeta \<Rightarrow> bool"
  SetControllerReference :: "ObjectMeta \<Rightarrow> ObjectMeta \<Rightarrow> goerror + ObjectMeta"
  ContainsFinalizer :: "string list \<Rightarrow> string \<Rightarrow> bool"
  AddFinalizer :: "string list \<Rightarrow> string \<Rightarrow> string list"
  RemoveFinalizer :: "string list \<Rightarrow> string \<Rightarrow> string list"
  FindStatusCondition :: "Condition list \<Rightarrow> string \<Rightarrow> Condition option"
  IsStatusConditionTrue :: "Condition list \<Rightarrow> string \<Rightarrow> bool"
  IsDNS1123Subdomain :: "string \<Rightarrow> string list"

text \<open>
  \<open>SetControllerReference L owner object\<close> gives the object's metadata with the owner reference
  added (the scheme is fixed).  \<^verbatim>\<open>resource.MustParse\<close> panics where \<open>ParseQuantity\<close> fails: a pure
  function that may panic returns an \<open>option\<close>, and \<open>None\<close> is the panic.  The zero \<open>Quantity\<close> stands
  for a key a resource list does not have.
\<close>

definition MustParse :: "'q k8slib \<Rightarrow> string \<Rightarrow> 'q option" where
  "MustParse L s = (case ParseQuantity L s of Inr q \<Rightarrow> Some q | Inl e \<Rightarrow> None)"

definition rget :: "'q k8slib \<Rightarrow> 'q ResourceList \<Rightarrow> string \<Rightarrow> 'q" where
  "rget L rs k = (case map_of rs k of None \<Rightarrow> QZero L | Some q \<Rightarrow> q)"

section \<open>Results of a reconcile\<close>

record Result =
  Requeue :: bool
  RequeueAfter :: duration

definition emptyResult :: Result where
  "emptyResult = \<lparr> Requeue = False, RequeueAfter = 0 \<rparr>"

definition requeueNow :: Result where
  "requeueNow = \<lparr> Requeue = True, RequeueAfter = 0 \<rparr>"

definition requeueAfter :: "duration \<Rightarrow> Result" where
  "requeueAfter d = \<lparr> Requeue = False, RequeueAfter = d \<rparr>"

section \<open>Documented behaviour used as hypotheses\<close>

text \<open>
  What the documentation of \<^verbatim>\<open>k8s.io/apimachinery\<close> says of the functions above, as far as a
  theorem relies on it.
\<close>

definition condition_laws :: "'q k8slib \<Rightarrow> bool" where
  \<comment> \<open>\<open>meta.FindStatusCondition\<close> finds the condition of a type;
      \<open>meta.IsStatusConditionTrue\<close> says whether it is present with status True.\<close>
  "condition_laws L \<longleftrightarrow>
     (\<forall>cs t. FindStatusCondition L cs t = find (\<lambda>c. cond_Type c = t) cs) \<and>
     (\<forall>cs t. IsStatusConditionTrue L cs t \<longleftrightarrow>
        (\<exists>c. find (\<lambda>c. cond_Type c = t) cs = Some c \<and> cond_Status c = ConditionTrue))"

definition owner_laws :: "'q k8slib \<Rightarrow> bool" where
  \<comment> \<open>\<open>SetControllerReference\<close> makes the owner the controller of the object and changes
      nothing else; \<open>IsControlledBy\<close> recognises it by the owner's UID.\<close>
  "owner_laws L \<longleftrightarrow>
     (\<forall>own obj obj'. SetControllerReference L own obj = Inr obj' \<longrightarrow>
        IsControlledBy L obj' own \<and> om_Name obj' = om_Name obj \<and>
        om_Namespace obj' = om_Namespace obj)"

definition finalizer_laws :: "'q k8slib \<Rightarrow> bool" where
  "finalizer_laws L \<longleftrightarrow>
     (\<forall>fs f. ContainsFinalizer L fs f \<longleftrightarrow> f \<in> set fs) \<and>
     (\<forall>fs f. set (AddFinalizer L fs f) = insert f (set fs)) \<and>
     (\<forall>fs f. set (RemoveFinalizer L fs f) = set fs - {f})"

definition error_laws :: "'q k8slib \<Rightarrow> bool" where
  \<comment> \<open>The predicates of \<open>apierrors\<close> look through wrapped errors.\<close>
  "error_laws L \<longleftrightarrow>
     (\<forall>p e. IsInvalid L (ErrWrap p e) = IsInvalid L e) \<and>
     (\<forall>p e. IsBadRequest L (ErrWrap p e) = IsBadRequest L e)"

definition quantity_laws :: "'q k8slib \<Rightarrow> ('q \<Rightarrow> rat) \<Rightarrow> bool" where
  \<comment> \<open>\<open>amount\<close> is the number a quantity stands for.  \<open>MilliValue\<close> is the ceiling of a thousand
      times it while that fits, \<open>Value\<close> rounds a non-negative quantity up to a whole number,
      \<open>Add\<close> adds, \<open>NewQuantity\<close> and \<open>NewMilliQuantity\<close> make whole units and
      thousandths.\<close>
  "quantity_laws L amount \<longleftrightarrow>
     (\<forall>q. int64 \<lceil>1000 * amount q\<rceil> \<longrightarrow> QMilliValue L q = \<lceil>1000 * amount q\<rceil>) \<and>
     (\<forall>q. 0 \<le> amount q \<longrightarrow> int64 \<lceil>amount q\<rceil> \<longrightarrow> QValue L q = \<lceil>amount q\<rceil>) \<and>
     (\<forall>q. 0 < QSign L q \<longleftrightarrow> 0 < amount q) \<and>
     (\<forall>q r. amount (QAdd L q r) = amount q + amount r) \<and>
     (\<forall>q. QIsZero L q \<longleftrightarrow> amount q = 0) \<and>
     amount (QZero L) = 0 \<and>
     (\<forall>v f. int64 v \<longrightarrow> amount (NewQuantity L v f) = of_int v) \<and>
     (\<forall>v f. int64 v \<longrightarrow> amount (NewMilliQuantity L v f) = of_int v / 1000)"

lemma quantity_lawsD:
  assumes "quantity_laws L amount"
  shows "int64 \<lceil>1000 * amount q\<rceil> \<Longrightarrow> QMilliValue L q = \<lceil>1000 * amount q\<rceil>"
    and "0 \<le> amount q \<Longrightarrow> int64 \<lceil>amount q\<rceil> \<Longrightarrow> QValue L q = \<lceil>amount q\<rceil>"
    and "0 < QSign L q \<longleftrightarrow> 0 < amount q"
    and "amount (QAdd L q r) = amount q + amount r"
    and "QIsZero L q \<longleftrightarrow> amount q = 0"
    and "amount (QZero L) = 0"
    and "int64 v \<Longrightarrow> amount (NewQuantity L v f) = of_int v"
    and "int64 v \<Longrightarrow> amount (NewMilliQuantity L v f) = of_int v / 1000"
  using assms by (auto simp: quantity_laws_def)

end
