(* ===== verification/LabTypes.thy ===== *)
theory LabTypes
  imports KubeTypes
begin

text \<open>
  The LabSession custom resource of \<^verbatim>\<open>internal/controller/types.go\<close>: its spec, its status
  and the constants for phases and condition types.  A phase is a string in the code (the empty
  string is a session whose status was never written, and unknown strings reach the default
  branch of the state machine), so it is a string here too.
\<close>

record ResourceConfig =
  rc_Memory :: string
  rc_CPU :: string
  rc_Storage :: string

record SessionConfig =
  VSCodePassword :: string
  EnableTerminal :: bool
  EnableVSCode :: bool
  EnableSSH :: bool

record ImageConfig =
  ic_InitImage :: string

record LabSessionSpec =
  UserID :: string
  SessionID :: string
  LabID :: string
  Resources :: ResourceConfig
  Config :: SessionConfig
  Timeout :: string
  RootfsURL :: string
  CustomImages :: ImageConfig

record LabSessionUsage =
  us_Running :: bool
  us_CPURequest :: string
  us_MemoryRequest :: string
  us_Storage :: string

definition emptyUsage :: LabSessionUsage where
  "emptyUsage = \<lparr> us_Running = False, us_CPURequest = [], us_MemoryRequest = [], us_Storage = [] \<rparr>"

type_synonym SessionPhase = string

record LabSessionStatus =
  Phase :: SessionPhase
  Message :: string
  Reason :: string
  PodName :: string
  ServiceName :: string
  PodIP :: string
  VMIP_status :: string
  Endpoints :: gomap
  Conditions :: "Condition list"
  StartTime :: "time option"
  LastTransitionTime :: "time option"
  ObservedGeneration :: int
  Usage :: LabSessionUsage

record LabSession =
  Meta :: ObjectMeta
  Spec :: LabSessionSpec
  Status :: LabSessionStatus

abbreviation SessionPhasePending :: SessionPhase where "SessionPhasePending \<equiv> ''Pending''"
abbreviation SessionPhaseCreating :: SessionPhase where "SessionPhaseCreating \<equiv> ''Creating''"
abbreviation SessionPhaseRunning :: SessionPhase where "SessionPhaseRunning \<equiv> ''Running''"
abbreviation SessionPhaseFailed :: SessionPhase where "SessionPhaseFailed \<equiv> ''Failed''"
abbreviation SessionPhaseTerminating :: SessionPhase where "SessionPhaseTerminating \<equiv> ''Terminating''"
abbreviation SessionPhaseTerminated :: SessionPhase where "SessionPhaseTerminated \<equiv> ''Terminated''"

abbreviation ConditionTypeReady :: string where "ConditionTypeReady \<equiv> ''Ready''"
abbreviation ConditionTypePodReady :: string where "ConditionTypePodReady \<equiv> ''PodReady''"
abbreviation ConditionTypeServiceReady :: string where "ConditionTypeServiceReady \<equiv> ''ServiceReady''"
abbreviation ConditionTypeVMReady :: string where "ConditionTypeVMReady \<equiv> ''VMReady''"

abbreviation sessionID :: "LabSession \<Rightarrow> string" where
  "sessionID s \<equiv> SessionID (Spec s)"

abbreviation sessionNamespace :: "LabSession \<Rightarrow> string" where
  "sessionNamespace s \<equiv> om_Namespace (Meta s)"

text \<open>A session as the API creates it: metadata, user and session id, nothing else.\<close>

definition emptySpec :: LabSessionSpec where
  "emptySpec = \<lparr> UserID = [], SessionID = [], LabID = [],
     Resources = \<lparr> rc_Memory = [], rc_CPU = [], rc_Storage = [] \<rparr>,
     Config = \<lparr> VSCodePassword = [], EnableTerminal = False, EnableVSCode = False, EnableSSH = False \<rparr>,
     Timeout = [], RootfsURL = [], CustomImages = \<lparr> ic_InitImage = [] \<rparr> \<rparr>"

definition emptyStatus :: LabSessionStatus where
  "emptyStatus = \<lparr> Phase = [], Message = [], Reason = [], PodName = [], ServiceName = [],
     PodIP = [], VMIP_status = [], Endpoints = [], Conditions = [], StartTime = None,
     LastTransitionTime = None, ObservedGeneration = 0, Usage = emptyUsage \<rparr>"

definition newSession :: "string \<Rightarrow> string \<Rightarrow> string \<Rightarrow> string \<Rightarrow> LabSession" where
  "newSession ns name user sid =
     \<lparr> Meta = emptyMeta\<lparr>om_Name := name, om_Namespace := ns\<rparr>,
       Spec = emptySpec\<lparr>UserID := user, SessionID := sid\<rparr>,
       Status = emptyStatus \<rparr>"

end
