(* ===== verification/PodSettings.thy ===== *)
theory PodSettings
  imports LabTypes
begin

text \<open>
  The controller-wide settings of \<^verbatim>\<open>internal/controller/pod_settings.go\<close>: how flags and
  environment variables fill them (\<open>BindFlags\<close>, \<open>splitList\<close>, \<open>envOr\<close>) and how
  \<open>Validate\<close> reports what is missing or malformed.  \<^verbatim>\<open>url.Parse\<close> is a parameter: an error or
  the scheme and the host of the URL.
\<close>

record PodSettings =
  VMImage :: string
  InitImage :: string
  TerminalImage :: string
  SSHUser :: string
  VMDiskSize :: string
  StorageClass :: string
  IngressClass :: string
  IngressMiddleware :: string
  PublicBaseURL :: string
  ImagePullSecrets :: "string list"

type_synonym environ = "string \<Rightarrow> string"

type_synonym urlParse = "string \<Rightarrow> goerror + string \<times> string"

section \<open>Filling the settings\<close>

definition envOr :: "environ \<Rightarrow> string \<Rightarrow> string \<Rightarrow> string" where
  "envOr Getenv key fallback = (if Getenv key \<noteq> [] then Getenv key else fallback)"

fun splitItems :: "string list \<Rightarrow> string list" where
  "splitItems [] = []"
| "splitItems (item # items) =
     (if TrimSpace item \<noteq> [] then TrimSpace item # splitItems items else splitItems items)"

definition splitList :: "string \<Rightarrow> string list" where
  "splitList v = splitItems (Split (CHR '','') v)"

text \<open>
  A command line as the parsed list of \<open>(flag, value)\<close> pairs; the last occurrence of a flag
  wins.  The flags that set a \<^verbatim>\<open>string\<close> variable default to the environment; the flag
  \<^verbatim>\<open>image-pull-secrets\<close> is a function that splits its value.
\<close>

definition flagOr :: "(string \<times> string) list \<Rightarrow> string \<Rightarrow> string \<Rightarrow> string" where
  "flagOr args name deflt = (case map_of (rev args) name of Some v \<Rightarrow> v | None \<Rightarrow> deflt)"

definition BindFlags :: "environ \<Rightarrow> (string \<times> string) list \<Rightarrow> PodSettings" where
  "BindFlags Getenv args = \<lparr>
     VMImage = flagOr args ''vm-image'' (Getenv ''DOZLAB_VM_IMAGE''),
     InitImage = flagOr args ''init-image'' (Getenv ''DOZLAB_INIT_IMAGE''),
     TerminalImage = flagOr args ''terminal-image'' (Getenv ''DOZLAB_TERMINAL_IMAGE''),
     SSHUser = flagOr args ''ssh-user'' (envOr Getenv ''DOZLAB_SSH_USER'' ''root''),
     VMDiskSize = flagOr args ''vm-disk-size'' (envOr Getenv ''DOZLAB_VM_DISK_SIZE'' ''4Gi''),
     StorageClass = flagOr args ''storage-class'' (Getenv ''DOZLAB_STORAGE_CLASS''),
     IngressClass = flagOr args ''ingress-class'' (envOr Getenv ''DOZLAB_INGRESS_CLASS'' ''traefik''),
     IngressMiddleware = flagOr args ''ingress-middleware'' (Getenv ''DOZLAB_INGRESS_MIDDLEWARE''),
     PublicBaseURL = flagOr args ''public-base-url'' (Getenv ''DOZLAB_PUBLIC_BASE_URL''),
     ImagePullSecrets =
       (case map_of (rev args) ''image-pull-secrets'' of
          Some v \<Rightarrow> splitList v
        | None \<Rightarrow> splitList (Getenv ''DOZLAB_IMAGE_PULL_SECRETS'')) \<rparr>"

section \<open>Validation\<close>

datatype settingsError =
    VMImageRequired
  | InitImageRequired
  | TerminalImageRequired
  | SSHUserRequired
  | InvalidDiskSize string
  | DiskSizeBelow1Mi string
  | BadPublicBaseURL string
  | BadPullSecret string

definition Validate :: "'q k8slib \<Rightarrow> urlParse \<Rightarrow> PodSettings \<Rightarrow> settingsError list" where
  \<comment> \<open>The joined errors; \<open>errors.Join\<close> of no error is nil.\<close>
  "Validate L parse s =
     (if VMImage s = [] then [VMImageRequired] else []) @
     (if InitImage s = [] then [InitImageRequired] else []) @
     (if TerminalImage s = [] then [TerminalImageRequired] else []) @
     (if SSHUser s = [] then [SSHUserRequired] else []) @
     (case ParseQuantity L (VMDiskSize s) of
        Inl e \<Rightarrow> [InvalidDiskSize (VMDiskSize s)]
      | Inr q \<Rightarrow> if QValue L q < 2 ^ 20 then [DiskSizeBelow1Mi (VMDiskSize s)] else []) @
     (if PublicBaseURL s \<noteq> [] then
        (case parse (PublicBaseURL s) of
           Inl e \<Rightarrow> [BadPublicBaseURL (PublicBaseURL s)]
         | Inr (scheme, host) \<Rightarrow>
             if (scheme \<noteq> ''http'' \<and> scheme \<noteq> ''https'') \<or> host = []
             then [BadPublicBaseURL (PublicBaseURL s)] else [])
      else []) @
     map BadPullSecret (filter (\<lambda>name. IsDNS1123Subdomain L name \<noteq> []) (ImagePullSecrets s))"

section \<open>Laws\<close>

lemma splitItems_conv: "splitItems xs = filter (\<lambda>x. x \<noteq> []) (map TrimSpace xs)"
  by (induction xs) auto

lemma splitList_item:
  assumes "x \<in> set (splitList v)"
  shows "x \<noteq> []" "CHR '','' \<notin> set x" "\<not> isSpace (hd x)" "\<not> isSpace (last x)"
proof -
  from assms obtain y where y: "y \<in> set (Split (CHR '','') v)" "x = TrimSpace y" "x \<noteq> []"
    by (auto simp: splitList_def splitItems_conv)
  then show "x \<noteq> []" "\<not> isSpace (hd x)" "\<not> isSpace (last x)"
    by (auto dest: TrimSpace_hd TrimSpace_last)
  from y Split_no_sep [OF y(1)] TrimSpace_set [of y] show "CHR '','' \<notin> set x" by auto
qed

lemma splitItems_id: "(\<And>x. x \<in> set xs \<Longrightarrow> TrimSpace x = x \<and> x \<noteq> []) \<Longrightarrow> splitItems xs = xs"
  by (induction xs) auto

lemma splitList_Join:
  assumes "\<And>x. x \<in> set xs \<Longrightarrow> x \<noteq> [] \<and> CHR '','' \<notin> set x \<and> \<not> isSpace (hd x) \<and> \<not> isSpace (last x)"
  shows "splitList (Join (CHR '','') xs) = xs"
proof (cases "xs = []")
  case True
  then show ?thesis by (simp add: splitList_def TrimSpace_def)
next
  case False
  then have "Split (CHR '','') (Join (CHR '','') xs) = xs" using assms by (simp add: Split_Join)
  moreover have "splitItems xs = xs" using assms by (auto intro!: splitItems_id simp: TrimSpace_id)
  ultimately show ?thesis by (simp add: splitList_def)
qed

text \<open>
  Normalising the configured list of pull secrets is idempotent: the list \<open>splitList\<close>
  returns, written again with commas, is read back unchanged.
\<close>

lemma splitList_roundtrip: "splitList (Join (CHR '','') (splitList v)) = splitList v"
  by (rule splitList_Join) (use splitList_item in auto)

lemma Validate_diskSize:
  assumes "Validate L parse s = []"
  obtains q where "ParseQuantity L (VMDiskSize s) = Inr q" "2 ^ 20 \<le> QValue L q"
  using assms by (auto simp: Validate_def split: sum.splits if_splits)

lemma Validate_required:
  assumes "Validate L parse s = []"
  shows "VMImage s \<noteq> []" "InitImage s \<noteq> []" "TerminalImage s \<noteq> []" "SSHUser s \<noteq> []"
    and "x \<in> set (ImagePullSecrets s) \<Longrightarrow> IsDNS1123Subdomain L x = []"
  using assms by (auto simp: Validate_def filter_empty_conv split: if_splits)

end
