(* ===== verification/BuilderProps.thy ===== *)
theory BuilderProps
  imports ResourceBuilder "HOL-Library.Sublist"
begin

text \<open>
  What the built objects promise.  The reference predicates (\<open>mountsResolved\<close>,
  \<open>claimNames\<close>, \<open>selects\<close>, \<open>routesTo\<close>, \<dots>) say how Kubernetes connects the objects; the
  theorems show that the builder's objects are connected that way, that sessions do not share
  objects or routes, which sizes a VM can get, and when a builder panics.
\<close>

section \<open>How Kubernetes connects the objects\<close>

definition allContainers :: "'q Pod \<Rightarrow> 'q Container list" where
  "allContainers pod = ps_InitContainers (pod_Spec pod) @ ps_Containers (pod_Spec pod)"

definition mountsResolved :: "'q Pod \<Rightarrow> bool" where
  "mountsResolved pod \<longleftrightarrow>
     list_all (\<lambda>c. list_all (\<lambda>m. vm_Name m \<in> set (map vol_Name (ps_Volumes (pod_Spec pod))))
                           (ct_VolumeMounts c)) (allContainers pod)"

fun claimOf :: "'q VolumeSource \<Rightarrow> string list" where
  "claimOf (PersistentVolumeClaimSource n) = [n]"
| "claimOf (EmptyDir l) = []"

definition claimNames :: "'q Pod \<Rightarrow> string list" where
  "claimNames pod = concat (map (claimOf \<circ> vol_Source) (ps_Volumes (pod_Spec pod)))"

definition selects :: "Service \<Rightarrow> 'q Pod \<Rightarrow> bool" where
  "selects svc pod \<longleftrightarrow> om_Namespace (svc_Meta svc) = om_Namespace (pod_Meta pod) \<and>
     list_all (\<lambda>(k, v). map_of (om_Labels (pod_Meta pod)) k = Some v) (svc_Selector svc)"

definition exposedPorts :: "'q Pod \<Rightarrow> int list" where
  "exposedPorts pod = concat (map (map cp_ContainerPort \<circ> ct_Ports) (ps_Containers (pod_Spec pod)))"

definition pathMatches :: "string \<Rightarrow> string \<Rightarrow> bool" where
  \<comment> \<open>Path type Prefix: element by element, split at the slashes.\<close>
  "pathMatches rule request \<longleftrightarrow> prefix (Split (CHR ''/'') rule) (Split (CHR ''/'') request)"

definition ingressPaths :: "Ingress \<Rightarrow> IngressPath list" where
  "ingressPaths ing = concat (map ir_Paths (ing_Rules ing))"

definition routedTo :: "Ingress \<Rightarrow> string \<Rightarrow> (string \<times> string \<times> int) list" where
  \<comment> \<open>The backends of a request path: namespace and name of the Service, and its port.  A backend is
      in the namespace of its Ingress.\<close>
  "routedTo ing request =
     map (\<lambda>r. (om_Namespace (ing_Meta ing), ip_ServiceName r, ip_ServicePort r))
       (filter (\<lambda>r. pathMatches (ip_Path r) request) (ingressPaths ing))"

definition backendsOf :: "Service \<Rightarrow> (string \<times> string \<times> int) list" where
  "backendsOf svc = map (\<lambda>p. (om_Namespace (svc_Meta svc), om_Name (svc_Meta svc), sp_Port p)) (svc_Ports svc)"

section \<open>The shape of a built pod\<close>

lemmas container_defs = buildRootfsInitContainer_def buildNetworkSetupContainer_def container_def
lemmas builder_field_defs = mount_def port_def envVar_def sshKeyEnv_def

lemma BuildPodE:
  assumes "BuildPod L rb session = Some pod"
  obtains sz vm trm vscode vols where
    "vmSize L rb session = Some sz"
    "buildVMContainer L rb session sz = Some vm"
    "buildTerminalContainer L rb session = Some trm"
    "buildVSCodeContainer L session = Some vscode"
    "buildVolumes L (sessionID session) sz = Some vols"
    "ps_InitContainers (pod_Spec pod) = [buildRootfsInitContainer L rb session sz, buildNetworkSetupContainer]"
    "ps_Containers (pod_Spec pod) = [vm, trm, vscode]"
    "ps_Volumes (pod_Spec pod) = vols"
    "pod_Meta pod = emptyMeta\<lparr> om_Name := ''lab-session-'' @ sessionID session,
       om_Namespace := sessionNamespace session, om_Labels := labLabels session \<rparr>"
  using assms by (auto simp: BuildPod_def bind_eq_Some_conv)

lemma buildVMContainer_fields:
  assumes "buildVMContainer L rb session sz = Some c"
  shows "map vm_Name (ct_VolumeMounts c) = [''vm-kernels'', ''vm-data'', ''shared-config'']"
    and "map cp_ContainerPort (ct_Ports c) = [22]"
    and "map_of (ct_Limits c) ResourceMemory = Some (containerMemory L sz)"
    and "map_of (ct_Limits c) ResourceCPU = Some (NewQuantity L (CPUs sz) DecimalSI)"
    and "map_of (ct_Requests c) ResourceMemory = Some (containerMemory L sz)"
    and "map_of (ct_Requests c) ResourceCPU = MustParse L ''100m''"
    and "envVar ''CPU_COUNT'' (Itoa (CPUs sz)) \<in> set (ct_Env c)"
    and "envVar ''MEMORY'' (Itoa (MemoryMiB sz)) \<in> set (ct_Env c)"
    and "distinct (map env_Name (ct_Env c))"
  using assms by (auto simp: buildVMContainer_def bind_eq_Some_conv builder_field_defs)

lemma buildTerminalContainer_fields:
  assumes "buildTerminalContainer L rb session = Some c"
  shows "map vm_Name (ct_VolumeMounts c) = [''vm-data'', ''shared-config'']"
    and "map cp_ContainerPort (ct_Ports c) = [8081]"
    and "map_of (ct_Requests c) ResourceMemory = MustParse L ''256Mi''"
    and "map_of (ct_Requests c) ResourceCPU = MustParse L ''250m''"
  using assms by (auto simp: buildTerminalContainer_def bind_eq_Some_conv builder_field_defs Let_def)

lemma buildVSCodeContainer_fields:
  assumes "buildVSCodeContainer L session = Some c"
  shows "map vm_Name (ct_VolumeMounts c) = [''vscode-data'', ''vm-data'']"
    and "map cp_ContainerPort (ct_Ports c) = [8080]"
    and "map_of (ct_Requests c) ResourceMemory = MustParse L ''1Gi''"
    and "map_of (ct_Requests c) ResourceCPU = MustParse L ''500m''"
  using assms by (auto simp: buildVSCodeContainer_def bind_eq_Some_conv builder_field_defs Let_def)

lemma init_mounts:
  "map vm_Name (ct_VolumeMounts (buildRootfsInitContainer L rb session sz)) = [''vm-kernels'']"
  "map vm_Name (ct_VolumeMounts buildNetworkSetupContainer) = [''shared-config'']"
  by (simp_all add: container_defs builder_field_defs Let_def)

lemma buildVolumes_fields:
  assumes "buildVolumes L sid sz = Some vols"
  shows "map vol_Name vols = [''vm-data'', ''vscode-data'', ''shared-config'', ''vm-kernels'']"
    and "concat (map (claimOf \<circ> vol_Source) vols) = [''vm-data-'' @ sid, ''vscode-data-'' @ sid]"
    and "vol_Source (last vols) = EmptyDir (Some (vmKernelsSizeLimit L (Disk sz)))"
  using assms by (auto simp: buildVolumes_def bind_eq_Some_conv)

lemma BuildPVCs_names:
  assumes "BuildPVCs L rb session = Some pvcs"
  shows "map (om_Name \<circ> pvc_Meta) pvcs = [''vm-data-'' @ sessionID session, ''vscode-data-'' @ sessionID session]"
    and "pvc \<in> set pvcs \<Longrightarrow> om_Namespace (pvc_Meta pvc) = sessionNamespace session"
  using assms by (auto simp: BuildPVCs_def bind_eq_Some_conv buildPVC_def Let_def)

lemma list_all_mounts: "list_all (\<lambda>m. vm_Name m \<in> A) ms \<longleftrightarrow> set (map vm_Name ms) \<subseteq> A"
  by (auto simp: list_all_iff)

lemma BuildPod_mountsResolved:
  assumes "BuildPod L rb session = Some pod"
  shows "mountsResolved pod"
  using assms
proof (rule BuildPodE)
  fix sz vm trm vscode vols
  assume c: "buildVMContainer L rb session sz = Some vm"
    "buildTerminalContainer L rb session = Some trm"
    "buildVSCodeContainer L session = Some vscode"
    "buildVolumes L (sessionID session) sz = Some vols"
    "ps_InitContainers (pod_Spec pod) = [buildRootfsInitContainer L rb session sz, buildNetworkSetupContainer]"
    "ps_Containers (pod_Spec pod) = [vm, trm, vscode]"
    "ps_Volumes (pod_Spec pod) = vols"
  show ?thesis
    unfolding mountsResolved_def allContainers_def list_all_mounts c(5-7)
    by (simp add: init_mounts buildVMContainer_fields(1) [OF c(1)] buildTerminalContainer_fields(1) [OF c(2)]
        buildVSCodeContainer_fields(1) [OF c(3)] buildVolumes_fields(1) [OF c(4)] del: set_map map_eq_Cons_conv)
qed

text \<open>
  C18: storage is wired correctly.  For every session, every volume a container of the pod mounts
  is a volume of the pod, the claims the pod's volumes refer to are exactly the claims
  \<open>BuildPVCs\<close> makes for the session, and pod and claims are in the session's namespace.
\<close>

theorem pod_storage_wired:
  assumes "BuildPod L rb session = Some pod" and "BuildPVCs L rb session = Some pvcs"
  shows "mountsResolved pod \<and>
    claimNames pod = map (om_Name \<circ> pvc_Meta) pvcs \<and>
    set (map (om_Namespace \<circ> pvc_Meta) pvcs) = {om_Namespace (pod_Meta pod)}"
proof (intro conjI)
  show "mountsResolved pod" by (rule BuildPod_mountsResolved [OF assms(1)])
  obtain sz vols where v: "buildVolumes L (sessionID session) sz = Some vols"
      "ps_Volumes (pod_Spec pod) = vols" "om_Namespace (pod_Meta pod) = sessionNamespace session"
    using assms(1) by (rule BuildPodE) simp
  show "claimNames pod = map (om_Name \<circ> pvc_Meta) pvcs"
    using buildVolumes_fields(2) [OF v(1)] BuildPVCs_names(1) [OF assms(2)] v(2)
    by (simp add: claimNames_def)
  have "pvcs \<noteq> []" using BuildPVCs_names(1) [OF assms(2)] by auto
  then show "set (map (om_Namespace \<circ> pvc_Meta) pvcs) = {om_Namespace (pod_Meta pod)}"
    using BuildPVCs_names(2) [OF assms(2)] v(3) by (cases pvcs) auto
qed

section \<open>Service and Ingress\<close>

lemma BuildPod_exposedPorts:
  assumes "BuildPod L rb session = Some pod"
  shows "exposedPorts pod = [22, 8081, 8080]"
  using assms
proof (rule BuildPodE)
  fix sz vm trm vscode vols
  assume c: "buildVMContainer L rb session sz = Some vm"
    "buildTerminalContainer L rb session = Some trm"
    "buildVSCodeContainer L session = Some vscode"
    "ps_Containers (pod_Spec pod) = [vm, trm, vscode]"
  show ?thesis
    by (simp add: exposedPorts_def c(4) buildVMContainer_fields(2) [OF c(1)]
        buildTerminalContainer_fields(2) [OF c(2)] buildVSCodeContainer_fields(2) [OF c(3)])
qed

lemma selects_iff:
  assumes "BuildPod L rb session = Some pod"
  shows "selects (BuildService other) pod \<longleftrightarrow>
    sessionNamespace other = sessionNamespace session \<and> sessionID other = sessionID session"
  using assms by (rule BuildPodE) (auto simp: selects_def BuildService_def labLabels_def)

text \<open>
  C19: the Service of a session selects the pod of the session and no pod of another session, and
  every port it forwards to is a port some container of that pod exposes.
\<close>

theorem service_selects_own_pod:
  assumes "BuildPod L rb session = Some pod"
  shows "(selects (BuildService other) pod \<longleftrightarrow>
      sessionNamespace other = sessionNamespace session \<and> sessionID other = sessionID session) \<and>
    set (map sp_TargetPort (svc_Ports (BuildService session))) = set (exposedPorts pod)"
  using selects_iff [OF assms] BuildPod_exposedPorts [OF assms]
  by (auto simp: BuildService_def servicePort_def)

lemma ingressPaths_BuildIngress:
  "ingressPaths (BuildIngress rb session) =
     map (\<lambda>(name, p). \<lparr> ip_Path = SessionPath (sessionID session) name, ip_PathType = ''Prefix'',
                         ip_ServiceName = ''lab-service-'' @ sessionID session,
                         ip_ServicePort = p \<rparr>) ingressApps"
  by (simp add: ingressPaths_def BuildIngress_def BuildService_def Let_def)

lemma Split_SessionPath:
  assumes "CHR ''/'' \<notin> set sid" and "CHR ''/'' \<notin> set app"
  shows "Split (CHR ''/'') (SessionPath sid app) = ['''', ''sessions'', sid, app]"
proof -
  have "Split (CHR ''/'') (sid @ CHR ''/'' # app) = [sid, app]"
    using assms by (simp add: Split_append Split_single)
  then show ?thesis by (simp add: SessionPath_def)
qed

lemma app_no_slash: "(name, p) \<in> set ingressApps \<Longrightarrow> CHR ''/'' \<notin> set name"
  by (auto simp: ingressApps_def)

lemma ingress_pathE:
  assumes "r \<in> set (ingressPaths (BuildIngress rb session))" and "pathMatches (ip_Path r) request"
    and "CHR ''/'' \<notin> set (sessionID session)"
  obtains app tl where "(app, ip_ServicePort r) \<in> set ingressApps"
    "Split (CHR ''/'') request = ['''', ''sessions'', sessionID session, app] @ tl"
    "ip_ServiceName r = ''lab-service-'' @ sessionID session"
proof -
  from assms(1) obtain app where app: "(app, ip_ServicePort r) \<in> set ingressApps"
      "ip_Path r = SessionPath (sessionID session) app"
      "ip_ServiceName r = ''lab-service-'' @ sessionID session"
    by (auto simp: ingressPaths_BuildIngress)
  with assms(2,3) app_no_slash [OF app(1)] that show ?thesis
    by (auto simp: pathMatches_def Split_SessionPath elim!: prefixE)
qed

lemma ing_Namespace_BuildIngress: "om_Namespace (ing_Meta (BuildIngress rb session)) = sessionNamespace session"
  by (simp add: BuildIngress_def Let_def)

lemma routedToE:
  assumes "b \<in> set (routedTo (BuildIngress rb session) request)" and "CHR ''/'' \<notin> set (sessionID session)"
  obtains app tl p where "(app, p) \<in> set ingressApps"
    "Split (CHR ''/'') request = ['''', ''sessions'', sessionID session, app] @ tl"
    "b = (sessionNamespace session, ''lab-service-'' @ sessionID session, p)"
  using assms
  by (auto simp: routedTo_def ing_Namespace_BuildIngress elim!: ingress_pathE)

lemma routedTo_own_service:
  assumes "b \<in> set (routedTo (BuildIngress rb session) request)" and "CHR ''/'' \<notin> set (sessionID session)"
  shows "b \<in> set (backendsOf (BuildService session))"
  using assms
  by (rule routedToE) (auto simp: backendsOf_def BuildService_def servicePort_def ingressApps_def)

text \<open>
  The paths carry the session id only: two sessions with the same id are served under the same
  paths, also when they are in different namespaces and have different Services.
\<close>

lemma ingress_collision:
  assumes "sessionID s1 = sessionID s2" and "(app, p) \<in> set ingressApps"
  shows "(sessionNamespace s1, ''lab-service-'' @ sessionID s1, p)
      \<in> set (routedTo (BuildIngress rb s1) (SessionPath (sessionID s1) app)) \<and>
    (sessionNamespace s2, ''lab-service-'' @ sessionID s1, p)
      \<in> set (routedTo (BuildIngress rb' s2) (SessionPath (sessionID s1) app))"
  using assms by (auto simp: routedTo_def ing_Namespace_BuildIngress ingressPaths_BuildIngress pathMatches_def
      ingressApps_def)

text \<open>
  C20: public routes are separated by session id.  If one request path is routed by the
  Ingresses of two sessions, whose ids contain no slash, then the sessions have the same id, each
  backend is a port of that session's own Service in that session's namespace, and the two backends
  are the same exactly when the sessions are in the same namespace.  So requests for sessions with
  different ids never meet, and within a namespace a path has one backend; sessions with one id in
  two namespaces do share their paths (\<open>ingress_collision\<close>), with different backends.
\<close>

theorem ingress_isolation:
  assumes "b1 \<in> set (routedTo (BuildIngress rb s1) request)" and "b2 \<in> set (routedTo (BuildIngress rb' s2) request)"
    and "CHR ''/'' \<notin> set (sessionID s1)" and "CHR ''/'' \<notin> set (sessionID s2)"
  shows "sessionID s1 = sessionID s2 \<and>
    b1 \<in> set (backendsOf (BuildService s1)) \<and> b2 \<in> set (backendsOf (BuildService s2)) \<and>
    (b1 = b2 \<longleftrightarrow> sessionNamespace s1 = sessionNamespace s2)"
proof -
  obtain a1 t1 p1 where 1: "(a1, p1) \<in> set ingressApps"
      "Split (CHR ''/'') request = ['''', ''sessions'', sessionID s1, a1] @ t1"
      "b1 = (sessionNamespace s1, ''lab-service-'' @ sessionID s1, p1)"
    using assms(1,3) by (rule routedToE)
  obtain a2 t2 p2 where 2: "(a2, p2) \<in> set ingressApps"
      "Split (CHR ''/'') request = ['''', ''sessions'', sessionID s2, a2] @ t2"
      "b2 = (sessionNamespace s2, ''lab-service-'' @ sessionID s2, p2)"
    using assms(2,4) by (rule routedToE)
  from 1(2) 2(2) have "sessionID s1 = sessionID s2" "a1 = a2" by auto
  moreover from this 1(1) 2(1) have "p1 = p2" by (auto simp: ingressApps_def)
  ultimately show ?thesis
    using 1(3) 2(3) routedTo_own_service [OF assms(1,3)] routedTo_own_service [OF assms(2,4)] by simp
qed

text \<open>
  A public route ends at the session's pod.  Every rule of the session's Ingress names the
  session's Service and a port of it, and that port's target is exposed by the session's pod,
  which the Service selects.
\<close>

lemma ingress_reaches_pod:
  assumes "BuildPod L rb session = Some pod" and "r \<in> set (ingressPaths (BuildIngress rb session))"
  shows "ip_ServiceName r = om_Name (svc_Meta (BuildService session)) \<and>
    selects (BuildService session) pod \<and>
    (\<exists>p \<in> set (svc_Ports (BuildService session)). sp_Port p = ip_ServicePort r \<and>
       sp_TargetPort p \<in> set (exposedPorts pod))"
proof -
  have "ip_ServicePort r = 8080 \<or> ip_ServicePort r = 8081"
    using assms(2) by (auto simp: ingressPaths_BuildIngress ingressApps_def)
  moreover have "ip_ServiceName r = ''lab-service-'' @ sessionID session"
    using assms(2) by (auto simp: ingressPaths_BuildIngress)
  ultimately show ?thesis
    using selects_iff [OF assms(1)] BuildPod_exposedPorts [OF assms(1)]
    by (auto simp: BuildService_def servicePort_def)
qed

text \<open>
  The public endpoints of a session are exactly the rules of its Ingress: an application
  has an endpoint just when a rule routes it, and the endpoint is the base URL without trailing
  slashes, the rule's path and one slash.
\<close>

lemma endpoints_are_ingress_paths:
  "map_of (SessionEndpoints rb (sessionID session)) app =
     (if app \<in> fst ` set ingressApps
      then Some (TrimRight (PublicBaseURL rb) (CHR ''/'') @ SessionPath (sessionID session) app @ ''/'')
      else None) \<and>
   map ip_Path (ingressPaths (BuildIngress rb session)) =
     map (SessionPath (sessionID session) \<circ> fst) ingressApps"
  by (simp add: SessionEndpoints_def ingressPaths_BuildIngress ingressApps_def Let_def)

section \<open>The size of the VM\<close>

text \<open>The documented size: the requested amount, rounded, inside the bounds of the controller.\<close>

definition requested :: "'q k8slib \<Rightarrow> ('q \<Rightarrow> rat) \<Rightarrow> string \<Rightarrow> rat option" where
  "requested L amount s = (case ParseQuantity L s of
     Inl e \<Rightarrow> None | Inr q \<Rightarrow> if 0 < amount q then Some (amount q) else None)"

definition refCPUs :: "rat option \<Rightarrow> int" where
  "refCPUs r = (case r of None \<Rightarrow> 1 | Some a \<Rightarrow> min \<lceil>a\<rceil> 8)"

definition refMemoryMiB :: "rat option \<Rightarrow> int" where
  "refMemoryMiB r = (case r of None \<Rightarrow> 1024 | Some a \<Rightarrow> max 128 (min (\<lceil>a\<rceil> div 2 ^ 20) 16384))"

lemma vmSizeE:
  assumes "vmSize L rb session = Some sz"
  obtains disk where "diskSize L rb = Some disk"
    "CPUs sz = min (max (case positiveQuantity L (rc_CPU (Resources (Spec session))) of
         Some q \<Rightarrow> wrap64 (QMilliValue L q + 999) sdiv 1000 | None \<Rightarrow> 1) 1) 8"
    "MemoryMiB sz = min (max (case positiveQuantity L (rc_Memory (Resources (Spec session))) of
         Some q \<Rightarrow> QValue L q div 2 ^ 20 | None \<Rightarrow> 1024) 128) 16384"
    "Disk sz = (case positiveQuantity L (rc_Storage (Resources (Spec session))) of Some q \<Rightarrow> q | None \<Rightarrow> disk)"
  using assms by (cases "diskSize L rb") (auto simp: vmSize_def Let_def)

lemma vmSize_bounds:
  assumes "vmSize L rb session = Some sz"
  shows "1 \<le> CPUs sz" "CPUs sz \<le> 8" "128 \<le> MemoryMiB sz" "MemoryMiB sz \<le> 16384"
  using assms by (auto elim!: vmSizeE)

lemma containerMemory_exact:
  assumes "vmSize L rb session = Some sz"
  shows "containerMemory L sz = NewQuantity L ((MemoryMiB sz + 128) * 2 ^ 20) BinarySI"
proof -
  have "wrap64 (MemoryMiB sz + 128) = MemoryMiB sz + 128"
    using vmSize_bounds [OF assms] by (intro wrap64_id) (simp add: int64_def)
  moreover have "wrap64 ((MemoryMiB sz + 128) * 2 ^ 20) = (MemoryMiB sz + 128) * 2 ^ 20"
    using vmSize_bounds [OF assms] by (intro wrap64_id) (simp add: int64_def)
  ultimately show ?thesis by (simp add: containerMemory_def)
qed

lemma ceiling_thousandths: "(\<lceil>1000 * a\<rceil> + 999) div 1000 = \<lceil>a :: rat\<rceil>"
proof -
  have "of_int (\<lceil>a\<rceil> - 1) < a" by linarith
  then have "of_int (1000 * (\<lceil>a\<rceil> - 1)) < 1000 * a" by simp
  then have "1000 * (\<lceil>a\<rceil> - 1) < \<lceil>1000 * a\<rceil>" by linarith
  moreover have "1000 * a \<le> of_int (1000 * \<lceil>a\<rceil>)" using le_of_int_ceiling [of a] by simp
  then have "\<lceil>1000 * a\<rceil> \<le> 1000 * \<lceil>a\<rceil>" by linarith
  ultimately show ?thesis by linarith
qed

lemma sdiv_thousand: "0 < x \<Longrightarrow> x sdiv 1000 = x div (1000 :: int)"
  by (simp add: signed_divide_int_def)

lemma ceiling_int64:
  assumes "0 < a" and "a \<le> 2 ^ 62"
  shows "int64 \<lceil>a :: rat\<rceil>" "0 < \<lceil>a\<rceil>" "\<lceil>a\<rceil> \<le> 2 ^ 62"
proof -
  have "\<lceil>a\<rceil> \<le> 2 ^ 62" using assms(2) by (simp add: ceiling_le_iff)
  moreover show "0 < \<lceil>a\<rceil>" using assms(1) by simp
  ultimately show "int64 \<lceil>a\<rceil>" "\<lceil>a\<rceil> \<le> 2 ^ 62" by (simp_all add: int64_def)
qed

lemma positiveQuantity_requested:
  assumes "quantity_laws L amount"
  shows "requested L amount s = map_option amount (positiveQuantity L s)"
  using quantity_lawsD(3) [OF assms]
  by (auto simp: requested_def positiveQuantity_def split: sum.splits)

lemma cpu_roundup:
  assumes "quantity_laws L amount" and "0 < amount q" and "1000 * amount q \<le> 2 ^ 62"
  shows "wrap64 (QMilliValue L q + 999) sdiv 1000 = \<lceil>amount q\<rceil>"
proof -
  have m: "int64 \<lceil>1000 * amount q\<rceil>" "0 < \<lceil>1000 * amount q\<rceil>" "\<lceil>1000 * amount q\<rceil> \<le> 2 ^ 62"
    using ceiling_int64 [of "1000 * amount q"] assms(2,3) by auto
  have "wrap64 (QMilliValue L q + 999) = \<lceil>1000 * amount q\<rceil> + 999"
    using quantity_lawsD(1) [OF assms(1) m(1)] m by (simp add: wrap64_id int64_def)
  moreover have "(\<lceil>1000 * amount q\<rceil> + 999) sdiv 1000 = (\<lceil>1000 * amount q\<rceil> + 999) div 1000"
    by (rule sdiv_thousand) (use m(2) in linarith)
  ultimately show ?thesis by (simp add: ceiling_thousandths)
qed

lemma positiveQuantity_pos:
  assumes "quantity_laws L amount" and "positiveQuantity L s = Some q"
  shows "0 < amount q" "ParseQuantity L s = Inr q"
  using assms(2) quantity_lawsD(3) [OF assms(1)]
  by (auto simp: positiveQuantity_def split: sum.splits if_splits)

text \<open>
  C21: the VM has the size the session asks for.  With the documented behaviour of quantities,
  and amounts of at most \<open>2\<^sup>62\<close> thousandths (cpu) and bytes (memory), the number of vCPUs is the
  requested cpu rounded up and at most 8, the memory is the requested memory in whole MiB within
  128 and 16384, and a missing, unparsable or non-positive request gives 1 vCPU or 1024 MiB.
\<close>

theorem vm_size_exact:
  assumes "quantity_laws L amount" and "vmSize L rb session = Some sz"
    and "\<And>q. ParseQuantity L (rc_CPU (Resources (Spec session))) = Inr q \<Longrightarrow> 1000 * amount q \<le> 2 ^ 62"
    and "\<And>q. ParseQuantity L (rc_Memory (Resources (Spec session))) = Inr q \<Longrightarrow> amount q \<le> 2 ^ 62"
  shows "CPUs sz = refCPUs (requested L amount (rc_CPU (Resources (Spec session)))) \<and>
    MemoryMiB sz = refMemoryMiB (requested L amount (rc_Memory (Resources (Spec session))))"
proof
  note req = positiveQuantity_requested [OF assms(1)]
  show "CPUs sz = refCPUs (requested L amount (rc_CPU (Resources (Spec session))))"
  proof (cases "positiveQuantity L (rc_CPU (Resources (Spec session)))")
    case (Some q)
    note pos = positiveQuantity_pos [OF assms(1) Some]
    have "0 < \<lceil>amount q\<rceil>" using pos(1) by simp
    with Some cpu_roundup [OF assms(1) pos(1) assms(3) [OF pos(2)]] assms(2) show ?thesis
      by (auto simp: req refCPUs_def elim!: vmSizeE)
  qed (use assms(2) in \<open>auto simp: req refCPUs_def elim!: vmSizeE\<close>)
  show "MemoryMiB sz = refMemoryMiB (requested L amount (rc_Memory (Resources (Spec session))))"
  proof (cases "positiveQuantity L (rc_Memory (Resources (Spec session)))")
    case (Some q)
    note pos = positiveQuantity_pos [OF assms(1) Some]
    have "QValue L q = \<lceil>amount q\<rceil>"
      using quantity_lawsD(2) [OF assms(1)] ceiling_int64 [OF pos(1) assms(4) [OF pos(2)]] pos(1) by simp
    with Some assms(2) show ?thesis
      by (auto simp: req refMemoryMiB_def min_def max_def elim!: vmSizeE)
  qed (use assms(2) in \<open>auto simp: req refMemoryMiB_def elim!: vmSizeE\<close>)
qed

text \<open>
  C22: the VM container is dimensioned for its VM.  Whatever the session asks for, the size
  \<open>sz\<close> that \<open>vmSize\<close> computes for it has between 1 and 8 vCPUs and between 128 and 16384 MiB; the
  container tells Firecracker exactly these numbers (\<^verbatim>\<open>CPU_COUNT\<close> and \<^verbatim>\<open>MEMORY\<close>, each
  set once); and its limits are exactly these CPUs and this memory plus Firecracker's 128 MiB, which
  it also requests, without overflow.
\<close>

theorem vm_container_limits:
  assumes "BuildPod L rb session = Some pod" and "vm = hd (ps_Containers (pod_Spec pod))"
  shows "\<exists>sz. vmSize L rb session = Some sz \<and>
    1 \<le> CPUs sz \<and> CPUs sz \<le> 8 \<and> 128 \<le> MemoryMiB sz \<and> MemoryMiB sz \<le> 16384 \<and>
    envVar ''CPU_COUNT'' (Itoa (CPUs sz)) \<in> set (ct_Env vm) \<and>
    envVar ''MEMORY'' (Itoa (MemoryMiB sz)) \<in> set (ct_Env vm) \<and> distinct (map env_Name (ct_Env vm)) \<and>
    map_of (ct_Limits vm) ResourceCPU = Some (NewQuantity L (CPUs sz) DecimalSI) \<and>
    map_of (ct_Limits vm) ResourceMemory = Some (NewQuantity L ((MemoryMiB sz + 128) * 2 ^ 20) BinarySI) \<and>
    map_of (ct_Requests vm) ResourceMemory = Some (NewQuantity L ((MemoryMiB sz + 128) * 2 ^ 20) BinarySI)"
  using assms(1)
proof (rule BuildPodE)
  fix sz c trm vscode vols
  assume c: "vmSize L rb session = Some sz" "buildVMContainer L rb session sz = Some c"
    "ps_Containers (pod_Spec pod) = [c, trm, vscode]"
  then show ?thesis
    by (intro exI [of _ sz])
      (simp add: assms(2) vmSize_bounds [OF c(1)] buildVMContainer_fields [OF c(2)] containerMemory_exact [OF c(1)])
qed

text \<open>
  A cpu request whose thousandths are within 999 of the largest 64-bit integer overflows in
  the rounding: the session gets one vCPU instead of the maximum of 8.
\<close>

lemma vm_cpu_overflow:
  assumes "vmSize L rb session = Some sz"
    and "positiveQuantity L (rc_CPU (Resources (Spec session))) = Some q"
    and "2 ^ 63 - 999 \<le> QMilliValue L q" and "int64 (QMilliValue L q)"
  shows "CPUs sz = 1"
proof -
  have "wrap64 (QMilliValue L q + 999) = QMilliValue L q + 999 - 2 ^ 64"
    using assms(3,4) by (intro wrap64_above) (auto simp: int64_def)
  moreover have "(QMilliValue L q + 999 - 2 ^ 64) sdiv 1000 \<le> 0"
    using assms(3,4) by (simp add: signed_divide_int_def int64_def sgn_if)
  ultimately show ?thesis using assms(1,2) by (auto elim!: vmSizeE)
qed

section \<open>Panics\<close>

text \<open>
  For settings that passed \<open>Validate\<close>, building the pod never panics, and building the
  claims panics exactly when the session's storage request is present and does not parse (a
  request that \<open>vmSize\<close> replaces by the default disk).
\<close>

lemma builders_panic_iff:
  assumes "literals_parse L" and "Validate L parse rb = []"
  shows "BuildPod L rb session \<noteq> None \<and>
    (BuildPVCs L rb session = None \<longleftrightarrow>
       rc_Storage (Resources (Spec session)) \<noteq> [] \<and>
       MustParse L (rc_Storage (Resources (Spec session))) = None)"
proof -
  obtain q where "ParseQuantity L (VMDiskSize rb) = Inr q"
    using assms(2) by (rule Validate_diskSize)
  then show ?thesis
    using BuildPod_None_iff [OF assms(1)] BuildPVCs_None_iff [OF assms(1)]
    by (simp add: diskSize_def MustParse_def)
qed

end
