(* ===== verification/LabUsage.thy ===== *)
theory LabUsage
  imports BuilderProps
begin

text \<open>
  What a session holds, as its status reports it (\<^verbatim>\<open>internal/controller/usage.go\<close>): the
  loops of \<open>usageOf\<close> that add up the requests of the containers and of the claims, and the
  guard \<open>podHoldsResources\<close>.  The lemmas show that the loops compute the sums of the amounts
  and what the sums are for the pod and the claims the builder makes.
\<close>

definition podHoldsResources :: "'q Pod option \<Rightarrow> bool" where
  "podHoldsResources pod = (case pod of
     None \<Rightarrow> False
   | Some p \<Rightarrow> if om_DeletionTimestamp (pod_Meta p) \<noteq> None then False
              else pst_Phase (pod_Status p) \<noteq> PodSucceeded \<and> pst_Phase (pod_Status p) \<noteq> PodFailed)"

primrec addStorage :: "'q k8slib \<Rightarrow> 'q \<Rightarrow> 'q PersistentVolumeClaim list \<Rightarrow> 'q" where
  \<comment> \<open>The loop over the claims.\<close>
  "addStorage L storage [] = storage"
| "addStorage L storage (pvc # pvcs) =
     addStorage L (QAdd L storage (rget L (pvc_Requests pvc) ResourceStorage)) pvcs"

primrec addRequests :: "'q k8slib \<Rightarrow> 'q \<times> 'q \<Rightarrow> 'q Container list \<Rightarrow> 'q \<times> 'q" where
  \<comment> \<open>The loop over the containers, on cpu and memory.\<close>
  "addRequests L cm [] = cm"
| "addRequests L cm (c # cs) =
     addRequests L (QAdd L (fst cm) (rget L (ct_Requests c) ResourceCPU),
                    QAdd L (snd cm) (rget L (ct_Requests c) ResourceMemory)) cs"

definition usageOf :: "'q k8slib \<Rightarrow> 'q Pod option \<Rightarrow> 'q PersistentVolumeClaim list \<Rightarrow> LabSessionUsage" where
  "usageOf L pod pvcs =
     (let storage = addStorage L (NewQuantity L 0 BinarySI) pvcs;
          usage = (if \<not> QIsZero L storage then emptyUsage\<lparr> us_Storage := QString L storage \<rparr> else emptyUsage)
      in if \<not> podHoldsResources pod then usage
         else (case addRequests L (NewMilliQuantity L 0 DecimalSI, NewQuantity L 0 BinarySI)
                      (ps_Containers (pod_Spec (the pod))) of
                 (cpu, memory) \<Rightarrow> usage\<lparr> us_Running := True, us_CPURequest := QString L cpu,
                                          us_MemoryRequest := QString L memory \<rparr>))"

section \<open>The loops compute sums\<close>

lemma addStorage_amount:
  assumes "quantity_laws L amount"
  shows "amount (addStorage L q pvcs) =
    amount q + (\<Sum>pvc\<leftarrow>pvcs. amount (rget L (pvc_Requests pvc) ResourceStorage))"
  by (induction pvcs arbitrary: q) (simp_all add: quantity_lawsD(4) [OF assms])

lemma addRequests_amount:
  assumes "quantity_laws L amount"
  shows "amount (fst (addRequests L cm cs)) =
      amount (fst cm) + (\<Sum>c\<leftarrow>cs. amount (rget L (ct_Requests c) ResourceCPU))"
    and "amount (snd (addRequests L cm cs)) =
      amount (snd cm) + (\<Sum>c\<leftarrow>cs. amount (rget L (ct_Requests c) ResourceMemory))"
  by (induction cs arbitrary: cm) (simp_all add: quantity_lawsD(4) [OF assms])

lemma int64_0 [simp]: "int64 0"
  by (simp add: int64_def)

lemma usageOf_idle:
  "\<not> podHoldsResources pod \<Longrightarrow> \<not> us_Running (usageOf L pod pvcs) \<and> us_CPURequest (usageOf L pod pvcs) = [] \<and>
     us_MemoryRequest (usageOf L pod pvcs) = []"
  by (simp add: usageOf_def emptyUsage_def Let_def)

lemma usageOf_running_iff: "us_Running (usageOf L pod pvcs) \<longleftrightarrow> podHoldsResources pod"
  by (simp add: usageOf_def emptyUsage_def Let_def split: prod.splits)

text \<open>
  C24: the reported usage is the sum of what is reserved.  With the documented behaviour of
  quantities, a pod that is neither finished nor being deleted is reported as running with the
  sum of its containers' cpu requests and of their memory requests, and the storage is the sum
  of the claims' requests.
\<close>

theorem usage_is_sum:
  assumes "quantity_laws L amount" and "podHoldsResources (Some pod)"
  shows "\<exists>cpu memory storage. usageOf L (Some pod) pvcs =
      \<lparr> us_Running = True, us_CPURequest = QString L cpu, us_MemoryRequest = QString L memory,
        us_Storage = (if amount storage = 0 then [] else QString L storage) \<rparr> \<and>
    amount cpu = (\<Sum>c\<leftarrow>ps_Containers (pod_Spec pod). amount (rget L (ct_Requests c) ResourceCPU)) \<and>
    amount memory = (\<Sum>c\<leftarrow>ps_Containers (pod_Spec pod). amount (rget L (ct_Requests c) ResourceMemory)) \<and>
    amount storage = (\<Sum>pvc\<leftarrow>pvcs. amount (rget L (pvc_Requests pvc) ResourceStorage))"
proof -
  let ?cm = "addRequests L (NewMilliQuantity L 0 DecimalSI, NewQuantity L 0 BinarySI) (ps_Containers (pod_Spec pod))"
  let ?st = "addStorage L (NewQuantity L 0 BinarySI) pvcs"
  note z = quantity_lawsD(7,8) [OF assms(1) int64_0]
  have "usageOf L (Some pod) pvcs =
      \<lparr> us_Running = True, us_CPURequest = QString L (fst ?cm), us_MemoryRequest = QString L (snd ?cm),
        us_Storage = (if amount ?st = 0 then [] else QString L ?st) \<rparr>"
    using assms(2) quantity_lawsD(5) [OF assms(1), of ?st]
    by (auto simp: usageOf_def emptyUsage_def Let_def split: prod.splits)
  then show ?thesis
    using addRequests_amount [OF assms(1)] addStorage_amount [OF assms(1)] z
    by (intro exI [of _ "fst ?cm"] exI [of _ "snd ?cm"] exI [of _ ?st]) simp
qed

section \<open>The usage of a built pod\<close>

text \<open>The numbers that the builder's quantity literals stand for, by the documented syntax.\<close>

definition literal_amounts :: "'q k8slib \<Rightarrow> ('q \<Rightarrow> rat) \<Rightarrow> bool" where
  "literal_amounts L amount \<longleftrightarrow>
     list_all (\<lambda>(s, n). \<exists>q. MustParse L s = Some q \<and> amount q = n)
       [(''100m'', 1 / 10), (''250m'', 1 / 4), (''500m'', 1 / 2), (''256Mi'', 2 ^ 28), (''1Gi'', 2 ^ 30)]"

lemma literal_amountsD:
  assumes "literal_amounts L amount"
  shows "MustParse L ''100m'' = Some q \<Longrightarrow> amount q = 1 / 10"
    and "MustParse L ''250m'' = Some q \<Longrightarrow> amount q = 1 / 4"
    and "MustParse L ''500m'' = Some q \<Longrightarrow> amount q = 1 / 2"
    and "MustParse L ''256Mi'' = Some q \<Longrightarrow> amount q = 2 ^ 28"
    and "MustParse L ''1Gi'' = Some q \<Longrightarrow> amount q = 2 ^ 30"
  using assms by (auto simp: literal_amounts_def)

lemma rget_amount:
  assumes "map_of rs k = MustParse L s" and "\<And>q. MustParse L s = Some q \<Longrightarrow> amount q = n"
    and "MustParse L s \<noteq> None"
  shows "amount (rget L rs k) = n"
  using assms by (auto simp: rget_def)

lemma literal_parses:
  assumes "literal_amounts L amount" and "s \<in> {''100m'', ''250m'', ''500m'', ''256Mi'', ''1Gi''}"
  shows "MustParse L s \<noteq> None"
  using assms by (auto simp: literal_amounts_def)

lemma built_pod_requests:
  assumes "quantity_laws L amount" and "literal_amounts L amount" and "BuildPod L rb session = Some pod"
  obtains sz where "vmSize L rb session = Some sz" "128 \<le> MemoryMiB sz" "MemoryMiB sz \<le> 16384"
    "(\<Sum>c\<leftarrow>ps_Containers (pod_Spec pod). amount (rget L (ct_Requests c) ResourceCPU)) = 85 / 100"
    "(\<Sum>c\<leftarrow>ps_Containers (pod_Spec pod). amount (rget L (ct_Requests c) ResourceMemory)) =
       of_int ((MemoryMiB sz + 128 + 256 + 1024) * 2 ^ 20)"
  using assms(3)
proof (rule BuildPodE)
  fix sz vm trm vscode vols
  assume c: "vmSize L rb session = Some sz" "buildVMContainer L rb session sz = Some vm"
    "buildTerminalContainer L rb session = Some trm" "buildVSCodeContainer L session = Some vscode"
    "ps_Containers (pod_Spec pod) = [vm, trm, vscode]"
  note lit = literal_amountsD [OF assms(2)] and ex = literal_parses [OF assms(2)]
  note b = vmSize_bounds [OF c(1)]
  have "int64 ((MemoryMiB sz + 128) * 2 ^ 20)" using b by (simp add: int64_def)
  then have "amount (rget L (ct_Requests vm) ResourceMemory) = of_int ((MemoryMiB sz + 128) * 2 ^ 20)"
    using quantity_lawsD(7) [OF assms(1)] buildVMContainer_fields(5) [OF c(2)] containerMemory_exact [OF c(1)]
    by (simp add: rget_def)
  moreover have "amount (rget L (ct_Requests vm) ResourceCPU) = 1 / 10"
    by (rule rget_amount [OF buildVMContainer_fields(6) [OF c(2)] lit(1) ex]) simp_all
  moreover have "amount (rget L (ct_Requests trm) ResourceCPU) = 1 / 4"
    by (rule rget_amount [OF buildTerminalContainer_fields(4) [OF c(3)] lit(2) ex]) simp_all
  moreover have "amount (rget L (ct_Requests trm) ResourceMemory) = 2 ^ 28"
    by (rule rget_amount [OF buildTerminalContainer_fields(3) [OF c(3)] lit(4) ex]) simp_all
  moreover have "amount (rget L (ct_Requests vscode) ResourceCPU) = 1 / 2"
    by (rule rget_amount [OF buildVSCodeContainer_fields(4) [OF c(4)] lit(3) ex]) simp_all
  moreover have "amount (rget L (ct_Requests vscode) ResourceMemory) = 2 ^ 30"
    by (rule rget_amount [OF buildVSCodeContainer_fields(3) [OF c(4)] lit(5) ex]) simp_all
  ultimately show thesis
    by (intro that [of sz]) (simp_all only: b c(1,5) list.map sum_list.Cons sum_list.Nil, simp_all)
qed

text \<open>
  C23: what a running session reserves.  For a pod with the spec the builder makes, the usage
  reports 850 thousandths of a cpu (100m for the VM, 250m and 500m for the sidecars), and the
  memory of the VM as \<open>vmSize\<close> computes it for the session, at least 128 and at most 16384 MiB, plus
  Firecracker's 128 MiB and the sidecars' 256 MiB and 1 GiB.
\<close>

theorem usage_of_built_pod:
  assumes "quantity_laws L amount" and "literal_amounts L amount" and "BuildPod L rb session = Some pod"
    and "pod_Spec found = pod_Spec pod" and "podHoldsResources (Some found)"
  shows "\<exists>cpu memory sz. vmSize L rb session = Some sz \<and> us_CPURequest (usageOf L (Some found) pvcs) = QString L cpu \<and>
    amount cpu = 85 / 100 \<and>
    us_MemoryRequest (usageOf L (Some found) pvcs) = QString L memory \<and>
    amount memory = of_int ((MemoryMiB sz + 128 + 256 + 1024) * 2 ^ 20) \<and>
    128 \<le> MemoryMiB sz \<and> MemoryMiB sz \<le> 16384"
proof -
  let ?cm = "addRequests L (NewMilliQuantity L 0 DecimalSI, NewQuantity L 0 BinarySI) (ps_Containers (pod_Spec found))"
  obtain sz where m: "vmSize L rb session = Some sz" "128 \<le> MemoryMiB sz" "MemoryMiB sz \<le> 16384"
    "(\<Sum>c\<leftarrow>ps_Containers (pod_Spec pod). amount (rget L (ct_Requests c) ResourceCPU)) = 85 / 100"
    "(\<Sum>c\<leftarrow>ps_Containers (pod_Spec pod). amount (rget L (ct_Requests c) ResourceMemory)) =
       of_int ((MemoryMiB sz + 128 + 256 + 1024) * 2 ^ 20)"
    using assms(1-3) by (rule built_pod_requests)
  have "us_CPURequest (usageOf L (Some found) pvcs) = QString L (fst ?cm)"
    "us_MemoryRequest (usageOf L (Some found) pvcs) = QString L (snd ?cm)"
    using assms(5) by (simp_all add: usageOf_def Let_def split: prod.splits)
  moreover have "amount (fst ?cm) = 85 / 100" "amount (snd ?cm) = of_int ((MemoryMiB sz + 128 + 256 + 1024) * 2 ^ 20)"
    using addRequests_amount [OF assms(1)] quantity_lawsD(7,8) [OF assms(1) int64_0] m(4,5) assms(4)
    by simp_all
  ultimately show ?thesis using m(1-3) by blast
qed

end
