(* ===== verification/LabEvents.thy ===== *)
theory LabEvents
  imports GoLib "HOL-Library.Sublist"
begin

text \<open>
  The event bus of \<^verbatim>\<open>internal/events/publisher.go\<close>: the phase change a session reports,
  the event it becomes on the wire, and the RabbitMQ publisher with its cached connection and
  confirm-mode channel.

  The broker library (\<^verbatim>\<open>amqp091-go\<close>) and the JSON encoder are parameters, collected in the
  record \<open>amqp\<close>; connections, channels and confirmations are handles.  Each call on them is an
  entry of the trace.  \<^verbatim>\<open>RabbitPublisher\<close> is a record passed explicitly; its mutex makes
  publishes and \<open>Close\<close> run one after the other, so a run of the publisher is a sequence of these
  operations.
\<close>

section \<open>Phase changes and events\<close>

abbreviation ExchangeName :: string where "ExchangeName \<equiv> ''dozlab.events''"
abbreviation TypeLabSessionPhaseChanged :: string where
  "TypeLabSessionPhaseChanged \<equiv> ''labsession.phase_changed''"
abbreviation Source :: string where "Source \<equiv> ''dozlab-controller''"

definition defaultPublishTimeout :: duration where
  "defaultPublishTimeout = 10 * Second"

record PhaseChange =
  ch_UID :: string
  ch_Namespace :: string
  ch_Name :: string
  ch_UserID :: string
  ch_SessionID :: string
  ch_Phase :: string
  ch_Message :: string
  ch_Reason :: string
  ch_Endpoints :: gomap

datatype dataValue = DStr string | DMap gomap

record Event =
  ev_ID :: string
  ev_Type :: string
  ev_Source :: string
  ev_SessionID :: string
  ev_UserID :: string
  ev_Data :: "(string \<times> dataValue) list"
  ev_Timestamp :: time

definition eventID :: "PhaseChange \<Rightarrow> string" where
  \<comment> \<open>\<open>p.UID + "." + p.Phase\<close>.\<close>
  "eventID p = ch_UID p @ ''.'' @ ch_Phase p"

definition PhaseChangeEvent :: "PhaseChange \<Rightarrow> time \<Rightarrow> Event" where
  "PhaseChangeEvent p now =
     (let data = [(''phase'', DStr (ch_Phase p)), (''message'', DStr (ch_Message p)),
                  (''namespace'', DStr (ch_Namespace p)), (''name'', DStr (ch_Name p))];
          data = (if ch_Reason p \<noteq> [] then AList.update ''reason'' (DStr (ch_Reason p)) data else data);
          data = (if length (ch_Endpoints p) > 0
                  then AList.update ''endpoints'' (DMap (ch_Endpoints p)) data else data)
      in \<lparr> ev_ID = eventID p, ev_Type = TypeLabSessionPhaseChanged,
           ev_Source = Source, ev_SessionID = ch_SessionID p, ev_UserID = ch_UserID p,
           ev_Data = data, ev_Timestamp = now \<rparr>)"

lemma PhaseChangeEvent_ID [simp]: "ev_ID (PhaseChangeEvent p now) = eventID p"
  by (simp add: PhaseChangeEvent_def Let_def)

section \<open>The broker library\<close>

type_synonym handle = nat

record Exchange =
  \<comment> \<open>The arguments of \<open>Channel.ExchangeDeclare\<close>; its last argument, a table, is nil.\<close>
  xc_Name :: string
  xc_Kind :: string
  xc_Durable :: bool
  xc_AutoDelete :: bool
  xc_Internal :: bool
  xc_NoWait :: bool

record Publishing =
  pub_Exchange :: string
  pub_Key :: string
  pub_Mandatory :: bool
  pub_Immediate :: bool
  pub_ContentType :: string
  pub_Persistent :: bool
  pub_MessageId :: string
  pub_Timestamp :: time
  pub_Type :: string
  pub_AppId :: string
  pub_Body :: string

record 'w amqp =
  Now :: "'w \<Rightarrow> time \<times> 'w"
  Marshal :: "Event \<Rightarrow> goerror + string"
  Dial :: "string \<Rightarrow> 'w \<Rightarrow> (goerror + handle) \<times> 'w"
  ConnChannel :: "handle \<Rightarrow> 'w \<Rightarrow> (goerror + handle) \<times> 'w"
  ExchangeDeclare :: "handle \<Rightarrow> Exchange \<Rightarrow> 'w \<Rightarrow> goerror option \<times> 'w"
  Confirm :: "handle \<Rightarrow> bool \<Rightarrow> 'w \<Rightarrow> goerror option \<times> 'w"
  ChIsClosed :: "handle \<Rightarrow> 'w \<Rightarrow> bool \<times> 'w"
  ConnIsClosed :: "handle \<Rightarrow> 'w \<Rightarrow> bool \<times> 'w"
  ConnClose :: "handle \<Rightarrow> 'w \<Rightarrow> goerror option \<times> 'w"
  Publish :: "time \<Rightarrow> handle \<Rightarrow> Publishing \<Rightarrow> 'w \<Rightarrow> (goerror + handle) \<times> 'w"
  WaitConfirm :: "time \<Rightarrow> handle \<Rightarrow> 'w \<Rightarrow> (goerror + bool) \<times> 'w"

datatype busAction =
    NowB time
  | DialB string "goerror + handle"
  | ChannelB handle "goerror + handle"
  | DeclareB handle Exchange "goerror option"
  | ConfirmB handle bool "goerror option"
  | ChIsClosedB handle bool
  | ConnIsClosedB handle bool
  | ConnCloseB handle "goerror option"
  | PublishB handle Publishing "goerror + handle"
  | WaitB handle "goerror + bool"

type_synonym ('w, 'a) bus = "('w, busAction, 'a) prog"

section \<open>The publisher\<close>

record RabbitPublisher =
  rp_url :: string
  rp_publishTimeout :: duration
  rp_conn :: "handle option"
  rp_ch :: "handle option"
  rp_closed :: bool

definition NewRabbitPublisher :: "string \<Rightarrow> RabbitPublisher" where
  "NewRabbitPublisher u = \<lparr> rp_url = u, rp_publishTimeout = defaultPublishTimeout, rp_conn = None, rp_ch = None,
     rp_closed = False \<rparr>"

definition connIsOpen :: "'w amqp \<Rightarrow> RabbitPublisher \<Rightarrow> ('w, bool) bus" where
  \<comment> \<open>\<open>p.conn != nil && !p.conn.IsClosed()\<close>.\<close>
  "connIsOpen A p = (case rp_conn p of
     None \<Rightarrow> ret False
   | Some c \<Rightarrow> do { b \<leftarrow> call (ConnIsClosed A c) (ConnIsClosedB c); ret (\<not> b) })"

definition reset :: "'w amqp \<Rightarrow> RabbitPublisher \<Rightarrow> ('w, RabbitPublisher) bus" where
  "reset A p = do {
     isOpen \<leftarrow> connIsOpen A p;
     _ \<leftarrow> (if isOpen then call (ConnClose A (the (rp_conn p))) (ConnCloseB (the (rp_conn p))) else ret None);
     ret (p\<lparr> rp_conn := None, rp_ch := None \<rparr>) }"

definition chIsOpen :: "'w amqp \<Rightarrow> RabbitPublisher \<Rightarrow> ('w, bool) bus" where
  \<comment> \<open>\<open>p.ch != nil && !p.ch.IsClosed()\<close>.\<close>
  "chIsOpen A p = (case rp_ch p of
     None \<Rightarrow> ret False
   | Some c \<Rightarrow> do { b \<leftarrow> call (ChIsClosed A c) (ChIsClosedB c); ret (\<not> b) })"

definition closeConn :: "'w amqp \<Rightarrow> handle \<Rightarrow> ('w, goerror option) bus" where
  "closeConn A c = call (ConnClose A c) (ConnCloseB c)"

abbreviation ExchangeTopic :: string where "ExchangeTopic \<equiv> ''topic''"

definition channel :: "'w amqp \<Rightarrow> RabbitPublisher \<Rightarrow> ('w, (goerror + handle) \<times> RabbitPublisher) bus" where
  "channel A p =
     (if rp_closed p then ret (Inl (ErrNew ''rabbitmq publisher closed''), p)
      else do {
        isOpen \<leftarrow> chIsOpen A p;
        (if isOpen then ret (Inr (the (rp_ch p)), p)
         else do {
           p \<leftarrow> reset A p;
           r \<leftarrow> call (Dial A (rp_url p)) (DialB (rp_url p));
           (case r of
              Inl e \<Rightarrow> ret (Inl (ErrWrap ''connect to RabbitMQ'' e), p)
            | Inr c \<Rightarrow> do {
                r \<leftarrow> call (ConnChannel A c) (ChannelB c);
                (case r of
                   Inl e \<Rightarrow> do {
                     _ \<leftarrow> closeConn A c;
                     ret (Inl (ErrWrap ''open channel'' e), p) }
                 | Inr h \<Rightarrow> do {
                     let exchange = \<lparr> xc_Name = ExchangeName, xc_Kind = ExchangeTopic, xc_Durable = True,
                       xc_AutoDelete = False, xc_Internal = False, xc_NoWait = False \<rparr>;
                     err \<leftarrow> call (ExchangeDeclare A h exchange) (DeclareB h exchange);
                     (case err of
                        Some e \<Rightarrow> do {
                          _ \<leftarrow> closeConn A c;
                          ret (Inl (ErrWrap (''declare exchange '' @ ExchangeName) e), p) }
                      | None \<Rightarrow> do {
                          err \<leftarrow> call (Confirm A h False) (ConfirmB h False);
                          (case err of
                             Some e \<Rightarrow> do {
                               _ \<leftarrow> closeConn A c;
                               ret (Inl (ErrWrap ''enable publisher confirms'' e), p) }
                           | None \<Rightarrow> ret (Inr h, p\<lparr> rp_conn := Some c, rp_ch := Some h \<rparr>)) }) }) }) }) })"

definition publishingOf :: "Event \<Rightarrow> string \<Rightarrow> Publishing" where
  "publishingOf event body = \<lparr> pub_Exchange = ExchangeName, pub_Key = ev_Type event,
     pub_Mandatory = False, pub_Immediate = False, pub_ContentType = ''application/json'', pub_Persistent = True, pub_MessageId = ev_ID event,
     pub_Timestamp = ev_Timestamp event, pub_Type = ev_Type event, pub_AppId = Source, pub_Body = body \<rparr>"

definition PublishPhaseChange ::
  "'w amqp \<Rightarrow> RabbitPublisher \<Rightarrow> time option \<Rightarrow> PhaseChange \<Rightarrow> ('w, goerror option \<times> RabbitPublisher) bus" where
  \<comment> \<open>The context is its deadline, if it has one.\<close>
  "PublishPhaseChange A p deadline change = do {
     now \<leftarrow> call (Now A) NowB;
     let event = PhaseChangeEvent change now;
     (case Marshal A event of
        Inl e \<Rightarrow> ret (Some (ErrWrap ''marshal event'' e), p)
      | Inr body \<Rightarrow> do {
          d \<leftarrow> (case deadline of
                  Some d \<Rightarrow> ret d
                | None \<Rightarrow> do { now \<leftarrow> call (Now A) NowB; ret (now + rp_publishTimeout p) });
          (r, p) \<leftarrow> channel A p;
          (case r of
             Inl e \<Rightarrow> ret (Some e, p)
           | Inr h \<Rightarrow> do {
               r \<leftarrow> call (Publish A d h (publishingOf event body)) (PublishB h (publishingOf event body));
               (case r of
                  Inl e \<Rightarrow> do {
                    p \<leftarrow> reset A p;
                    ret (Some (ErrWrap ''publish'' e), p) }
                | Inr confirm \<Rightarrow> do {
                    r \<leftarrow> call (WaitConfirm A d confirm) (WaitB confirm);
                    (case r of
                       Inl e \<Rightarrow> do {
                         p \<leftarrow> reset A p;
                         ret (Some (ErrWrap ''wait for publisher confirm'' e), p) }
                     | Inr acked \<Rightarrow>
                         if \<not> acked
                         then ret (Some (ErrNew ''publish: broker did not confirm the message''), p)
                         else ret (None, p)) }) }) }) }"

definition Close :: "'w amqp \<Rightarrow> RabbitPublisher \<Rightarrow> ('w, goerror option \<times> RabbitPublisher) bus" where
  "Close A p = do {
     let p = p\<lparr> rp_closed := True \<rparr>;
     isOpen \<leftarrow> connIsOpen A p;
     err \<leftarrow> (if isOpen then call (ConnClose A (the (rp_conn p))) (ConnCloseB (the (rp_conn p))) else ret None);
     ret (err, p\<lparr> rp_conn := None, rp_ch := None \<rparr>) }"

section \<open>A monitor of the broker connection\<close>

text \<open>
  The abstract view of a trace: which connections are open as far as the publisher can tell
  (dialled, and neither closed nor found closed), on which channels the exchange was declared as a
  durable topic exchange and confirms were enabled, with the broker's answer awaited, and whether
  every message so far went to such a channel.
\<close>

definition durableTopic :: "Exchange \<Rightarrow> bool" where
  "durableTopic x \<longleftrightarrow> xc_Name x = ExchangeName \<and> xc_Kind x = ''topic'' \<and> xc_Durable x \<and>
     \<not> xc_AutoDelete x \<and> \<not> xc_Internal x \<and> \<not> xc_NoWait x"

record busMonitor =
  live :: "handle set"
  declared :: "handle set"
  confirming :: "handle set"
  sound :: bool

fun monitorStep :: "busMonitor \<Rightarrow> busAction \<Rightarrow> busMonitor" where
  "monitorStep m (DialB u (Inr c)) = m\<lparr> live := insert c (live m) \<rparr>"
| "monitorStep m (ConnCloseB c e) = m\<lparr> live := live m - {c} \<rparr>"
| "monitorStep m (ConnIsClosedB c True) = m\<lparr> live := live m - {c} \<rparr>"
| "monitorStep m (DeclareB h x None) = (if durableTopic x then m\<lparr> declared := insert h (declared m) \<rparr> else m)"
| "monitorStep m (ConfirmB h False None) = m\<lparr> confirming := insert h (confirming m) \<rparr>"
| "monitorStep m (PublishB h msg r) = m\<lparr> sound := (sound m \<and> h \<in> declared m \<and> h \<in> confirming m) \<rparr>"
| "monitorStep m _ = m"

definition monitor :: "busAction list \<Rightarrow> busMonitor" where
  "monitor es = foldl monitorStep \<lparr> live = {}, declared = {}, confirming = {}, sound = True \<rparr> es"

lemma monitor_append [simp]: "monitor (es @ fs) = foldl monitorStep (monitor es) fs"
  by (simp add: monitor_def)

definition busInv :: "RabbitPublisher \<Rightarrow> busMonitor \<Rightarrow> bool" where
  "busInv p m \<longleftrightarrow> (rp_conn p = None \<longleftrightarrow> rp_ch p = None) \<and> live m \<subseteq> set_option (rp_conn p) \<and>
     set_option (rp_ch p) \<subseteq> declared m \<inter> confirming m \<and> sound m"

definition keepsBus :: "RabbitPublisher \<Rightarrow> ('w, 'a \<times> RabbitPublisher) bus \<Rightarrow> bool" where
  \<comment> \<open>Running the operation keeps the publisher and the monitor in step.\<close>
  "keepsBus p m \<longleftrightarrow> yields m (\<lambda>(r, p') es. \<forall>s. busInv p s \<longrightarrow> busInv p' (foldl monitorStep s es))"

lemma reset_yields:
  "yields (reset A p) (\<lambda>p' es. p' = p\<lparr> rp_conn := None, rp_ch := None \<rparr> \<and>
     (\<forall>s. busInv p s \<longrightarrow> busInv p' (foldl monitorStep s es)) \<and>
     (\<forall>s. live (foldl monitorStep s es) \<subseteq> live s - set_option (rp_conn p)))"
  unfolding reset_def connIsOpen_def by (intro yields_rules) (auto simp: busInv_def)

lemma channel_keeps:
  "yields (channel A p) (\<lambda>(r, p') es. (\<forall>s. busInv p s \<longrightarrow> busInv p' (foldl monitorStep s es)) \<and>
     (\<forall>h. r = Inr h \<longrightarrow> rp_ch p' = Some h))"
  unfolding channel_def chIsOpen_def closeConn_def
  by (intro yields_rules yields_bind [OF reset_yields]) (auto simp: busInv_def durableTopic_def)

lemma PublishPhaseChange_keeps: "keepsBus p (PublishPhaseChange A p d c)"
  unfolding PublishPhaseChange_def keepsBus_def
  by (intro yields_rules yields_bind [OF reset_yields] yields_bind [OF channel_keeps])
    (auto simp: busInv_def)

lemma Close_yields:
  "yields (Close A p) (\<lambda>(r, p') es. p' = p\<lparr> rp_closed := True, rp_conn := None, rp_ch := None \<rparr> \<and>
     (\<forall>s. busInv p s \<longrightarrow> busInv p' (foldl monitorStep s es)))"
  unfolding Close_def connIsOpen_def by (intro yields_rules) (auto simp: busInv_def)

section \<open>Runs of the publisher\<close>

datatype busOp = OpPublish "time option" PhaseChange | OpClose

definition busOpProg :: "'w amqp \<Rightarrow> busOp \<Rightarrow> RabbitPublisher \<Rightarrow> ('w, goerror option \<times> RabbitPublisher) bus" where
  "busOpProg A op p = (case op of OpPublish d c \<Rightarrow> PublishPhaseChange A p d c | OpClose \<Rightarrow> Close A p)"

primrec runOps :: "'w amqp \<Rightarrow> busOp list \<Rightarrow> RabbitPublisher \<Rightarrow> ('w, goerror option list \<times> RabbitPublisher) bus" where
  "runOps A [] p = ret ([], p)"
| "runOps A (op # ops) p = do {
     (r, p) \<leftarrow> busOpProg A op p;
     (rs, p) \<leftarrow> runOps A ops p;
     ret (r # rs, p) }"

lemma busOpProg_keeps: "keepsBus p (busOpProg A op p)"
proof (cases op)
  case (OpPublish d c)
  then show ?thesis using PublishPhaseChange_keeps [of p A d c] by (simp add: busOpProg_def)
next
  case OpClose
  then show ?thesis
    unfolding keepsBus_def busOpProg_def by (auto intro: yields_conseq [OF Close_yields])
qed

lemma runOps_keeps: "keepsBus p (runOps A ops p)"
proof (induction ops arbitrary: p)
  case Nil
  then show ?case by (simp add: keepsBus_def yields_def)
next
  case (Cons op ops)
  note step = busOpProg_keeps [of p A op, unfolded keepsBus_def]
  show ?case
    unfolding keepsBus_def runOps.simps
    by (intro yields_rules yields_bind [OF step] yields_bind [OF Cons.IH [unfolded keepsBus_def]]) auto
qed

lemma busInv_new: "busInv (NewRabbitPublisher u) (monitor [])"
  by (simp add: busInv_def NewRabbitPublisher_def monitor_def)

text \<open>
  C16: the publisher neither leaks connections nor publishes unconfirmed.  After any sequence of
  publishes and closes on a new publisher, whatever the broker answers: every connection it ever
  dialled was closed or found closed, except the one it holds; and every message went to a channel
  on which it had declared the exchange as a durable topic exchange and enabled publisher confirms.
\<close>

theorem publisher_no_leak:
  "yields (runOps A ops (NewRabbitPublisher u))
     (\<lambda>(rs, p) es. live (monitor es) \<subseteq> set_option (rp_conn p) \<and> sound (monitor es))"
proof (rule yields_conseq [OF runOps_keeps [unfolded keepsBus_def]], clarify)
  fix rs p es
  assume "\<forall>s. busInv (NewRabbitPublisher u) s \<longrightarrow> busInv p (foldl monitorStep s es)"
  then have "busInv p (monitor ([] @ es))" using busInv_new unfolding monitor_append by blast
  then show "live (monitor es) \<subseteq> set_option (rp_conn p) \<and> sound (monitor es)"
    by (simp add: busInv_def del: monitor_append)
qed

section \<open>Delivery\<close>

definition confirmedIn :: "busAction list \<Rightarrow> Publishing \<Rightarrow> bool" where
  \<comment> \<open>The message was handed to the broker and the broker's positive confirmation came back.\<close>
  "confirmedIn es msg \<longleftrightarrow> (\<exists>pre h c post. es = pre @ [PublishB h msg (Inr c), WaitB c (Inr True)] @ post)"

definition deliveredId :: "busAction list \<Rightarrow> string \<Rightarrow> bool" where
  "deliveredId es i \<longleftrightarrow> (\<exists>msg. confirmedIn es msg \<and> pub_MessageId msg = i \<and> pub_Persistent msg \<and>
     pub_Exchange msg = ExchangeName \<and> pub_Key msg = TypeLabSessionPhaseChanged)"

lemma confirmedIn_extend: "confirmedIn es msg \<Longrightarrow> confirmedIn (as @ es @ bs) msg"
  unfolding confirmedIn_def by (metis append.assoc)

lemma confirmedIn_suffix: "confirmedIn (as @ [PublishB h msg (Inr c), WaitB c (Inr True)]) msg"
  unfolding confirmedIn_def by (metis append_Nil2)

lemma deliveredId_extend: "deliveredId es i \<Longrightarrow> deliveredId (as @ es @ bs) i"
  unfolding deliveredId_def using confirmedIn_extend by blast

lemma deliveredId_publish:
  "deliveredId (as @ [PublishB h (publishingOf (PhaseChangeEvent c t) body) (Inr k), WaitB k (Inr True)])
     (eventID c)"
  unfolding deliveredId_def
  by (rule exI [of _ "publishingOf (PhaseChangeEvent c t) body"], rule conjI [OF confirmedIn_suffix])
    (simp add: publishingOf_def PhaseChangeEvent_def Let_def)

lemma channel_any: "yields (channel A p) (\<lambda>(r, p') es. True)"
  by (rule yields_conseq [OF channel_keeps]) simp

lemma reset_any: "yields (reset A p) (\<lambda>p' es. True)"
  by (rule yields_conseq [OF reset_yields]) simp

lemma deliveredId_Cons: "deliveredId es i \<Longrightarrow> deliveredId (a # es) i"
  using deliveredId_extend [of es i "[a]" "[]"] by simp

lemmas delivered_intros = deliveredId_publish [simplified] deliveredId_Cons

lemma PublishPhaseChange_delivers:
  "yields (PublishPhaseChange A p d c) (\<lambda>(r, p') es. r = None \<longrightarrow> deliveredId es (eventID c))"
  unfolding PublishPhaseChange_def
  by (intro yields_rules yields_bind [OF reset_any] yields_bind [OF channel_any])
    (auto intro!: delivered_intros)

lemma Close_any: "yields (Close A p) (\<lambda>_ es. True)"
  by (rule yields_conseq [OF Close_yields]) simp

definition noBroker :: "busAction \<Rightarrow> bool" where
  "noBroker a \<longleftrightarrow> (case a of NowB t \<Rightarrow> True | _ \<Rightarrow> False)"

lemma closed_publish:
  assumes "rp_closed p"
  shows "yields (PublishPhaseChange A p d c) (\<lambda>(r, p') es. r \<noteq> None \<and> p' = p \<and> list_all noBroker es)"
  using assms unfolding PublishPhaseChange_def channel_def
  by (intro yields_rules) (auto simp: noBroker_def)

text \<open>
  After \<open>Close\<close> the publisher holds no connection, and every later publish fails without
  talking to the broker.
\<close>

lemma closed_publisher_silent:
  "yields (do { (e, q) \<leftarrow> Close A p; PublishPhaseChange A q d c })
     (\<lambda>(r, p') es. r \<noteq> None \<and> rp_conn p' = None \<and>
        (\<exists>as bs. es = as @ bs \<and> length as \<le> 2 \<and> list_all noBroker bs))"
proof -
  have cl: "yields (Close A p) (\<lambda>(r, p') es. rp_closed p' \<and> rp_conn p' = None \<and> length es \<le> 2)"
    unfolding Close_def connIsOpen_def by (intro yields_rules) auto
  show ?thesis
    by (intro yields_rules yields_bind [OF cl] yields_conseq [OF closed_publish]) auto
qed

section \<open>The interface the controller relies on\<close>

text \<open>
  What the controller assumes of an event bus: a publish that reports no error has delivered the
  event with the change's identifier, and what is delivered stays delivered.  The bus's state is
  a parameter.
\<close>

locale event_bus =
  fixes publish :: "time option \<Rightarrow> PhaseChange \<Rightarrow> 's \<Rightarrow> goerror option \<times> 's"
    and delivered :: "'s \<Rightarrow> string \<Rightarrow> bool"
  assumes publish_delivers: "publish d c s = (None, s') \<Longrightarrow> delivered s' (eventID c)"
    and publish_monotone: "publish d c s = (r, s') \<Longrightarrow> delivered s i \<Longrightarrow> delivered s' i"
begin

primrec publishAll :: "(time option \<times> PhaseChange) list \<Rightarrow> 's \<Rightarrow> goerror option list \<times> 's" where
  "publishAll [] s = ([], s)"
| "publishAll (dc # dcs) s =
     (case publish (fst dc) (snd dc) s of (r, s') \<Rightarrow>
        (case publishAll dcs s' of (rs, s'') \<Rightarrow> (r # rs, s'')))"

lemma publishAll_monotone: "publishAll dcs s = (rs, s') \<Longrightarrow> delivered s i \<Longrightarrow> delivered s' i"
  by (induction dcs arbitrary: s rs) (auto split: prod.splits dest: publish_monotone)

lemma publishAll_delivers:
  assumes "publishAll dcs s = (rs, s')" and "(dc, None) \<in> set (zip dcs rs)"
  shows "delivered s' (eventID (snd dc))"
  using assms
proof (induction dcs arbitrary: s rs)
  case (Cons x dcs)
  from Cons.prems(1) obtain r s1 rs1 where p: "publish (fst x) (snd x) s = (r, s1)"
      "publishAll dcs s1 = (rs1, s')" "rs = r # rs1"
    by (auto split: prod.splits)
  show ?case
  proof (cases "(dc, None) \<in> set (zip dcs rs1)")
    case True
    with Cons.IH p(2) show ?thesis by blast
  next
    case False
    with Cons.prems(2) p(3) have "dc = x" "r = None" by auto
    with p(1) have "delivered s1 (eventID (snd dc))" using publish_delivers by blast
    with p(2) show ?thesis by (rule publishAll_monotone)
  qed
qed simp

end

definition rabbitPublish ::
  "'w amqp \<Rightarrow> time option \<Rightarrow> PhaseChange \<Rightarrow> RabbitPublisher \<times> ('w, busAction) world \<Rightarrow>
   goerror option \<times> RabbitPublisher \<times> ('w, busAction) world" where
  "rabbitPublish A d c s =
     (case run_state (PublishPhaseChange A (fst s) d c) (snd s) of ((r, p), w) \<Rightarrow> (r, p, w))"

definition rabbitDelivered :: "RabbitPublisher \<times> ('w, busAction) world \<Rightarrow> string \<Rightarrow> bool" where
  "rabbitDelivered s i \<longleftrightarrow> deliveredId (trace (snd s)) i"

lemma rabbitPublish_trace:
  assumes "rabbitPublish A d c s = (r, s')"
  obtains es where "trace (snd s') = trace (snd s) @ es"
    "r = None \<Longrightarrow> deliveredId es (eventID c)"
proof -
  from assms obtain p w where run: "run_state (PublishPhaseChange A (fst s) d c) (snd s) = ((r, p), w)"
      and "s' = (p, w)"
    by (auto simp: rabbitPublish_def split: prod.splits)
  with yieldsD [OF PublishPhaseChange_delivers run] that show ?thesis by auto
qed

interpretation rabbit: event_bus "rabbitPublish A" rabbitDelivered for A :: "'w amqp"
proof
  fix d c and s s' :: "RabbitPublisher \<times> ('w, busAction) world"
  assume "rabbitPublish A d c s = (None, s')"
  then show "rabbitDelivered s' (eventID c)"
    by (rule rabbitPublish_trace) (use deliveredId_extend [of _ _ _ "[]"] in \<open>auto simp: rabbitDelivered_def\<close>)
next
  fix d c r i and s s' :: "RabbitPublisher \<times> ('w, busAction) world"
  assume "rabbitPublish A d c s = (r, s')" and "rabbitDelivered s i"
  then show "rabbitDelivered s' i"
    by (elim rabbitPublish_trace) (use deliveredId_extend [of _ _ "[]"] in \<open>auto simp: rabbitDelivered_def\<close>)
qed

text \<open>
  C17: a publish that returns no error was delivered: the event, with the session's UID and the
  phase as its identifier, was handed to the event exchange as a persistent message under the
  phase-change routing key, and the broker confirmed it.
\<close>

theorem publish_nil_delivered:
  assumes "rabbitPublish A d c s = (None, s')"
  shows "deliveredId (trace (snd s')) (eventID c)"
  using rabbit.publish_delivers [OF assms] by (simp add: rabbitDelivered_def)

section \<open>Identity and payload of events\<close>

lemma dotted_inj:
  assumes "u @ ''.'' @ p = v @ ''.'' @ q" and "CHR ''.'' \<notin> set u" and "CHR ''.'' \<notin> set v"
  shows "u = v" "p = q"
proof -
  have "Split (CHR ''.'') (u @ ''.'' @ p) = u # Split (CHR ''.'') p"
    "Split (CHR ''.'') (v @ ''.'' @ q) = v # Split (CHR ''.'') q"
    using assms(2,3) by (simp_all add: Split_append)
  with assms(1) show "u = v" by simp
  with assms(1) show "p = q" by simp
qed

text \<open>
  Event identifiers deduplicate.  Two events have the same identifier exactly when they
  report the same phase of the same session, whenever they were made (UIDs contain no dot).
\<close>

lemma event_id_iff:
  assumes "CHR ''.'' \<notin> set (ch_UID c1)" and "CHR ''.'' \<notin> set (ch_UID c2)"
  shows "ev_ID (PhaseChangeEvent c1 t1) = ev_ID (PhaseChangeEvent c2 t2) \<longleftrightarrow>
    ch_UID c1 = ch_UID c2 \<and> ch_Phase c1 = ch_Phase c2"
  using dotted_inj [OF _ assms] by (auto simp: eventID_def simp del: append_Cons)

end
