(* ===== verification/SshWire.thy ===== *)
theory SshWire
  imports GoLib "HOL-Library.Word"
begin

text \<open>
  The key encodings of \<^verbatim>\<open>internal/controller/ssh_keys.go\<close>: the length-prefixed wire format
  (\<open>sshString\<close>), the public key blob, the \<^verbatim>\<open>authorized_keys\<close> line and OpenSSH's private
  key format, with the standard library's big-endian integers, base64 and PEM.  Byte slices are
  strings.

  The decoders are those the repository's tests read the keys back with
  (\<^verbatim>\<open>ssh_keys_test.go\<close>); the theorems are the round trips, for keys of any content.
\<close>

section \<open>Integers and fields on the wire\<close>

definition uint32 :: "nat \<Rightarrow> 32 word" where
  "uint32 n = word_of_nat n"

definition AppendUint32 :: "string \<Rightarrow> 32 word \<Rightarrow> string" where
  \<comment> \<open>\<open>binary.BigEndian.AppendUint32\<close>.\<close>
  "AppendUint32 b v = b @ [char_of (unat v div 2 ^ 24), char_of (unat v div 2 ^ 16),
     char_of (unat v div 2 ^ 8), char_of (unat v)]"

definition sshString :: "string \<Rightarrow> string \<Rightarrow> string" where
  "sshString b field = (let b = AppendUint32 b (uint32 (length field)) in b @ field)"

definition publicKeyBlob :: "string \<Rightarrow> string" where
  "publicKeyBlob pub = sshString (sshString [] ''ssh-ed25519'') pub"

section \<open>Base64 and PEM\<close>

definition base64Alphabet :: string where
  "base64Alphabet = ''ABCDEFGHIJKLMNOPQRSTUVWXYZabcdefghijklmnopqrstuvwxyz0123456789+/''"

definition b64digit :: "nat \<Rightarrow> char" where
  "b64digit n = base64Alphabet ! (n mod 64)"

abbreviation ord :: "char \<Rightarrow> nat" where
  "ord c \<equiv> of_char c"

fun EncodeToString :: "string \<Rightarrow> string" where
  \<comment> \<open>\<open>base64.StdEncoding.EncodeToString\<close>.\<close>
  "EncodeToString (a # b # c # r) =
     [b64digit (ord a div 4), b64digit (ord a mod 4 * 16 + ord b div 16),
      b64digit (ord b mod 16 * 4 + ord c div 64), b64digit (ord c mod 64)] @ EncodeToString r"
| "EncodeToString [a, b] =
     [b64digit (ord a div 4), b64digit (ord a mod 4 * 16 + ord b div 16),
      b64digit (ord b mod 16 * 4), CHR ''='']"
| "EncodeToString [a] = [b64digit (ord a div 4), b64digit (ord a mod 4 * 16), CHR ''='', CHR ''='']"
| "EncodeToString [] = []"

abbreviation newline :: char where "newline \<equiv> CHR 0x0A"

function lineBreak :: "string \<Rightarrow> string" where
  \<comment> \<open>The line breaker of \<open>encoding/pem\<close>: lines of 64 characters, each ended by a newline.\<close>
  "lineBreak s = (if s = [] then [] else take 64 s @ [newline] @ lineBreak (drop 64 s))"
  by auto
termination by (relation "measure length") auto

declare lineBreak.simps [simp del]

definition pemEncode :: "string \<Rightarrow> string \<Rightarrow> string" where
  \<comment> \<open>\<open>pem.EncodeToMemory\<close> of a block without headers.\<close>
  "pemEncode typ bytes = ''-----BEGIN '' @ typ @ ''-----'' @ [newline] @
     lineBreak (EncodeToString bytes) @ ''-----END '' @ typ @ ''-----'' @ [newline]"

section \<open>Keys\<close>

definition authorizedKey :: "string \<Rightarrow> string \<Rightarrow> string" where
  "authorizedKey pub comment =
     ''ssh-ed25519 '' @ EncodeToString (publicKeyBlob pub) @ '' '' @ comment @ [newline]"

function padLoop :: "8 word \<Rightarrow> string \<Rightarrow> string" where
  \<comment> \<open>\<open>for i := byte(1); len(private)%8 != 0; i++\<close>.\<close>
  "padLoop i private =
     (if length private mod 8 \<noteq> 0 then padLoop (i + 1) (private @ [char_of (unat i)]) else private)"
  by auto
termination
proof (relation "measure (\<lambda>(i, private). (8 - length private mod 8) mod 8)")
  fix i :: "8 word" and bs :: string
  assume "length bs mod 8 \<noteq> 0"
  then show "((i + 1, bs @ [char_of (unat i)]), (i, bs))
      \<in> measure (\<lambda>(i, private). (8 - length private mod 8) mod 8)"
    by (cases "length bs mod 8 = 7") (auto simp: mod_Suc)
qed simp

declare padLoop.simps [simp del]

definition privateSection :: "string \<Rightarrow> string \<Rightarrow> string \<Rightarrow> string \<Rightarrow> string" where
  "privateSection check pub priv comment =
     (let private = check @ check;
          private = sshString private ''ssh-ed25519'';
          private = sshString private pub;
          private = sshString private priv;
          private = sshString private comment
      in padLoop 1 private)"

definition openSSHMagic :: string where
  "openSSHMagic = ''openssh-key-v1'' @ [CHR 0x00]"

definition openSSHBlock :: "string \<Rightarrow> string \<Rightarrow> string \<Rightarrow> string \<Rightarrow> string" where
  "openSSHBlock check pub priv comment =
     (let b = openSSHMagic;
          b = sshString b ''none'';
          b = sshString b ''none'';
          b = sshString b [];
          b = AppendUint32 b 1;
          b = sshString b (publicKeyBlob pub);
          b = sshString b (privateSection check pub priv comment)
      in b)"

definition openSSHPrivateKey :: "string \<Rightarrow> string \<Rightarrow> string \<Rightarrow> string \<Rightarrow> string" where
  \<comment> \<open>\<open>check\<close> are the four random bytes.\<close>
  "openSSHPrivateKey check pub priv comment =
     pemEncode ''OPENSSH PRIVATE KEY'' (openSSHBlock check pub priv comment)"

section \<open>Decoders\<close>

definition Uint32 :: "string \<Rightarrow> nat" where
  "Uint32 b = ord (b ! 0) * 2 ^ 24 + ord (b ! 1) * 2 ^ 16 + ord (b ! 2) * 2 ^ 8 + ord (b ! 3)"

definition readUint32 :: "string \<Rightarrow> (nat \<times> string) option" where
  "readUint32 b = (if length b < 4 then None else Some (Uint32 b, drop 4 b))"

definition readString :: "string \<Rightarrow> (string \<times> string) option" where
  "readString b =
     (if length b < 4 then None
      else let n = Uint32 b in
        if unat (uint32 (length b - 4)) < n then None
        else Some (take n (drop 4 b), drop (4 + n) b))"

definition b64value :: "char \<Rightarrow> nat option" where
  "b64value c = (case filter (\<lambda>n. base64Alphabet ! n = c) [0..<64] of [] \<Rightarrow> None | n # ns \<Rightarrow> Some n)"

fun DecodeString :: "string \<Rightarrow> string option" where
  "DecodeString [] = Some []"
| "DecodeString (w # x # y # z # r) = do {
     a \<leftarrow> b64value w;
     b \<leftarrow> b64value x;
     if y = CHR ''='' \<and> z = CHR ''='' \<and> r = []
     then Some [char_of (a * 4 + b div 16)]
     else do {
       c \<leftarrow> b64value y;
       if z = CHR ''='' \<and> r = []
       then Some [char_of (a * 4 + b div 16), char_of (b mod 16 * 16 + c div 4)]
       else do {
         d \<leftarrow> b64value z;
         rest \<leftarrow> DecodeString r;
         Some (char_of (a * 4 + b div 16) # char_of (b mod 16 * 16 + c div 4) # char_of (c mod 4 * 64 + d) # rest) } } }"
| "DecodeString _ = None"

definition wsFields :: "string \<Rightarrow> string list" where
  \<comment> \<open>\<open>strings.Fields\<close>, for blanks and newlines.\<close>
  "wsFields s = filter (\<lambda>f. f \<noteq> []) (concat (map (Split (CHR '' '')) (Split newline s)))"

definition parseAuthorizedKey :: "string \<Rightarrow> string option" where
  "parseAuthorizedKey line = (case wsFields line of
     [typ, b64, comment] \<Rightarrow>
       if typ \<noteq> ''ssh-ed25519'' then None
       else do {
         blob \<leftarrow> DecodeString b64;
         (keyType, rest) \<leftarrow> readString blob;
         (pub, rest) \<leftarrow> readString rest;
         if keyType = ''ssh-ed25519'' \<and> length pub = 32 \<and> rest = [] then Some pub else None }
   | _ \<Rightarrow> None)"

definition cutPrefix :: "string \<Rightarrow> string \<Rightarrow> string option" where
  "cutPrefix pre s = (if take (length pre) s = pre then Some (drop (length pre) s) else None)"

definition cutSuffix :: "string \<Rightarrow> string \<Rightarrow> string option" where
  "cutSuffix suf s = map_option rev (cutPrefix (rev suf) (rev s))"

definition pemDecode :: "string \<Rightarrow> string \<Rightarrow> string option" where
  \<comment> \<open>The bytes of a block of the given type without headers.\<close>
  "pemDecode typ s = do {
     s \<leftarrow> cutPrefix (''-----BEGIN '' @ typ @ ''-----'' @ [newline]) s;
     s \<leftarrow> cutSuffix (''-----END '' @ typ @ ''-----'' @ [newline]) s;
     DecodeString (filter (\<lambda>c. c \<noteq> newline) s) }"

definition parseOpenSSHPrivateKey :: "string \<Rightarrow> string option" where
  "parseOpenSSHPrivateKey pemBytes = do {
     block \<leftarrow> pemDecode ''OPENSSH PRIVATE KEY'' pemBytes;
     b \<leftarrow> cutPrefix openSSHMagic block;
     (cipher, b) \<leftarrow> readString b;
     (kdf, b) \<leftarrow> readString b;
     (opts, b) \<leftarrow> readString b;
     if cipher \<noteq> ''none'' \<or> kdf \<noteq> ''none'' then None else do {
     (n, b) \<leftarrow> readUint32 b;
     if n \<noteq> 1 then None else do {
     (blob, b) \<leftarrow> readString b;
     (sect, b) \<leftarrow> readString b;
     if length sect mod 8 \<noteq> 0 \<or> length sect < 8 \<or> take 4 sect \<noteq> take 4 (drop 4 sect) then None else do {
     (keyType, rest) \<leftarrow> readString (drop 8 sect);
     (pub, rest) \<leftarrow> readString rest;
     (priv, rest) \<leftarrow> readString rest;
     if keyType = ''ssh-ed25519'' \<and> length priv = 64 then Some priv else None } } } }"

section \<open>Round trips of the wire format\<close>

text \<open>
  What appending a field and reading one off promise each other: reading undoes appending and
  leaves what follows, for the values the format can hold.
\<close>

locale wire_codec =
  fixes put :: "string \<Rightarrow> 'a \<Rightarrow> string"
    and get :: "string \<Rightarrow> ('b \<times> string) option"
    and val :: "'a \<Rightarrow> 'b"
    and fits :: "'a \<Rightarrow> string \<Rightarrow> bool"
  assumes put_append: "put b x = b @ put [] x"
    and get_put_nil: "fits x rest \<Longrightarrow> get (put [] x @ rest) = Some (val x, rest)"
begin

lemma put_append2: "put (a @ b) x = a @ put b x"
  by (metis append.assoc put_append)

lemma cut_put: "cutPrefix b (put b x @ rest) = Some (put [] x @ rest)"
  by (subst put_append) (simp add: cutPrefix_def)

lemma get_put_drop: "fits x rest \<Longrightarrow> get (drop (length b) (put b x @ rest)) = Some (val x, rest)"
  by (subst put_append) (simp add: get_put_nil)

end

lemma unat_uint32: "n < 2 ^ 32 \<Longrightarrow> unat (uint32 n) = n"
  by (simp add: uint32_def unat_of_nat take_bit_nat_eq_self)

lemma big_endian: "(n :: nat) div 2 ^ 24 * 2 ^ 24 + n div 2 ^ 16 mod 256 * 2 ^ 16 + n div 2 ^ 8 mod 256 * 2 ^ 8 + n mod 256 = n"
proof -
  have "n div 65536 = n div 16777216 * 256 + n div 65536 mod 256"
    using div_mult_mod_eq [of "n div 65536" 256] by (simp add: div_mult2_eq [symmetric])
  moreover have "n div 256 = n div 65536 * 256 + n div 256 mod 256"
    using div_mult_mod_eq [of "n div 256" 256] by (simp add: div_mult2_eq [symmetric])
  moreover have "n = n div 256 * 256 + n mod 256" by simp
  ultimately show ?thesis by (simp, linarith)
qed

lemma Uint32_AppendUint32 [simp]: "Uint32 (AppendUint32 [] v @ rest) = unat v"
proof -
  have "unat v < 2 ^ 32" using unsigned_less [of v, where ?'a = nat] by simp
  then have "unat v div 16777216 mod 256 = unat v div 16777216" by simp
  with big_endian [of "unat v"] show ?thesis by (simp add: Uint32_def AppendUint32_def of_char_of)
qed

interpretation u32: wire_codec AppendUint32 readUint32 unat "\<lambda>v rest. True"
proof
  show "readUint32 (AppendUint32 [] v @ rest) = Some (unat v, rest)" for v rest
    using Uint32_AppendUint32 [of v rest] by (simp add: readUint32_def) (simp add: AppendUint32_def)
qed (simp add: AppendUint32_def)

definition fitsField :: "string \<Rightarrow> string \<Rightarrow> bool" where
  "fitsField field rest \<longleftrightarrow> length field + length rest < 2 ^ 32"

lemma readString_put:
  assumes "fitsField field rest"
  shows "readString (sshString [] field @ rest) = Some (field, rest)"
proof -
  let ?hd = "AppendUint32 [] (uint32 (length field))"
  have l: "length ?hd = 4" by (simp add: AppendUint32_def)
  have n: "Uint32 (?hd @ field @ rest) = length field"
    using assms by (simp add: unat_uint32 fitsField_def)
  have "unat (uint32 (length field + length rest)) = length field + length rest"
    using assms by (simp add: unat_uint32 fitsField_def)
  with l n show ?thesis by (simp add: readString_def sshString_def Let_def)
qed

interpretation field: wire_codec sshString readString "\<lambda>x. x" fitsField
  by unfold_locales (simp_all add: readString_put, simp add: sshString_def AppendUint32_def Let_def)

section \<open>Round trips of base64 and PEM\<close>

lemma b64value_all: "\<forall>n \<in> set [0..<64]. b64value (b64digit n) = Some n \<and> b64digit n \<noteq> CHR ''='' \<and>
    b64digit n \<noteq> newline \<and> b64digit n \<noteq> CHR '' ''"
  by code_simp

lemma b64_digit:
  assumes "n < 64"
  shows "b64value (b64digit n) = Some n" "b64digit n \<noteq> CHR ''=''" "b64digit n \<noteq> newline" "b64digit n \<noteq> CHR '' ''"
  using assms b64value_all by auto

lemma digit_split:
  "q < 16 \<Longrightarrow> (p * 16 + q) div 16 = (p :: nat)" "q < 16 \<Longrightarrow> (p * 16 + q) mod 16 = q"
  "q < 4 \<Longrightarrow> (p * 4 + q) div 4 = p" "q < 4 \<Longrightarrow> (p * 4 + q) mod 4 = q"
  by simp_all

lemma sextets:
  assumes "a < (256 :: nat)" and "b < 256" and "c < 256"
  shows "a div 4 < 64" "a mod 4 * 16 + b div 16 < 64" "b mod 16 * 4 + c div 64 < 64" "c mod 64 < 64"
    and "a div 4 * 4 + (a mod 4 * 16 + b div 16) div 16 = a"
    and "(a mod 4 * 16 + b div 16) mod 16 * 16 + (b mod 16 * 4 + c div 64) div 4 = b"
    and "(b mod 16 * 4 + c div 64) mod 4 * 64 + c mod 64 = c"
proof -
  have q: "b div 16 < 16" "c div 64 < 4" using assms by auto
  show "a div 4 < 64" "a mod 4 * 16 + b div 16 < 64" "b mod 16 * 4 + c div 64 < 64" "c mod 64 < 64"
    using assms by linarith+
  show "a div 4 * 4 + (a mod 4 * 16 + b div 16) div 16 = a"
    "(a mod 4 * 16 + b div 16) mod 16 * 16 + (b mod 16 * 4 + c div 64) div 4 = b"
    "(b mod 16 * 4 + c div 64) mod 4 * 64 + c mod 64 = c"
    using q by (simp_all add: digit_split)
qed

lemmas sextets_ord = sextets [OF nat_of_char_less_256 nat_of_char_less_256 nat_of_char_less_256]

lemma ord_div [simp]: "ord b div 16 < 16" "ord c div 64 < 4"
  using nat_of_char_less_256 [of b] nat_of_char_less_256 [of c] by linarith+

lemma sextets_last:
  "ord a mod 4 * 16 < 64" "ord b mod 16 * 4 < 64"
  "ord a div 4 * 4 + ord a mod 4 * 16 div 16 = ord a"
  "(ord a mod 4 * 16 + ord b div 16) mod 16 * 16 + ord b mod 16 * 4 div 4 = ord b"
  by (simp_all add: digit_split)

lemma EncodeToString_roundtrip: "DecodeString (EncodeToString bs) = Some bs"
proof (induction bs rule: EncodeToString.induct)
  case (1 a b c r)
  then show ?case
    by (simp add: b64_digit sextets_ord)
next
  case (2 a b)
  then show ?case by (simp add: b64_digit sextets_ord sextets_last)
next
  case (3 a)
  then show ?case by (simp add: b64_digit sextets_ord sextets_last)
qed simp

lemma EncodeToString_chars: "newline \<notin> set (EncodeToString bs) \<and> CHR '' '' \<notin> set (EncodeToString bs)"
  by (induction bs rule: EncodeToString.induct) (auto dest: sym simp: b64_digit sextets_ord sextets_last)

lemma filter_lineBreak: "newline \<notin> set s \<Longrightarrow> filter (\<lambda>c. c \<noteq> newline) (lineBreak s) = s"
proof (induction s rule: lineBreak.induct)
  case (1 s)
  have sub: "newline \<notin> set (take 64 s)" "newline \<notin> set (drop 64 s)"
    using 1(2) by (meson in_set_takeD, meson in_set_dropD)
  then have "filter (\<lambda>c. c \<noteq> newline) (take 64 s) = take 64 s" by (intro filter_True) auto
  with 1 sub(2) show ?case by (subst lineBreak.simps) simp
qed

lemma cutPrefix_append [simp]: "cutPrefix pre (pre @ s) = Some s"
  by (simp add: cutPrefix_def)

lemma cutSuffix_append [simp]: "cutSuffix suf (s @ suf) = Some s"
  by (simp add: cutSuffix_def)

lemma pem_roundtrip: "pemDecode typ (pemEncode typ bytes) = Some bytes"
proof -
  let ?p = "''-----BEGIN '' @ typ @ ''-----'' @ [newline]" and ?q = "''-----END '' @ typ @ ''-----'' @ [newline]"
  have "pemEncode typ bytes = ?p @ lineBreak (EncodeToString bytes) @ ?q" by (simp add: pemEncode_def)
  then have "pemDecode typ (pemEncode typ bytes) =
      DecodeString (filter (\<lambda>c. c \<noteq> newline) (lineBreak (EncodeToString bytes)))"
    unfolding pemDecode_def by (simp only: cutPrefix_append cutSuffix_append Option.bind.simps)
  then show ?thesis
    by (simp add: filter_lineBreak EncodeToString_chars EncodeToString_roundtrip)
qed

section \<open>Padding\<close>

definition padCount :: "nat \<Rightarrow> nat" where
  "padCount n = (8 - n mod 8) mod 8"

lemma padCount_Suc: "n mod 8 \<noteq> 0 \<Longrightarrow> padCount n = Suc (padCount (Suc n))"
  by (cases "n mod 8 = 7") (auto simp: padCount_def mod_Suc)

lemma padCount_0: "n mod 8 = 0 \<Longrightarrow> padCount n = 0"
  by (simp add: padCount_def)

lemma padCount_multiple: "(n + padCount n) mod 8 = 0" "padCount n < 8"
proof -
  have "(n + padCount n) mod 8 = (n mod 8 + (8 - n mod 8)) mod 8"
    unfolding padCount_def by (simp only: mod_add_left_eq mod_add_right_eq)
  also have "n mod 8 + (8 - n mod 8) = 8" by simp
  finally show "(n + padCount n) mod 8 = 0" by simp
qed (simp add: padCount_def)

lemma padLoop_conv:
  "padLoop i p = p @ map (\<lambda>j. char_of (unat (i + word_of_nat j))) [0..<padCount (length p)]"
proof (induction i p rule: padLoop.induct)
  case (1 i p)
  show ?case
  proof (cases "length p mod 8 = 0")
    case True
    then show ?thesis by (simp add: padLoop.simps [of i p] padCount_0)
  next
    case False
    have "map (\<lambda>j. char_of (unat (i + word_of_nat j))) [0..<Suc n] =
        char_of (unat i) # map (\<lambda>j. char_of (unat (i + 1 + word_of_nat j))) [0..<n]" for n
      by (simp only: upt_conv_Cons map_Suc_upt [symmetric] list.map zero_less_Suc map_map)
        (simp add: o_def add_ac)
    with 1 [OF False] False show ?thesis by (simp add: padLoop.simps [of i p] padCount_Suc)
  qed
qed

lemma privateSection_conv:
  obtains pad where "privateSection check pub priv comment =
      check @ check @ sshString [] ''ssh-ed25519'' @ sshString [] pub @ sshString [] priv @ sshString [] comment @ pad"
    "length pad < 8"
proof -
  have *: "sshString (sshString (sshString (sshString (check @ check) ''ssh-ed25519'') pub) priv) comment =
      check @ check @ sshString [] ''ssh-ed25519'' @ sshString [] pub @ sshString [] priv @ sshString [] comment"
    by (simp add: sshString_def AppendUint32_def Let_def)
  show ?thesis
    using that padCount_multiple(2) unfolding privateSection_def Let_def * padLoop_conv by fastforce
qed

lemma privateSection_length: "length (privateSection check pub priv comment) mod 8 = 0"
  unfolding privateSection_def Let_def padLoop_conv by (simp add: padCount_multiple)

lemma length_sshString [simp]: "length (sshString b field) = length b + 4 + length field"
  by (simp add: sshString_def AppendUint32_def Let_def)

lemma length_publicKeyBlob [simp]: "length (publicKeyBlob pub) = 19 + length pub"
  by (simp add: publicKeyBlob_def)

lemma privateSection_bound:
  "length (privateSection check pub priv comment) \<le>
     2 * length check + length pub + length priv + length comment + 34"
  by (rule privateSection_conv [of check pub priv comment]) simp

lemma openSSHBlock_conv:
  "openSSHBlock check pub priv comment =
     openSSHMagic @ sshString [] ''none'' @ sshString [] ''none'' @ sshString [] [] @ AppendUint32 [] 1 @
     sshString [] (publicKeyBlob pub) @ sshString [] (privateSection check pub priv comment)"
  by (simp add: openSSHBlock_def sshString_def AppendUint32_def Let_def)

section \<open>Keys read back\<close>

lemma openSSH_decode:
  assumes "length check = 4" and "length pub = 32" and "length priv = 64" and "length comment < 2 ^ 31"
  shows "parseOpenSSHPrivateKey (openSSHPrivateKey check pub priv comment) = Some priv"
proof -
  obtain pad where ps: "privateSection check pub priv comment =
      check @ check @ sshString [] ''ssh-ed25519'' @ sshString [] pub @ sshString [] priv @ sshString [] comment @ pad"
    "length pad < 8"
    by (rule privateSection_conv)
  note len = privateSection_length [of check pub priv comment] privateSection_bound [of check pub priv comment]
  have fits: "fitsField ''ssh-ed25519'' (sshString [] pub @ sshString [] priv @ sshString [] comment @ pad)"
    "fitsField pub (sshString [] priv @ sshString [] comment @ pad)"
    "fitsField priv (sshString [] comment @ pad)"
    using assms ps(2) by (simp_all add: fitsField_def)
  let ?sec = "privateSection check pub priv comment"
  have fits': "fitsField ''none'' (sshString [] ''none'' @ sshString [] [] @ AppendUint32 [] 1 @
        sshString [] (publicKeyBlob pub) @ sshString [] ?sec)"
    "fitsField ''none'' (sshString [] [] @ AppendUint32 [] 1 @ sshString [] (publicKeyBlob pub) @ sshString [] ?sec)"
    "fitsField [] (AppendUint32 [] 1 @ sshString [] (publicKeyBlob pub) @ sshString [] ?sec)"
    "fitsField (publicKeyBlob pub) (sshString [] ?sec)" "fitsField ?sec []"
    using assms len(2) by (simp_all add: fitsField_def AppendUint32_def)
  have "take 4 ?sec = check" "take 4 (drop 4 ?sec) = check" "8 \<le> length ?sec"
    "drop 8 ?sec = sshString [] ''ssh-ed25519'' @ sshString [] pub @ sshString [] priv @ sshString [] comment @ pad"
    using assms(1) by (simp_all add: ps(1))
  then show ?thesis
    using len(1) assms(3) fits fits' readString_put [OF fits'(5)]
    by (simp add: parseOpenSSHPrivateKey_def openSSHPrivateKey_def pem_roundtrip openSSHBlock_conv
        readString_put u32.get_put_nil del: append_assoc)
qed

lemma authorizedKey_fields:
  assumes "comment \<noteq> []" and "CHR '' '' \<notin> set comment" and "newline \<notin> set comment"
  shows "wsFields (authorizedKey pub comment) =
    [''ssh-ed25519'', EncodeToString (publicKeyBlob pub), comment]"
proof -
  let ?k = "EncodeToString (publicKeyBlob pub)"
  let ?l = "''ssh-ed25519'' @ CHR '' '' # ?k @ CHR '' '' # comment"
  have k: "newline \<notin> set ?k" "CHR '' '' \<notin> set ?k" using EncodeToString_chars by auto
  have "?k \<noteq> []"
  proof
    assume "?k = []"
    then have "DecodeString ?k = Some []" by simp
    then show False using EncodeToString_roundtrip [of "publicKeyBlob pub"]
      by (simp add: publicKeyBlob_def sshString_def AppendUint32_def Let_def)
  qed
  moreover have "authorizedKey pub comment = ?l @ newline # []" by (simp add: authorizedKey_def)
  then have "Split newline (authorizedKey pub comment) = [?l, []]"
    using k(1) assms(3) by (simp only:) (subst Split_append, auto)
  moreover have "Split (CHR '' '') ?l = [''ssh-ed25519'', ?k, comment]"
    using k(2) assms(2) by (subst Split_append, simp, subst Split_append, simp, simp add: Split_single)
  ultimately show ?thesis using assms(1) by (simp add: wsFields_def)
qed

lemma authorizedKey_decode:
  assumes "length pub = 32" and "comment \<noteq> []" and "CHR '' '' \<notin> set comment" and "newline \<notin> set comment"
  shows "parseAuthorizedKey (authorizedKey pub comment) = Some pub"
proof -
  have "publicKeyBlob pub = sshString [] ''ssh-ed25519'' @ sshString [] pub @ []"
    by (simp add: publicKeyBlob_def sshString_def AppendUint32_def Let_def)
  moreover have "fitsField ''ssh-ed25519'' (sshString [] pub @ [])" "fitsField pub []"
    using assms(1) by (simp_all add: fitsField_def)
  ultimately show ?thesis
    using assms(1) authorizedKey_fields [OF assms(2-4)] readString_put [of pub "[]"]
    by (simp add: parseAuthorizedKey_def EncodeToString_roundtrip readString_put)
qed

text \<open>
  C26: the private key reads back.  For every check value, ed25519 key pair and comment of fewer
  than \<open>2\<^sup>31\<close> bytes, reading the file that \<open>openSSHPrivateKey\<close> writes returns the private key;
  in particular the private section is padded to a multiple of eight bytes with matching check
  integers, and every length field is right.
\<close>

theorem openssh_key_roundtrip:
  assumes "length check = 4" and "length pub = 32" and "length priv = 64" and "length comment < 2 ^ 31"
  shows "parseOpenSSHPrivateKey (openSSHPrivateKey check pub priv comment) = Some priv"
  using assms by (rule openSSH_decode)

text \<open>
  The \<^verbatim>\<open>authorized_keys\<close> line carries the public key.  For every 32-byte public key and every
  non-empty comment without blanks, parsing the line returns that key.
\<close>

lemma authorized_key_roundtrip:
  assumes "length pub = 32" and "comment \<noteq> []" and "CHR '' '' \<notin> set comment" and "newline \<notin> set comment"
  shows "parseAuthorizedKey (authorizedKey pub comment) = Some pub"
  using assms by (rule authorizedKey_decode)

end
