(* ===== verification/KubeClient.thy ===== *)
theory KubeClient
  imports LabUsage LabEvents SshWire
begin

text \<open>
  The controller's surroundings: the Kubernetes API as the reconciler calls it, the event
  recorder, the clock, the random source and the event bus.  All of them are parameters (fields of
  \<open>kube\<close> and of \<open>LabSessionReconciler\<close>, functions on the external state); each call is an
  \<open>action\<close> of the trace, with its request and its response.

  A successful \<^verbatim>\<open>Create\<close>, \<^verbatim>\<open>Update\<close> or \<^verbatim>\<open>Patch\<close> decodes the server's answer into the
  object it was given, so these calls return the object; a failed one leaves it as it was.
\<close>

datatype 'q action =
    NowA time
  | GetSessionA NamespacedName "goerror + LabSession"
  | GetPVCA NamespacedName "goerror + 'q PersistentVolumeClaim"
  | GetPodA NamespacedName "goerror + 'q Pod"
  | GetServiceA NamespacedName "goerror + Service"
  | GetIngressA NamespacedName "goerror + Ingress"
  | CreatePVCA "'q PersistentVolumeClaim" "goerror + 'q PersistentVolumeClaim"
  | CreateSecretA Secret "goerror + Secret"
  | CreatePodA "'q Pod" "goerror + 'q Pod"
  | CreateServiceA Service "goerror + Service"
  | CreateIngressA Ingress "goerror + Ingress"
  | UpdateA LabSession "goerror + LabSession"
  | UpdateStatusA LabSession "goerror + LabSession"
  | PatchA LabSession LabSession "goerror + LabSession"
  | PublishA "time option" PhaseChange "goerror option"
  | RecordA string string string
  | GenerateKeyA "goerror + string \<times> string"
  | RandomA "goerror + string"

record ('w, 'q) kube =
  GetSession :: "NamespacedName \<Rightarrow> 'w \<Rightarrow> (goerror + LabSession) \<times> 'w"
  GetPVC :: "NamespacedName \<Rightarrow> 'w \<Rightarrow> (goerror + 'q PersistentVolumeClaim) \<times> 'w"
  GetPod :: "NamespacedName \<Rightarrow> 'w \<Rightarrow> (goerror + 'q Pod) \<times> 'w"
  GetService :: "NamespacedName \<Rightarrow> 'w \<Rightarrow> (goerror + Service) \<times> 'w"
  GetIngress :: "NamespacedName \<Rightarrow> 'w \<Rightarrow> (goerror + Ingress) \<times> 'w"
  CreatePVC :: "'q PersistentVolumeClaim \<Rightarrow> 'w \<Rightarrow> (goerror + 'q PersistentVolumeClaim) \<times> 'w"
  CreateSecret :: "Secret \<Rightarrow> 'w \<Rightarrow> (goerror + Secret) \<times> 'w"
  CreatePod :: "'q Pod \<Rightarrow> 'w \<Rightarrow> (goerror + 'q Pod) \<times> 'w"
  CreateService :: "Service \<Rightarrow> 'w \<Rightarrow> (goerror + Service) \<times> 'w"
  CreateIngress :: "Ingress \<Rightarrow> 'w \<Rightarrow> (goerror + Ingress) \<times> 'w"
  UpdateSession :: "LabSession \<Rightarrow> 'w \<Rightarrow> (goerror + LabSession) \<times> 'w"
  UpdateSessionStatus :: "LabSession \<Rightarrow> 'w \<Rightarrow> (goerror + LabSession) \<times> 'w"
  PatchSession :: "LabSession \<Rightarrow> LabSession \<Rightarrow> 'w \<Rightarrow> (goerror + LabSession) \<times> 'w"
  RecordEvent :: "string \<Rightarrow> string \<Rightarrow> string \<Rightarrow> 'w \<Rightarrow> unit \<times> 'w"
  Clock :: "'w \<Rightarrow> time \<times> 'w"
  GenerateKey :: "'w \<Rightarrow> (goerror + string \<times> string) \<times> 'w"
  ReadRandom :: "'w \<Rightarrow> (goerror + string) \<times> 'w"

record ('w, 'q) LabSessionReconciler =
  Client :: "('w, 'q) kube"
  Lib :: "'q k8slib"
  Settings :: PodSettings
  Events :: "(time option \<Rightarrow> PhaseChange \<Rightarrow> 'w \<Rightarrow> goerror option \<times> 'w) option"

type_synonym ('w, 'q, 'a) rec = "('w, 'q action, 'a) prog"

section \<open>The calls\<close>

definition now :: "('w, 'q) LabSessionReconciler \<Rightarrow> ('w, 'q, time) rec" where
  "now R = call (Clock (Client R)) NowA"

definition getSession :: "('w, 'q) LabSessionReconciler \<Rightarrow> NamespacedName \<Rightarrow> ('w, 'q, goerror + LabSession) rec" where
  "getSession R k = call (GetSession (Client R) k) (GetSessionA k)"

definition getPod :: "('w, 'q) LabSessionReconciler \<Rightarrow> NamespacedName \<Rightarrow> ('w, 'q, goerror + 'q Pod) rec" where
  "getPod R k = call (GetPod (Client R) k) (GetPodA k)"

definition updateSession :: "('w, 'q) LabSessionReconciler \<Rightarrow> LabSession \<Rightarrow> ('w, 'q, goerror + LabSession) rec" where
  "updateSession R s = call (UpdateSession (Client R) s) (UpdateA s)"

definition updateStatus :: "('w, 'q) LabSessionReconciler \<Rightarrow> LabSession \<Rightarrow> ('w, 'q, goerror + LabSession) rec" where
  "updateStatus R s = call (UpdateSessionStatus (Client R) s) (UpdateStatusA s)"

definition patchSession ::
  "('w, 'q) LabSessionReconciler \<Rightarrow> LabSession \<Rightarrow> LabSession \<Rightarrow> ('w, 'q, goerror + LabSession) rec" where
  "patchSession R base s = call (PatchSession (Client R) base s) (PatchA base s)"

definition recordEvent ::
  "('w, 'q) LabSessionReconciler \<Rightarrow> string \<Rightarrow> string \<Rightarrow> string \<Rightarrow> ('w, 'q, unit) rec" where
  "recordEvent R typ reason msg = call (RecordEvent (Client R) typ reason msg) (\<lambda>_. RecordA typ reason msg)"

lemmas call_defs = now_def getSession_def getPod_def updateSession_def updateStatus_def patchSession_def
  recordEvent_def

abbreviation EventTypeNormal :: string where "EventTypeNormal \<equiv> ''Normal''"
abbreviation EventTypeWarning :: string where "EventTypeWarning \<equiv> ''Warning''"

section \<open>SSH key Secret\<close>

definition BuildSSHKeySecret ::
  "('w, 'q) LabSessionReconciler \<Rightarrow> string \<Rightarrow> string \<Rightarrow> ('w, 'q, goerror + Secret) rec" where
  "BuildSSHKeySecret R sid ns = do {
     r \<leftarrow> call (GenerateKey (Client R)) GenerateKeyA;
     (case r of
        Inl e \<Rightarrow> ret (Inl (ErrWrap ''generate ssh key'' e))
      | Inr (pub, priv) \<Rightarrow> do {
          let comment = ''dozlab-session-'' @ sid;
          r \<leftarrow> call (ReadRandom (Client R)) RandomA;
          (case r of
             Inl e \<Rightarrow> ret (Inl (ErrWrap ''encode ssh key'' e))
           | Inr check \<Rightarrow> ret (Inr
               \<lparr> sec_Meta = emptyMeta\<lparr> om_Name := SSHKeySecretName sid, om_Namespace := ns,
                    om_Labels := [(''app'', ''lab-environment''), (''session-id'', sid)] \<rparr>,
                 sec_Type = ''Opaque'',
                 sec_Data = [(SSHPrivateKeyKey, openSSHPrivateKey check pub priv comment),
                             (SSHPublicKeyKey, authorizedKey pub comment)] \<rparr>)) }) }"

definition EnsureSSHKeySecret ::
  "('w, 'q) LabSessionReconciler \<Rightarrow> ObjectMeta \<Rightarrow> string \<Rightarrow> string \<Rightarrow> ('w, 'q, bool \<times> goerror option) rec" where
  "EnsureSSHKeySecret R owner sid ns = do {
     let name = SSHKeySecretName sid;
     r \<leftarrow> BuildSSHKeySecret R sid ns;
     (case r of
        Inl e \<Rightarrow> ret (False, Some e)
      | Inr secret \<Rightarrow>
          (case SetControllerReference (Lib R) owner (sec_Meta secret) of
             Inl e \<Rightarrow> ret (False, Some (ErrWrap ''set owner reference on ssh key secret'' e))
           | Inr m \<Rightarrow> do {
               let secret = secret\<lparr> sec_Meta := m \<rparr>;
               r \<leftarrow> call (CreateSecret (Client R) secret) (CreateSecretA secret);
               (case r of
                  Inl e \<Rightarrow>
                    if IsAlreadyExists (Lib R) e then ret (False, None)
                    else ret (False, Some (ErrWrap (''create ssh key secret '' @ name) e))
                | Inr _ \<Rightarrow> ret (True, None)) })) }"

end
