(* ===== verification/Reconciler.thy ===== *)
theory Reconciler
  imports KubeClient
begin

text \<open>
  The reconciler of \<^verbatim>\<open>internal/controller/reconciler.go\<close>, with \<open>ensureIngress\<close>
  (\<^verbatim>\<open>ingress.go\<close>) and \<open>sessionPod\<close> (\<^verbatim>\<open>usage.go\<close>): one definition per function, in the
  program monad of \<^verbatim>\<open>LabPrelude\<close>.  A function that modifies the session it is given returns
  it; log output is left out; the context of a reconcile carries no deadline.  A panic of the
  builder is the outcome \<open>Panicked\<close>.
\<close>

section \<open>Constants\<close>

abbreviation LabSessionFinalizer :: string where "LabSessionFinalizer \<equiv> ''labsession.dozlab.io/finalizer''"
abbreviation PublishedPhaseAnnotation :: string where "PublishedPhaseAnnotation \<equiv> ''dozlab.io/published-phase''"

definition publishRetryDelay :: duration where "publishRetryDelay = 30 * Second"
definition terminatingPublishTimeout :: duration where "terminatingPublishTimeout = 5 * Second"
definition creatingTimeout :: duration where "creatingTimeout = 10 * Minute"
definition podUnreadyTimeout :: duration where "podUnreadyTimeout = 2 * Minute"

type_synonym reply = "Result \<times> goerror option"

definition isPermanentCreateError :: "'q k8slib \<Rightarrow> goerror \<Rightarrow> bool" where
  "isPermanentCreateError L err \<longleftrightarrow> asNotOwned err \<or> IsInvalid L err \<or> IsBadRequest L err"

section \<open>Reading pods\<close>

fun firstTerminated :: "ContainerStatus list \<Rightarrow> string" where
  "firstTerminated [] = []"
| "firstTerminated (cs # css) = (case cs_Terminated cs of
     Some t \<Rightarrow> ''container '' @ cs_Name cs @ '' exited ('' @ tm_Reason t @ '', code '' @ Itoa (tm_ExitCode t) @ '')''
   | None \<Rightarrow> firstTerminated css)"

definition podTerminalReason :: "'q Pod \<Rightarrow> string" where
  "podTerminalReason pod =
     (if om_DeletionTimestamp (pod_Meta pod) \<noteq> None then ''pod is being deleted''
      else if pst_Phase (pod_Status pod) = PodFailed \<or> pst_Phase (pod_Status pod) = PodSucceeded
      then ''pod phase is '' @ pst_Phase (pod_Status pod)
      else firstTerminated (pst_ContainerStatuses (pod_Status pod)))"

definition isPodReady :: "'q Pod \<Rightarrow> bool" where
  "isPodReady pod =
     (if pst_Phase (pod_Status pod) \<noteq> PodRunning then False
      else list_ex (\<lambda>c. pc_Type c = PodReady \<and> pc_Status c = ConditionTrue) (pst_Conditions (pod_Status pod)))"

definition calculateVMIP :: "string \<Rightarrow> string" where
  "calculateVMIP podIP =
     (let parts = Split (CHR ''.'') podIP in
      if length parts = 4
      then let lastOctet = (case SscanfD (parts ! 3) of Some n \<Rightarrow> n | None \<Rightarrow> 0) in
           Join (CHR ''.'') (parts[3 := Itoa (wrap64 (lastOctet + 1))])
      else [])"

definition sessionPod :: "('w, 'q) LabSessionReconciler \<Rightarrow> LabSession \<Rightarrow> ('w, 'q, 'q Pod option) rec" where
  "sessionPod R session =
     (if PodName (Status session) = [] then ret None
      else do {
        r \<leftarrow> getPod R \<lparr> nn_Namespace = sessionNamespace session, nn_Name = PodName (Status session) \<rparr>;
        (case r of Inl e \<Rightarrow> ret None | Inr pod \<Rightarrow> ret (Some pod)) })"

section \<open>Conditions\<close>

fun putCondition :: "Condition \<Rightarrow> Condition list \<Rightarrow> Condition list" where
  \<comment> \<open>The loop over the conditions, and the append after it.\<close>
  "putCondition condition [] = [condition]"
| "putCondition condition (c # cs) =
     (if cond_Type c = cond_Type condition
      then (if cond_Status c \<noteq> cond_Status condition then condition # cs else c # cs)
      else c # putCondition condition cs)"

abbreviation modStatus :: "(LabSessionStatus \<Rightarrow> LabSessionStatus) \<Rightarrow> LabSession \<Rightarrow> LabSession" where
  "modStatus f session \<equiv> session\<lparr> Status := f (Status session) \<rparr>"

definition setCondition ::
  "('w, 'q) LabSessionReconciler \<Rightarrow> LabSession \<Rightarrow> string \<Rightarrow> string \<Rightarrow> string \<Rightarrow> string \<Rightarrow> ('w, 'q, LabSession) rec" where
  "setCondition R session conditionType status reason message = do {
     t \<leftarrow> now R;
     let condition = \<lparr> cond_Type = conditionType, cond_Status = status,
                       cond_ObservedGeneration = om_Generation (Meta session),
                       cond_LastTransitionTime = t, cond_Reason = reason, cond_Message = message \<rparr>;
     ret (modStatus (\<lambda>st. st\<lparr> Conditions := putCondition condition (Conditions st) \<rparr>) session) }"

section \<open>Failing a session\<close>

definition updateStatusFailed ::
  "('w, 'q) LabSessionReconciler \<Rightarrow> LabSession \<Rightarrow> string \<Rightarrow> goerror \<Rightarrow> ('w, 'q, unit outcome) rec" where
  "updateStatusFailed R session message err = do {
     let session = modStatus (\<lambda>st. st\<lparr> Phase := SessionPhaseFailed, Message := message,
                                       Reason := errorString err \<rparr>) session;
     pod \<leftarrow> sessionPod R session;
     (case BuildPVCs (Lib R) (Settings R) session of
        None \<Rightarrow> ret (Panicked ''cannot parse the storage size'')
      | Some pvcs \<Rightarrow> do {
          let session = modStatus (\<lambda>st. st\<lparr> Usage := usageOf (Lib R) pod pvcs \<rparr>) session;
          session \<leftarrow> setCondition R session ConditionTypeReady ConditionFalse ''Failed'' message;
          _ \<leftarrow> updateStatus R session;
          _ \<leftarrow> recordEvent R EventTypeWarning ''Failed'' (message @ '': '' @ errorString err);
          ret (Returned ()) }) }"

definition handleCreateError ::
  "('w, 'q) LabSessionReconciler \<Rightarrow> LabSession \<Rightarrow> string \<Rightarrow> goerror \<Rightarrow> ('w, 'q, reply outcome) rec" where
  "handleCreateError R session message err = do {
     expired \<leftarrow> (case StartTime (Status session) of
         None \<Rightarrow> ret False
       | Some start \<Rightarrow> do { t \<leftarrow> now R; ret (t - start > creatingTimeout) });
     (if isPermanentCreateError (Lib R) err \<or> expired
      then onRet (updateStatusFailed R session message err) (\<lambda>_. ret (Returned (emptyResult, None)))
      else ret (Returned (emptyResult, Some err))) }"

section \<open>Creating the session's objects\<close>

definition ensurePVC ::
  "('w, 'q) LabSessionReconciler \<Rightarrow> LabSession \<Rightarrow> 'q PersistentVolumeClaim \<Rightarrow> ('w, 'q, goerror option) rec" where
  "ensurePVC R session pvc =
     (let name = om_Name (pvc_Meta pvc) in
      case SetControllerReference (Lib R) (Meta session) (pvc_Meta pvc) of
        Inl e \<Rightarrow> ret (Some (ErrWrap (''failed to set owner reference on PVC '' @ name) e))
      | Inr m \<Rightarrow> do {
          let pvc = pvc\<lparr> pvc_Meta := m \<rparr>;
          r \<leftarrow> call (GetPVC (Client R) (keyOf m)) (GetPVCA (keyOf m));
          (case r of
             Inl err \<Rightarrow>
               if IsNotFound (Lib R) err
               then do {
                 c \<leftarrow> call (CreatePVC (Client R) pvc) (CreatePVCA pvc);
                 (case c of
                    Inl e \<Rightarrow>
                      if IsAlreadyExists (Lib R) e then ret None
                      else ret (Some (ErrWrap (''failed to create PVC '' @ om_Name m) e))
                  | Inr made \<Rightarrow> do {
                      _ \<leftarrow> recordEvent R EventTypeNormal ''PVCCreated'' (''Created PVC '' @ om_Name (pvc_Meta made));
                      ret None }) }
               else ret (Some (ErrWrap (''failed to get PVC '' @ om_Name m) err))
           | Inr found \<Rightarrow>
               if \<not> IsControlledBy (Lib R) (pvc_Meta found) (Meta session)
               then ret (Some (ErrNotOwned ''PVC'' (om_Name m)))
               else ret None) })"

primrec ensurePVCLoop ::
  "('w, 'q) LabSessionReconciler \<Rightarrow> LabSession \<Rightarrow> 'q PersistentVolumeClaim list \<Rightarrow> ('w, 'q, goerror option) rec" where
  "ensurePVCLoop R session [] = ret None"
| "ensurePVCLoop R session (pvc # pvcs) = do {
     err \<leftarrow> ensurePVC R session pvc;
     (case err of Some e \<Rightarrow> ret (Some e) | None \<Rightarrow> ensurePVCLoop R session pvcs) }"

definition ensurePVCs :: "('w, 'q) LabSessionReconciler \<Rightarrow> LabSession \<Rightarrow> ('w, 'q, goerror option outcome) rec" where
  "ensurePVCs R session =
     (case BuildPVCs (Lib R) (Settings R) session of
        None \<Rightarrow> ret (Panicked ''cannot parse the storage size'')
      | Some pvcs \<Rightarrow> do { err \<leftarrow> ensurePVCLoop R session pvcs; ret (Returned err) })"

definition ensurePod ::
  "('w, 'q) LabSessionReconciler \<Rightarrow> LabSession \<Rightarrow> ('w, 'q, (LabSession \<times> goerror option) outcome) rec" where
  "ensurePod R session =
     (case BuildPod (Lib R) (Settings R) session of
        None \<Rightarrow> ret (Panicked ''cannot parse a quantity'')
      | Some pod \<Rightarrow>
          (case SetControllerReference (Lib R) (Meta session) (pod_Meta pod) of
             Inl e \<Rightarrow> ret (Returned (session, Some (ErrWrap ''failed to set owner reference on pod'' e)))
           | Inr m \<Rightarrow> do {
               let pod = pod\<lparr> pod_Meta := m \<rparr>;
               r \<leftarrow> getPod R (keyOf m);
               (case r of
                  Inl err \<Rightarrow>
                    if IsNotFound (Lib R) err
                    then do {
                      c \<leftarrow> call (CreatePod (Client R) pod) (CreatePodA pod);
                      (case c of
                         Inl e \<Rightarrow>
                           if IsAlreadyExists (Lib R) e
                           then ret (Returned (modStatus (\<lambda>st. st\<lparr> PodName := om_Name m \<rparr>) session, None))
                           else ret (Returned (session, Some (ErrWrap ''failed to create pod'' e)))
                       | Inr made \<Rightarrow> do {
                           _ \<leftarrow> recordEvent R EventTypeNormal ''PodCreated'' (''Created Pod '' @ om_Name (pod_Meta made));
                           ret (Returned (modStatus (\<lambda>st. st\<lparr> PodName := om_Name (pod_Meta made) \<rparr>) session, None)) }) }
                    else ret (Returned (session, Some (ErrWrap ''failed to get pod'' err)))
                | Inr found \<Rightarrow>
                    if \<not> IsControlledBy (Lib R) (pod_Meta found) (Meta session)
                    then ret (Returned (session, Some (ErrNotOwned ''Pod'' (om_Name m))))
                    else ret (Returned (modStatus (\<lambda>st. st\<lparr> PodName := om_Name (pod_Meta found) \<rparr>) session, None))) }))"

definition ensureService ::
  "('w, 'q) LabSessionReconciler \<Rightarrow> LabSession \<Rightarrow> ('w, 'q, LabSession \<times> goerror option) rec" where
  "ensureService R session =
     (let service = BuildService session in
      case SetControllerReference (Lib R) (Meta session) (svc_Meta service) of
        Inl e \<Rightarrow> ret (session, Some (ErrWrap ''failed to set owner reference on service'' e))
      | Inr m \<Rightarrow> do {
          let service = service\<lparr> svc_Meta := m \<rparr>;
          r \<leftarrow> call (GetService (Client R) (keyOf m)) (GetServiceA (keyOf m));
          (case r of
             Inl err \<Rightarrow>
               if IsNotFound (Lib R) err
               then do {
                 c \<leftarrow> call (CreateService (Client R) service) (CreateServiceA service);
                 (case c of
                    Inl e \<Rightarrow>
                      if IsAlreadyExists (Lib R) e
                      then ret (modStatus (\<lambda>st. st\<lparr> ServiceName := om_Name m \<rparr>) session, None)
                      else ret (session, Some (ErrWrap ''failed to create service'' e))
                  | Inr made \<Rightarrow> do {
                      _ \<leftarrow> recordEvent R EventTypeNormal ''ServiceCreated'' (''Created Service '' @ om_Name (svc_Meta made));
                      ret (modStatus (\<lambda>st. st\<lparr> ServiceName := om_Name (svc_Meta made) \<rparr>) session, None) }) }
               else ret (session, Some (ErrWrap ''failed to get service'' err))
           | Inr found \<Rightarrow>
               if \<not> IsControlledBy (Lib R) (svc_Meta found) (Meta session)
               then ret (session, Some (ErrNotOwned ''Service'' (om_Name m)))
               else ret (modStatus (\<lambda>st. st\<lparr> ServiceName := om_Name (svc_Meta found) \<rparr>) session, None)) })"

definition ensureIngress ::
  "('w, 'q) LabSessionReconciler \<Rightarrow> LabSession \<Rightarrow> ('w, 'q, goerror option) rec" where
  "ensureIngress R session =
     (let ingress = BuildIngress (Settings R) session in
      case SetControllerReference (Lib R) (Meta session) (ing_Meta ingress) of
        Inl e \<Rightarrow> ret (Some (ErrWrap ''failed to set owner reference on ingress'' e))
      | Inr m \<Rightarrow> do {
          let ingress = ingress\<lparr> ing_Meta := m \<rparr>;
          r \<leftarrow> call (GetIngress (Client R) (keyOf m)) (GetIngressA (keyOf m));
          (case r of
             Inl err \<Rightarrow>
               if IsNotFound (Lib R) err
               then do {
                 c \<leftarrow> call (CreateIngress (Client R) ingress) (CreateIngressA ingress);
                 (case c of
                    Inl e \<Rightarrow>
                      if IsAlreadyExists (Lib R) e then ret None
                      else ret (Some (ErrWrap ''failed to create ingress'' e))
                  | Inr made \<Rightarrow> do {
                      _ \<leftarrow> recordEvent R EventTypeNormal ''IngressCreated'' (''Created Ingress '' @ om_Name (ing_Meta made));
                      ret None }) }
               else ret (Some (ErrWrap ''failed to get ingress'' err))
           | Inr found \<Rightarrow>
               if \<not> IsControlledBy (Lib R) (ing_Meta found) (Meta session)
               then ret (Some (ErrNotOwned ''Ingress'' (om_Name m)))
               else ret None) })"

definition updateEndpoints ::
  "('w, 'q) LabSessionReconciler \<Rightarrow> LabSession \<Rightarrow> ('w, 'q, LabSession \<times> goerror option) rec" where
  "updateEndpoints R session =
     (if ServiceName (Status session) = [] then ret (session, None)
      else do {
        let key = \<lparr> nn_Namespace = sessionNamespace session, nn_Name = ServiceName (Status session) \<rparr>;
        r \<leftarrow> call (GetService (Client R) key) (GetServiceA key);
        (case r of
           Inl err \<Rightarrow> ret (session, Some err)
         | Inr service \<Rightarrow> do {
             let endpoints = SessionEndpoints (Settings R) (sessionID session);
             let endpoints =
               (if svc_Type service = ServiceTypeLoadBalancer \<and> length (svc_LoadBalancerIngress service) > 0
                then let ingress = hd (svc_LoadBalancerIngress service);
                         host = lb_IP ingress;
                         host = (if host = [] then lb_Hostname ingress else host)
                     in (if host \<noteq> [] then mput endpoints ''ssh'' (''ssh://'' @ host @ '':22'') else endpoints)
                else endpoints);
             ret (modStatus (\<lambda>st. st\<lparr> Endpoints := endpoints \<rparr>) session, None) }) })"

section \<open>The phases\<close>

definition reconcilePending :: "('w, 'q) LabSessionReconciler \<Rightarrow> LabSession \<Rightarrow> ('w, 'q, reply outcome) rec" where
  "reconcilePending R session = do {
     t \<leftarrow> now R;
     let session = modStatus (\<lambda>st. st\<lparr> Phase := SessionPhaseCreating,
                       Message := ''Creating lab session resources'',
                       StartTime := Some t,
                       ObservedGeneration := om_Generation (Meta session) \<rparr>) session;
     r \<leftarrow> updateStatus R session;
     (case r of
        Inl err \<Rightarrow> ret (Returned (emptyResult, Some err))
      | Inr session \<Rightarrow> do {
          _ \<leftarrow> recordEvent R EventTypeNormal ''Creating'' ''Starting lab session creation'';
          ret (Returned (requeueNow, None)) }) }"

definition becomeRunning ::
  "('w, 'q) LabSessionReconciler \<Rightarrow> LabSession \<Rightarrow> 'q Pod \<Rightarrow> ('w, 'q, reply outcome) rec" where
  \<comment> \<open>The branch of \<open>reconcileCreating\<close> for a ready pod.\<close>
  "becomeRunning R session pod =
     (case BuildPVCs (Lib R) (Settings R) session of
        None \<Rightarrow> ret (Panicked ''cannot parse the storage size'')
      | Some pvcs \<Rightarrow> do {
          let session = modStatus (\<lambda>st. st\<lparr> Phase := SessionPhaseRunning,
                            Message := ''Lab session is running'',
                            PodIP := pst_PodIP (pod_Status pod),
                            VMIP_status := calculateVMIP (pst_PodIP (pod_Status pod)),
                            Usage := usageOf (Lib R) (Some pod) pvcs \<rparr>) session;
          (session, err) \<leftarrow> updateEndpoints R session;
          session \<leftarrow> setCondition R session ConditionTypePodReady ConditionTrue ''PodRunning'' ''Pod is running'';
          session \<leftarrow> setCondition R session ConditionTypeServiceReady ConditionTrue ''ServiceCreated'' ''Service is ready'';
          session \<leftarrow> setCondition R session ConditionTypeReady ConditionTrue ''SessionReady'' ''Lab session is ready'';
          r \<leftarrow> updateStatus R session;
          (case r of
             Inl err \<Rightarrow> ret (Returned (emptyResult, Some err))
           | Inr session \<Rightarrow> do {
               _ \<leftarrow> recordEvent R EventTypeNormal ''Running'' ''Lab session is now running'';
               ret (Returned (emptyResult, None)) }) })"

definition checkPod :: "('w, 'q) LabSessionReconciler \<Rightarrow> LabSession \<Rightarrow> ('w, 'q, reply outcome) rec" where
  \<comment> \<open>Step 5 of \<open>reconcileCreating\<close>.\<close>
  "checkPod R session = do {
     r \<leftarrow> getPod R \<lparr> nn_Namespace = sessionNamespace session, nn_Name = PodName (Status session) \<rparr>;
     (case r of
        Inl err \<Rightarrow> ret (Returned (requeueAfter (10 * Second), Some err))
      | Inr pod \<Rightarrow>
          if podTerminalReason pod \<noteq> []
          then onRet (updateStatusFailed R session ''Pod failed'' (ErrNew (podTerminalReason pod)))
                 (\<lambda>_. ret (Returned (emptyResult, None)))
          else if isPodReady pod then becomeRunning R session pod
          else ret (Returned (requeueAfter (10 * Second), None))) }"

text \<open>The steps of \<open>reconcileCreating\<close>, from the last to the first; each ends in the next one.\<close>

definition createIngressStep :: "('w, 'q) LabSessionReconciler \<Rightarrow> LabSession \<Rightarrow> ('w, 'q, reply outcome) rec" where
  "createIngressStep R session = do {
     err \<leftarrow> ensureIngress R session;
     (case err of
        Some e \<Rightarrow> handleCreateError R session ''Failed to create Ingress'' e
      | None \<Rightarrow> checkPod R session) }"

definition createServiceStep :: "('w, 'q) LabSessionReconciler \<Rightarrow> LabSession \<Rightarrow> ('w, 'q, reply outcome) rec" where
  "createServiceStep R session = do {
     (session, err) \<leftarrow> ensureService R session;
     (case err of
        Some e \<Rightarrow> handleCreateError R session ''Failed to create Service'' e
      | None \<Rightarrow> createIngressStep R session) }"

definition createPodStep :: "('w, 'q) LabSessionReconciler \<Rightarrow> LabSession \<Rightarrow> ('w, 'q, reply outcome) rec" where
  "createPodStep R session =
     onRet (ensurePod R session) (\<lambda>(session, err).
       case err of
         Some e \<Rightarrow> handleCreateError R session ''Failed to create Pod'' e
       | None \<Rightarrow> createServiceStep R session)"

definition createSecretStep :: "('w, 'q) LabSessionReconciler \<Rightarrow> LabSession \<Rightarrow> ('w, 'q, reply outcome) rec" where
  "createSecretStep R session = do {
     (created, err) \<leftarrow> EnsureSSHKeySecret R (Meta session) (sessionID session) (sessionNamespace session);
     (case err of
        Some e \<Rightarrow>
          onRet (updateStatusFailed R session ''Failed to create SSH key Secret'' e)
            (\<lambda>_. ret (Returned (requeueAfter (30 * Second), Some e)))
      | None \<Rightarrow> do {
          _ \<leftarrow> (if created
                then recordEvent R EventTypeNormal ''SSHKeyCreated''
                       (''Created SSH key Secret '' @ SSHKeySecretName (sessionID session))
                else ret ());
          createPodStep R session }) }"

definition reconcileCreating :: "('w, 'q) LabSessionReconciler \<Rightarrow> LabSession \<Rightarrow> ('w, 'q, reply outcome) rec" where
  "reconcileCreating R session =
     onRet (ensurePVCs R session) (\<lambda>err.
       case err of
         Some e \<Rightarrow> handleCreateError R session ''Failed to create PVCs'' e
       | None \<Rightarrow> createSecretStep R session)"

definition reconcileRunning :: "('w, 'q) LabSessionReconciler \<Rightarrow> LabSession \<Rightarrow> ('w, 'q, reply outcome) rec" where
  "reconcileRunning R session = do {
     r \<leftarrow> getPod R \<lparr> nn_Namespace = sessionNamespace session, nn_Name = PodName (Status session) \<rparr>;
     (if PodName (Status session) = [] \<or> (case r of Inl err \<Rightarrow> IsNotFound (Lib R) err | Inr _ \<Rightarrow> False)
      then onRet (updateStatusFailed R session ''Pod failed'' (ErrNew ''pod was deleted''))
             (\<lambda>_. ret (Returned (emptyResult, None)))
      else (case r of
        Inl err \<Rightarrow> ret (Returned (requeueAfter (30 * Second), Some err))
      | Inr pod \<Rightarrow>
          if podTerminalReason pod \<noteq> []
          then onRet (updateStatusFailed R session ''Pod failed'' (ErrNew (podTerminalReason pod)))
                 (\<lambda>_. ret (Returned (emptyResult, None)))
          else if isPodReady pod
          then (if \<not> IsStatusConditionTrue (Lib R) (Conditions (Status session)) ConditionTypePodReady
                then do {
                  session \<leftarrow> setCondition R session ConditionTypePodReady ConditionTrue ''PodRunning'' ''Pod is running'';
                  u \<leftarrow> updateStatus R session;
                  (case u of
                     Inl err \<Rightarrow> ret (Returned (emptyResult, Some err))
                   | Inr _ \<Rightarrow> ret (Returned (requeueAfter Minute, None))) }
                else ret (Returned (requeueAfter Minute, None)))
          else do {
            u \<leftarrow> (if IsStatusConditionTrue (Lib R) (Conditions (Status session)) ConditionTypePodReady
                  then do {
                    session \<leftarrow> setCondition R session ConditionTypePodReady ConditionFalse ''PodNotReady'' ''Pod is not ready'';
                    updateStatus R session }
                  else ret (Inr session));
            (case u of
               Inl err \<Rightarrow> ret (Returned (emptyResult, Some err))
             | Inr session \<Rightarrow>
                 (case FindStatusCondition (Lib R) (Conditions (Status session)) ConditionTypePodReady of
                    None \<Rightarrow> ret (Returned (requeueAfter (10 * Second), None))
                  | Some cond \<Rightarrow> do {
                      t \<leftarrow> now R;
                      (if t - cond_LastTransitionTime cond > podUnreadyTimeout
                       then onRet (updateStatusFailed R session ''Pod failed'' (ErrNew ''pod not ready for over 2m0s''))
                              (\<lambda>_. ret (Returned (emptyResult, None)))
                       else ret (Returned (requeueAfter (10 * Second), None))) })) })) }"

definition reconcileFailed :: "('w, 'q) LabSessionReconciler \<Rightarrow> LabSession \<Rightarrow> ('w, 'q, reply outcome) rec" where
  "reconcileFailed R session = ret (Returned (emptyResult, None))"

section \<open>Publishing and deletion\<close>

definition phaseChange :: "LabSession \<Rightarrow> PhaseChange" where
  "phaseChange session = \<lparr> ch_UID = om_UID (Meta session), ch_Namespace = om_Namespace (Meta session),
     ch_Name = om_Name (Meta session), ch_UserID = UserID (Spec session), ch_SessionID = SessionID (Spec session),
     ch_Phase = Phase (Status session), ch_Message = Message (Status session),
     ch_Reason = Reason (Status session), ch_Endpoints = Endpoints (Status session) \<rparr>"

definition publishPhase :: "('w, 'q) LabSessionReconciler \<Rightarrow> LabSession \<Rightarrow> ('w, 'q, LabSession \<times> bool) rec" where
  "publishPhase R session =
     (let phase = Phase (Status session) in
      case Events R of
        None \<Rightarrow> ret (session, False)
      | Some pub \<Rightarrow>
          if phase = [] \<or> mget (om_Annotations (Meta session)) PublishedPhaseAnnotation = phase
          then ret (session, False)
          else do {
            err \<leftarrow> call (pub None (phaseChange session)) (PublishA None (phaseChange session));
            (case err of
               Some e \<Rightarrow> ret (session, True)
             | None \<Rightarrow> do {
                 let base = session;
                 let session = session\<lparr> Meta := (Meta session)\<lparr> om_Annotations :=
                       mput (om_Annotations (Meta session)) PublishedPhaseAnnotation phase \<rparr> \<rparr>;
                 r \<leftarrow> patchSession R base session;
                 (case r of
                    Inl e \<Rightarrow> ret (session, True)
                  | Inr session \<Rightarrow> ret (session, False)) }) })"

definition reconcileDelete :: "('w, 'q) LabSessionReconciler \<Rightarrow> LabSession \<Rightarrow> ('w, 'q, reply) rec" where
  "reconcileDelete R session = do {
     let session = modStatus (\<lambda>st. st\<lparr> Phase := SessionPhaseTerminating,
                       Message := ''Cleaning up lab session resources'', Usage := emptyUsage \<rparr>) session;
     r \<leftarrow> updateStatus R session;
     (if (case r of Inl err \<Rightarrow> IsNotFound (Lib R) err | Inr _ \<Rightarrow> False)
      then ret (emptyResult, None)
      else do {
        let session = (case r of Inl _ \<Rightarrow> session | Inr s \<Rightarrow> s);
        _ \<leftarrow> recordEvent R EventTypeNormal ''Terminating'' ''Cleaning up lab session'';
        _ \<leftarrow> (case Events R of
               None \<Rightarrow> ret None
             | Some pub \<Rightarrow>
                 if mget (om_Annotations (Meta session)) PublishedPhaseAnnotation \<noteq> SessionPhaseTerminating
                 then do {
                   t \<leftarrow> now R;
                   call (pub (Some (t + terminatingPublishTimeout)) (phaseChange session))
                     (PublishA (Some (t + terminatingPublishTimeout)) (phaseChange session)) }
                 else ret None);
        let session = session\<lparr> Meta := (Meta session)\<lparr> om_Finalizers :=
              RemoveFinalizer (Lib R) (om_Finalizers (Meta session)) LabSessionFinalizer \<rparr> \<rparr>;
        u \<leftarrow> updateSession R session;
        (case u of
           Inl err \<Rightarrow> if \<not> IsNotFound (Lib R) err then ret (emptyResult, Some err) else ret (emptyResult, None)
         | Inr _ \<Rightarrow> ret (emptyResult, None)) }) }"

section \<open>The reconcile loop\<close>

definition reconcilePhase :: "('w, 'q) LabSessionReconciler \<Rightarrow> LabSession \<Rightarrow> ('w, 'q, reply outcome) rec" where
  "reconcilePhase R session =
     (let phase = Phase (Status session) in
      if phase = SessionPhasePending \<or> phase = [] then reconcilePending R session
      else if phase = SessionPhaseCreating then reconcileCreating R session
      else if phase = SessionPhaseRunning then reconcileRunning R session
      else if phase = SessionPhaseFailed then reconcileFailed R session
      else ret (Returned (emptyResult, None)))"

definition retryPublish :: "bool \<Rightarrow> reply \<Rightarrow> reply" where
  "retryPublish publishPending rep = (case rep of (result, err) \<Rightarrow>
     if publishPending \<and> err = None \<and> \<not> Requeue result \<and>
        (RequeueAfter result = 0 \<or> RequeueAfter result > publishRetryDelay)
     then (result\<lparr> RequeueAfter := publishRetryDelay \<rparr>, err)
     else (result, err))"

definition Reconcile :: "('w, 'q) LabSessionReconciler \<Rightarrow> NamespacedName \<Rightarrow> ('w, 'q, reply outcome) rec" where
  "Reconcile R req = do {
     r \<leftarrow> getSession R req;
     (case r of
        Inl err \<Rightarrow>
          if IsNotFound (Lib R) err then ret (Returned (emptyResult, None))
          else ret (Returned (emptyResult, Some err))
      | Inr session \<Rightarrow>
          if om_DeletionTimestamp (Meta session) \<noteq> None
          then do { rep \<leftarrow> reconcileDelete R session; ret (Returned rep) }
          else if \<not> ContainsFinalizer (Lib R) (om_Finalizers (Meta session)) LabSessionFinalizer
          then do {
            let session = session\<lparr> Meta := (Meta session)\<lparr> om_Finalizers :=
                  AddFinalizer (Lib R) (om_Finalizers (Meta session)) LabSessionFinalizer \<rparr> \<rparr>;
            u \<leftarrow> updateSession R session;
            (case u of
               Inl err \<Rightarrow> ret (Returned (emptyResult, Some err))
             | Inr _ \<Rightarrow> ret (Returned (requeueNow, None))) }
          else do {
            (session, publishPending) \<leftarrow> publishPhase R session;
            onRet (reconcilePhase R session) (\<lambda>rep. ret (Returned (retryPublish publishPending rep))) }) }"

end
