(* ===== verification/EnsureProps.thy ===== *)
theory EnsureProps
  imports Reconciler
begin

text \<open>
  Creating the objects of a session.  The operations \<open>ensurePVC\<close>, \<open>EnsureSSHKeySecret\<close>,
  \<open>ensurePod\<close>, \<open>ensureService\<close> and \<open>ensureIngress\<close> share one contract, the locale
  \<open>ensure_step\<close>: they only read, create and record; every object they create carries the session
  as its controller; and when they report no error, the object is in place.  Each of them is an
  interpretation.
\<close>

section \<open>Classes of actions\<close>

fun quietA :: "'q action \<Rightarrow> bool" where
  \<comment> \<open>The action neither writes the session nor publishes.\<close>
  "quietA (UpdateA s r) = False"
| "quietA (UpdateStatusA s r) = False"
| "quietA (PatchA b s r) = False"
| "quietA (PublishA d c r) = False"
| "quietA _ = True"

fun createdMeta :: "'q action \<Rightarrow> ObjectMeta option" where
  \<comment> \<open>The metadata of the object a request creates.\<close>
  "createdMeta (CreatePVCA p r) = Some (pvc_Meta p)"
| "createdMeta (CreateSecretA p r) = Some (sec_Meta p)"
| "createdMeta (CreatePodA p r) = Some (pod_Meta p)"
| "createdMeta (CreateServiceA p r) = Some (svc_Meta p)"
| "createdMeta (CreateIngressA p r) = Some (ing_Meta p)"
| "createdMeta _ = None"

definition ownedCreate :: "'q k8slib \<Rightarrow> LabSession \<Rightarrow> 'q action \<Rightarrow> bool" where
  \<comment> \<open>If the action creates an object, it is controlled by the session and in its namespace.\<close>
  "ownedCreate L session a = (case createdMeta a of
     None \<Rightarrow> True
   | Some m \<Rightarrow> IsControlledBy L m (Meta session) \<and> om_Namespace m = sessionNamespace session)"

definition objKey :: "LabSession \<Rightarrow> string \<Rightarrow> NamespacedName" where
  "objKey session name = \<lparr> nn_Namespace = sessionNamespace session, nn_Name = name \<rparr>"

definition okCreate :: "'q k8slib \<Rightarrow> goerror + 'a \<Rightarrow> bool" where
  "okCreate L r = (case r of Inr _ \<Rightarrow> True | Inl e \<Rightarrow> IsAlreadyExists L e)"

text \<open>
  The object is in place: it was read and the session controls it, or the request to create it
  succeeded or was answered by ``already exists''.
\<close>

fun inPlace :: "'q k8slib \<Rightarrow> LabSession \<Rightarrow> string \<Rightarrow> 'q action \<Rightarrow> bool" where
  "inPlace L s n (GetPVCA k (Inr p)) = (k = objKey s n \<and> IsControlledBy L (pvc_Meta p) (Meta s))"
| "inPlace L s n (GetPodA k (Inr p)) = (k = objKey s n \<and> IsControlledBy L (pod_Meta p) (Meta s))"
| "inPlace L s n (GetServiceA k (Inr p)) = (k = objKey s n \<and> IsControlledBy L (svc_Meta p) (Meta s))"
| "inPlace L s n (GetIngressA k (Inr p)) = (k = objKey s n \<and> IsControlledBy L (ing_Meta p) (Meta s))"
| "inPlace L s n (CreatePVCA p r) = (keyOf (pvc_Meta p) = objKey s n \<and> okCreate L r)"
| "inPlace L s n (CreateSecretA p r) = (keyOf (sec_Meta p) = objKey s n \<and> okCreate L r)"
| "inPlace L s n (CreatePodA p r) = (keyOf (pod_Meta p) = objKey s n \<and> okCreate L r)"
| "inPlace L s n (CreateServiceA p r) = (keyOf (svc_Meta p) = objKey s n \<and> okCreate L r)"
| "inPlace L s n (CreateIngressA p r) = (keyOf (ing_Meta p) = objKey s n \<and> okCreate L r)"
| "inPlace L s n _ = False"

definition placed :: "'q k8slib \<Rightarrow> LabSession \<Rightarrow> string \<Rightarrow> 'q action list \<Rightarrow> bool" where
  "placed L s n es \<longleftrightarrow> list_ex (inPlace L s n) es"

lemma placed_append [simp]: "placed L s n (xs @ ys) \<longleftrightarrow> placed L s n xs \<or> placed L s n ys"
  by (simp add: placed_def)

definition sameSession :: "LabSession \<Rightarrow> LabSession \<Rightarrow> bool" where
  \<comment> \<open>Same object, spec and phase; only the recorded names of the pod and the Service may differ.\<close>
  "sameSession s s' \<longleftrightarrow> Meta s' = Meta s \<and> Spec s' = Spec s \<and>
     (\<exists>p v. Status s' = (Status s)\<lparr> PodName := p, ServiceName := v \<rparr>)"

lemma sameSession_refl [simp]: "sameSession s s"
  unfolding sameSession_def
  by (intro conjI exI [of _ "PodName (Status s)"] exI [of _ "ServiceName (Status s)"]) simp_all

lemma sameSession_fields:
  assumes "sameSession s s'"
  shows "Meta s' = Meta s" "Spec s' = Spec s" "Phase (Status s') = Phase (Status s)"
    "Conditions (Status s') = Conditions (Status s)" "StartTime (Status s') = StartTime (Status s)"
  using assms by (auto simp: sameSession_def)

lemma sameSession_set [simp]:
  "sameSession s (modStatus (\<lambda>st. st\<lparr> PodName := n \<rparr>) s)"
  "sameSession s (modStatus (\<lambda>st. st\<lparr> ServiceName := n \<rparr>) s)"
  unfolding sameSession_def
  by (simp, metis LabSessionStatus.surjective LabSessionStatus.update_convs(5))
    (simp, metis LabSessionStatus.surjective LabSessionStatus.update_convs(4))

text \<open>The names of the six objects of a session.\<close>

definition vmDataName :: "LabSession \<Rightarrow> string" where "vmDataName s = ''vm-data-'' @ sessionID s"
definition vscodeDataName :: "LabSession \<Rightarrow> string" where "vscodeDataName s = ''vscode-data-'' @ sessionID s"
definition secretName :: "LabSession \<Rightarrow> string" where "secretName s = ''lab-session-'' @ sessionID s @ ''-ssh''"
definition podName :: "LabSession \<Rightarrow> string" where "podName s = ''lab-session-'' @ sessionID s"
definition serviceName :: "LabSession \<Rightarrow> string" where "serviceName s = ''lab-service-'' @ sessionID s"
definition ingressName :: "LabSession \<Rightarrow> string" where "ingressName s = ''lab-ingress-'' @ sessionID s"

lemmas name_defs = vmDataName_def vscodeDataName_def secretName_def podName_def serviceName_def ingressName_def

lemma names_same:
  assumes "sameSession s s'"
  shows "secretName s' = secretName s" "podName s' = podName s" "serviceName s' = serviceName s" "ingressName s' = ingressName s"
  using sameSession_fields(2) [OF assms] by (simp_all add: name_defs)

section \<open>The contract\<close>

locale ensure_step =
  fixes step :: "('w, 'q) LabSessionReconciler \<Rightarrow> LabSession \<Rightarrow> ('w, 'q, 'a) rec"
    and view :: "LabSession \<Rightarrow> 'a \<Rightarrow> (LabSession \<times> goerror option) option"
    and name :: "LabSession \<Rightarrow> string"
  assumes contract: "owner_laws (Lib R) \<Longrightarrow> yields (step R s) (\<lambda>r es.
      list_all quietA es \<and> list_all (ownedCreate (Lib R) s) es \<and>
      (\<forall>s' err. view s r = Some (s', err) \<longrightarrow> sameSession s s' \<and>
         (err = None \<longrightarrow> placed (Lib R) s (name s) es)))"
begin

lemma creates_owned: "owner_laws (Lib R) \<Longrightarrow> yields (step R s) (\<lambda>r es. list_all (ownedCreate (Lib R) s) es)"
  by (rule yields_conseq [OF contract]) auto

lemma no_write: "owner_laws (Lib R) \<Longrightarrow> yields (step R s) (\<lambda>r es. list_all quietA es)"
  by (rule yields_conseq [OF contract]) auto

end

lemma owner_lawsD:
  assumes "owner_laws L" and "SetControllerReference L own obj = Inr obj'"
  shows "IsControlledBy L obj' own" "om_Name obj' = om_Name obj" "om_Namespace obj' = om_Namespace obj"
  using assms by (auto simp: owner_laws_def)

lemmas placed_simps = placed_def objKey_def keyOf_def okCreate_def ownedCreate_def

definition viewOutcome :: "'a outcome \<Rightarrow> 'a option" where
  "viewOutcome r = (case r of Returned x \<Rightarrow> Some x | Panicked p \<Rightarrow> None)"

lemma viewOutcome_simps [simp]: "viewOutcome (Returned x) = Some x" "viewOutcome (Panicked p) = None"
  by (simp_all add: viewOutcome_def)

interpretation service: ensure_step ensureService "\<lambda>s r. Some r" serviceName
  unfolding ensureService_def call_defs
  by unfold_locales (intro yields_rules; auto simp: placed_simps name_defs BuildService_def dest: owner_lawsD)

interpretation ingress: ensure_step ensureIngress "\<lambda>s r. Some (s, r)" ingressName
  unfolding ensureIngress_def call_defs
  by unfold_locales (intro yields_rules; auto simp: placed_simps name_defs BuildIngress_def Let_def dest: owner_lawsD)

interpretation claim: ensure_step "\<lambda>R s. ensurePVC R s (buildPVC (Settings R) s (kind @ sessionID s) q)"
    "\<lambda>s r. Some (s, r)" "\<lambda>s. kind @ sessionID s" for kind q
  unfolding ensurePVC_def call_defs
  by unfold_locales (intro yields_rules; auto simp: placed_simps buildPVC_def dest: owner_lawsD)

interpretation secret: ensure_step
    "\<lambda>R s. EnsureSSHKeySecret R (Meta s) (sessionID s) (sessionNamespace s)"
    "\<lambda>s r. Some (s, snd r)" secretName
  unfolding EnsureSSHKeySecret_def BuildSSHKeySecret_def call_defs
  by unfold_locales (intro yields_rules; auto simp: placed_simps name_defs SSHKeySecretName_def dest: owner_lawsD)

interpretation pod: ensure_step ensurePod "\<lambda>s. viewOutcome" podName
  unfolding ensurePod_def call_defs
  by unfold_locales
    (intro yields_rules; auto simp: placed_simps name_defs elim!: BuildPodE dest: owner_lawsD)

lemma ensurePVCs_contract:
  assumes "owner_laws (Lib R)"
  shows "yields (ensurePVCs R s) (\<lambda>r es. list_all quietA es \<and> list_all (ownedCreate (Lib R) s) es \<and>
    (r = Returned None \<longrightarrow> placed (Lib R) s (vmDataName s) es \<and>
       placed (Lib R) s (vscodeDataName s) es))"
proof (cases "BuildPVCs (Lib R) (Settings R) s")
  case None
  then show ?thesis by (simp add: ensurePVCs_def yields_ret)
next
  case (Some pvcs)
  then obtain q1 q2 where pvcs: "pvcs = [buildPVC (Settings R) s (''vm-data-'' @ sessionID s) q1,
      buildPVC (Settings R) s (''vscode-data-'' @ sessionID s) q2]"
    by (auto simp: BuildPVCs_def bind_eq_Some_conv Let_def)
  show ?thesis
    unfolding ensurePVCs_def Some pvcs option.case ensurePVCLoop.simps
    by (intro yields_rules yields_bind [OF claim.contract [OF assms]]) (auto simp: name_defs)
qed

end
