(* ===== verification/ReconcilerProps.thy ===== *)
theory ReconcilerProps
  imports EnsureProps
begin

text \<open>
  What a reconcile does, whatever the API server, the clock and the event bus answer.  The
  specifications of the handlers are \<open>yields\<close> lemmas; the properties are read off them: which
  phase changes a reconcile may write (the phase machine, as an abstract step relation), what must
  be in place before a session is reported as running, which errors are final, when a running
  session fails, what deletion always does and how phases are published.
\<close>

section \<open>Writes\<close>

definition writes :: "'q action list \<Rightarrow> 'q action list" where
  \<comment> \<open>The writes of the session and the publishes of a trace.\<close>
  "writes es = filter (\<lambda>a. \<not> quietA a) es"

lemma writes_simps [simp]:
  "writes [] = []" "writes (a # es) = (if quietA a then writes es else a # writes es)"
  "writes (es @ fs) = writes es @ writes fs"
  by (simp_all add: writes_def)

lemma writes_quiet [simp]: "list_all quietA es \<Longrightarrow> writes es = []"
  by (induction es) auto

definition noCreate :: "'q action \<Rightarrow> bool" where
  "noCreate a \<longleftrightarrow> createdMeta a = None"

lemma noCreate_simps [simp]:
  "noCreate (NowA t)" "noCreate (GetPodA k p)" "noCreate (GetServiceA k v)" "noCreate (UpdateStatusA s r)"
  "noCreate (UpdateA s r)" "noCreate (RecordA x y z)"
  by (simp_all add: noCreate_def)

section \<open>Conditions\<close>

lemma putCondition_find:
  "find (\<lambda>c. cond_Type c = t) (putCondition d cs) =
     (if cond_Type d = t
      then (case find (\<lambda>c. cond_Type c = t) cs of
              None \<Rightarrow> Some d
            | Some c \<Rightarrow> if cond_Status c = cond_Status d then Some c else Some d)
      else find (\<lambda>c. cond_Type c = t) cs)"
  by (induction cs) auto

lemma putCondition_types:
  "map cond_Type (putCondition d cs) =
     (if cond_Type d \<in> set (map cond_Type cs) then map cond_Type cs else map cond_Type cs @ [cond_Type d])"
  by (induction cs) auto

text \<open>
  Setting a condition.  No other condition changes, the condition of the type then has the
  given status, its transition time changes only when its status does, and a list without two
  conditions of one type stays so.
\<close>

lemma putCondition_spec:
  "(\<exists>c. find (\<lambda>c. cond_Type c = cond_Type d) (putCondition d cs) = Some c \<and> cond_Status c = cond_Status d) \<and>
   (\<forall>t. t = cond_Type d \<or> find (\<lambda>c. cond_Type c = t) (putCondition d cs) = find (\<lambda>c. cond_Type c = t) cs) \<and>
   (\<forall>c. find (\<lambda>c. cond_Type c = cond_Type d) cs = Some c \<longrightarrow> cond_Status c = cond_Status d \<longrightarrow> putCondition d cs = cs) \<and>
   (distinct (map cond_Type cs) \<longrightarrow> distinct (map cond_Type (putCondition d cs)))"
proof (intro conjI allI impI)
  show "putCondition d cs = cs"
    if "find (\<lambda>c. cond_Type c = cond_Type d) cs = Some c" "cond_Status c = cond_Status d" for c
    using that by (induction cs) (auto split: if_splits)
qed (auto simp: putCondition_find putCondition_types split: option.splits)

section \<open>Failing a session\<close>

definition failedStatus :: "LabSession \<Rightarrow> string \<Rightarrow> goerror \<Rightarrow> LabSession \<Rightarrow> bool" where
  \<comment> \<open>\<open>s'\<close> is the session \<open>s\<close> reported as failed, with message and reason.\<close>
  "failedStatus s message err s' \<longleftrightarrow> Meta s' = Meta s \<and> Spec s' = Spec s \<and>
     Phase (Status s') = SessionPhaseFailed \<and> Message (Status s') = message \<and>
     Reason (Status s') = errorString err \<and> PodName (Status s') = PodName (Status s) \<and>
     (\<exists>c. find (\<lambda>c. cond_Type c = ConditionTypeReady) (Conditions (Status s')) = Some c \<and>
          cond_Status c = ConditionFalse)"

definition failedWrite :: "LabSession \<Rightarrow> string \<Rightarrow> goerror \<Rightarrow> 'q action list \<Rightarrow> bool" where
  "failedWrite s message err es \<longleftrightarrow> (\<exists>s' r. writes es = [UpdateStatusA s' r] \<and> failedStatus s message err s')"

lemma BuildPVCs_status [simp]: "BuildPVCs L rb (s\<lparr> Status := st \<rparr>) = BuildPVCs L rb s"
  by (simp add: BuildPVCs_def buildPVC_def)

lemma updateStatusFailed_yields:
  "yields (updateStatusFailed R s message err) (\<lambda>r es. list_all noCreate es \<and>
     (case r of
        Panicked p \<Rightarrow> BuildPVCs (Lib R) (Settings R) s = None \<and> writes es = []
      | Returned u \<Rightarrow> failedWrite s message err es))"
  unfolding updateStatusFailed_def sessionPod_def setCondition_def call_defs
  by (intro yields_rules)
    (auto simp: failedWrite_def failedStatus_def putCondition_find split: option.splits)

lemma fail_then_yields:
  "yields (onRet (updateStatusFailed R s message err) (\<lambda>_. ret (Returned x))) (\<lambda>r es. list_all noCreate es \<and>
     (case r of
        Panicked p \<Rightarrow> BuildPVCs (Lib R) (Settings R) s = None \<and> writes es = []
      | Returned y \<Rightarrow> y = x \<and> failedWrite s message err es))"
  by (rule yields_onRet [OF updateStatusFailed_yields]) (auto intro!: yields_ret)

definition retryable :: "'q k8slib \<Rightarrow> LabSession \<Rightarrow> time \<Rightarrow> goerror \<Rightarrow> bool" where
  \<comment> \<open>The specification of \<open>handleCreateError\<close>: at time \<open>t\<close> the error is worth a retry.\<close>
  "retryable L s t err \<longleftrightarrow> \<not> isPermanentCreateError L err \<and>
     (case StartTime (Status s) of None \<Rightarrow> True | Some start \<Rightarrow> t - start \<le> creatingTimeout)"

text \<open>
  C6: errors while creating.  A permanent error (an object that belongs to someone else, an
  invalid or bad request) or one that occurs more than ten minutes after the start fails the
  session: one status write with phase Failed, the message and the error's text, and no retry.  Any
  other error writes nothing and is returned, so that the create is retried.
\<close>

theorem create_error_handling:
  "yields (handleCreateError R s message err) (\<lambda>rep es.
     case rep of
       Panicked p \<Rightarrow> BuildPVCs (Lib R) (Settings R) s = None
     | Returned (result, e) \<Rightarrow> result = emptyResult \<and>
         (StartTime (Status s) = None \<or> (\<exists>t. hd es = NowA t)) \<and>
         (\<forall>t. StartTime (Status s) = None \<or> hd es = NowA t \<longrightarrow>
            (if retryable (Lib R) s t err then e = Some err \<and> writes es = []
             else e = None \<and> failedWrite s message err es)))"
  unfolding handleCreateError_def call_defs
  by (intro yields_rules yields_conseq [OF fail_then_yields])
    (auto simp: retryable_def failedWrite_def split: outcome.splits option.splits)

lemma handleCreateError_yields:
  "yields (handleCreateError R s message err) (\<lambda>rep es. list_all noCreate es \<and>
     (case rep of
        Panicked p \<Rightarrow> writes es = []
      | Returned (result, e) \<Rightarrow> (e = Some err \<and> writes es = []) \<or> (e = None \<and> failedWrite s message err es)))"
  unfolding handleCreateError_def call_defs
  by (intro yields_rules yields_conseq [OF fail_then_yields])
    (auto simp: failedWrite_def split: outcome.splits)

section \<open>Becoming Running\<close>

definition readyConditions :: "Condition list \<Rightarrow> bool" where
  "readyConditions cs \<longleftrightarrow> list_all (\<lambda>t. \<exists>c. find (\<lambda>c. cond_Type c = t) cs = Some c \<and> cond_Status c = ConditionTrue)
     [ConditionTypePodReady, ConditionTypeServiceReady, ConditionTypeReady]"

definition runningStatus :: "LabSession \<Rightarrow> 'q Pod \<Rightarrow> LabSession \<Rightarrow> bool" where
  "runningStatus s pod s' \<longleftrightarrow> Meta s' = Meta s \<and> Spec s' = Spec s \<and>
     Phase (Status s') = SessionPhaseRunning \<and> PodIP (Status s') = pst_PodIP (pod_Status pod) \<and>
     us_Running (Usage (Status s')) = podHoldsResources (Some pod) \<and> readyConditions (Conditions (Status s'))"

lemma modStatus_Endpoints_same [simp]: "\<exists>ep. s = modStatus (\<lambda>st. st\<lparr> Endpoints := ep \<rparr>) s"
  by (rule exI [of _ "Endpoints (Status s)"]) simp

lemma updateEndpoints_yields:
  "yields (updateEndpoints R s) (\<lambda>(s', err) es. list_all quietA es \<and> list_all noCreate es \<and>
     (\<exists>ep. s' = modStatus (\<lambda>st. st\<lparr> Endpoints := ep \<rparr>) s))"
  unfolding updateEndpoints_def
  by (intro yields_rules) auto

lemma becomeRunning_yields:
  "yields (becomeRunning R s pod) (\<lambda>rep es. list_all noCreate es \<and>
     (case rep of
        Panicked p \<Rightarrow> writes es = []
      | Returned (result, e) \<Rightarrow> \<exists>s' r. writes es = [UpdateStatusA s' r] \<and> runningStatus s pod s' \<and>
          PodName (Status s') = PodName (Status s) \<and> RequeueAfter result = 0))"
  unfolding becomeRunning_def setCondition_def call_defs
  by (intro yields_rules yields_bind [OF updateEndpoints_yields])
    (auto simp: runningStatus_def readyConditions_def putCondition_find usageOf_running_iff emptyResult_def
      split: option.splits)

definition observedReady :: "LabSession \<Rightarrow> string \<Rightarrow> 'q Pod \<Rightarrow> 'q action list \<Rightarrow> bool" where
  \<comment> \<open>The pod of this name was read from the session's namespace, ready and not stopping.\<close>
  "observedReady s n pod es \<longleftrightarrow> GetPodA (objKey s n) (Inr pod) \<in> set es \<and>
     isPodReady pod \<and> podTerminalReason pod = []"

definition runningWrite :: "LabSession \<Rightarrow> 'q action list \<Rightarrow> bool" where
  "runningWrite s es \<longleftrightarrow> (\<exists>s' r pod. writes es = [UpdateStatusA s' r] \<and> runningStatus s pod s' \<and>
     PodName (Status s') = PodName (Status s) \<and>
     observedReady s (PodName (Status s)) pod (takeWhile quietA es))"

lemma takeWhile_quiet [simp]: "list_all quietA es \<Longrightarrow> takeWhile quietA (es @ fs) = es @ takeWhile quietA fs"
  by (induction es) auto

lemma runningWriteI:
  "writes es = [UpdateStatusA s' r] \<Longrightarrow> runningStatus s pod s' \<Longrightarrow> PodName (Status s') = PodName (Status s) \<Longrightarrow>
   isPodReady pod \<Longrightarrow> podTerminalReason pod = [] \<Longrightarrow>
   runningWrite s (GetPodA \<lparr> nn_Namespace = sessionNamespace s, nn_Name = PodName (Status s) \<rparr> (Inr pod) # es)"
  unfolding runningWrite_def observedReady_def objKey_def by auto

lemma checkPod_yields:
  "yields (checkPod R s) (\<lambda>rep es. list_all noCreate es \<and>
     (case rep of
        Panicked p \<Rightarrow> writes es = []
      | Returned (result, e) \<Rightarrow> writes es = [] \<or> runningWrite s es \<or>
          (e = None \<and> (\<exists>err. failedWrite s ''Pod failed'' err es))))"
  unfolding checkPod_def call_defs
  by (intro yields_rules yields_conseq [OF fail_then_yields] yields_conseq [OF becomeRunning_yields])
    (auto simp: failedWrite_def intro: runningWriteI split: outcome.splits)

definition outcomeFrom :: "'q k8slib \<Rightarrow> LabSession \<Rightarrow> string list \<Rightarrow> 'q action list \<Rightarrow> bool" where
  \<comment> \<open>The steps write nothing, or fail the session, or report it as running after the named
      objects were put in place.\<close>
  "outcomeFrom L s names es \<longleftrightarrow> writes es = [] \<or>
     (\<exists>s1 m err. sameSession s s1 \<and> failedWrite s1 m err es) \<or>
     (\<exists>s1. sameSession s s1 \<and> runningWrite s1 es \<and> list_all (\<lambda>n. placed L s n (takeWhile quietA es)) names)"

definition stepAfter ::
  "('w, 'q) LabSessionReconciler \<Rightarrow> LabSession \<Rightarrow> 'q action list \<Rightarrow> string list \<Rightarrow> ('w, 'q, reply outcome) rec \<Rightarrow> bool" where
  \<comment> \<open>After the actions \<open>es\<close>, the rest \<open>m\<close> of the sequence completes them to such an outcome.\<close>
  "stepAfter R s es names m \<longleftrightarrow> yields m (\<lambda>rep fs. list_all (ownedCreate (Lib R) s) (es @ fs) \<and>
     (case rep of Panicked p \<Rightarrow> writes (es @ fs) = [] | Returned x \<Rightarrow> outcomeFrom (Lib R) s names (es @ fs)))"

definition stepSpec ::
  "('w, 'q) LabSessionReconciler \<Rightarrow> LabSession \<Rightarrow> string list \<Rightarrow> ('w, 'q, reply outcome) rec \<Rightarrow> bool" where
  "stepSpec R s names m \<longleftrightarrow> stepAfter R s [] names m"

lemma sameSession_trans: "sameSession a b \<Longrightarrow> sameSession b c \<Longrightarrow> sameSession a c"
  unfolding sameSession_def by (auto, blast)

lemma ownedCreate_noCreate: "list_all noCreate es \<Longrightarrow> list_all (ownedCreate L s) es"
  by (auto simp: list_all_iff noCreate_def ownedCreate_def)

lemma ownedCreate_same: "sameSession s s' \<Longrightarrow> ownedCreate L s' = ownedCreate L s"
  by (rule ext) (auto simp: sameSession_fields ownedCreate_def split: option.splits)

lemma inPlace_same: "sameSession s s' \<Longrightarrow> inPlace L s' n = inPlace L s n"
proof (rule ext)
  fix a
  assume "sameSession s s'"
  then show "inPlace L s' n a = inPlace L s n a"
    by (cases "(L, s, n, a)" rule: inPlace.cases) (simp_all add: sameSession_fields objKey_def)
qed

lemma placed_same: "sameSession s s' \<Longrightarrow> placed L s' n es = placed L s n es"
  by (simp add: placed_def inPlace_same)

lemma failedWrite_prefix: "list_all quietA es \<Longrightarrow> failedWrite s m err (es @ fs) = failedWrite s m err fs"
  by (simp add: failedWrite_def)

lemma runningWrite_prefix: "list_all quietA es \<Longrightarrow> runningWrite s fs \<Longrightarrow> runningWrite s (es @ fs)"
  by (auto simp: runningWrite_def observedReady_def)

lemma outcomeFrom_prefix:
  assumes "list_all quietA es" and "sameSession s s'" and "outcomeFrom L s' names fs"
    and "list_all (\<lambda>n. placed L s n es) new"
  shows "outcomeFrom L s (new @ names) (es @ fs)"
proof -
  consider "writes fs = []" | s1 m err where "sameSession s' s1" "failedWrite s1 m err fs"
    | s1 where "sameSession s' s1" "runningWrite s1 fs" "list_all (\<lambda>n. placed L s' n (takeWhile quietA fs)) names"
    using assms(3) unfolding outcomeFrom_def by blast
  then show ?thesis
  proof cases
    case 1
    with assms(1) show ?thesis by (simp add: outcomeFrom_def)
  next
    case 2
    with assms(1,2) show ?thesis
      unfolding outcomeFrom_def by (metis failedWrite_prefix sameSession_trans)
  next
    case 3
    then have "list_all (\<lambda>n. placed L s n (takeWhile quietA (es @ fs))) (new @ names)"
      using assms(1,4) by (auto simp: placed_same [OF assms(2)] list_all_iff)
    with 3 assms(1,2) show ?thesis
      unfolding outcomeFrom_def by (metis runningWrite_prefix sameSession_trans)
  qed
qed

lemma outcomeFrom_quiet: "writes es = [] \<Longrightarrow> outcomeFrom L s names es"
  by (simp add: outcomeFrom_def)

lemma outcomeFrom_failed: "failedWrite s m err es \<Longrightarrow> outcomeFrom L s names es"
  unfolding outcomeFrom_def by (metis sameSession_refl)

lemma outcomeFrom_running: "runningWrite s es \<Longrightarrow> outcomeFrom L s [] es"
  unfolding outcomeFrom_def by (auto intro: exI [of _ s])

text \<open>The rules for a sequence: run a step, then the rest after the step's actions.\<close>

lemma stepSpec_bind:
  assumes "yields m C" and "\<And>a es. C a es \<Longrightarrow> stepAfter R s es names (f a)"
  shows "stepSpec R s names (State_Monad.bind m f)"
  unfolding stepSpec_def stepAfter_def append_Nil
  by (rule yields_bind [OF assms(1)]) (rule assms(2) [unfolded stepAfter_def])

lemma stepSpec_onRet:
  assumes "yields m C" and "\<And>a es. C (Returned a) es \<Longrightarrow> stepAfter R s es names (f a)"
    and "\<And>p es. C (Panicked p) es \<Longrightarrow> list_all (ownedCreate (Lib R) s) es \<and> writes es = []"
  shows "stepSpec R s names (onRet m f)"
  unfolding stepSpec_def stepAfter_def append_Nil
  by (rule yields_onRet [OF assms(1)]) (use assms(3) in simp, rule assms(2) [unfolded stepAfter_def])

lemma stepAfter_next:
  assumes "stepSpec R s' names m" and "list_all quietA es" and "list_all (ownedCreate (Lib R) s) es"
    and "sameSession s s'" and "list_all (\<lambda>n. placed (Lib R) s n es) new"
  shows "stepAfter R s es (new @ names) m"
  unfolding stepAfter_def
proof (rule yields_conseq [OF assms(1) [unfolded stepSpec_def stepAfter_def]])
  fix rep fs
  assume "list_all (ownedCreate (Lib R) s') ([] @ fs) \<and>
    (case rep of Panicked p \<Rightarrow> writes ([] @ fs) = [] | Returned x \<Rightarrow> outcomeFrom (Lib R) s' names ([] @ fs))"
  then show "list_all (ownedCreate (Lib R) s) (es @ fs) \<and>
     (case rep of Panicked p \<Rightarrow> writes (es @ fs) = [] | Returned x \<Rightarrow> outcomeFrom (Lib R) s (new @ names) (es @ fs))"
    using assms(2,3) outcomeFrom_prefix [OF assms(2,4) _ assms(5)]
    by (auto simp: ownedCreate_same [OF assms(4)] split: outcome.splits)
qed

lemma stepAfter_new:
  "stepSpec R s' names m \<Longrightarrow> list_all quietA es \<Longrightarrow> list_all (ownedCreate (Lib R) s) es \<Longrightarrow>
   sameSession s s' \<Longrightarrow> placed (Lib R) s n es \<Longrightarrow> stepAfter R s es (n # names) m"
  using stepAfter_next [of R s' names m es s "[n]"] by simp

lemma handleCreateError_step: "stepSpec R s names (handleCreateError R s m e)"
  unfolding stepSpec_def stepAfter_def
  by (rule yields_conseq [OF handleCreateError_yields])
    (auto simp: ownedCreate_noCreate intro: outcomeFrom_quiet outcomeFrom_failed split: outcome.splits prod.splits)

lemma fail_step: "stepSpec R s names (onRet (updateStatusFailed R s m e) (\<lambda>_. ret (Returned x)))"
  unfolding stepSpec_def stepAfter_def
  by (rule yields_conseq [OF fail_then_yields])
    (auto simp: ownedCreate_noCreate intro: outcomeFrom_quiet outcomeFrom_failed split: outcome.splits)

lemma checkPod_step: "stepSpec R s [] (checkPod R s)"
  unfolding stepSpec_def stepAfter_def
  by (rule yields_conseq [OF checkPod_yields])
    (auto simp: ownedCreate_noCreate intro: outcomeFrom_quiet outcomeFrom_failed outcomeFrom_running
      split: outcome.splits)

lemma stepAfter_fails:
  assumes "list_all quietA es" and "list_all (ownedCreate (Lib R) s) es" and "sameSession s s'"
  shows "stepAfter R s es names (handleCreateError R s' m e)"
    and "stepAfter R s es names (onRet (updateStatusFailed R s' m e) (\<lambda>_. ret (Returned x)))"
  using stepAfter_next [OF handleCreateError_step assms, of "[]"] stepAfter_next [OF fail_step assms, of "[]"]
  by simp_all

section \<open>The steps in sequence\<close>

lemma createIngressStep_spec:
  assumes "owner_laws (Lib R)"
  shows "stepSpec R s [ingressName s] (createIngressStep R s)"
  unfolding createIngressStep_def
  by (rule stepSpec_bind [OF ingress.contract [OF assms]])
    (auto split: option.split simp: stepAfter_fails stepAfter_new [OF checkPod_step])

lemma createServiceStep_spec:
  assumes "owner_laws (Lib R)"
  shows "stepSpec R s [serviceName s, ingressName s] (createServiceStep R s)"
proof -
  have next_step: "stepAfter R s es [serviceName s, ingressName s] (createIngressStep R s')"
    if "sameSession s s'" "list_all quietA es" "list_all (ownedCreate (Lib R) s) es"
      "placed (Lib R) s (serviceName s) es" for s' es
    using stepAfter_new [OF createIngressStep_spec [OF assms] that(2,3,1,4)] that(1) by (simp add: names_same)
  show ?thesis
    unfolding createServiceStep_def
    by (rule stepSpec_bind [OF service.contract [OF assms]])
      (auto split: option.split simp: stepAfter_fails next_step)
qed

lemma createPodStep_spec:
  assumes "owner_laws (Lib R)"
  shows "stepSpec R s [podName s, serviceName s, ingressName s] (createPodStep R s)"
proof -
  have next_step: "stepAfter R s es [podName s, serviceName s, ingressName s] (createServiceStep R s')"
    if "sameSession s s'" "list_all quietA es" "list_all (ownedCreate (Lib R) s) es"
      "placed (Lib R) s (podName s) es" for s' es
    using stepAfter_new [OF createServiceStep_spec [OF assms] that(2,3,1,4)] that(1) by (simp add: names_same)
  show ?thesis
    unfolding createPodStep_def
    by (rule stepSpec_onRet [OF pod.contract [OF assms]])
      (auto split: option.split simp: stepAfter_fails next_step)
qed

lemma recordEvent_then:
  assumes "stepSpec R s names m"
  shows "stepSpec R s names (State_Monad.bind (recordEvent R a b c) (\<lambda>_. m))"
proof (rule stepSpec_bind [where C = "\<lambda>r es. list_all quietA es \<and> list_all (ownedCreate (Lib R) s) es"])
  show "yields (recordEvent R a b c) (\<lambda>r es. list_all quietA es \<and> list_all (ownedCreate (Lib R) s) es)"
    unfolding call_defs by (rule yields_call) (simp add: ownedCreate_def)
qed (use stepAfter_next [OF assms, where new = "[]"] in auto)

lemma createSecretStep_spec:
  assumes "owner_laws (Lib R)"
  shows "stepSpec R s [secretName s, podName s, serviceName s, ingressName s] (createSecretStep R s)"
  unfolding createSecretStep_def
  by (rule stepSpec_bind [OF secret.contract [OF assms]])
    (auto split: option.split simp del: append_Cons
      simp: stepAfter_fails stepAfter_new [OF createPodStep_spec [OF assms]]
        stepAfter_new [OF recordEvent_then [OF createPodStep_spec [OF assms]]])

definition objectNames :: "LabSession \<Rightarrow> string list" where
  "objectNames s = [vmDataName s, vscodeDataName s, secretName s, podName s, serviceName s, ingressName s]"

lemma reconcileCreating_spec:
  assumes "owner_laws (Lib R)"
  shows "stepSpec R s (objectNames s) (reconcileCreating R s)"
  unfolding reconcileCreating_def
proof (rule stepSpec_onRet [OF ensurePVCs_contract [OF assms]])
  fix err :: "goerror option" and es
  assume c: "list_all quietA es \<and> list_all (ownedCreate (Lib R) s) es \<and> (Returned err = Returned None \<longrightarrow>
      placed (Lib R) s (vmDataName s) es \<and> placed (Lib R) s (vscodeDataName s) es)"
  show "stepAfter R s es (objectNames s) (case err of Some e \<Rightarrow> handleCreateError R s ''Failed to create PVCs'' e
      | None \<Rightarrow> createSecretStep R s)"
    using c stepAfter_next [OF createSecretStep_spec [OF assms], where es = es and s = s
        and new = "[vmDataName s, vscodeDataName s]"]
    by (auto split: option.split intro!: stepAfter_fails simp: objectNames_def)
qed auto

lemma in_writes: "a \<in> set es \<Longrightarrow> \<not> quietA a \<Longrightarrow> a \<in> set (writes es)"
  by (simp add: writes_def)

lemma outcomeFrom_running_write:
  assumes "outcomeFrom L s names es" and "UpdateStatusA s' r \<in> set es" and "Phase (Status s') = SessionPhaseRunning"
  shows "list_all (\<lambda>n. placed L s n (takeWhile quietA es)) names \<and>
    (\<exists>pod. observedReady s (PodName (Status s')) pod (takeWhile quietA es) \<and> runningStatus s pod s')"
proof -
  have w: "UpdateStatusA s' r \<in> set (writes es)" using assms(2) by (rule in_writes) simp
  obtain s1 where s1: "sameSession s s1" "runningWrite s1 es" "list_all (\<lambda>n. placed L s n (takeWhile quietA es)) names"
    using assms(1,3) w by (auto simp: outcomeFrom_def failedWrite_def failedStatus_def)
  then obtain pod where "runningStatus s1 pod s'" "observedReady s1 (PodName (Status s')) pod (takeWhile quietA es)"
    using w by (auto simp: runningWrite_def)
  with s1 show ?thesis
    using sameSession_fields [OF s1(1)] by (auto simp: runningStatus_def observedReady_def objKey_def)
qed

lemma reconcileCreating_yields:
  assumes "owner_laws (Lib R)"
  shows "yields (reconcileCreating R s) (\<lambda>rep es. list_all (ownedCreate (Lib R) s) es \<and>
    (case rep of Panicked p \<Rightarrow> writes es = [] | Returned x \<Rightarrow> outcomeFrom (Lib R) s (objectNames s) es))"
  using reconcileCreating_spec [OF assms] unfolding stepSpec_def stepAfter_def append_Nil .

section \<open>The name of the pod\<close>

text \<open>
  The code takes the pod's name from the answers to its own requests.  What it relies on is that the
  API server answers a request about an object with that object.
\<close>

fun answersByName :: "'q action \<Rightarrow> bool" where
  "answersByName (GetPodA k (Inr p)) = (om_Name (pod_Meta p) = nn_Name k)"
| "answersByName (CreatePodA p (Inr p')) = (om_Name (pod_Meta p') = om_Name (pod_Meta p))"
| "answersByName _ = True"

definition runningNamed :: "string \<Rightarrow> 'q action \<Rightarrow> bool" where
  \<comment> \<open>A status with phase Running carries this pod name.\<close>
  "runningNamed n a = (case a of
     UpdateStatusA s r \<Rightarrow> Phase (Status s) = SessionPhaseRunning \<longrightarrow> PodName (Status s) = n | _ \<Rightarrow> True)"

lemma runningNamed_quiet: "list_all quietA es \<Longrightarrow> list_all (runningNamed n) es"
  by (auto simp: list_all_iff runningNamed_def split: action.split)

lemma runningNamed_writes: "list_all (runningNamed n) (writes es) \<longleftrightarrow> list_all (runningNamed n) es"
  by (induction es) (auto simp: runningNamed_def split: action.split)

lemma runningNamed_failedWrite: "failedWrite s m err es \<Longrightarrow> list_all (runningNamed n) es"
  by (subst runningNamed_writes [symmetric]) (auto simp: failedWrite_def failedStatus_def runningNamed_def)

lemma runningNamed_runningWrite: "runningWrite s es \<Longrightarrow> list_all (runningNamed (PodName (Status s))) es"
  by (subst runningNamed_writes [symmetric]) (auto simp: runningWrite_def runningNamed_def)

lemma runningNamed_none: "writes es = [] \<Longrightarrow> list_all (runningNamed n) es"
  by (subst runningNamed_writes [symmetric]) simp

lemmas runningNamed_intros = runningNamed_quiet runningNamed_failedWrite runningNamed_runningWrite runningNamed_none

lemma handleCreateError_named: "yields (handleCreateError R s m e) (\<lambda>rep es. list_all (runningNamed n) es)"
  by (rule yields_conseq [OF handleCreateError_yields]) (auto intro: runningNamed_intros split: outcome.splits)

lemma fail_then_named:
  "yields (onRet (updateStatusFailed R s m e) (\<lambda>_. ret (Returned x))) (\<lambda>rep es. list_all (runningNamed n) es)"
  by (rule yields_conseq [OF fail_then_yields]) (auto intro: runningNamed_intros split: outcome.splits)

lemma checkPod_named: "PodName (Status s) = n \<Longrightarrow> yields (checkPod R s) (\<lambda>rep es. list_all (runningNamed n) es)"
  by (rule yields_conseq [OF checkPod_yields]) (auto intro: runningNamed_intros split: outcome.splits)

lemma createIngressStep_named:
  assumes "owner_laws (Lib R)" and "PodName (Status s) = n"
  shows "yields (createIngressStep R s) (\<lambda>rep es. list_all (runningNamed n) es)"
  unfolding createIngressStep_def
  by (rule yields_bind [OF ingress.no_write [OF assms(1)]])
    (use assms(2) in \<open>auto split: option.split simp: runningNamed_quiet intro!: handleCreateError_named checkPod_named\<close>)

lemma ensureService_keeps_pod:
  "yields (ensureService R s) (\<lambda>(s', err) es. list_all quietA es \<and> PodName (Status s') = PodName (Status s))"
  unfolding ensureService_def call_defs by (intro yields_rules) auto

lemma createServiceStep_named:
  assumes "owner_laws (Lib R)" and "PodName (Status s) = n"
  shows "yields (createServiceStep R s) (\<lambda>rep es. list_all (runningNamed n) es)"
  unfolding createServiceStep_def
  by (rule yields_bind [OF ensureService_keeps_pod])
    (use assms in \<open>auto split: option.split simp: runningNamed_quiet
      intro!: handleCreateError_named createIngressStep_named\<close>)

lemma ensurePod_names_pod:
  assumes "owner_laws (Lib R)"
  shows "yields (ensurePod R s) (\<lambda>r es. list_all quietA es \<and>
    (\<forall>s'. r = Returned (s', None) \<longrightarrow> list_all answersByName es \<longrightarrow> PodName (Status s') = podName s))"
  unfolding ensurePod_def call_defs
  by (intro yields_rules)
    (auto simp: podName_def keyOf_def elim!: BuildPodE dest: owner_lawsD [OF assms])

lemma createPodStep_named:
  fixes R :: "('w, 'q) LabSessionReconciler"
  assumes "owner_laws (Lib R)"
  shows "yields (createPodStep R s) (\<lambda>rep es. list_all answersByName es \<longrightarrow> list_all (runningNamed (podName s)) es)"
  unfolding createPodStep_def
proof (rule yields_onRet [OF ensurePod_names_pod [OF assms]])
  fix a :: "LabSession \<times> goerror option" and es :: "'q action list"
  obtain s' err where a: "a = (s', err)" by (cases a)
  assume pod: "list_all quietA es \<and>
    (\<forall>s'. Returned a = Returned (s', None) \<longrightarrow> list_all answersByName es \<longrightarrow> PodName (Status s') = podName s)"
  show "yields (case a of (session, err) \<Rightarrow>
      case err of Some e \<Rightarrow> handleCreateError R session ''Failed to create Pod'' e | None \<Rightarrow> createServiceStep R session)
    (\<lambda>rep fs. list_all answersByName (es @ fs) \<longrightarrow> list_all (runningNamed (podName s)) (es @ fs))"
  proof (cases err)
    case None
    with pod a show ?thesis
      by (auto simp: runningNamed_quiet intro: yields_conseq [OF createServiceStep_named [OF assms, of s' "podName s"]]
          yields_conseq [OF createServiceStep_named [OF assms refl, of s']])
  next
    case (Some e)
    with pod a show ?thesis
      by (auto simp: runningNamed_quiet intro: yields_conseq [OF handleCreateError_named])
  qed
qed (auto simp: runningNamed_quiet)

lemma createSecretStep_named:
  assumes "owner_laws (Lib R)"
  shows "yields (createSecretStep R s) (\<lambda>rep es. list_all answersByName es \<longrightarrow> list_all (runningNamed (podName s)) es)"
  unfolding createSecretStep_def call_defs
  by (intro yields_bind [OF secret.no_write [OF assms]] yields_rules
      yields_conseq [OF fail_then_named] yields_conseq [OF createPodStep_named [OF assms]])
    (auto simp: runningNamed_quiet runningNamed_def)

lemma reconcileCreating_named:
  assumes "owner_laws (Lib R)"
  shows "yields (reconcileCreating R s) (\<lambda>rep es. list_all answersByName es \<longrightarrow> list_all (runningNamed (podName s)) es)"
  unfolding reconcileCreating_def
  by (rule yields_onRet [OF ensurePVCs_contract [OF assms]])
    (auto split: option.split simp: runningNamed_quiet
      intro: yields_conseq [OF handleCreateError_named] yields_conseq [OF createSecretStep_named [OF assms]])

text \<open>
  C1: a session is reported as running only when it runs.  Whatever the API server answers, if a
  reconcile of a creating session writes the phase Running, then before that write, in the same
  reconcile, each of the session's two claims, its SSH Secret, pod, Service and Ingress was found
  under the session's control, created, or reported to exist already; the pod that the status written
  names was read from the session's namespace under that name and was ready and not stopping; and the
  status carries that pod's address and the conditions PodReady, ServiceReady and Ready, all true.  If
  the API server answers requests about a pod with the pod of that name, the pod is the session's own,
  \<^verbatim>\<open>lab-session-\<close> and the session id.
\<close>

theorem running_only_when_ready:
  assumes "owner_laws (Lib R)"
  shows "yields (reconcileCreating R s) (\<lambda>rep es.
    \<forall>s' r. UpdateStatusA s' r \<in> set es \<and> Phase (Status s') = SessionPhaseRunning \<longrightarrow>
      list_all (\<lambda>n. placed (Lib R) s n (takeWhile quietA es)) (objectNames s) \<and>
      (\<exists>pod. observedReady s (PodName (Status s')) pod (takeWhile quietA es) \<and> runningStatus s pod s') \<and>
      (list_all answersByName es \<longrightarrow> PodName (Status s') = podName s))"
proof (rule yields_conseq [OF yields_conj [OF reconcileCreating_yields [OF assms] reconcileCreating_named [OF assms]]],
    elim conjE, intro allI impI conjI)
  fix rep es s' r
  assume o: "case rep of Panicked p \<Rightarrow> writes es = [] | Returned x \<Rightarrow> outcomeFrom (Lib R) s (objectNames s) es"
    and named: "list_all answersByName es \<longrightarrow> list_all (runningNamed (podName s)) es"
    and w: "UpdateStatusA s' r \<in> set es \<and> Phase (Status s') = SessionPhaseRunning"
  then have "writes es \<noteq> []" using in_writes [of "UpdateStatusA s' r" es] by auto
  with o have "outcomeFrom (Lib R) s (objectNames s) es" by (auto split: outcome.splits)
  from outcomeFrom_running_write [OF this conjunct1 [OF w] conjunct2 [OF w]]
  show "list_all (\<lambda>n. placed (Lib R) s n (takeWhile quietA es)) (objectNames s)"
    and "\<exists>pod. observedReady s (PodName (Status s')) pod (takeWhile quietA es) \<and> runningStatus s pod s'" by blast+
  show "PodName (Status s') = podName s" if "list_all answersByName es"
    using named that w by (force simp: list_all_iff runningNamed_def)
qed

section \<open>The phase machine\<close>

text \<open>
  The abstract specification: the phases a session may go through.  The flag says whether the
  session is being deleted.
\<close>

inductive phaseStep :: "bool \<Rightarrow> SessionPhase \<Rightarrow> SessionPhase \<Rightarrow> bool" where
  start: "p = SessionPhasePending \<or> p = [] \<Longrightarrow> phaseStep False p SessionPhaseCreating"
| run: "phaseStep False SessionPhaseCreating SessionPhaseRunning"
| stay: "phaseStep False SessionPhaseRunning SessionPhaseRunning"
| fail: "p = SessionPhaseCreating \<or> p = SessionPhaseRunning \<Longrightarrow> phaseStep False p SessionPhaseFailed"
| stop: "phaseStep True p SessionPhaseTerminating"

inductive_simps phaseStep_deleting [simp]: "phaseStep True p q"
inductive_simps phaseStep_live: "phaseStep False p q"

fun phaseOK :: "bool \<Rightarrow> SessionPhase \<Rightarrow> 'q action list \<Rightarrow> bool" where
  \<comment> \<open>From phase \<open>p\<close>, each status the writes send is a step of the machine; a write that
      succeeded, or a patch's answer, is the new current phase.\<close>
  "phaseOK del p [] = True"
| "phaseOK del p (UpdateStatusA s r # ws) =
     (phaseStep del p (Phase (Status s)) \<and> phaseOK del (case r of Inl e \<Rightarrow> p | Inr s' \<Rightarrow> Phase (Status s)) ws)"
| "phaseOK del p (PatchA b s r # ws) = phaseOK del (case r of Inl e \<Rightarrow> p | Inr s' \<Rightarrow> Phase (Status s')) ws"
| "phaseOK del p (a # ws) = phaseOK del p ws"

lemma reconcilePending_phase:
  assumes "Phase (Status s) = SessionPhasePending \<or> Phase (Status s) = []"
  shows "yields (reconcilePending R s) (\<lambda>rep es. phaseOK False (Phase (Status s)) (writes es))"
  using assms unfolding reconcilePending_def call_defs
  by (intro yields_rules) (auto simp: phaseStep_live)

lemma failedWrite_phase:
  "failedWrite s m err es \<Longrightarrow>
     phaseOK False SessionPhaseCreating (writes es) \<and> phaseOK False SessionPhaseRunning (writes es)"
  by (auto simp: failedWrite_def failedStatus_def phaseStep_live)

lemma reconcileCreating_phase:
  assumes "owner_laws (Lib R)"
  shows "yields (reconcileCreating R s) (\<lambda>rep es. phaseOK False SessionPhaseCreating (writes es))"
  by (rule yields_conseq [OF reconcileCreating_yields [OF assms]])
    (auto simp: outcomeFrom_def runningWrite_def runningStatus_def phaseStep_live
      dest!: failedWrite_phase split: outcome.splits)

lemma reconcileRunning_phase:
  assumes "Phase (Status s) = SessionPhaseRunning"
  shows "yields (reconcileRunning R s) (\<lambda>rep es. phaseOK False SessionPhaseRunning (writes es))"
  using assms unfolding reconcileRunning_def setCondition_def call_defs
  by (intro yields_rules yields_conseq [OF fail_then_yields])
    (auto simp: phaseStep_live dest!: failedWrite_phase split: outcome.splits)

lemma reconcilePhase_phase:
  assumes "owner_laws (Lib R)"
  shows "yields (reconcilePhase R s) (\<lambda>rep es. phaseOK False (Phase (Status s)) (writes es))"
  using reconcilePending_phase [of s R] reconcileCreating_phase [OF assms, of s] reconcileRunning_phase [of s R]
  unfolding reconcilePhase_def reconcileFailed_def Let_def by (auto intro: yields_ret)

section \<open>Publishing\<close>

definition announced :: "LabSession \<Rightarrow> LabSession" where
  \<comment> \<open>The session with its phase recorded as published.\<close>
  "announced s = s\<lparr> Meta := (Meta s)\<lparr> om_Annotations :=
     mput (om_Annotations (Meta s)) PublishedPhaseAnnotation (Phase (Status s)) \<rparr> \<rparr>"

definition needsPublish :: "('w, 'q) LabSessionReconciler \<Rightarrow> LabSession \<Rightarrow> bool" where
  "needsPublish R s \<longleftrightarrow> Events R \<noteq> None \<and> Phase (Status s) \<noteq> [] \<and>
     mget (om_Annotations (Meta s)) PublishedPhaseAnnotation \<noteq> Phase (Status s)"

definition publishOutcome ::
  "('w, 'q) LabSessionReconciler \<Rightarrow> LabSession \<Rightarrow> LabSession \<Rightarrow> bool \<Rightarrow> 'q action list \<Rightarrow> bool" where
  "publishOutcome R s s' pending es \<longleftrightarrow>
     (if \<not> needsPublish R s then es = [] \<and> s' = s \<and> \<not> pending
      else (\<exists>e. es = [PublishA None (phaseChange s) (Some e)] \<and> s' = s \<and> pending) \<or>
        (\<exists>e. es = [PublishA None (phaseChange s) None, PatchA s (announced s) (Inl e)] \<and> s' = announced s \<and> pending) \<or>
        (es = [PublishA None (phaseChange s) None, PatchA s (announced s) (Inr s')] \<and> \<not> pending))"

text \<open>
  C8: a phase is published once.  \<open>publishPhase\<close> publishes nothing when there is no bus, no phase
  yet or the annotation already names the phase.  Otherwise it publishes the stored phase exactly
  once; it records the phase in the annotation only after the bus accepted the event; and it asks
  for a retry exactly when the publish or the recording failed.
\<close>

theorem publish_once: "yields (publishPhase R s) (\<lambda>(s', pending) es. publishOutcome R s s' pending es)"
  unfolding publishPhase_def call_defs
  by (intro yields_rules) (auto simp: publishOutcome_def needsPublish_def announced_def)

lemma publishPhase_yields: "yields (publishPhase R s) (\<lambda>r es. publishOutcome R s (fst r) (snd r) es)"
  unfolding publishPhase_def call_defs
  by (intro yields_rules) (auto simp: publishOutcome_def needsPublish_def announced_def)

lemma phaseChange_phase [simp]: "ch_Phase (phaseChange s) = Phase (Status s)"
  by (simp add: phaseChange_def)

lemma publishOutcome_phase:
  assumes "publishOutcome R s s' pending es" and "phaseOK del (Phase (Status s')) ws"
  shows "phaseOK del (Phase (Status s)) (writes es @ ws)"
  using assms by (auto simp: publishOutcome_def announced_def split: if_splits)

section \<open>Deletion\<close>

definition terminating :: "LabSession \<Rightarrow> LabSession" where
  "terminating s = modStatus (\<lambda>st. st\<lparr> Phase := SessionPhaseTerminating,
     Message := ''Cleaning up lab session resources'', Usage := emptyUsage \<rparr>) s"

definition unfinalized :: "('w, 'q) LabSessionReconciler \<Rightarrow> LabSession \<Rightarrow> LabSession" where
  "unfinalized R s = s\<lparr> Meta := (Meta s)\<lparr> om_Finalizers :=
     RemoveFinalizer (Lib R) (om_Finalizers (Meta s)) LabSessionFinalizer \<rparr> \<rparr>"

definition finalReply :: "('w, 'q) LabSessionReconciler \<Rightarrow> goerror + LabSession \<Rightarrow> reply" where
  "finalReply R u = (emptyResult, case u of Inl e \<Rightarrow> if IsNotFound (Lib R) e then None else Some e | Inr _ \<Rightarrow> None)"

text \<open>
  C7: deletion is never blocked.  A reconcile of a deleted session first writes the phase
  Terminating with no usage.  If the answer is that the session no longer exists, it is done.
  Otherwise, whether or not the write and the publish succeed, its last action is the update that
  removes the controller's finalizer from the session, after at most one publish, which has a
  deadline; and it returns an error only if that update failed for another reason than the
  session being gone.
\<close>

theorem delete_removes_finalizer:
  "yields (reconcileDelete R s) (\<lambda>rep es.
     (\<exists>e. es = [UpdateStatusA (terminating s) (Inl e)] \<and> IsNotFound (Lib R) e \<and> rep = (emptyResult, None)) \<or>
     (\<exists>r s1 u. hd es = UpdateStatusA (terminating s) r \<and> s1 = (case r of Inl _ \<Rightarrow> terminating s | Inr x \<Rightarrow> x) \<and>
        last es = UpdateA (unfinalized R s1) u \<and> rep = finalReply R u \<and>
        (writes (butlast (tl es)) = [] \<or>
         (\<exists>t e. writes (butlast (tl es)) = [PublishA (Some (t + terminatingPublishTimeout)) (phaseChange s1) e]))))"
  unfolding reconcileDelete_def call_defs terminating_def [symmetric] unfinalized_def [symmetric]
  by (intro yields_rules) (auto simp: finalReply_def split: sum.splits)

lemma reconcileDelete_phase:
  "yields (reconcileDelete R s) (\<lambda>rep es. phaseOK True p (writes es))"
  unfolding reconcileDelete_def call_defs by (intro yields_rules) auto

section \<open>The reconcile loop\<close>

lemma phase_onRet:
  assumes "yields m (\<lambda>rep es. Q es)"
  shows "yields (onRet m (\<lambda>x. ret (f x))) (\<lambda>rep es. Q es)"
  by (rule yields_onRet [OF assms]) (auto intro: yields_ret)

lemma Reconcile_phase:
  assumes "owner_laws (Lib R)"
  shows "yields (Reconcile R req) (\<lambda>rep es. case es of
      GetSessionA k (Inr s) # rest \<Rightarrow> k = req \<and>
        phaseOK (om_DeletionTimestamp (Meta s) \<noteq> None) (Phase (Status s)) (writes rest)
    | _ \<Rightarrow> writes es = [])"
proof -
  have pub: "yields (onRet (reconcilePhase R s') (\<lambda>rep. ret (Returned (retryPublish p rep))))
      (\<lambda>rep fs. phaseOK False (Phase (Status s)) (writes (es @ fs)))"
    if "publishOutcome R s s' p es" for s s' p es
    using phase_onRet [OF reconcilePhase_phase [OF assms, of s']]
    by (rule yields_conseq) (use publishOutcome_phase [OF that] in auto)
  show ?thesis
    unfolding Reconcile_def call_defs
    by (intro yields_rules yields_bind [OF reconcileDelete_phase] yields_bind [OF publishPhase_yields]
        yields_conseq [OF pub]) auto
qed

text \<open>
  C2: the controller implements the phase machine.  In every reconcile, whatever the API server,
  the clock and the event bus answer, every status it writes is a step of the machine from the
  phase it read, or last wrote, or was told in answer to its patch: a session starts as Creating,
  goes from Creating to Running or Failed, from Running to Failed, never leaves Failed, and becomes
  Terminating exactly when it is being deleted.  If the session cannot be read, nothing is written.
\<close>

theorem reconcile_refines_phases:
  assumes "owner_laws (Lib R)"
  shows "yields (Reconcile R req) (\<lambda>rep es. case es of
      GetSessionA k (Inr s) # rest \<Rightarrow> k = req \<and>
        phaseOK (om_DeletionTimestamp (Meta s) \<noteq> None) (Phase (Status s)) (writes rest)
    | _ \<Rightarrow> writes es = [])"
  using assms by (rule Reconcile_phase)

text \<open>The reachable phases of the machine.\<close>

inductive phases :: "SessionPhase \<Rightarrow> SessionPhase list \<Rightarrow> bool" where
  stopped: "phases p []"
| more: "phaseStep del p q \<Longrightarrow> phases q ps \<Longrightarrow> phases p (q # ps)"

lemma failed_absorbing:
  assumes "phases p ps" and "p = SessionPhaseFailed \<or> p = SessionPhaseTerminating"
  shows "set ps \<subseteq> {SessionPhaseTerminating}"
  using assms by (induction rule: phases.induct) (auto elim: phaseStep.cases)

lemma running_needs_creating:
  assumes "phases p ps" and "SessionPhaseRunning \<in> set ps" and "p = [] \<or> p = SessionPhasePending"
  shows "hd ps = SessionPhaseCreating"
  using assms by (induction rule: phases.induct)
    (auto elim!: phaseStep.cases dest: failed_absorbing)

section \<open>Requeueing\<close>

text \<open>
  A pending publish is retried.  When a publish failed and the reconcile itself reports no
  error, the result requeues at once or within thirty seconds; in every other case the result of
  the phase's handler is returned unchanged.
\<close>

lemma publish_retry_bound:
  assumes "retryPublish pending (result, err) = (result', err')" and "0 \<le> RequeueAfter result"
  shows "err' = err \<and> Requeue result' = Requeue result \<and>
    (pending \<and> err = None \<and> \<not> Requeue result \<longrightarrow> 0 < RequeueAfter result' \<and> RequeueAfter result' \<le> publishRetryDelay) \<and>
    (\<not> pending \<longrightarrow> result' = result) \<and>
    (0 < RequeueAfter result \<and> RequeueAfter result \<le> publishRetryDelay \<longrightarrow> result' = result)"
  using assms by (auto simp: retryPublish_def publishRetryDelay_def Second_def split: if_splits)

section \<open>Ownership\<close>

lemma reconcilePending_noCreate: "yields (reconcilePending R s) (\<lambda>rep es. list_all noCreate es)"
  unfolding reconcilePending_def call_defs by (intro yields_rules) auto

lemma reconcileRunning_noCreate: "yields (reconcileRunning R s) (\<lambda>rep es. list_all noCreate es)"
  unfolding reconcileRunning_def setCondition_def call_defs
  by (intro yields_rules yields_conseq [OF fail_then_yields]) auto

text \<open>
  C4: the controller only creates what the session owns.  In every phase, every object a
  reconcile asks the API server to create is in the session's namespace and carries the session
  as its controller, so that it is garbage-collected with the session.
\<close>

theorem creates_are_owned:
  assumes "owner_laws (Lib R)"
  shows "yields (reconcilePhase R s) (\<lambda>rep es. list_all (ownedCreate (Lib R) s) es)"
proof -
  have "yields (reconcileCreating R s) (\<lambda>rep es. list_all (ownedCreate (Lib R) s) es)"
    by (rule yields_conseq [OF reconcileCreating_yields [OF assms]]) simp
  moreover have "yields (reconcilePending R s) (\<lambda>rep es. list_all (ownedCreate (Lib R) s) es)"
    by (rule yields_conseq [OF reconcilePending_noCreate]) (rule ownedCreate_noCreate)
  moreover have "yields (reconcileRunning R s) (\<lambda>rep es. list_all (ownedCreate (Lib R) s) es)"
    by (rule yields_conseq [OF reconcileRunning_noCreate]) (rule ownedCreate_noCreate)
  ultimately show ?thesis
    unfolding reconcilePhase_def reconcileFailed_def Let_def by (auto intro: yields_ret)
qed

section \<open>Running sessions\<close>

definition reportsFailed :: "'q action list \<Rightarrow> bool" where
  "reportsFailed es \<longleftrightarrow> list_ex (\<lambda>a. case a of UpdateStatusA s r \<Rightarrow> Phase (Status s) = SessionPhaseFailed | _ \<Rightarrow> False) (writes es)"

lemma failedWrite_reports: "failedWrite s m err es \<Longrightarrow> reportsFailed es"
  by (auto simp: failedWrite_def failedStatus_def reportsFailed_def)

lemma reportsFailed_quiet [simp]:
  "writes es = [] \<Longrightarrow> \<not> reportsFailed es"
  "quietA a \<Longrightarrow> reportsFailed (a # es) = reportsFailed es"
  "Phase (Status s) \<noteq> SessionPhaseFailed \<Longrightarrow> reportsFailed (UpdateStatusA s r # es) = reportsFailed es"
  by (simp_all add: reportsFailed_def)

definition podGone :: "('w, 'q) LabSessionReconciler \<Rightarrow> LabSession \<Rightarrow> goerror + 'q Pod \<Rightarrow> bool" where
  \<comment> \<open>The session has no pod, or the pod has stopped for good.\<close>
  "podGone R s r \<longleftrightarrow> PodName (Status s) = [] \<or>
     (case r of Inl e \<Rightarrow> IsNotFound (Lib R) e | Inr pod \<Rightarrow> podTerminalReason pod \<noteq> [])"

abbreviation podReadyOf :: "LabSession \<Rightarrow> Condition option" where
  "podReadyOf s \<equiv> find (\<lambda>c. cond_Type c = ConditionTypePodReady) (Conditions (Status s))"

definition markedUnready :: "LabSession \<Rightarrow> goerror + 'q Pod \<Rightarrow> Condition \<Rightarrow> bool" where
  \<comment> \<open>The pod is not ready, and the session, as it was read, has a PodReady condition that is not true.\<close>
  "markedUnready s r c \<longleftrightarrow> (\<exists>pod. r = Inr pod \<and> \<not> isPodReady pod) \<and> podReadyOf s = Some c \<and> cond_Status c \<noteq> ConditionTrue"

definition unreadyTooLong :: "LabSession \<Rightarrow> goerror + 'q Pod \<Rightarrow> 'q action list \<Rightarrow> bool" where
  \<comment> \<open>\<dots> which, by the clock, has not been true for more than two minutes.\<close>
  "unreadyTooLong s r es \<longleftrightarrow> (\<exists>c t. markedUnready s r c \<and> NowA t \<in> set es \<and>
     t - cond_LastTransitionTime c > podUnreadyTimeout)"

definition notedUnready :: "LabSession \<Rightarrow> goerror + 'q Pod \<Rightarrow> 'q action list \<Rightarrow> bool" where
  \<comment> \<open>The pod is not ready and the session's PodReady condition was true; the reconcile stored it as false
      since now, and the answer of the API server has a condition older than two minutes.\<close>
  "notedUnready s r es \<longleftrightarrow> (\<exists>pod old x c y cond t. r = Inr pod \<and> \<not> isPodReady pod \<and>
     podReadyOf s = Some old \<and> cond_Status old = ConditionTrue \<and>
     UpdateStatusA x (Inr y) \<in> set es \<and> podReadyOf x = Some c \<and> cond_Status c = ConditionFalse \<and>
     NowA (cond_LastTransitionTime c) \<in> set es \<and> podReadyOf y = Some cond \<and>
     NowA t \<in> set es \<and> t - cond_LastTransitionTime cond > podUnreadyTimeout)"

fun storesConditions :: "'q action \<Rightarrow> bool" where
  \<comment> \<open>An accepted status is answered with the conditions that were sent.\<close>
  "storesConditions (UpdateStatusA x (Inr y)) = (Conditions (Status y) = Conditions (Status x))"
| "storesConditions _ = True"

definition clockWithin :: "duration \<Rightarrow> 'q action list \<Rightarrow> bool" where
  "clockWithin d es \<longleftrightarrow> (\<forall>t t'. NowA t \<in> set es \<and> NowA t' \<in> set es \<longrightarrow> t' - t \<le> d)"

lemma notedUnreadyI:
  assumes "\<not> isPodReady pod" and "podReadyOf s = Some old" and "cond_Status old = ConditionTrue"
    and "podReadyOf y = Some cond" and "podUnreadyTimeout < t - cond_LastTransitionTime cond"
    and "cond_Type d = ConditionTypePodReady \<and> cond_Status d = ConditionFalse"
  shows "notedUnready s (Inr pod) (a # NowA (cond_LastTransitionTime d) #
    UpdateStatusA (modStatus (Conditions_update (\<lambda>_. putCondition d (Conditions (Status s)))) s) (Inr y) # NowA t # es)"
proof -
  have "podReadyOf (modStatus (Conditions_update (\<lambda>_. putCondition d (Conditions (Status s)))) s) = Some d"
    using assms(2,3,6) by (simp add: putCondition_find)
  with assms show ?thesis unfolding notedUnready_def by fastforce
qed

lemma notedUnready_abnormal:
  assumes "notedUnready s r es"
  shows "\<not> (list_all storesConditions es \<and> clockWithin podUnreadyTimeout es)"
proof
  assume ok: "list_all storesConditions es \<and> clockWithin podUnreadyTimeout es"
  obtain x c y cond t where u: "UpdateStatusA x (Inr y) \<in> set es" "podReadyOf x = Some c" "podReadyOf y = Some cond"
      "NowA (cond_LastTransitionTime c) \<in> set es" "NowA t \<in> set es" "t - cond_LastTransitionTime cond > podUnreadyTimeout"
    using assms by (auto simp: notedUnready_def)
  from u(1) ok have "storesConditions (UpdateStatusA x (Inr y) :: 'a action)" by (auto simp: list_all_iff)
  with u(2,3) have "cond = c" by simp
  with u(4-6) ok show False by (force simp: clockWithin_def)
qed

definition unreadyExact :: "LabSession \<Rightarrow> goerror + 'q Pod \<Rightarrow> 'q action list \<Rightarrow> bool" where
  \<comment> \<open>A session that is marked as unready fails exactly when the two minutes are over.\<close>
  "unreadyExact s r es \<longleftrightarrow> (\<forall>c. markedUnready s r c \<longrightarrow>
     (\<exists>t. es ! 1 = NowA t \<and> (reportsFailed es \<longleftrightarrow> t - cond_LastTransitionTime c > podUnreadyTimeout)))"

lemma condition_lawsD:
  assumes "condition_laws L"
  shows "FindStatusCondition L cs t = find (\<lambda>c. cond_Type c = t) cs"
    "IsStatusConditionTrue L cs t \<longleftrightarrow> (\<exists>c. find (\<lambda>c. cond_Type c = t) cs = Some c \<and> cond_Status c = ConditionTrue)"
  using assms by (simp_all add: condition_laws_def)

lemma reconcileRunning_fails:
  assumes "condition_laws (Lib R)" and "Phase (Status s) = SessionPhaseRunning"
  shows "yields (reconcileRunning R s) (\<lambda>rep es. \<exists>r. hd es = GetPodA (objKey s (PodName (Status s))) r \<and>
     (reportsFailed es \<longrightarrow> podGone R s r \<or> unreadyTooLong s r es \<or> notedUnready s r es) \<and>
     (case rep of
        Panicked p \<Rightarrow> podGone R s r \<and> BuildPVCs (Lib R) (Settings R) s = None \<or>
          unreadyTooLong s r es \<or> notedUnready s r es
      | Returned (result, err) \<Rightarrow>
          (if podGone R s r then reportsFailed es
           else unreadyExact s r es \<and> (\<forall>e. r = Inl e \<longrightarrow> err = Some e) \<and>
             (\<forall>pod. r = Inr pod \<and> isPodReady pod \<and> err = None \<longrightarrow> result = requeueAfter Minute))))"
  using assms(2) unfolding reconcileRunning_def setCondition_def call_defs objKey_def condition_lawsD [OF assms(1)]
  by (intro yields_rules yields_conseq [OF fail_then_yields])
    (auto simp: podGone_def unreadyTooLong_def markedUnready_def unreadyExact_def
      intro: notedUnreadyI [where d = "\<lparr> cond_Type = ConditionTypePodReady, cond_Status = ConditionFalse,
        cond_ObservedGeneration = g, cond_LastTransitionTime = t0, cond_Reason = rs, cond_Message = ms \<rparr>"
        for g t0 rs ms, simplified]
      dest!: failedWrite_reports split: outcome.splits sum.splits)


end
