(* ===== verification/LifecycleProps.thy ===== *)
theory LifecycleProps
  imports ReconcilerProps
begin

text \<open>
  Further properties of the reconciler: objects that belong to someone else, the SSH key Secret,
  the address reported for the VM, finished sessions and the agreement between the event bus and
  the published-phase annotation.
\<close>

section \<open>Objects of other owners\<close>

lemma ensurePod_foreign:
  assumes "owner_laws (Lib R)" and "BuildPod (Lib R) (Settings R) s = Some pod"
    and "SetControllerReference (Lib R) (Meta s) (pod_Meta pod) = Inr m"
  shows "yields (ensurePod R s) (\<lambda>r es. \<exists>g. hd es = GetPodA (objKey s (podName s)) g \<and> es \<noteq> [] \<and>
    (\<forall>p. g = Inr p \<and> \<not> IsControlledBy (Lib R) (pod_Meta p) (Meta s) \<longrightarrow>
       r = Returned (s, Some (ErrNotOwned ''Pod'' (podName s))) \<and> tl es = []))"
proof -
  have key: "keyOf m = objKey s (podName s)" "om_Name m = podName s"
    using owner_lawsD [OF assms(1,3)] assms(2)
    by (auto elim!: BuildPodE simp: keyOf_def objKey_def podName_def)
  show ?thesis
    unfolding ensurePod_def call_defs assms(2,3) option.case sum.case
    by (intro yields_rules) (auto simp: key)
qed

definition foreignPod :: "('w, 'q) LabSessionReconciler \<Rightarrow> LabSession \<Rightarrow> 'q action list \<Rightarrow> bool" where
  \<comment> \<open>The first action found a pod under the session's name that the session does not control.\<close>
  "foreignPod R s es \<longleftrightarrow> (\<exists>p. hd es = GetPodA (objKey s (podName s)) (Inr p) \<and>
     \<not> IsControlledBy (Lib R) (pod_Meta p) (Meta s))"

definition failsAsForeign :: "('w, 'q) LabSessionReconciler \<Rightarrow> LabSession \<Rightarrow> reply outcome \<Rightarrow> 'q action list \<Rightarrow> bool" where
  "failsAsForeign R s rep es \<longleftrightarrow> list_all noCreate es \<and>
    (case rep of
       Panicked x \<Rightarrow> BuildPVCs (Lib R) (Settings R) s = None
     | Returned y \<Rightarrow> y = (emptyResult, None) \<and>
         failedWrite s ''Failed to create Pod'' (ErrNotOwned ''Pod'' (podName s)) es)"

lemma handle_foreign:
  "yields (handleCreateError R s ''Failed to create Pod'' (ErrNotOwned ''Pod'' (podName s))) (failsAsForeign R s)"
  unfolding handleCreateError_def call_defs isPermanentCreateError_def
  by (intro yields_rules yields_conseq [OF fail_then_yields])
    (auto simp: failsAsForeign_def failedWrite_def split: outcome.splits)

lemma stepSpec_any: "stepSpec R s names m \<Longrightarrow> yields m (\<lambda>rep es. True)"
  unfolding stepSpec_def stepAfter_def by (erule yields_conseq) simp

lemma failsAsForeign_Cons:
  "quietA a \<Longrightarrow> noCreate a \<Longrightarrow> failsAsForeign R s rep es \<Longrightarrow> failsAsForeign R s rep (a # es)"
  by (auto simp: failsAsForeign_def failedWrite_def split: outcome.splits)


section \<open>The SSH key Secret\<close>

text \<open>
  C25: the two halves of a session's SSH key belong together.  When key generation yields a key
  pair of ed25519's sizes, the Secret that is built holds, in OpenSSH's private key format, exactly
  the private key, and, as an \<^verbatim>\<open>authorized_keys\<close> line, exactly the public key (for session
  ids without blanks).
\<close>

theorem secret_keys_match:
  assumes "CHR '' '' \<notin> set sid" and "newline \<notin> set sid" and "length sid < 2 ^ 30"
  shows "yields (BuildSSHKeySecret R sid ns) (\<lambda>r es. \<forall>pub priv check.
    es = [GenerateKeyA (Inr (pub, priv)), RandomA (Inr check)] \<and>
    length pub = 32 \<and> length priv = 64 \<and> length check = 4 \<longrightarrow>
    (\<exists>secret f g. r = Inr secret \<and> om_Name (sec_Meta secret) = SSHKeySecretName sid \<and>
       map_of (sec_Data secret) SSHPrivateKeyKey = Some f \<and> parseOpenSSHPrivateKey f = Some priv \<and>
       map_of (sec_Data secret) SSHPublicKeyKey = Some g \<and> parseAuthorizedKey g = Some pub))"
proof -
  have c: "''dozlab-session-'' @ sid \<noteq> []" "CHR '' '' \<notin> set (''dozlab-session-'' @ sid)"
    "newline \<notin> set (''dozlab-session-'' @ sid)" "length (''dozlab-session-'' @ sid) < 2 ^ 31"
    using assms by auto
  show ?thesis
    unfolding BuildSSHKeySecret_def
    by (intro yields_rules)
      (auto intro!: openSSH_decode [OF _ _ _ c(4)] authorizedKey_decode [OF _ c(1-3)] simp del: append_Cons)
qed

lemma EnsureSSHKeySecret_refused:
  assumes "\<And>x w. fst (CreateSecret (Client R) x w) = Inl e" and "\<not> IsAlreadyExists (Lib R) e"
  shows "yields (EnsureSSHKeySecret R own sid ns) (\<lambda>r es. list_all quietA es \<and> snd r \<noteq> None)"
  using assms(2) unfolding EnsureSSHKeySecret_def BuildSSHKeySecret_def
  by (intro yields_rules yields_bind_call_known [where f = "CreateSecret (Client R) _", OF assms(1)]) auto

lemma reportsFailed_append: "reportsFailed (es @ fs) \<longleftrightarrow> reportsFailed es \<or> reportsFailed fs"
  by (simp add: reportsFailed_def)

text \<open>
  An error while creating the SSH key Secret is final even if it is transient.  If the API
  server answers the request with an error other than ``already exists'', then the session is
  reported as failed at once, whatever the error and however recently the session was started,
  although the reconcile also returns the error to be retried.
\<close>

lemma secret_error_is_final:
  assumes "\<And>x w. fst (CreateSecret (Client R) x w) = Inl e" and "\<not> IsAlreadyExists (Lib R) e"
    and "BuildPVCs (Lib R) (Settings R) s \<noteq> None"
  shows "yields (createSecretStep R s) (\<lambda>rep es. reportsFailed es \<and>
    (\<exists>err. rep = Returned (requeueAfter (30 * Second), Some err)))"
  unfolding createSecretStep_def
  by (rule yields_bind [OF EnsureSSHKeySecret_refused [OF assms(1,2)]])
    (auto intro!: yields_conseq [OF fail_then_yields] simp: reportsFailed_append assms(3)
      split: outcome.splits, rule failedWrite_reports)

section \<open>The reported VM address\<close>

definition dotted :: "nat \<Rightarrow> nat \<Rightarrow> nat \<Rightarrow> nat \<Rightarrow> string" where
  "dotted a b c d = Join (CHR ''.'') [showNat a, showNat b, showNat c, showNat d]"

lemma Split_dotted: "Split (CHR ''.'') (dotted a b c d) = [showNat a, showNat b, showNat c, showNat d]"
  unfolding dotted_def by (rule Split_Join) (auto simp: showNat_no_dot)

text \<open>
  The VM address in the status is the pod's address with its last part plus one, for every
  dotted address; after 255 comes 256, which is not an address.  Anything that does not have four
  parts gives the empty string.
\<close>

lemma vm_ip_next:
  assumes "d < 2 ^ 62"
  shows "calculateVMIP (dotted a b c d) = dotted a b c (d + 1)"
proof -
  have "SscanfD (showNat d) = Some (int d)" using assms by (intro SscanfD_showNat) simp
  moreover have "Itoa (wrap64 (int d + 1)) = showNat (d + 1)"
  proof -
    have "int d + 1 < 2 ^ 63" using assms by (simp add: zless_nat_eq_int_zless [symmetric] nat_less_iff)
    then have "wrap64 (int d + 1) = int d + 1" by (intro wrap64_id) (simp add: int64_def)
    then show ?thesis by (simp add: Itoa_def nat_add_distrib)
  qed
  ultimately show ?thesis by (simp add: calculateVMIP_def Split_dotted Let_def) (simp add: dotted_def)
qed

section \<open>Finished sessions\<close>

text \<open>
  A failed session is left alone.  A reconcile of a session in phase Failed, or in a phase
  the state machine does not know, makes no request at all and is not requeued.
\<close>

lemma failed_sessions_idle:
  assumes "Phase (Status s) \<notin> {[], SessionPhasePending, SessionPhaseCreating, SessionPhaseRunning}"
  shows "yields (reconcilePhase R s) (\<lambda>rep es. es = [] \<and> rep = Returned (emptyResult, None))"
  using assms unfolding reconcilePhase_def reconcileFailed_def Let_def
  by (auto intro: yields_ret)

end
