(* ===== verification/ControllerSetup.thy ===== *)
theory ControllerSetup
  imports LifecycleProps
begin

text \<open>
  How \<^verbatim>\<open>cmd/controller/main.go\<close> puts the controller together: the settings from flags and
  environment, validated; the RabbitMQ publisher if a broker URL is configured; the reconciler on
  top of both.  The external state of the assembled controller is the publisher, the state the
  broker library and the API client work on, and the trace of broker calls.

  The locale \<open>announcing\<close> states what the reconciler needs from an event bus and a client for
  the published-phase annotation to be truthful; it is interpreted on the assembled controller.
\<close>

section \<open>Assembly\<close>

type_synonym 'v busWorld = "RabbitPublisher \<times> ('v, busAction) world"

definition liftBus :: "('v \<Rightarrow> 'r \<times> 'v) \<Rightarrow> 'v busWorld \<Rightarrow> 'r \<times> 'v busWorld" where
  \<comment> \<open>A client call works on the external state only.\<close>
  "liftBus f s = (case f (ext (snd s)) of (r, x) \<Rightarrow> (r, fst s, (snd s)\<lparr> ext := x \<rparr>))"

definition clientOf :: "('v, 'q) kube \<Rightarrow> ('v busWorld, 'q) kube" where
  "clientOf K = \<lparr>
     GetSession = (\<lambda>k. liftBus (GetSession K k)), GetPVC = (\<lambda>k. liftBus (GetPVC K k)),
     GetPod = (\<lambda>k. liftBus (GetPod K k)), GetService = (\<lambda>k. liftBus (GetService K k)),
     GetIngress = (\<lambda>k. liftBus (GetIngress K k)), CreatePVC = (\<lambda>x. liftBus (CreatePVC K x)),
     CreateSecret = (\<lambda>x. liftBus (CreateSecret K x)), CreatePod = (\<lambda>x. liftBus (CreatePod K x)),
     CreateService = (\<lambda>x. liftBus (CreateService K x)), CreateIngress = (\<lambda>x. liftBus (CreateIngress K x)),
     UpdateSession = (\<lambda>x. liftBus (UpdateSession K x)),
     UpdateSessionStatus = (\<lambda>x. liftBus (UpdateSessionStatus K x)),
     PatchSession = (\<lambda>b x. liftBus (PatchSession K b x)),
     RecordEvent = (\<lambda>t r m. liftBus (RecordEvent K t r m)), Clock = liftBus (Clock K),
     GenerateKey = liftBus (GenerateKey K), ReadRandom = liftBus (ReadRandom K) \<rparr>"

definition rabbitMQURL :: "environ \<Rightarrow> (string \<times> string) list \<Rightarrow> string" where
  "rabbitMQURL Getenv args = flagOr args ''rabbitmq-url'' (Getenv ''RABBITMQ_URL'')"

definition setupReconciler ::
  "'v amqp \<Rightarrow> ('v, 'q) kube \<Rightarrow> 'q k8slib \<Rightarrow> urlParse \<Rightarrow> environ \<Rightarrow> (string \<times> string) list \<Rightarrow>
   (('v busWorld, 'q) LabSessionReconciler \<times> RabbitPublisher) option" where
  \<comment> \<open>\<open>None\<close>: the settings are invalid and the process exits.\<close>
  "setupReconciler A K L parse Getenv args =
     (let podSettings = BindFlags Getenv args in
      if Validate L parse podSettings \<noteq> [] then None
      else Some (\<lparr> Client = clientOf K, Lib = L, Settings = podSettings,
                    Events = (if rabbitMQURL Getenv args \<noteq> [] then Some (rabbitPublish A) else None) \<rparr>,
                 NewRabbitPublisher (rabbitMQURL Getenv args)))"

section \<open>Truthful announcements\<close>

locale announcing = event_bus publish delivered
  for publish :: "time option \<Rightarrow> PhaseChange \<Rightarrow> 's \<Rightarrow> goerror option \<times> 's"
    and delivered :: "'s \<Rightarrow> string \<Rightarrow> bool" +
  fixes patch :: "LabSession \<Rightarrow> LabSession \<Rightarrow> 's \<Rightarrow> (goerror + LabSession) \<times> 's"
  assumes patch_keeps: "delivered w i \<Longrightarrow> delivered (snd (patch b s w)) i"
begin

lemma announced_delivered:
  assumes "Events R = Some publish" and "PatchSession (Client R) = patch"
    and "run_state (publishPhase R s) w = ((s', pending), w')" and "needsPublish R s" and "\<not> pending"
  shows "delivered (ext w') (eventID (phaseChange s))"
proof -
  obtain err x where p: "publish None (phaseChange s) (ext w) = (err, x)" by fastforce
  have "err = None"
    using assms p by (auto simp: publishPhase_def needsPublish_def Let_def split: option.splits)
  moreover have "ext w' = snd (patch s (announced s) x)" if "err = None"
    using assms p that
    by (auto simp: publishPhase_def needsPublish_def announced_def call_defs Let_def split: prod.splits sum.splits)
  ultimately show ?thesis using publish_delivers p patch_keeps by auto
qed

end

lemma liftBus_delivered: "rabbitDelivered s i \<Longrightarrow> rabbitDelivered (snd (liftBus f s)) i"
  by (simp add: rabbitDelivered_def liftBus_def split: prod.splits)

interpretation assembled: announcing "rabbitPublish A" rabbitDelivered "\<lambda>b x. liftBus (PatchSession K b x)"
  for A :: "'v amqp" and K :: "('v, 'q) kube"
  by unfold_locales (rule liftBus_delivered)

text \<open>
  C9: announcements are truthful.  In the controller that \<^verbatim>\<open>main\<close> assembles with a broker URL,
  when \<open>publishPhase\<close> had to publish a phase and reports success, the broker has confirmed the
  event that carries the session's UID and phase.
\<close>

theorem announcement_truthful:
  assumes "setupReconciler A K L parse Getenv args = Some (R, p)" and "rabbitMQURL Getenv args \<noteq> []"
    and "run_state (publishPhase R s) w = ((s', pending), w')" and "needsPublish R s" and "\<not> pending"
  shows "deliveredId (trace (snd (ext w'))) (eventID (phaseChange s))"
proof -
  have "Events R = Some (rabbitPublish A)" "PatchSession (Client R) = (\<lambda>b x. liftBus (PatchSession K b x))"
    using assms(1,2) by (auto simp: setupReconciler_def clientOf_def Let_def split: if_splits)
  from assembled.announced_delivered [OF this assms(3-5)] show ?thesis
    by (simp add: rabbitDelivered_def)
qed

section \<open>Panics\<close>

fun returned :: "'a outcome \<Rightarrow> bool" where
  "returned (Returned x) = True"
| "returned (Panicked p) = False"

lemma BuildPVCs_same: "sameSession s s' \<Longrightarrow> BuildPVCs L rb s' = BuildPVCs L rb s"
  by (simp add: BuildPVCs_def buildPVC_def sameSession_fields)

lemma fail_returns:
  assumes "BuildPVCs (Lib R) (Settings R) s \<noteq> None"
  shows "yields (onRet (updateStatusFailed R s m e) (\<lambda>_. ret (Returned x))) (\<lambda>r es. returned r)"
  by (rule yields_conseq [OF fail_then_yields]) (use assms in \<open>auto split: outcome.splits\<close>)

lemma handleCreateError_returns:
  assumes "BuildPVCs (Lib R) (Settings R) s \<noteq> None"
  shows "yields (handleCreateError R s m e) (\<lambda>r es. returned r)"
  unfolding handleCreateError_def call_defs
  by (intro yields_rules fail_returns [OF assms]) auto

lemma checkPod_returns:
  assumes "BuildPVCs (Lib R) (Settings R) s \<noteq> None"
  shows "yields (checkPod R s) (\<lambda>r es. returned r)"
proof -
  have run: "yields (becomeRunning R s pod) (\<lambda>r es. returned r)" for pod
    using assms unfolding becomeRunning_def setCondition_def call_defs
    by (intro yields_rules yields_bind [OF updateEndpoints_yields]) auto
  show ?thesis
    unfolding checkPod_def call_defs by (intro yields_rules fail_returns [OF assms] run) auto
qed

lemma ensurePod_returns:
  assumes "BuildPod (Lib R) (Settings R) s \<noteq> None"
  shows "yields (ensurePod R s) (\<lambda>r es. \<exists>s' e. r = Returned (s', e) \<and> sameSession s s')"
  using assms unfolding ensurePod_def call_defs by (intro yields_rules) auto

lemma ensureService_same: "yields (ensureService R s) (\<lambda>r es. sameSession s (fst r))"
  unfolding ensureService_def call_defs by (intro yields_rules) auto

lemma ensureIngress_any: "yields (ensureIngress R s) (\<lambda>r es. True)"
  unfolding ensureIngress_def call_defs by (intro yields_rules) auto

lemma EnsureSSHKeySecret_any: "yields (EnsureSSHKeySecret R own sid ns) (\<lambda>r es. True)"
  unfolding EnsureSSHKeySecret_def BuildSSHKeySecret_def by (intro yields_rules) auto

lemma ensurePVCs_returns:
  assumes "BuildPVCs (Lib R) (Settings R) s \<noteq> None"
  shows "yields (ensurePVCs R s) (\<lambda>r es. returned r)"
proof -
  have any: "yields (ensurePVC R s pvc) (\<lambda>r es. True)" for pvc
    unfolding ensurePVC_def call_defs by (intro yields_rules) auto
  have loop: "yields (ensurePVCLoop R s pvcs) (\<lambda>r es. True)" for pvcs
    by (induction pvcs) (auto intro!: yields_rules yields_bind [OF any])
  show ?thesis
    using assms unfolding ensurePVCs_def by (intro yields_rules yields_bind [OF loop]) auto
qed

lemma createServiceStep_returns:
  assumes "BuildPVCs (Lib R) (Settings R) s \<noteq> None"
  shows "yields (createServiceStep R s) (\<lambda>r es. returned r)"
proof -
  note [simp] = handleCreateError_returns checkPod_returns
  have ing: "yields (createIngressStep R s') (\<lambda>r es. returned r)" if "BuildPVCs (Lib R) (Settings R) s' \<noteq> None" for s'
    using that unfolding createIngressStep_def
    by (intro yields_bind [OF ensureIngress_any]) (auto split: option.split)
  show ?thesis
    using assms unfolding createServiceStep_def
    by (intro yields_bind [OF ensureService_same]) (auto split: option.split simp: ing BuildPVCs_same)
qed

text \<open>
  C27: the creating phase does not panic.  With settings that \<^verbatim>\<open>main\<close> accepted, a reconcile of a
  creating session returns (a result or an error) for every session whose storage request is
  missing or parses.
\<close>

theorem creating_returns:
  assumes "setupReconciler A K L parse Getenv args = Some (R, p)" and "literals_parse L"
    and "rc_Storage (Resources (Spec s)) = [] \<or> MustParse L (rc_Storage (Resources (Spec s))) \<noteq> None"
  shows "yields (reconcileCreating R s) (\<lambda>r es. returned r)"
proof -
  from assms(1) have R: "Lib R = L" "Validate L parse (Settings R) = []"
    by (auto simp: setupReconciler_def Let_def split: if_splits)
  have pvcs: "BuildPVCs (Lib R) (Settings R) s \<noteq> None"
    using BuildPVCs_None_iff [OF assms(2)] assms(3) by (auto simp: R(1))
  obtain q where "ParseQuantity L (VMDiskSize (Settings R)) = Inr q"
    using R(2) by (rule Validate_diskSize)
  then have pod: "BuildPod (Lib R) (Settings R) s \<noteq> None"
    using BuildPod_None_iff [OF assms(2)] by (simp add: R(1) diskSize_def MustParse_def)
  have step: "yields (createPodStep R s) (\<lambda>r es. returned r)"
    unfolding createPodStep_def
    by (rule yields_onRet [OF ensurePod_returns [OF pod]])
      (use pvcs in \<open>auto split: option.split simp: handleCreateError_returns createServiceStep_returns BuildPVCs_same\<close>)
  have secret: "yields (createSecretStep R s) (\<lambda>r es. returned r)"
    unfolding createSecretStep_def call_defs
    by (intro yields_bind [OF EnsureSSHKeySecret_any] yields_rules fail_returns [OF pvcs] step)
  show ?thesis
    unfolding reconcileCreating_def
    by (rule yields_onRet [OF ensurePVCs_returns [OF pvcs]])
      (auto split: option.split simp: handleCreateError_returns [OF pvcs] secret)
qed

end
