(* ===== verification/SampleCluster.thy ===== *)
theory SampleCluster
  imports ControllerSetup
begin

text \<open>
  A concrete surrounding for the model: a small implementation of the library functions (with
  quantities as integers, in thousandths), of the API server and of the broker.  It shows that the
  hypotheses about external code can hold together and is what the witnesses run on; no theorem
  about the program depends on it.
\<close>

section \<open>Library functions\<close>

fun errorReason :: "goerror \<Rightarrow> string" where
  "errorReason (ErrExternal r m) = r"
| "errorReason (ErrWrap p e) = errorReason e"
| "errorReason _ = []"

definition unitFactor :: "string \<Rightarrow> int option" where
  "unitFactor u = map_of [([], 1000), (''m'', 1), (''Ki'', 1000 * 2 ^ 10), (''Mi'', 1000 * 2 ^ 20), (''Gi'', 1000 * 2 ^ 30)] u"

definition parseSample :: "string \<Rightarrow> goerror + int" where
  "parseSample s = (let ds = takeWhile isDigit s in
     case unitFactor (dropWhile isDigit s) of
       None \<Rightarrow> Inl (ErrNew ''quantities must match the regular expression'')
     | Some f \<Rightarrow> if ds = [] then Inl (ErrNew ''quantities must match the regular expression'')
                else Inr (int (readDigits ds) * f))"

definition sampleOwner :: "ObjectMeta \<Rightarrow> OwnerReference" where
  "sampleOwner own = \<lparr> or_Kind = ''LabSession'', or_Name = om_Name own, or_UID = om_UID own, or_Controller = True \<rparr>"

definition sampleLib :: "int k8slib" where
  "sampleLib = \<lparr>
     IsNotFound = (\<lambda>e. errorReason e = ''NotFound''), IsAlreadyExists = (\<lambda>e. errorReason e = ''AlreadyExists''),
     IsInvalid = (\<lambda>e. errorReason e = ''Invalid''), IsBadRequest = (\<lambda>e. errorReason e = ''BadRequest''),
     IsConflict = (\<lambda>e. errorReason e = ''Conflict''),
     ParseQuantity = parseSample, QSign = sgn, QValue = (\<lambda>q. - ((- q) div 1000)), QMilliValue = (\<lambda>q. q),
     QAdd = (+), QCmp = (\<lambda>a b. sgn (a - b)), QIsZero = (\<lambda>q. q = 0), QString = (\<lambda>q. Itoa q @ ''m''), QZero = 0,
     NewQuantity = (\<lambda>v f. 1000 * v), NewMilliQuantity = (\<lambda>v f. v),
     IsControlledBy = (\<lambda>obj own. list_ex (\<lambda>r. or_Controller r \<and> or_UID r = om_UID own) (om_OwnerReferences obj)),
     SetControllerReference = (\<lambda>own obj. Inr (obj\<lparr> om_OwnerReferences := sampleOwner own # om_OwnerReferences obj \<rparr>)),
     ContainsFinalizer = (\<lambda>fs f. f \<in> set fs), AddFinalizer = (\<lambda>fs f. if f \<in> set fs then fs else fs @ [f]),
     RemoveFinalizer = (\<lambda>fs f. filter (\<lambda>x. x \<noteq> f) fs),
     FindStatusCondition = (\<lambda>cs t. find (\<lambda>c. cond_Type c = t) cs),
     IsStatusConditionTrue = (\<lambda>cs t. case find (\<lambda>c. cond_Type c = t) cs of None \<Rightarrow> False | Some c \<Rightarrow> cond_Status c = ConditionTrue),
     IsDNS1123Subdomain = (\<lambda>s. []) \<rparr>"

definition sampleAmount :: "int \<Rightarrow> rat" where
  "sampleAmount q = of_int q / 1000"

lemma sample_quantity_laws: "quantity_laws sampleLib sampleAmount"
proof -
  have "- ((- q) div 1000) = \<lceil>of_int q / (1000 :: rat)\<rceil>" for q :: int
    using ceiling_divide_eq_div [of q 1000, where ?'a = rat] by simp
  then show ?thesis
    by (simp add: quantity_laws_def sampleLib_def sampleAmount_def add_divide_distrib)
qed

lemma sample_owner_laws [simp]: "owner_laws sampleLib"
  by (simp add: owner_laws_def sampleLib_def sampleOwner_def)

lemma sample_condition_laws: "condition_laws sampleLib"
  by (auto simp: condition_laws_def sampleLib_def split: option.splits)

lemma sample_finalizer_laws: "finalizer_laws sampleLib"
  by (auto simp: finalizer_laws_def sampleLib_def)

lemma sample_literals [simp]: "literals_parse sampleLib"
  by code_simp

lemma sample_literal_amounts: "literal_amounts sampleLib sampleAmount"
proof -
  have "MustParse sampleLib ''100m'' = Some 100" "MustParse sampleLib ''250m'' = Some 250"
    "MustParse sampleLib ''500m'' = Some 500" "MustParse sampleLib ''256Mi'' = Some (1000 * 2 ^ 28)"
    "MustParse sampleLib ''1Gi'' = Some (1000 * 2 ^ 30)"
    by code_simp+
  then show ?thesis by (simp add: literal_amounts_def sampleAmount_def)
qed

section \<open>API server\<close>

text \<open>The clock and the pods; a pod runs and is ready as soon as it is created.\<close>

type_synonym cluster = "int \<times> (NamespacedName \<times> int Pod) list"

definition readyStatus :: PodStatus where
  "readyStatus = emptyPodStatus\<lparr> pst_Phase := PodRunning, pst_PodIP := ''10.0.0.7'',
     pst_Conditions := [\<lparr> pc_Type = PodReady, pc_Status = ConditionTrue \<rparr>] \<rparr>"

definition notFound :: goerror where
  "notFound = ErrExternal ''NotFound'' ''not found''"

definition sampleKube :: "LabSession \<Rightarrow> (cluster, int) kube" where
  "sampleKube stored = \<lparr>
     GetSession = (\<lambda>k w. (Inr stored, w)), GetPVC = (\<lambda>k w. (Inl notFound, w)),
     GetPod = (\<lambda>k w. (case map_of (snd w) k of None \<Rightarrow> Inl notFound | Some p \<Rightarrow> Inr p, w)),
     GetService = (\<lambda>k w. (Inl notFound, w)), GetIngress = (\<lambda>k w. (Inl notFound, w)),
     CreatePVC = (\<lambda>x w. (Inr x, w)), CreateSecret = (\<lambda>x w. (Inr x, w)),
     CreatePod = (\<lambda>p w. (Inr p, (fst w, (keyOf (pod_Meta p), p\<lparr> pod_Status := readyStatus \<rparr>) # snd w))),
     CreateService = (\<lambda>x w. (Inr x, w)), CreateIngress = (\<lambda>x w. (Inr x, w)),
     UpdateSession = (\<lambda>x w. (Inr x, w)), UpdateSessionStatus = (\<lambda>x w. (Inr x, w)),
     PatchSession = (\<lambda>b x w. (Inr x, w)), RecordEvent = (\<lambda>t r m w. ((), w)),
     Clock = (\<lambda>w. (fst w, (fst w + Second, snd w))),
     GenerateKey = (\<lambda>w. (Inr (replicate 32 (CHR ''p''), replicate 64 (CHR ''s'')), w)),
     ReadRandom = (\<lambda>w. (Inr ''abcd'', w)) \<rparr>"

definition sampleSettings :: PodSettings where
  "sampleSettings = \<lparr> VMImage = ''vm'', InitImage = ''init'', TerminalImage = ''term'', SSHUser = ''root'',
     VMDiskSize = ''4Gi'', StorageClass = [], IngressClass = ''traefik'', IngressMiddleware = [],
     PublicBaseURL = ''https://labs.example.org/'', ImagePullSecrets = [] \<rparr>"

definition sampleSession :: LabSession where
  "sampleSession = (newSession ''labs'' ''s1'' ''user'' ''demo'')\<lparr>
     Meta := emptyMeta\<lparr> om_Name := ''s1'', om_Namespace := ''labs'', om_UID := ''uid-1'',
       om_Finalizers := [LabSessionFinalizer] \<rparr> \<rparr>"

definition inPhase :: "SessionPhase \<Rightarrow> LabSession" where
  "inPhase p = modStatus (\<lambda>st. st\<lparr> Phase := p \<rparr>) sampleSession"

definition sampleR :: "(cluster, int) LabSessionReconciler" where
  "sampleR = \<lparr> Client = sampleKube sampleSession, Lib = sampleLib, Settings = sampleSettings, Events = None \<rparr>"

definition startWorld :: "(cluster, int action) world" where
  "startWorld = \<lparr> ext = (0, []), trace = [] \<rparr>"

definition sampleTrace :: "(cluster, int, 'a) rec \<Rightarrow> int action list" where
  "sampleTrace m = trace (snd (run_state m startWorld))"

section \<open>Evaluating a run\<close>

lemma sampleLib_simps:
  "IsNotFound sampleLib e \<longleftrightarrow> errorReason e = ''NotFound''"
  "IsAlreadyExists sampleLib e \<longleftrightarrow> errorReason e = ''AlreadyExists''"
  "IsInvalid sampleLib e \<longleftrightarrow> errorReason e = ''Invalid''"
  "IsBadRequest sampleLib e \<longleftrightarrow> errorReason e = ''BadRequest''"
  "IsControlledBy sampleLib obj own \<longleftrightarrow> list_ex (\<lambda>r. or_Controller r \<and> or_UID r = om_UID own) (om_OwnerReferences obj)"
  "SetControllerReference sampleLib own obj = Inr (obj\<lparr> om_OwnerReferences := sampleOwner own # om_OwnerReferences obj \<rparr>)"
  "ContainsFinalizer sampleLib fs f \<longleftrightarrow> f \<in> set fs"
  "RemoveFinalizer sampleLib fs f = filter (\<lambda>x. x \<noteq> f) fs"
  "FindStatusCondition sampleLib cs t = find (\<lambda>c. cond_Type c = t) cs"
  "IsStatusConditionTrue sampleLib cs t =
     (case find (\<lambda>c. cond_Type c = t) cs of None \<Rightarrow> False | Some c \<Rightarrow> cond_Status c = ConditionTrue)"
  by (simp_all add: sampleLib_def)

lemma sampleR_simps:
  "Lib sampleR = sampleLib" "Settings sampleR = sampleSettings" "Events sampleR = None"
  "Client sampleR = sampleKube sampleSession"
  by (simp_all add: sampleR_def)

lemma inPhase_simps:
  "Meta (inPhase p) = Meta sampleSession" "Spec (inPhase p) = Spec sampleSession"
  "Status (inPhase p) = emptyStatus\<lparr> Phase := p \<rparr>"
  by (simp_all add: inPhase_def sampleSession_def newSession_def)

lemma sampleSession_simps:
  "Meta sampleSession = emptyMeta\<lparr> om_Name := ''s1'', om_Namespace := ''labs'', om_UID := ''uid-1'',
     om_Finalizers := [LabSessionFinalizer] \<rparr>"
  "Spec sampleSession = emptySpec\<lparr> UserID := ''user'', SessionID := ''demo'' \<rparr>"
  by (simp_all add: sampleSession_def newSession_def)

lemma sample_sizes:
  "MustParse sampleLib ''10Gi'' = Some (10000 * 2 ^ 30)" "MustParse sampleLib ''5Gi'' = Some (5000 * 2 ^ 30)"
  "MustParse sampleLib ''4Gi'' = Some (4000 * 2 ^ 30)"
  by code_simp+

lemma sample_pvcs: "\<exists>pvcs. BuildPVCs sampleLib sampleSettings (inPhase p) = Some pvcs"
  by (simp add: BuildPVCs_def sample_sizes inPhase_simps sampleSession_simps emptySpec_def)

lemma sample_pod: "\<exists>pod. BuildPod sampleLib sampleSettings (inPhase p) = Some pod"
  using BuildPod_None_iff [OF sample_literals, of sampleSettings "inPhase p"]
  by (auto simp: diskSize_def sampleSettings_def sample_sizes)

lemmas sample_run = sampleTrace_def startWorld_def sampleLib_simps sampleR_simps inPhase_simps sampleSession_simps
  sample_sizes sampleKube_def sampleOwner_def notFound_def keyOf_def call_defs emptySpec_def emptyMeta_def
  emptyStatus_def readyStatus_def emptyPodStatus_def Let_def

lemmas creating_defs = reconcileCreating_def ensurePVCs_def BuildPVCs_def buildPVC_def ensurePVC_def
  createSecretStep_def EnsureSSHKeySecret_def BuildSSHKeySecret_def createPodStep_def ensurePod_def
  createServiceStep_def ensureService_def BuildService_def createIngressStep_def ensureIngress_def
  BuildIngress_def checkPod_def podTerminalReason_def isPodReady_def becomeRunning_def updateEndpoints_def
  setCondition_def

lemma sample_yields: "yields m Q \<Longrightarrow> Q (fst (run_state m startWorld)) (sampleTrace m)"
  using yields_run [of m Q startWorld] by (simp add: sampleTrace_def startWorld_def)

fun writesPhase :: "SessionPhase \<Rightarrow> 'q action \<Rightarrow> bool" where
  "writesPhase p (UpdateStatusA s r) = (Phase (Status s) = p)"
| "writesPhase p _ = False"

lemma sample_becomes_running:
  "list_ex (writesPhase SessionPhaseRunning) (sampleTrace (reconcileCreating sampleR (inPhase SessionPhaseCreating)))"
proof -
  obtain pod where pod: "BuildPod sampleLib sampleSettings (inPhase SessionPhaseCreating) = Some pod"
    using sample_pod by blast
  have meta: "pod_Meta pod = emptyMeta\<lparr> om_Name := ''lab-session-demo'',
       om_Namespace := ''labs'', om_Labels := labLabels (inPhase SessionPhaseCreating) \<rparr>"
    using pod by (rule BuildPodE) (simp add: sample_run)
  show ?thesis by (simp add: creating_defs sample_run pod meta)
qed

definition sizedSession :: "string \<Rightarrow> string \<Rightarrow> string \<Rightarrow> LabSession" where
  "sizedSession cpu memory storage = sampleSession\<lparr> Spec := (Spec sampleSession)\<lparr> Resources :=
     \<lparr> rc_Memory = memory, rc_CPU = cpu, rc_Storage = storage \<rparr> \<rparr> \<rparr>"

definition sampleCondition :: "string \<Rightarrow> string \<Rightarrow> time \<Rightarrow> Condition" where
  "sampleCondition typ status t = \<lparr> cond_Type = typ, cond_Status = status, cond_ObservedGeneration = 1,
     cond_LastTransitionTime = t, cond_Reason = ''Reason'', cond_Message = [] \<rparr>"

definition sampleChange :: "string \<Rightarrow> string \<Rightarrow> PhaseChange" where
  "sampleChange uid phase = \<lparr> ch_UID = uid, ch_Namespace = ''labs'', ch_Name = ''s1'', ch_UserID = ''user'',
     ch_SessionID = ''demo'', ch_Phase = phase, ch_Message = [], ch_Reason = [], ch_Endpoints = [] \<rparr>"

section \<open>Broker\<close>

text \<open>A broker that accepts everything; handles are numbered by a counter.\<close>

definition sampleAmqp :: "nat amqp" where
  "sampleAmqp = \<lparr> Now = (\<lambda>n. (int n, n)), Marshal = (\<lambda>e. Inr (ev_ID e)),
     Dial = (\<lambda>u n. (Inr n, n + 1)), ConnChannel = (\<lambda>c n. (Inr n, n + 1)),
     ExchangeDeclare = (\<lambda>h x n. (None, n)), Confirm = (\<lambda>h b n. (None, n)),
     ChIsClosed = (\<lambda>h n. (False, n)), ConnIsClosed = (\<lambda>c n. (False, n)), ConnClose = (\<lambda>c n. (None, n)),
     Publish = (\<lambda>d h m n. (Inr n, n + 1)), WaitConfirm = (\<lambda>d c n. (Inr True, n)) \<rparr>"

end
