(* ===== verification/Breakers.thy ===== *)
theory Breakers
  imports GoLib "HOL-Library.Word"
begin

text \<open>
  The circuit breaker of \<^verbatim>\<open>pkg/circuitbreaker/circuit_breaker.go\<close> and its manager.  The
  counters are 32-bit and the generation is 64-bit, with wrap-around; an expiry is an optional time
  (the zero time is \<open>None\<close>).  Each method takes the time its \<^verbatim>\<open>time.Now()\<close> returned.  Of the
  \<^verbatim>\<open>onStateChange\<close> callback the model keeps whether one is set, and records its calls in \<open>cb_changes\<close>;
  it and \<^verbatim>\<open>readyToTrip\<close>, which the code calls with the mutex held, are taken to return.

  The mutex makes every method atomic, but \<open>Execute\<close> is two of them, around the user's
  function: requests of several goroutines interleave as sequences of the operations \<open>cbOp\<close>.
  The properties hold for every such sequence.
\<close>

section \<open>State\<close>

datatype CBState = StateClosed | StateHalfOpen | StateOpen

text \<open>A \<open>State\<close> only ever holds one of the three constants; \<^verbatim>\<open>UNKNOWN\<close> is not reached.\<close>

fun stateString :: "CBState \<Rightarrow> string" where
  "stateString StateClosed = ''CLOSED''"
| "stateString StateHalfOpen = ''HALF_OPEN''"
| "stateString StateOpen = ''OPEN''"

record Counts =
  cn_Requests :: "32 word"
  cn_TotalSuccesses :: "32 word"
  cn_TotalFailures :: "32 word"
  cn_ConsecutiveSuccesses :: "32 word"
  cn_ConsecutiveFailures :: "32 word"

definition zeroCounts :: Counts where
  "zeroCounts = \<lparr> cn_Requests = 0, cn_TotalSuccesses = 0, cn_TotalFailures = 0,
     cn_ConsecutiveSuccesses = 0, cn_ConsecutiveFailures = 0 \<rparr>"

record CBConfig =
  cf_Name :: string
  cf_MaxRequests :: "32 word"
  cf_Interval :: duration
  cf_Timeout :: duration
  cf_ReadyToTrip :: "(Counts \<Rightarrow> bool) option"
  cf_OnStateChange :: bool
  cf_IsSuccessful :: "(goerror option \<Rightarrow> bool outcome) option"

record CircuitBreaker =
  cb_name :: string
  cb_maxRequests :: "32 word"
  cb_interval :: duration
  cb_timeout :: duration
  cb_readyToTrip :: "Counts \<Rightarrow> bool"
  cb_isSuccessful :: "goerror option \<Rightarrow> bool outcome"
  cb_onStateChange :: bool
  cb_state :: CBState
  cb_generation :: "64 word"
  cb_counts :: Counts
  cb_expiry :: "time option"
  cb_changes :: "(string \<times> CBState \<times> CBState) list"

definition before :: "time option \<Rightarrow> time \<Rightarrow> bool" where
  \<comment> \<open>\<open>expiry.Before(now)\<close>; the zero time is before every other.\<close>
  "before expiry now = (case expiry of None \<Rightarrow> True | Some e \<Rightarrow> e < now)"

abbreviation quote :: string where "quote \<equiv> [CHR 0x27]"

section \<open>Methods\<close>

definition toNewGeneration :: "time \<Rightarrow> CircuitBreaker \<Rightarrow> CircuitBreaker" where
  "toNewGeneration now cb = cb\<lparr>
     cb_generation := cb_generation cb + 1,
     cb_counts := zeroCounts,
     cb_expiry := (case cb_state cb of
         StateClosed \<Rightarrow> if cb_interval cb = 0 then None else Some (now + cb_interval cb)
       | StateOpen \<Rightarrow> Some (now + cb_timeout cb)
       | StateHalfOpen \<Rightarrow> None) \<rparr>"

definition setState :: "CBState \<Rightarrow> time \<Rightarrow> CircuitBreaker \<Rightarrow> CircuitBreaker" where
  "setState st now cb =
     (if cb_state cb = st then cb
      else let prev = cb_state cb; cb = toNewGeneration now (cb\<lparr> cb_state := st \<rparr>)
           in if cb_onStateChange cb then cb\<lparr> cb_changes := cb_changes cb @ [(cb_name cb, prev, st)] \<rparr> else cb)"

definition currentState :: "time \<Rightarrow> CircuitBreaker \<Rightarrow> CircuitBreaker" where
  \<comment> \<open>The breaker after the call; the state and the generation it returns are its fields.\<close>
  "currentState now cb = (case cb_state cb of
     StateClosed \<Rightarrow> if cb_expiry cb \<noteq> None \<and> before (cb_expiry cb) now then toNewGeneration now cb else cb
   | StateOpen \<Rightarrow> if before (cb_expiry cb) now then setState StateHalfOpen now cb else cb
   | StateHalfOpen \<Rightarrow> cb)"

definition onSuccess :: "CBState \<Rightarrow> time \<Rightarrow> CircuitBreaker \<Rightarrow> CircuitBreaker" where
  "onSuccess st now cb =
     (let c = cb_counts cb;
          cb = cb\<lparr> cb_counts := c\<lparr> cn_TotalSuccesses := cn_TotalSuccesses c + 1,
                 cn_ConsecutiveSuccesses := cn_ConsecutiveSuccesses c + 1, cn_ConsecutiveFailures := 0 \<rparr> \<rparr>
      in if st = StateHalfOpen then setState StateClosed now cb else cb)"

definition onFailure :: "CBState \<Rightarrow> time \<Rightarrow> CircuitBreaker \<Rightarrow> CircuitBreaker" where
  "onFailure st now cb =
     (let c = cb_counts cb;
          cb = cb\<lparr> cb_counts := c\<lparr> cn_TotalFailures := cn_TotalFailures c + 1,
                 cn_ConsecutiveFailures := cn_ConsecutiveFailures c + 1, cn_ConsecutiveSuccesses := 0 \<rparr> \<rparr>
      in if cb_readyToTrip cb (cb_counts cb) then setState StateOpen now cb else cb)"

definition beforeRequest :: "time \<Rightarrow> CircuitBreaker \<Rightarrow> (goerror + 64 word) \<times> CircuitBreaker" where
  "beforeRequest now cb =
     (let cb = currentState now cb in
      if cb_state cb = StateOpen
      then (Inl (ErrNew (''circuit breaker '' @ quote @ cb_name cb @ quote @ '' is open'')), cb)
      else if cb_state cb = StateHalfOpen \<and> cn_Requests (cb_counts cb) \<ge> cb_maxRequests cb
      then (Inl (ErrNew (''circuit breaker '' @ quote @ cb_name cb @ quote @ '' is half-open with too many requests'')), cb)
      else (Inr (cb_generation cb),
            cb\<lparr> cb_counts := (cb_counts cb)\<lparr> cn_Requests := cn_Requests (cb_counts cb) + 1 \<rparr> \<rparr>))"

definition afterRequest :: "64 word \<Rightarrow> bool \<Rightarrow> time \<Rightarrow> CircuitBreaker \<Rightarrow> CircuitBreaker" where
  "afterRequest generation success now cb =
     (let cb = currentState now cb in
      if cb_generation cb \<noteq> generation then cb
      else if success then onSuccess (cb_state cb) now cb
      else onFailure (cb_state cb) now cb)"

definition NewCircuitBreaker :: "CBConfig \<Rightarrow> time \<Rightarrow> CircuitBreaker" where
  "NewCircuitBreaker config now = toNewGeneration now \<lparr>
     cb_name = cf_Name config,
     cb_maxRequests = (if cf_MaxRequests config = 0 then 1 else cf_MaxRequests config),
     cb_interval = cf_Interval config,
     cb_timeout = (if cf_Timeout config = 0 then 60 * Second else cf_Timeout config),
     cb_readyToTrip = (case cf_ReadyToTrip config of Some f \<Rightarrow> f | None \<Rightarrow> (\<lambda>c. cn_ConsecutiveFailures c > 5)),
     cb_isSuccessful = (case cf_IsSuccessful config of Some f \<Rightarrow> f | None \<Rightarrow> (\<lambda>err. Returned (err = None))),
     cb_onStateChange = cf_OnStateChange config,
     cb_state = StateClosed, cb_generation = 0, cb_counts = zeroCounts, cb_expiry = None, cb_changes = [] \<rparr>"

definition GetState :: "time \<Rightarrow> CircuitBreaker \<Rightarrow> CBState \<times> CircuitBreaker" where
  "GetState now cb = (let cb = currentState now cb in (cb_state cb, cb))"

definition Reset :: "time \<Rightarrow> CircuitBreaker \<Rightarrow> CircuitBreaker" where
  "Reset now cb = toNewGeneration now cb"

definition Execute ::
  "time \<Rightarrow> time \<Rightarrow> goerror option outcome \<Rightarrow> CircuitBreaker \<Rightarrow> goerror option outcome \<times> CircuitBreaker" where
  \<comment> \<open>The function's outcome is a parameter: its result, or a panic.  A panic of the function or of
      \<open>isSuccessful\<close> counts as a failure and is raised again.  The method with a context is the same.\<close>
  "Execute t1 t2 fn cb = (case beforeRequest t1 cb of
     (Inl err, cb) \<Rightarrow> (Returned (Some err), cb)
   | (Inr generation, cb) \<Rightarrow>
       (case fn of
          Returned result \<Rightarrow>
            (case cb_isSuccessful cb result of
               Returned success \<Rightarrow> (Returned result, afterRequest generation success t2 cb)
             | Panicked p \<Rightarrow> (Panicked p, afterRequest generation False t2 cb))
        | Panicked p \<Rightarrow> (Panicked p, afterRequest generation False t2 cb)))"

datatype statValue = StatString string | StatNumber int

definition GetStats :: "CircuitBreaker \<Rightarrow> (string \<times> statValue) list" where
  "GetStats cb = (let c = cb_counts cb in
     [(''name'', StatString (cb_name cb)), (''state'', StatString (stateString (cb_state cb))),
      (''requests'', StatNumber (uint (cn_Requests c))),
      (''total_successes'', StatNumber (uint (cn_TotalSuccesses c))),
      (''total_failures'', StatNumber (uint (cn_TotalFailures c))),
      (''consecutive_successes'', StatNumber (uint (cn_ConsecutiveSuccesses c))),
      (''consecutive_failures'', StatNumber (uint (cn_ConsecutiveFailures c))),
      (''generation'', StatNumber (uint (cb_generation cb))),
      (''expiry'', StatNumber (unixTime (cb_expiry cb)))])"

section \<open>The manager\<close>

type_synonym Manager = "(string \<times> CircuitBreaker) list"

definition NewManager :: Manager where "NewManager = []"

definition Register :: "string \<Rightarrow> CBConfig \<Rightarrow> time \<Rightarrow> Manager \<Rightarrow> Manager" where
  "Register name config now m = AList.update name (NewCircuitBreaker (config\<lparr> cf_Name := name \<rparr>) now) m"

definition noBreaker :: "string \<Rightarrow> goerror" where
  "noBreaker name = ErrNew (''circuit breaker '' @ quote @ name @ quote @ '' not found'')"

definition ManagerExecute ::
  "string \<Rightarrow> time \<Rightarrow> time \<Rightarrow> goerror option outcome \<Rightarrow> Manager \<Rightarrow> goerror option outcome \<times> Manager" where
  "ManagerExecute name t1 t2 fn m = (case map_of m name of
     None \<Rightarrow> (Returned (Some (noBreaker name)), m)
   | Some cb \<Rightarrow> (case Execute t1 t2 fn cb of (r, cb') \<Rightarrow> (r, AList.update name cb' m)))"

definition ManagerGetState :: "string \<Rightarrow> time \<Rightarrow> Manager \<Rightarrow> (CBState \<times> goerror option) \<times> Manager" where
  "ManagerGetState name now m = (case map_of m name of
     None \<Rightarrow> ((StateClosed, Some (noBreaker name)), m)
   | Some cb \<Rightarrow> (case GetState now cb of (st, cb') \<Rightarrow> ((st, None), AList.update name cb' m)))"

definition ManagerReset :: "string \<Rightarrow> time \<Rightarrow> Manager \<Rightarrow> goerror option \<times> Manager" where
  "ManagerReset name now m = (case map_of m name of
     None \<Rightarrow> (Some (noBreaker name), m)
   | Some cb \<Rightarrow> (None, AList.update name (Reset now cb) m))"

definition GetAllStats :: "Manager \<Rightarrow> (string \<times> (string \<times> statValue) list) list" where
  "GetAllStats m = map (\<lambda>(name, cb). (name, GetStats cb)) m"

section \<open>Interleaved operations\<close>

datatype cbOp = OpBefore time | OpAfter "64 word" bool time | OpGetState time | OpReset time

definition cbStep :: "cbOp \<Rightarrow> CircuitBreaker \<Rightarrow> CircuitBreaker" where
  "cbStep op cb = (case op of
     OpBefore t \<Rightarrow> snd (beforeRequest t cb)
   | OpAfter g b t \<Rightarrow> afterRequest g b t cb
   | OpGetState t \<Rightarrow> snd (GetState t cb)
   | OpReset t \<Rightarrow> Reset t cb)"

primrec admitted :: "cbOp list \<Rightarrow> CircuitBreaker \<Rightarrow> nat" where
  \<comment> \<open>The number of requests a run admits.\<close>
  "admitted [] cb = 0"
| "admitted (op # ops) cb =
     (case op of OpBefore t \<Rightarrow> (case fst (beforeRequest t cb) of Inr g \<Rightarrow> 1 | Inl e \<Rightarrow> 0) | _ \<Rightarrow> 0) +
     admitted ops (cbStep op cb)"

lemmas breaker_defs = beforeRequest_def afterRequest_def GetState_def Reset_def currentState_def onSuccess_def
  onFailure_def setState_def toNewGeneration_def before_def Let_def

text \<open>What the sequence of operations of a component keeps: a machine with an invariant.\<close>

locale machine =
  fixes step :: "'op \<Rightarrow> 's \<Rightarrow> 's" and inv :: "'s \<Rightarrow> bool"
  assumes step_inv: "inv s \<Longrightarrow> inv (step op s)"
begin

lemma run_inv: "inv s \<Longrightarrow> inv (fold step ops s)"
  by (induction ops arbitrary: s) (auto intro: step_inv)

end

definition cbInv :: "CircuitBreaker \<Rightarrow> bool" where
  "cbInv cb \<longleftrightarrow> cb_maxRequests cb \<noteq> 0 \<and>
     (cb_state cb = StateHalfOpen \<longrightarrow> cn_Requests (cb_counts cb) \<le> cb_maxRequests cb) \<and>
     (cb_state cb = StateOpen \<longrightarrow> cb_expiry cb \<noteq> None) \<and>
     (cb_state cb = StateHalfOpen \<longrightarrow> cb_expiry cb = None)"

lemma word_increment_le: "(x :: 32 word) < m \<Longrightarrow> x + 1 \<le> m"
  by (rule inc_le)

lemma word_increment_unat: "(x :: 32 word) < m \<Longrightarrow> unat (x + 1) = Suc (unat x)"
proof -
  assume "x < m"
  then have "unat x < unat m" by (simp add: word_less_nat_alt)
  moreover have "unat m < 2 ^ 32" using unsigned_less [of m, where ?'a = nat] by simp
  ultimately show ?thesis by (simp add: unat_word_ariths)
qed

lemma word_one_le: "(x :: 32 word) \<noteq> 0 \<Longrightarrow> 1 \<le> x"
  by (simp add: word_le_nat_alt Suc_le_eq unat_gt_0)

interpretation breaker: machine cbStep cbInv
proof
  fix cb op
  assume "cbInv cb"
  then show "cbInv (cbStep op cb)"
    by (cases op; cases "cb_state cb")
      (auto simp: cbStep_def cbInv_def breaker_defs zeroCounts_def word_increment_le word_one_le not_le split: option.splits)
qed

lemma NewCircuitBreaker_inv: "cbInv (NewCircuitBreaker config now)"
  by (simp add: cbInv_def NewCircuitBreaker_def toNewGeneration_def)

text \<open>
  C36: a half-open breaker lets at most \<open>maxRequests\<close> probes through.  Take any breaker that any
  interleaving of requests, results, state queries and resets produced from a new one, and that is
  half-open; then however the operations continue, until it leaves the half-open state or is reset
  it admits no more requests than \<open>maxRequests\<close> minus those already counted.
\<close>

theorem half_open_admissions:
  assumes "cb = fold cbStep history (NewCircuitBreaker config now)" and "cb_state cb = StateHalfOpen"
    and "\<And>n. cb_state (fold cbStep (take n ops) cb) = StateHalfOpen" and "\<And>t. OpReset t \<notin> set ops"
  shows "unat (cn_Requests (cb_counts cb)) + admitted ops cb \<le> unat (cb_maxRequests cb)"
proof -
  have "cbInv cb" using assms(1) breaker.run_inv NewCircuitBreaker_inv by simp
  then show ?thesis using assms(2-4)
  proof (induction ops arbitrary: cb)
    case Nil
    then show ?case by (simp add: cbInv_def word_le_nat_alt)
  next
    case (Cons op ops)
    let ?cb = "cbStep op cb"
    have inv: "cbInv ?cb" using Cons.prems(1) by (rule breaker.step_inv)
    have run: "cb_state (fold cbStep (take n ops) ?cb) = StateHalfOpen" for n
      using Cons.prems(3) [of "Suc n"] by simp
    have ho: "cb_state ?cb = StateHalfOpen" using run [of 0] by simp
    have IH: "unat (cn_Requests (cb_counts ?cb)) + admitted ops ?cb \<le> unat (cb_maxRequests ?cb)"
      using Cons.IH [OF inv ho run] Cons.prems(4) by simp
    show ?case
    proof (cases op)
      case (OpBefore t)
      then show ?thesis
        using IH Cons.prems(2) by (auto simp: cbStep_def breaker_defs word_increment_unat not_le split: if_splits)
    next
      case (OpAfter g b t)
      then show ?thesis
        using IH ho Cons.prems(2) by (auto simp: cbStep_def breaker_defs split: if_splits)
    qed (use IH Cons.prems in \<open>auto simp: cbStep_def breaker_defs\<close>)
  qed
qed

section \<open>Open and half-open breakers\<close>

fun idleOp :: "64 word \<Rightarrow> cbOp \<Rightarrow> bool" where
  \<comment> \<open>A request, a query, or a late result of another generation.\<close>
  "idleOp g (OpBefore t) = True"
| "idleOp g (OpGetState t) = True"
| "idleOp g (OpAfter g' b t) = (g' \<noteq> g)"
| "idleOp g (OpReset t) = False"

fun opTime :: "cbOp \<Rightarrow> time" where
  "opTime (OpBefore t) = t"
| "opTime (OpAfter g b t) = t"
| "opTime (OpGetState t) = t"
| "opTime (OpReset t) = t"

lemma idle_run:
  assumes "\<And>op. op \<in> set ops \<Longrightarrow> cbStep op cb = cb \<and> (\<forall>t. op = OpBefore t \<longrightarrow> isl (fst (beforeRequest t cb)))"
  shows "fold cbStep ops cb = cb \<and> admitted ops cb = 0"
  using assms
proof (induction ops)
  case (Cons op ops)
  then have "cbStep op cb = cb" "\<And>t. op = OpBefore t \<Longrightarrow> isl (fst (beforeRequest t cb))" by auto
  with Cons show ?case by (auto simp: isl_def split: cbOp.splits)
qed simp

lemma open_idle:
  assumes "cb_state cb = StateOpen" and "cb_expiry cb = Some e"
    and "\<And>op. op \<in> set ops \<Longrightarrow> opTime op \<le> e \<and> idleOp (cb_generation cb) op"
  shows "fold cbStep ops cb = cb \<and> admitted ops cb = 0"
proof (rule idle_run)
  fix op
  assume "op \<in> set ops"
  then have "opTime op \<le> e" "idleOp (cb_generation cb) op" using assms(3) by auto
  with assms(1,2) show "cbStep op cb = cb \<and> (\<forall>t. op = OpBefore t \<longrightarrow> isl (fst (beforeRequest t cb)))"
    by (cases op) (auto simp: cbStep_def breaker_defs)
qed

text \<open>
  C37: an open breaker rejects every request until its timeout is over, and then lets a probe
  through.  In an open breaker that any history produced the expiry is set; while no operation comes
  later than it, every interleaving of requests, state queries and results of earlier generations
  leaves the breaker as it is and admits no request; a request after it is admitted, in a half-open
  breaker of a new generation.
\<close>

theorem open_rejects:
  assumes "cb = fold cbStep history (NewCircuitBreaker config now)" and "cb_state cb = StateOpen"
  shows "\<exists>e. cb_expiry cb = Some e \<and>
    (\<forall>ops. (\<forall>op\<in>set ops. opTime op \<le> e \<and> idleOp (cb_generation cb) op) \<longrightarrow>
       fold cbStep ops cb = cb \<and> admitted ops cb = 0) \<and>
    (\<forall>t > e. fst (beforeRequest t cb) = Inr (cb_generation cb + 1) \<and>
       cb_state (snd (beforeRequest t cb)) = StateHalfOpen)"
proof -
  have "cbInv cb" using assms(1) breaker.run_inv NewCircuitBreaker_inv by simp
  then obtain e where e: "cb_expiry cb = Some e" "cb_maxRequests cb \<noteq> 0" using assms(2) by (auto simp: cbInv_def)
  have "fst (beforeRequest t cb) = Inr (cb_generation cb + 1) \<and>
       cb_state (snd (beforeRequest t cb)) = StateHalfOpen" if "t > e" for t
    using that e assms(2) by (auto simp: breaker_defs zeroCounts_def)
  with e open_idle [OF assms(2) e(1)] show ?thesis by blast
qed

definition defaultTrip :: "Counts \<Rightarrow> bool" where
  "defaultTrip c \<longleftrightarrow> cn_ConsecutiveFailures c > 5"

text \<open>
  C40: with the default settings a failed probe blocks the breaker for good.  A half-open breaker
  with no requests yet, one allowed probe and the default condition for tripping stays half-open
  when the probe fails, and from then on, at any later time, every request is rejected and the
  state never changes; only after a reset a request is admitted again.
\<close>

theorem half_open_stuck:
  assumes "cb_state cb = StateHalfOpen" and "cb_counts cb = zeroCounts" and "cb_maxRequests cb = 1"
    and "cb_readyToTrip cb = defaultTrip" and "cb_isSuccessful cb (Some err) = Returned False"
    and "cb' = snd (Execute t1 t2 (Returned (Some err)) cb)"
    and "\<And>op. op \<in> set ops \<Longrightarrow> idleOp (cb_generation cb') op"
  shows "cb_state cb' = StateHalfOpen \<and> fold cbStep ops cb' = cb' \<and> admitted ops cb' = 0 \<and>
    fst (beforeRequest t4 (Reset t3 cb')) = Inr (cb_generation cb' + 1)"
proof -
  have cb': "cb_state cb' = StateHalfOpen" "cn_Requests (cb_counts cb') = 1" "cb_maxRequests cb' = 1"
    using assms(1-6) by (auto simp: Execute_def breaker_defs zeroCounts_def defaultTrip_def)
  have "fold cbStep ops cb' = cb' \<and> admitted ops cb' = 0"
  proof (rule idle_run)
    fix op
    assume "op \<in> set ops"
    then have "idleOp (cb_generation cb') op" using assms(7) by auto
    with cb' show "cbStep op cb' = cb' \<and> (\<forall>t. op = OpBefore t \<longrightarrow> isl (fst (beforeRequest t cb')))"
      by (cases op) (auto simp: cbStep_def breaker_defs)
  qed
  moreover have "fst (beforeRequest t4 (Reset t3 cb')) = Inr (cb_generation cb' + 1)"
    using cb' by (simp add: breaker_defs zeroCounts_def)
  ultimately show ?thesis using cb'(1) by simp
qed

section \<open>Tripping\<close>

definition execOne :: "goerror \<Rightarrow> time \<times> time \<times> bool \<Rightarrow> CircuitBreaker \<Rightarrow> CircuitBreaker" where
  \<comment> \<open>One execution, from \<open>t1\<close> to \<open>t2\<close>, that succeeds or fails with the error.\<close>
  "execOne err x cb = (case x of (t1, t2, ok) \<Rightarrow> snd (Execute t1 t2 (Returned (if ok then None else Some err)) cb))"

fun succeeded :: "time \<times> time \<times> bool \<Rightarrow> bool" where
  "succeeded (t1, t2, ok) = ok"

definition streak :: "bool list \<Rightarrow> nat" where
  \<comment> \<open>The number of failures since the last success.\<close>
  "streak oks = length (takeWhile Not (rev oks))"

definition plain :: "CircuitBreaker \<Rightarrow> bool" where
  \<comment> \<open>Closed, with the default conditions and no interval.\<close>
  "plain cb \<longleftrightarrow> cb_state cb = StateClosed \<and> cb_interval cb = 0 \<and> cb_expiry cb = None \<and>
     cb_readyToTrip cb = defaultTrip \<and> cb_isSuccessful cb = (\<lambda>err. Returned (err = None))"

lemma execOne_success:
  assumes "plain cb"
  shows "plain (execOne err (t1, t2, True) cb)"
    "cn_ConsecutiveFailures (cb_counts (execOne err (t1, t2, True) cb)) = 0"
    "cb_timeout (execOne err (t1, t2, True) cb) = cb_timeout cb"
  using assms by (auto simp: execOne_def Execute_def breaker_defs plain_def)

lemma execOne_failure:
  assumes "plain cb"
  shows "cn_ConsecutiveFailures (cb_counts cb) + 1 \<le> 5 \<Longrightarrow> plain (execOne err (t1, t2, False) cb)"
    "cn_ConsecutiveFailures (cb_counts cb) + 1 \<le> 5 \<Longrightarrow>
      cn_ConsecutiveFailures (cb_counts (execOne err (t1, t2, False) cb)) = cn_ConsecutiveFailures (cb_counts cb) + 1"
    "cn_ConsecutiveFailures (cb_counts cb) + 1 > 5 \<Longrightarrow> cb_state (execOne err (t1, t2, False) cb) = StateOpen \<and>
      cb_expiry (execOne err (t1, t2, False) cb) = Some (t2 + cb_timeout cb)"
    "cb_timeout (execOne err (t1, t2, False) cb) = cb_timeout cb"
  using assms by (auto simp: execOne_def Execute_def breaker_defs plain_def defaultTrip_def not_less)

lemma streak_simps [simp]: "streak [] = 0" "streak (oks @ [True]) = 0" "streak (oks @ [False]) = Suc (streak oks)"
  by (simp_all add: streak_def)

lemma word_small: "n < 6 \<Longrightarrow> (word_of_nat n + 1 :: 32 word) \<le> 5 \<longleftrightarrow> n < 5"
proof -
  assume "n < 6"
  then have "n = 0 \<or> n = 1 \<or> n = 2 \<or> n = 3 \<or> n = 4 \<or> n = 5" by arith
  then show ?thesis by (elim disjE) simp_all
qed

lemma closed_run:
  assumes "plain cb" and "cn_ConsecutiveFailures (cb_counts cb) = 0"
    and "\<And>n. streak (map succeeded (take n xs)) < 6"
  shows "plain (fold (execOne err) xs cb) \<and> cb_timeout (fold (execOne err) xs cb) = cb_timeout cb \<and>
    cn_ConsecutiveFailures (cb_counts (fold (execOne err) xs cb)) = word_of_nat (streak (map succeeded xs))"
  using assms(3)
proof (induction xs rule: rev_induct)
  case Nil
  then show ?case using assms by simp
next
  case (snoc x xs)
  obtain t1 t2 ok where x: "x = (t1, t2, ok)" by (cases x) auto
  have pre: "streak (map succeeded (take n xs)) < 6" for n
    using snoc.prems [of "min n (length xs)"] by (simp add: min_def comp_def split: if_splits)
  note IH = snoc.IH [OF pre]
  show ?case
  proof (cases ok)
    case True
    then show ?thesis using IH x execOne_success by simp
  next
    case False
    have "streak (map succeeded xs) < 5" using snoc.prems [of "Suc (length xs)"] x False by simp
    then have "cn_ConsecutiveFailures (cb_counts (fold (execOne err) xs cb)) + 1 \<le> 5"
      using IH word_small [of "streak (map succeeded xs)"] by simp
    then show ?thesis using IH x False execOne_failure by (simp add: add.commute)
  qed
qed

text \<open>
  C38: the breaker trips at the sixth consecutive failure.  With the default condition and no
  interval, after any sequence of executions without six failures in a row the breaker is closed and
  counts the failures since the last success; and when these are five, a further failure opens it
  until its timeout after that failure.
\<close>

theorem trips_at_sixth_failure:
  assumes "cf_Interval config = 0" and "cf_ReadyToTrip config = None" and "cf_IsSuccessful config = None"
    and "\<And>n. streak (map succeeded (take n xs)) < 6"
    and "cb = fold (execOne err) xs (NewCircuitBreaker config now)"
  shows "cb_state cb = StateClosed \<and>
    cn_ConsecutiveFailures (cb_counts cb) = word_of_nat (streak (map succeeded xs)) \<and>
    (streak (map succeeded xs) = 5 \<longrightarrow>
       cb_state (execOne err (t1, t2, False) cb) = StateOpen \<and>
       cb_expiry (execOne err (t1, t2, False) cb) = Some (t2 + cb_timeout cb))"
proof -
  have "plain (NewCircuitBreaker config now)"
    using assms(1-3) by (auto simp: plain_def NewCircuitBreaker_def toNewGeneration_def defaultTrip_def)
  moreover have "cn_ConsecutiveFailures (cb_counts (NewCircuitBreaker config now)) = 0"
    by (simp add: NewCircuitBreaker_def toNewGeneration_def zeroCounts_def)
  ultimately have run: "plain cb" "cn_ConsecutiveFailures (cb_counts cb) = word_of_nat (streak (map succeeded xs))"
    using closed_run [of "NewCircuitBreaker config now" xs err] assms(4,5) by auto
  then show ?thesis using execOne_failure(3) [OF run(1)] by (auto simp: plain_def)
qed

section \<open>Managers\<close>

datatype mgrOp =
    MRegister string CBConfig time
  | MExecute string time time "goerror option outcome"
  | MGetState string time
  | MReset string time

definition mgrStep :: "mgrOp \<Rightarrow> Manager \<Rightarrow> Manager" where
  "mgrStep op m = (case op of
     MRegister name config t \<Rightarrow> Register name config t m
   | MExecute name t1 t2 fn \<Rightarrow> snd (ManagerExecute name t1 t2 fn m)
   | MGetState name t \<Rightarrow> snd (ManagerGetState name t m)
   | MReset name t \<Rightarrow> snd (ManagerReset name t m))"

fun opName :: "mgrOp \<Rightarrow> string" where
  "opName (MRegister name config t) = name"
| "opName (MExecute name t1 t2 fn) = name"
| "opName (MGetState name t) = name"
| "opName (MReset name t) = name"

definition mgrInv :: "Manager \<Rightarrow> bool" where
  "mgrInv m \<longleftrightarrow> (\<forall>name cb. map_of m name = Some cb \<longrightarrow> cbInv cb)"

lemma Execute_steps: "\<exists>ops. snd (Execute t1 t2 fn cb) = fold cbStep ops cb"
proof (cases "beforeRequest t1 cb")
  case (Pair r cb1)
  show ?thesis
  proof (cases r)
    case (Inl e)
    with Pair have "snd (Execute t1 t2 fn cb) = fold cbStep [OpBefore t1] cb" by (simp add: Execute_def cbStep_def)
    then show ?thesis ..
  next
    case (Inr g)
    let ?ok = "case fn of Returned x \<Rightarrow> cb_isSuccessful cb1 x = Returned True | Panicked p \<Rightarrow> False"
    have "snd (Execute t1 t2 fn cb) = fold cbStep [OpBefore t1, OpAfter g ?ok t2] cb"
      using Pair Inr by (simp add: Execute_def cbStep_def split: outcome.splits)
    then show ?thesis ..
  qed
qed

lemma mgrStep_local:
  "map_of (mgrStep op m) name =
     (if name = opName op
      then (case op of
              MRegister n config t \<Rightarrow> Some (NewCircuitBreaker (config\<lparr> cf_Name := n \<rparr>) t)
            | MExecute n t1 t2 fn \<Rightarrow> map_option (\<lambda>cb. snd (Execute t1 t2 fn cb)) (map_of m name)
            | MGetState n t \<Rightarrow> map_option (\<lambda>cb. snd (GetState t cb)) (map_of m name)
            | MReset n t \<Rightarrow> map_option (Reset t) (map_of m name))
      else map_of m name)"
  by (cases op) (auto simp: mgrStep_def Register_def ManagerExecute_def ManagerGetState_def ManagerReset_def
      AList.update_conv' split: option.splits prod.splits)

interpretation manager: machine mgrStep mgrInv
proof
  fix m op
  assume m: "mgrInv m"
  have ex: "cbInv cb \<Longrightarrow> cbInv (snd (Execute t1 t2 fn cb))" for t1 t2 fn cb
    using Execute_steps [of t1 t2 fn cb] breaker.run_inv by metis
  have st: "cbInv cb \<Longrightarrow> cbInv (snd (GetState t cb))" "cbInv cb \<Longrightarrow> cbInv (Reset t cb)" for t cb
    using breaker.step_inv [of cb "OpGetState t"] breaker.step_inv [of cb "OpReset t"] by (simp_all add: cbStep_def)
  from m show "mgrInv (mgrStep op m)"
    unfolding mgrInv_def mgrStep_local
    by (cases op) (auto simp: ex st NewCircuitBreaker_inv split: if_splits)
qed

text \<open>
  C39: breakers do not influence each other.  Whatever sequence of registrations, executions,
  queries and resets a manager performs, a breaker depends only on the operations under its own
  name, and every breaker of the manager satisfies the invariant of breakers.
\<close>

theorem manager_isolation:
  "map_of (fold mgrStep ops NewManager) name =
     map_of (fold mgrStep (filter (\<lambda>op. opName op = name) ops) NewManager) name \<and>
   mgrInv (fold mgrStep ops NewManager)"
proof
  have "map_of m name = map_of m' name \<Longrightarrow>
      map_of (fold mgrStep ops m) name = map_of (fold mgrStep (filter (\<lambda>op. opName op = name) ops) m') name" for m m'
  proof (induction ops arbitrary: m m')
    case (Cons op ops)
    have "map_of (mgrStep op m) name = map_of (if opName op = name then mgrStep op m' else m') name"
      using Cons.prems by (cases op) (auto simp: mgrStep_local)
    from Cons.IH [OF this] show ?case by simp
  qed simp
  then show "map_of (fold mgrStep ops NewManager) name =
      map_of (fold mgrStep (filter (\<lambda>op. opName op = name) ops) NewManager) name" by blast
  show "mgrInv (fold mgrStep ops NewManager)"
    by (rule manager.run_inv) (simp add: mgrInv_def NewManager_def)
qed

text \<open>
  A reset does not close an open breaker.  It starts a new generation with no counts and a new
  timeout: until then every request is still rejected, whatever results of earlier generations
  arrive, and the breaker stays open.
\<close>

lemma reset_keeps_open:
  assumes "cb_state cb = StateOpen"
    and "\<And>op. op \<in> set ops \<Longrightarrow> opTime op \<le> now + cb_timeout cb \<and> idleOp (cb_generation cb + 1) op"
  shows "cb_state (fold cbStep ops (Reset now cb)) = StateOpen \<and> admitted ops (Reset now cb) = 0 \<and>
    cb_counts (Reset now cb) = zeroCounts"
proof -
  have r: "cb_state (Reset now cb) = StateOpen" "cb_expiry (Reset now cb) = Some (now + cb_timeout cb)"
      "cb_generation (Reset now cb) = cb_generation cb + 1" "cb_counts (Reset now cb) = zeroCounts"
    using assms(1) by (simp_all add: Reset_def toNewGeneration_def)
  then show ?thesis using open_idle [OF r(1,2), of ops] assms(2) by simp
qed

end
