(* ===== verification/LabErrors.thy ===== *)
theory LabErrors
  imports KubeTypes
begin

text \<open>
  The structured errors of \<^verbatim>\<open>pkg/errors/errors.go\<close>: the fluent builder, the classification of
  Kubernetes errors, the reconcile result an error leads to, the error handler with its callbacks
  and the error counters.

  A Go \<^verbatim>\<open>error\<close> is here a plain error, an error wrapped by \<^verbatim>\<open>fmt.Errorf\<close> with \<^verbatim>\<open>%w\<close>, or a pointer to a
  \<open>LabSessionError\<close>; an interface value that holds a nil pointer is not nil, and calling a method on
  it that reads a field panics.  The predicates of the Kubernetes error package are parameters.
\<close>

section \<open>Errors\<close>

abbreviation ErrorTypeTemporary :: string where "ErrorTypeTemporary \<equiv> ''temporary''"
abbreviation ErrorTypeResourceQuota :: string where "ErrorTypeResourceQuota \<equiv> ''resource_quota''"
abbreviation ErrorTypeNetworkIssue :: string where "ErrorTypeNetworkIssue \<equiv> ''network''"
abbreviation ErrorTypeThrottling :: string where "ErrorTypeThrottling \<equiv> ''throttling''"
abbreviation ErrorTypeValidation :: string where "ErrorTypeValidation \<equiv> ''validation''"
abbreviation ErrorTypeConfiguration :: string where "ErrorTypeConfiguration \<equiv> ''configuration''"
abbreviation ErrorTypeUnauthorized :: string where "ErrorTypeUnauthorized \<equiv> ''unauthorized''"
abbreviation ErrorTypeNotFound :: string where "ErrorTypeNotFound \<equiv> ''not_found''"
abbreviation ErrorTypeCritical :: string where "ErrorTypeCritical \<equiv> ''critical''"
abbreviation ErrorTypeSecrity :: string where "ErrorTypeSecrity \<equiv> ''security''"

text \<open>The values of a \<^verbatim>\<open>map[string]interface{}\<close>; the package itself stores strings.\<close>

datatype dyn = DynString string | DynInt int | DynBool bool | DynOther string

type_synonym errorContext = "(string \<times> dyn) list"

record LabSessionErrorFields =
  le_Type :: string
  le_Message :: string
  le_Namespace :: string
  le_SessionID :: string
  le_UserID :: string
  le_Operation :: string
  le_Timestamp :: time
  le_Retryable :: bool
  le_RetryAfter :: duration
  le_Context :: "errorContext option"

text \<open>A \<open>LabSessionError\<close> is its fields and its underlying error; the pointer may be nil.\<close>

datatype anyError =
    PlainError goerror
  | WrapError string anyError
  | LabErrorPtr "(LabSessionErrorFields \<times> anyError option) option"

type_synonym LabSessionError = "LabSessionErrorFields \<times> anyError option"

fun errorText :: "anyError \<Rightarrow> string" where
  \<comment> \<open>The verb \<open>%v\<close> of an error, which prints a nil pointer as such; for a \<open>LabSessionError\<close> it is
      its method \<open>Error\<close>.\<close>
  "errorText (PlainError e) = errorString e"
| "errorText (WrapError m e) = m @ '': '' @ errorText e"
| "errorText (LabErrorPtr None) = ''<nil>''"
| "errorText (LabErrorPtr (Some (f, Some u))) = ''['' @ le_Type f @ ''] '' @ le_Message f @ '': '' @ errorText u"
| "errorText (LabErrorPtr (Some (f, None))) = ''['' @ le_Type f @ ''] '' @ le_Message f"

definition Unwrap :: "LabSessionError \<Rightarrow> anyError option" where
  "Unwrap e = snd e"

definition Is :: "LabSessionError \<Rightarrow> anyError \<Rightarrow> bool outcome" where
  "Is e target = (case target of
     LabErrorPtr (Some t) \<Rightarrow> Returned (le_Type (fst e) = le_Type (fst t))
   | LabErrorPtr None \<Rightarrow> Panicked ''nil pointer dereference''
   | _ \<Rightarrow> Returned False)"

definition IsRetryable :: "LabSessionError \<Rightarrow> bool" where
  "IsRetryable e = le_Retryable (fst e)"

definition GetRetryAfter :: "LabSessionError \<Rightarrow> duration" where
  "GetRetryAfter e = (if le_RetryAfter (fst e) > 0 then le_RetryAfter (fst e) else 30 * Second)"

definition GetContext :: "LabSessionError \<Rightarrow> errorContext" where
  "GetContext e = (case le_Context (fst e) of None \<Rightarrow> [] | Some c \<Rightarrow> c)"

section \<open>The builder\<close>

definition isRetryableType :: "string \<Rightarrow> bool" where
  "isRetryableType t \<longleftrightarrow> t \<in> {ErrorTypeTemporary, ErrorTypeResourceQuota, ErrorTypeNetworkIssue, ErrorTypeThrottling}"

text \<open>
  An \<open>ErrorBuilder\<close> is the error it builds: its only field is the pointer to it.  The context map is
  made by \<open>NewError\<close> and never nil in a builder.
\<close>

type_synonym ErrorBuilder = LabSessionError

definition NewError :: "time \<Rightarrow> string \<Rightarrow> string \<Rightarrow> ErrorBuilder" where
  "NewError now errorType message =
     (\<lparr> le_Type = errorType, le_Message = message, le_Namespace = [], le_SessionID = [], le_UserID = [],
        le_Operation = [], le_Timestamp = now, le_Retryable = isRetryableType errorType,
        le_RetryAfter = 0, le_Context = Some [] \<rparr>, None)"

definition WithUnderlying :: "anyError option \<Rightarrow> ErrorBuilder \<Rightarrow> ErrorBuilder" where
  "WithUnderlying err eb = (fst eb, err)"

definition WithSession :: "string \<Rightarrow> string \<Rightarrow> string \<Rightarrow> ErrorBuilder \<Rightarrow> ErrorBuilder" where
  "WithSession namespace sessionID userID eb =
     ((fst eb)\<lparr> le_Namespace := namespace, le_SessionID := sessionID, le_UserID := userID \<rparr>, snd eb)"

definition WithOperation :: "string \<Rightarrow> ErrorBuilder \<Rightarrow> ErrorBuilder" where
  "WithOperation operation eb = ((fst eb)\<lparr> le_Operation := operation \<rparr>, snd eb)"

definition WithRetryAfter :: "duration \<Rightarrow> ErrorBuilder \<Rightarrow> ErrorBuilder" where
  "WithRetryAfter duration eb = ((fst eb)\<lparr> le_RetryAfter := duration, le_Retryable := True \<rparr>, snd eb)"

definition WithContext :: "string \<Rightarrow> dyn \<Rightarrow> ErrorBuilder \<Rightarrow> ErrorBuilder" where
  "WithContext k v eb = ((fst eb)\<lparr> le_Context := map_option (AList.update k v) (le_Context (fst eb)) \<rparr>, snd eb)"

definition WithContextMap :: "errorContext \<Rightarrow> ErrorBuilder \<Rightarrow> ErrorBuilder" where
  \<comment> \<open>The loop over the map, in the order in which the map is listed.\<close>
  "WithContextMap ctx eb = fold (\<lambda>(k, v). WithContext k v) ctx eb"

definition Build :: "ErrorBuilder \<Rightarrow> LabSessionError" where
  "Build eb = eb"

definition NewValidationError :: "time \<Rightarrow> string \<Rightarrow> string \<Rightarrow> LabSessionError" where
  "NewValidationError now message field =
     Build (WithContext ''field'' (DynString field) (NewError now ErrorTypeValidation message))"

definition NewResourceQuotaError :: "time \<Rightarrow> string \<Rightarrow> string \<Rightarrow> string \<Rightarrow> LabSessionError" where
  "NewResourceQuotaError now message requested limit =
     Build (WithRetryAfter (2 * Minute) (WithContext ''limit'' (DynString limit)
       (WithContext ''requested'' (DynString requested) (NewError now ErrorTypeResourceQuota message))))"

definition NewTemporaryError :: "time \<Rightarrow> string \<Rightarrow> anyError option \<Rightarrow> LabSessionError" where
  "NewTemporaryError now message underlying =
     Build (WithRetryAfter (30 * Second) (WithUnderlying underlying (NewError now ErrorTypeTemporary message)))"

definition NewCriticalError :: "time \<Rightarrow> string \<Rightarrow> anyError option \<Rightarrow> LabSessionError" where
  "NewCriticalError now message underlying =
     Build (WithUnderlying underlying (NewError now ErrorTypeCritical message))"

section \<open>Classification\<close>

text \<open>The predicates of \<^verbatim>\<open>k8s.io/apimachinery/pkg/api/errors\<close> that the package calls.\<close>

record apierrors =
  isNotFound :: "anyError \<Rightarrow> bool"
  isAlreadyExists :: "anyError \<Rightarrow> bool"
  isUnauthorized :: "anyError \<Rightarrow> bool"
  isForbidden :: "anyError \<Rightarrow> bool"
  isConflict :: "anyError \<Rightarrow> bool"
  isServerTimeout :: "anyError \<Rightarrow> bool"
  isTimeout :: "anyError \<Rightarrow> bool"
  isTooManyRequests :: "anyError \<Rightarrow> bool"
  isInvalid :: "anyError \<Rightarrow> bool"
  isBadRequest :: "anyError \<Rightarrow> bool"

definition ClassifyKubernetesError :: "apierrors \<Rightarrow> time \<Rightarrow> anyError option \<Rightarrow> LabSessionError option" where
  \<comment> \<open>A pointer; \<open>None\<close> is nil.\<close>
  "ClassifyKubernetesError K now err = (case err of
     None \<Rightarrow> None
   | Some e \<Rightarrow> Some
       (if isNotFound K e
        then Build (WithUnderlying err (NewError now ErrorTypeNotFound ''Resource not found''))
        else if isAlreadyExists K e
        then Build (WithUnderlying err (NewError now ErrorTypeValidation ''Resource already exists''))
        else if isUnauthorized K e \<or> isForbidden K e
        then Build (WithUnderlying err (NewError now ErrorTypeUnauthorized ''Access denied''))
        else if isConflict K e
        then Build (WithRetryAfter (5 * Second) (WithUnderlying err (NewError now ErrorTypeTemporary ''Resource conflict'')))
        else if isServerTimeout K e \<or> isTimeout K e
        then Build (WithRetryAfter (10 * Second) (WithUnderlying err (NewError now ErrorTypeNetworkIssue ''Request timeout'')))
        else if isTooManyRequests K e
        then Build (WithRetryAfter (60 * Second) (WithUnderlying err (NewError now ErrorTypeThrottling ''Rate limited'')))
        else if isInvalid K e \<or> isBadRequest K e
        then Build (WithUnderlying err (NewError now ErrorTypeValidation ''Invalid request''))
        else Build (WithRetryAfter (30 * Second) (WithUnderlying err (NewError now ErrorTypeTemporary ''Kubernetes API error'')))))"

section \<open>Reconcile results\<close>

type_synonym errorReply = "Result \<times> anyError option"

definition ReconcileSuccess :: errorReply where
  "ReconcileSuccess = (emptyResult, None)"

definition ReconcileRequeue :: "duration \<Rightarrow> errorReply" where
  "ReconcileRequeue after = (requeueAfter after, None)"

definition ReconcileResult :: "apierrors \<Rightarrow> time \<Rightarrow> anyError option \<Rightarrow> errorReply outcome" where
  "ReconcileResult K now err = (case err of
     None \<Rightarrow> Returned (emptyResult, None)
   | Some (LabErrorPtr None) \<Rightarrow> Panicked ''nil pointer dereference''
   | Some (LabErrorPtr (Some labErr)) \<Rightarrow>
       if IsRetryable labErr then Returned (requeueAfter (GetRetryAfter labErr), None)
       else Returned (emptyResult, Some (LabErrorPtr (Some labErr)))
   | Some e \<Rightarrow>
       (case ClassifyKubernetesError K now (Some e) of
          None \<Rightarrow> Panicked ''nil pointer dereference''
        | Some classifiedErr \<Rightarrow>
            if IsRetryable classifiedErr then Returned (requeueAfter (GetRetryAfter classifiedErr), None)
            else Returned (emptyResult, Some (LabErrorPtr (Some classifiedErr)))))"

section \<open>The handler\<close>

text \<open>Whether the callbacks are set; their calls are a result of \<open>Handle\<close>.\<close>

record ErrorHandler =
  eh_onCritical :: bool
  eh_onRetry :: bool

datatype callback = CriticalCall LabSessionError | RetryCall LabSessionError int

definition NewErrorHandler :: ErrorHandler where
  "NewErrorHandler = \<lparr> eh_onCritical = False, eh_onRetry = False \<rparr>"

definition OnCritical :: "ErrorHandler \<Rightarrow> ErrorHandler" where
  "OnCritical eh = eh\<lparr> eh_onCritical := True \<rparr>"

definition OnRetry :: "ErrorHandler \<Rightarrow> ErrorHandler" where
  "OnRetry eh = eh\<lparr> eh_onRetry := True \<rparr>"

definition Handle ::
  "apierrors \<Rightarrow> time \<Rightarrow> ErrorHandler \<Rightarrow> anyError option \<Rightarrow> int \<Rightarrow> callback list \<times> errorReply outcome" where
  "Handle K now eh err attempt = (case err of
     None \<Rightarrow> ([], Returned ReconcileSuccess)
   | Some e \<Rightarrow>
       (case (case e of LabErrorPtr p \<Rightarrow> p | _ \<Rightarrow> ClassifyKubernetesError K now err) of
          None \<Rightarrow> ([], Panicked ''nil pointer dereference'')
        | Some labErr \<Rightarrow>
            ((if le_Type (fst labErr) = ErrorTypeCritical \<and> eh_onCritical eh then [CriticalCall labErr] else []) @
             (if IsRetryable labErr \<and> eh_onRetry eh then [RetryCall labErr attempt] else []),
             ReconcileResult K now (Some (LabErrorPtr (Some labErr))))))"

section \<open>Counters\<close>

record ErrorMetrics =
  em_errorCounts :: "(string \<times> int) list"
  em_retryCount :: int
  em_criticalCount :: int
  em_lastErrorTime :: "time option"

definition NewErrorMetrics :: ErrorMetrics where
  "NewErrorMetrics = \<lparr> em_errorCounts = [], em_retryCount = 0, em_criticalCount = 0, em_lastErrorTime = None \<rparr>"

definition countOf :: "(string \<times> int) list \<Rightarrow> string \<Rightarrow> int" where
  "countOf m t = (case map_of m t of None \<Rightarrow> 0 | Some n \<Rightarrow> n)"

definition RecordError :: "LabSessionError \<Rightarrow> time \<Rightarrow> ErrorMetrics \<Rightarrow> ErrorMetrics" where
  "RecordError err now em =
     (let em = em\<lparr> em_errorCounts := AList.update (le_Type (fst err))
                     (wrap64 (countOf (em_errorCounts em) (le_Type (fst err)) + 1)) (em_errorCounts em),
                   em_lastErrorTime := Some now \<rparr>;
          em = (if le_Type (fst err) = ErrorTypeCritical
                then em\<lparr> em_criticalCount := wrap64 (em_criticalCount em + 1) \<rparr> else em)
      in if IsRetryable err then em\<lparr> em_retryCount := wrap64 (em_retryCount em + 1) \<rparr> else em)"

datatype metricStat = CountStat int | TimeStat int | CountsStat "(string \<times> int) list"

definition MetricsGetStats :: "ErrorMetrics \<Rightarrow> (string \<times> metricStat) list" where
  "MetricsGetStats em =
     [(''total_retries'', CountStat (em_retryCount em)), (''critical_errors'', CountStat (em_criticalCount em)),
      (''last_error_time'', TimeStat (unixTime (em_lastErrorTime em))),
      (''error_counts'', CountsStat (em_errorCounts em))]"

section \<open>What a builder builds\<close>

datatype builderOp =
    Underlying "anyError option"
  | Session string string string
  | Operation string
  | RetryAfter duration
  | ContextValue string dyn
  | ContextMap errorContext

fun applyOp :: "builderOp \<Rightarrow> ErrorBuilder \<Rightarrow> ErrorBuilder" where
  "applyOp (Underlying e) eb = WithUnderlying e eb"
| "applyOp (Session n s u) eb = WithSession n s u eb"
| "applyOp (Operation name) eb = WithOperation name eb"
| "applyOp (RetryAfter d) eb = WithRetryAfter d eb"
| "applyOp (ContextValue k v) eb = WithContext k v eb"
| "applyOp (ContextMap m) eb = WithContextMap m eb"

text \<open>The calls that matter for retrying and for the context, from the last to the first.\<close>

fun delays :: "builderOp list \<Rightarrow> duration list" where
  "delays [] = []"
| "delays (RetryAfter d # ops) = delays ops @ [d]"
| "delays (_ # ops) = delays ops"

fun opContext :: "builderOp \<Rightarrow> errorContext" where
  "opContext (ContextValue k v) = [(k, v)]"
| "opContext (ContextMap m) = m"
| "opContext _ = []"

lemma WithContextMap_fields:
  "fst (WithContextMap m eb) = (fst eb)\<lparr> le_Context := map_option (AList.updates (map fst m) (map snd m)) (le_Context (fst eb)) \<rparr>"
  "snd (WithContextMap m eb) = snd eb"
proof (induction m arbitrary: eb)
  case Nil
  { case 1 show ?case by (simp add: WithContextMap_def option.map_ident) next case 2 show ?case by (simp add: WithContextMap_def) }
next
  case (Cons x m)
  { case 1 show ?case
      using Cons(1) [of "WithContext (fst x) (snd x) eb"]
      by (cases x) (simp add: WithContextMap_def WithContext_def option.map_comp comp_def)
  next case 2 show ?case
      using Cons(2) [of "WithContext (fst x) (snd x) eb"]
      by (cases x) (simp add: WithContextMap_def WithContext_def) }
qed

lemma delays_snoc: "delays (ops @ [op]) = delays [op] @ delays ops"
  by (induction ops rule: delays.induct) (cases op; simp)+

definition builtFrom :: "string \<Rightarrow> builderOp list \<Rightarrow> LabSessionError \<Rightarrow> bool" where
  "builtFrom t ops e \<longleftrightarrow> le_Type (fst e) = t \<and>
     (le_Retryable (fst e) \<longleftrightarrow> isRetryableType t \<or> delays ops \<noteq> []) \<and>
     le_RetryAfter (fst e) = (case delays ops of [] \<Rightarrow> 0 | d # ds \<Rightarrow> d) \<and>
     (\<exists>c. le_Context (fst e) = Some c \<and> map_of c = map_of (rev (concat (map opContext ops))))"

lemma builtFrom_NewError: "builtFrom t [] (NewError now t message)"
  by (simp add: builtFrom_def NewError_def)

lemma builtFrom_step:
  assumes "builtFrom t ops e"
  shows "builtFrom t (ops @ [op]) (applyOp op e)"
  using assms
  by (cases op)
    (auto simp: builtFrom_def delays_snoc WithUnderlying_def WithSession_def WithOperation_def WithRetryAfter_def
      WithContext_def WithContextMap_fields AList.update_conv' AList.updates_conv' map_upds_def zip_map_fst_snd)

lemma builtFrom_run: "builtFrom t ops (fold applyOp ops (NewError now t message))"
  by (induction ops rule: rev_induct) (simp_all add: builtFrom_NewError builtFrom_step)

text \<open>
  What a chain of builder calls builds.  The error has the type it was made with; it is
  retryable exactly if its type is or some call set a delay (so also a critical error can be); the
  delay is the one set last if that is positive, and thirty seconds otherwise; and its context gives
  every key the value that was written last.
\<close>

lemma built_error_spec:
  assumes "e = Build (fold applyOp ops (NewError now t message))"
  shows "le_Type (fst e) = t \<and> (IsRetryable e \<longleftrightarrow> isRetryableType t \<or> delays ops \<noteq> []) \<and>
    GetRetryAfter e = (case delays ops of d # ds \<Rightarrow> if d > 0 then d else 30 * Second | [] \<Rightarrow> 30 * Second) \<and>
    map_of (GetContext e) = map_of (rev (concat (map opContext ops)))"
proof -
  have "builtFrom t ops e" using assms builtFrom_run by (simp add: Build_def)
  then show ?thesis
    by (auto simp: builtFrom_def IsRetryable_def GetRetryAfter_def GetContext_def split: list.splits)
qed

section \<open>What an error leads to\<close>

definition finalFor :: "apierrors \<Rightarrow> anyError \<Rightarrow> bool" where
  \<comment> \<open>Asking again cannot help: the object is missing or exists already, access is denied, or the
      request is malformed (and the error is of none of the classes that pass).\<close>
  "finalFor K e \<longleftrightarrow> isNotFound K e \<or> isAlreadyExists K e \<or> isUnauthorized K e \<or> isForbidden K e \<or>
     (isInvalid K e \<or> isBadRequest K e) \<and>
     \<not> (isConflict K e \<or> isServerTimeout K e \<or> isTimeout K e \<or> isTooManyRequests K e)"

fun isLabPtr :: "anyError \<Rightarrow> bool" where
  "isLabPtr (LabErrorPtr p) = True"
| "isLabPtr _ = False"

lemmas classify_defs = ClassifyKubernetesError_def Build_def WithUnderlying_def WithRetryAfter_def NewError_def
  isRetryableType_def IsRetryable_def GetRetryAfter_def Second_def

lemma classify_cases:
  obtains labErr where "ClassifyKubernetesError K now (Some e) = Some labErr" "Unwrap labErr = Some e"
    "IsRetryable labErr \<longleftrightarrow> \<not> finalFor K e" "5 * Second \<le> GetRetryAfter labErr" "GetRetryAfter labErr \<le> 60 * Second"
    "le_Type (fst labErr) \<noteq> ErrorTypeCritical"
proof -
  obtain labErr where c: "ClassifyKubernetesError K now (Some e) = Some labErr"
    by (simp add: ClassifyKubernetesError_def)
  moreover from c have "Unwrap labErr = Some e" "IsRetryable labErr \<longleftrightarrow> \<not> finalFor K e"
    "5 * Second \<le> GetRetryAfter labErr" "GetRetryAfter labErr \<le> 60 * Second" "le_Type (fst labErr) \<noteq> ErrorTypeCritical"
    by (auto simp: classify_defs finalFor_def Unwrap_def split: if_splits)
  ultimately show thesis using that by blast
qed

lemma ReconcileResult_lab:
  "ReconcileResult K now (Some (LabErrorPtr (Some labErr))) =
     (if IsRetryable labErr then Returned (requeueAfter (GetRetryAfter labErr), None)
      else Returned (emptyResult, Some (LabErrorPtr (Some labErr))))"
  by (simp add: ReconcileResult_def)

lemma ReconcileResult_classified:
  assumes "\<not> isLabPtr e" and "ClassifyKubernetesError K now (Some e) = Some labErr"
  shows "ReconcileResult K now (Some e) = ReconcileResult K now (Some (LabErrorPtr (Some labErr)))"
  using assms by (cases e) (auto simp: ReconcileResult_def)

text \<open>
  C35: what an error of the API leads to.  For every error that is not a \<open>LabSessionError\<close>, a
  reconcile result is always returned: if asking again cannot help, it is the classified error,
  which wraps the given one, and no requeue; otherwise it is no error and a requeue after at least
  five and at most sixty seconds.
\<close>

theorem api_error_result:
  assumes "\<not> isLabPtr e"
  shows "\<exists>result err. ReconcileResult K now (Some e) = Returned (result, err) \<and> \<not> Requeue result \<and>
    (if finalFor K e
     then RequeueAfter result = 0 \<and> (\<exists>labErr. err = Some (LabErrorPtr (Some labErr)) \<and> Unwrap labErr = Some e)
     else 5 * Second \<le> RequeueAfter result \<and> RequeueAfter result \<le> 60 * Second \<and> err = None)"
proof -
  obtain labErr where c: "ClassifyKubernetesError K now (Some e) = Some labErr" and "Unwrap labErr = Some e"
    "IsRetryable labErr \<longleftrightarrow> \<not> finalFor K e" "5 * Second \<le> GetRetryAfter labErr" "GetRetryAfter labErr \<le> 60 * Second"
    by (rule classify_cases)
  then show ?thesis
    unfolding ReconcileResult_classified [OF assms c] ReconcileResult_lab
    by (cases labErr) (simp add: requeueAfter_def emptyResult_def)
qed

text \<open>
  The handler decides like \<open>ReconcileResult\<close>.  With whatever callbacks, \<open>Handle\<close> returns what
  \<open>ReconcileResult\<close> returns for the same error; the retry callback is called exactly once, with the
  attempt, when the result is a requeue; and the critical callback is called only for a
  \<open>LabSessionError\<close> of type critical, never for an error of the API.
\<close>

lemma handle_agrees:
  "snd (Handle K now eh err attempt) = ReconcileResult K now err \<and>
   ((\<exists>labErr. RetryCall labErr attempt \<in> set (fst (Handle K now eh err attempt))) \<longleftrightarrow>
      eh_onRetry eh \<and> (\<exists>d > 0. ReconcileResult K now err = Returned (requeueAfter d, None))) \<and>
   (\<forall>labErr. CriticalCall labErr \<in> set (fst (Handle K now eh err attempt)) \<longrightarrow>
      err = Some (LabErrorPtr (Some labErr)) \<and> le_Type (fst labErr) = ErrorTypeCritical)"
proof (cases err)
  case None
  then show ?thesis
    by (simp add: Handle_def ReconcileResult_def ReconcileSuccess_def requeueAfter_def emptyResult_def)
next
  case (Some e)
  have pos: "0 < GetRetryAfter labErr" for labErr by (simp add: GetRetryAfter_def Second_def)
  show ?thesis
  proof (cases "isLabPtr e")
    case True
    then obtain p where "e = LabErrorPtr p" by (cases e) auto
    then show ?thesis using Some pos
      by (cases p) (auto simp: Handle_def ReconcileResult_def requeueAfter_def emptyResult_def)
  next
    case False
    obtain labErr where c: "ClassifyKubernetesError K now (Some e) = Some labErr" "le_Type (fst labErr) \<noteq> ErrorTypeCritical"
      by (rule classify_cases)
    have "Handle K now eh err attempt =
        (if IsRetryable labErr \<and> eh_onRetry eh then [RetryCall labErr attempt] else [],
         ReconcileResult K now (Some (LabErrorPtr (Some labErr))))"
      using False Some c by (cases e) (auto simp: Handle_def)
    then show ?thesis using Some pos [of labErr] ReconcileResult_classified [OF False c(1)]
      by (auto simp: ReconcileResult_lab requeueAfter_def emptyResult_def)
  qed
qed

text \<open>
  Classifying no error gives a nil pointer, which is not a nil error.  \<open>ReconcileResult\<close> and
  \<open>Handle\<close> succeed on no error, but on the classification of no error they panic.
\<close>

lemma classified_nil_panics:
  "ReconcileResult K now None = Returned ReconcileSuccess \<and>
   ReconcileResult K now (Some (LabErrorPtr (ClassifyKubernetesError K now None))) = Panicked ''nil pointer dereference'' \<and>
   snd (Handle K now eh (Some (LabErrorPtr (ClassifyKubernetesError K now None))) attempt) = Panicked ''nil pointer dereference''"
  by (simp add: ReconcileResult_def ReconcileSuccess_def ClassifyKubernetesError_def Handle_def)

section \<open>What is counted\<close>

definition recordAll :: "(LabSessionError \<times> time) list \<Rightarrow> ErrorMetrics" where
  "recordAll xs = fold (\<lambda>(err, t). RecordError err t) xs NewErrorMetrics"

definition occurrences :: "('a \<Rightarrow> bool) \<Rightarrow> 'a list \<Rightarrow> int" where
  "occurrences P xs = int (length (filter P xs))"

lemma occurrences_snoc [simp]:
  "occurrences P [] = 0" "occurrences P (xs @ [x]) = occurrences P xs + (if P x then 1 else 0)"
  by (simp_all add: occurrences_def)

lemma wrap64_count: "Suc (length xs) < 2 ^ 63 \<Longrightarrow> wrap64 (occurrences P xs + 1) = occurrences P xs + 1"
  using le_less_trans [OF length_filter_le [of P xs], of "2 ^ 63 - 1"]
  by (intro wrap64_id) (simp add: int64_def occurrences_def)

text \<open>
  The counters count.  After recording fewer than \<open>2^63\<close> errors, the count of every type, the
  number of critical errors and the number of retryable errors are the numbers of such errors among
  those recorded, and the time is that of the last one.
\<close>

lemma metrics_count:
  assumes "length xs < 2 ^ 63"
  shows "countOf (em_errorCounts (recordAll xs)) t = occurrences (\<lambda>x. le_Type (fst (fst x)) = t) xs \<and>
    em_criticalCount (recordAll xs) = occurrences (\<lambda>x. le_Type (fst (fst x)) = ErrorTypeCritical) xs \<and>
    em_retryCount (recordAll xs) = occurrences (\<lambda>x. IsRetryable (fst x)) xs \<and>
    em_lastErrorTime (recordAll xs) = (if xs = [] then None else Some (snd (last xs)))"
  using assms
proof (induction xs arbitrary: t rule: rev_induct)
  case Nil
  show ?case by (simp add: recordAll_def NewErrorMetrics_def countOf_def)
next
  case (snoc x xs)
  obtain err now where x: "x = (err, now)" by (cases x)
  have IH: "length xs < 2 ^ 63" using snoc.prems by simp
  have "recordAll (xs @ [x]) = RecordError err now (recordAll xs)" by (simp add: recordAll_def x)
  then show ?case
    using snoc.IH [OF IH] wrap64_count [of xs] snoc.prems x
    by (auto simp: RecordError_def Let_def countOf_def AList.update_conv')
qed

end
