(* ===== verification/Witnesses.thy ===== *)
theory Witnesses
  imports SampleCluster Breakers LabErrors
begin

text \<open>
  Each property with hypotheses, applied to a concrete input at which they hold: the sample
  cluster, library and broker of \<^verbatim>\<open>SampleCluster\<close>, and small sessions.
\<close>

section \<open>Reconciler\<close>

lemma running_only_when_ready_witness:
  "\<exists>s' r. UpdateStatusA s' r \<in> set (sampleTrace (reconcileCreating sampleR (inPhase SessionPhaseCreating))) \<and>
     Phase (Status s') = SessionPhaseRunning \<and>
     list_all (\<lambda>n. placed (Lib sampleR) (inPhase SessionPhaseCreating) n
         (takeWhile quietA (sampleTrace (reconcileCreating sampleR (inPhase SessionPhaseCreating)))))
       (objectNames (inPhase SessionPhaseCreating))"
proof -
  obtain a where a: "a \<in> set (sampleTrace (reconcileCreating sampleR (inPhase SessionPhaseCreating)))"
      "writesPhase SessionPhaseRunning a"
    using sample_becomes_running by (auto simp: list_ex_iff)
  then obtain s' r where "a = UpdateStatusA s' r" "Phase (Status s') = SessionPhaseRunning"
    by (cases "(SessionPhaseRunning, a)" rule: writesPhase.cases) auto
  with a sample_yields [OF running_only_when_ready [of sampleR "inPhase SessionPhaseCreating"]] show ?thesis
    by (auto simp: sampleR_simps)
qed

lemma reconcile_refines_phases_witness:
  "yields (Reconcile sampleR (keyOf (Meta sampleSession))) (\<lambda>rep es. case es of
      GetSessionA k (Inr s) # rest \<Rightarrow> k = keyOf (Meta sampleSession) \<and>
        phaseOK (om_DeletionTimestamp (Meta s) \<noteq> None) (Phase (Status s)) (writes rest)
    | _ \<Rightarrow> writes es = []) \<and>
   list_ex (writesPhase SessionPhaseCreating) (sampleTrace (Reconcile sampleR (keyOf (Meta sampleSession))))"
  using reconcile_refines_phases [of sampleR "keyOf (Meta sampleSession)"]
  by (auto simp: sample_run Reconcile_def publishPhase_def reconcilePhase_def reconcilePending_def sampleSession_def newSession_def)

lemma creates_are_owned_witness:
  "yields (reconcilePhase sampleR (inPhase SessionPhaseCreating))
     (\<lambda>rep es. list_all (ownedCreate (Lib sampleR) (inPhase SessionPhaseCreating)) es)"
  using creates_are_owned [of sampleR] by (simp add: sampleR_simps)

definition unreadySession :: LabSession where
  \<comment> \<open>A running session whose pod was marked as not ready at time 0.\<close>
  "unreadySession = modStatus (\<lambda>st. st\<lparr> PodName := ''lab-session-demo'',
     Conditions := [sampleCondition ConditionTypePodReady ConditionFalse 0] \<rparr>) (inPhase SessionPhaseRunning)"



lemma create_error_handling_witness:
  "failedWrite (inPhase SessionPhaseCreating) ''Failed to create Pod'' (ErrNotOwned ''Pod'' ''p'')
     (sampleTrace (handleCreateError sampleR (inPhase SessionPhaseCreating) ''Failed to create Pod'' (ErrNotOwned ''Pod'' ''p'')))"
proof -
  let ?m = "handleCreateError sampleR (inPhase SessionPhaseCreating) ''Failed to create Pod'' (ErrNotOwned ''Pod'' ''p'')"
  have "fst (run_state ?m startWorld) = Returned (emptyResult, None)"
    by (simp add: sample_run handleCreateError_def isPermanentCreateError_def updateStatusFailed_def sessionPod_def
        setCondition_def BuildPVCs_def)
  with sample_yields [OF create_error_handling [of sampleR "inPhase SessionPhaseCreating" "''Failed to create Pod''"
        "ErrNotOwned ''Pod'' ''p''"]]
  show ?thesis
    by (simp add: inPhase_simps emptyStatus_def retryable_def isPermanentCreateError_def)
qed

lemma secret_keys_match_witness:
  "\<exists>secret f g. fst (run_state (BuildSSHKeySecret sampleR ''demo'' ''labs'') startWorld) = Inr secret \<and>
     map_of (sec_Data secret) SSHPrivateKeyKey = Some f \<and> parseOpenSSHPrivateKey f = Some (replicate 64 (CHR ''s'')) \<and>
     map_of (sec_Data secret) SSHPublicKeyKey = Some g \<and> parseAuthorizedKey g = Some (replicate 32 (CHR ''p''))"
proof -
  have "sampleTrace (BuildSSHKeySecret sampleR ''demo'' ''labs'') =
      [GenerateKeyA (Inr (replicate 32 (CHR ''p''), replicate 64 (CHR ''s''))), RandomA (Inr ''abcd'')]"
    by (simp add: BuildSSHKeySecret_def sample_run)
  with sample_yields [OF secret_keys_match [of "''demo''" sampleR "''labs''"]] show ?thesis
    by auto
qed

section \<open>Assembled controller\<close>

definition sampleArgs :: "(string \<times> string) list" where
  "sampleArgs = [(''vm-image'', ''vm''), (''init-image'', ''init''), (''terminal-image'', ''term''),
     (''rabbitmq-url'', ''amqp://broker'')]"

definition noEnv :: environ where "noEnv v = []"

definition anyURL :: urlParse where "anyURL u = Inr (''https'', u)"

definition staticKube :: "(nat, int) kube" where
  \<comment> \<open>A client over the broker's state that finds nothing and accepts every write.\<close>
  "staticKube = \<lparr>
     GetSession = (\<lambda>k w. (Inl notFound, w)), GetPVC = (\<lambda>k w. (Inl notFound, w)),
     GetPod = (\<lambda>k w. (Inl notFound, w)), GetService = (\<lambda>k w. (Inl notFound, w)), GetIngress = (\<lambda>k w. (Inl notFound, w)),
     CreatePVC = (\<lambda>x w. (Inr x, w)), CreateSecret = (\<lambda>x w. (Inr x, w)), CreatePod = (\<lambda>x w. (Inr x, w)),
     CreateService = (\<lambda>x w. (Inr x, w)), CreateIngress = (\<lambda>x w. (Inr x, w)),
     UpdateSession = (\<lambda>x w. (Inr x, w)), UpdateSessionStatus = (\<lambda>x w. (Inr x, w)),
     PatchSession = (\<lambda>b x w. (Inr x, w)), RecordEvent = (\<lambda>t r m w. ((), w)), Clock = (\<lambda>w. (int w, w + 1)),
     GenerateKey = (\<lambda>w. (Inr ([], []), w)), ReadRandom = (\<lambda>w. (Inr ''abcd'', w)) \<rparr>"

definition assembledR :: "(nat busWorld, int) LabSessionReconciler" where
  "assembledR = \<lparr> Client = clientOf staticKube, Lib = sampleLib, Settings = BindFlags noEnv sampleArgs,
     Events = Some (rabbitPublish sampleAmqp) \<rparr>"

lemma sample_setup:
  "setupReconciler sampleAmqp staticKube sampleLib anyURL noEnv sampleArgs =
     Some (assembledR, NewRabbitPublisher ''amqp://broker'')"
proof -
  have "Validate sampleLib anyURL (BindFlags noEnv sampleArgs) = []" by code_simp
  moreover have "rabbitMQURL noEnv sampleArgs = ''amqp://broker''" by code_simp
  ultimately show ?thesis by (simp add: setupReconciler_def assembledR_def Let_def)
qed

lemma announcement_truthful_witness:
  "\<exists>s' w'. run_state (publishPhase assembledR (inPhase SessionPhaseRunning))
        \<lparr> ext = (NewRabbitPublisher ''amqp://broker'', \<lparr> ext = 0, trace = [] \<rparr>), trace = [] \<rparr> = ((s', False), w') \<and>
      deliveredId (trace (snd (ext w'))) (eventID (phaseChange (inPhase SessionPhaseRunning)))"
proof -
  let ?w = "\<lparr> ext = (NewRabbitPublisher ''amqp://broker'', \<lparr> ext = 0, trace = [] \<rparr>), trace = [] \<rparr>"
  have ex: "\<exists>s' w'. run_state (publishPhase assembledR (inPhase SessionPhaseRunning)) ?w = ((s', False), w')"
    by (simp add: publishPhase_def assembledR_def clientOf_def liftBus_def rabbitPublish_def staticKube_def call_defs
        PublishPhaseChange_def sampleAmqp_def channel_def chIsOpen_def reset_def connIsOpen_def NewRabbitPublisher_def
        inPhase_simps sampleSession_simps emptyMeta_def emptyStatus_def mget_def Let_def)
  have url: "rabbitMQURL noEnv sampleArgs \<noteq> []" by code_simp
  have np: "needsPublish assembledR (inPhase SessionPhaseRunning)"
    by (simp add: needsPublish_def assembledR_def inPhase_simps sampleSession_simps emptyMeta_def emptyStatus_def mget_def)
  from ex announcement_truthful [OF sample_setup url _ np] show ?thesis by fast
qed

lemma creating_returns_witness:
  "yields (reconcileCreating assembledR sampleSession) (\<lambda>r es. returned r)"
  by (rule creating_returns [OF sample_setup]) (simp_all add: sampleSession_simps emptySpec_def)

section \<open>Builder and usage\<close>

lemma pod_storage_wired_witness:
  "\<exists>pod pvcs. BuildPod sampleLib sampleSettings (inPhase []) = Some pod \<and>
     BuildPVCs sampleLib sampleSettings (inPhase []) = Some pvcs \<and>
     mountsResolved pod \<and> claimNames pod = map (om_Name \<circ> pvc_Meta) pvcs"
  using sample_pod [of "[]"] sample_pvcs [of "[]"] pod_storage_wired by blast

lemma service_selects_own_pod_witness:
  "\<exists>pod. BuildPod sampleLib sampleSettings (inPhase []) = Some pod \<and>
     selects (BuildService (inPhase [])) pod \<and>
     set (map sp_TargetPort (svc_Ports (BuildService (inPhase [])))) = set (exposedPorts pod)"
  using sample_pod [of "[]"] service_selects_own_pod by blast

lemma ingress_isolation_witness:
  "\<exists>b. b \<in> set (routedTo (BuildIngress sampleSettings sampleSession) ''/sessions/demo/vscode/static/x.js'') \<and>
     b \<in> set (backendsOf (BuildService sampleSession)) \<and>
     (\<forall>b' \<in> set (routedTo (BuildIngress sampleSettings sampleSession) ''/sessions/demo/vscode/static/x.js''). b' = b)"
proof -
  let ?routes = "routedTo (BuildIngress sampleSettings sampleSession) ''/sessions/demo/vscode/static/x.js''"
  have sid: "CHR ''/'' \<notin> set (sessionID sampleSession)" by (simp add: sampleSession_simps)
  have "?routes = [(''labs'', ''lab-service-demo'', 8080)]" by code_simp
  then obtain b where b: "b \<in> set ?routes" by simp
  from ingress_isolation [OF this _ sid sid] b show ?thesis by blast
qed

lemma vm_size_exact_witness:
  "\<exists>sz. vmSize sampleLib sampleSettings (sizedSession ''1500m'' ''2Gi'' []) = Some sz \<and> CPUs sz = 2 \<and> MemoryMiB sz = 2048"
proof -
  have p: "parseSample ''1500m'' = Inr 1500" "parseSample ''2Gi'' = Inr (2000 * 2 ^ 30)" by code_simp+
  have req: "rc_CPU (Resources (Spec (sizedSession ''1500m'' ''2Gi'' []))) = ''1500m''"
    "rc_Memory (Resources (Spec (sizedSession ''1500m'' ''2Gi'' []))) = ''2Gi''"
    by (simp_all add: sizedSession_def)
  have "vmSize sampleLib sampleSettings (sizedSession ''1500m'' ''2Gi'' []) \<noteq> None"
    by (simp add: vmSize_None_iff diskSize_def sampleSettings_def sample_sizes)
  then obtain sz where sz: "vmSize sampleLib sampleSettings (sizedSession ''1500m'' ''2Gi'' []) = Some sz" by blast
  have "CPUs sz = refCPUs (requested sampleLib sampleAmount ''1500m'') \<and>
      MemoryMiB sz = refMemoryMiB (requested sampleLib sampleAmount ''2Gi'')"
    using vm_size_exact [OF sample_quantity_laws sz, unfolded req] p by (simp add: sampleLib_def sampleAmount_def)
  moreover have "requested sampleLib sampleAmount ''1500m'' = Some (3 / 2)"
    "requested sampleLib sampleAmount ''2Gi'' = Some (2 ^ 31)"
    using p by (simp_all add: requested_def sampleLib_def sampleAmount_def)
  moreover have "\<lceil>3 / 2 :: rat\<rceil> = 2" "\<lceil>2147483648 :: rat\<rceil> = 2147483648" by (simp_all add: ceiling_eq_iff)
  ultimately show ?thesis using sz by (simp add: refCPUs_def refMemoryMiB_def)
qed

lemma vm_container_limits_witness:
  "\<exists>pod sz. BuildPod sampleLib sampleSettings (inPhase []) = Some pod \<and> vmSize sampleLib sampleSettings (inPhase []) = Some sz \<and>
     map_of (ct_Limits (hd (ps_Containers (pod_Spec pod)))) ResourceCPU = Some (NewQuantity sampleLib (CPUs sz) DecimalSI) \<and>
     CPUs sz \<le> 8"
  using sample_pod [of "[]"] vm_container_limits by blast

lemma sample_running_pod:
  obtains pod found where "BuildPod sampleLib sampleSettings (inPhase []) = Some pod"
    "found = pod\<lparr> pod_Status := readyStatus \<rparr>" "podHoldsResources (Some found)"
proof -
  obtain pod where pod: "BuildPod sampleLib sampleSettings (inPhase []) = Some pod" using sample_pod by blast
  then have "om_DeletionTimestamp (pod_Meta pod) = None" by (rule BuildPodE) (simp add: emptyMeta_def)
  with pod that show ?thesis by (simp add: podHoldsResources_def readyStatus_def emptyPodStatus_def)
qed

lemma usage_is_sum_witness:
  "\<exists>pod cpu. podHoldsResources (Some pod) \<and> us_CPURequest (usageOf sampleLib (Some pod) []) = QString sampleLib cpu \<and>
     sampleAmount cpu = (\<Sum>c\<leftarrow>ps_Containers (pod_Spec pod). sampleAmount (rget sampleLib (ct_Requests c) ResourceCPU))"
proof -
  obtain pod found where "podHoldsResources (Some (found :: int Pod))" by (rule sample_running_pod) blast
  with usage_is_sum [OF sample_quantity_laws this, of "[]"] show ?thesis by fastforce
qed

lemma usage_of_built_pod_witness:
  "\<exists>found memory sz. podHoldsResources (Some found) \<and> vmSize sampleLib sampleSettings (inPhase []) = Some sz \<and>
     us_MemoryRequest (usageOf sampleLib (Some found) []) = QString sampleLib memory \<and>
     sampleAmount memory = of_int ((MemoryMiB sz + 1408) * 2 ^ 20)"
proof -
  obtain pod found where p: "BuildPod sampleLib sampleSettings (inPhase []) = Some pod"
      "found = pod\<lparr> pod_Status := readyStatus \<rparr>" "podHoldsResources (Some found)"
    by (rule sample_running_pod)
  have "pod_Spec found = pod_Spec pod" using p(2) by simp
  from usage_of_built_pod [OF sample_quantity_laws sample_literal_amounts p(1) this p(3), of "[]"]
  obtain memory sz where "vmSize sampleLib sampleSettings (inPhase []) = Some sz"
      "us_MemoryRequest (usageOf sampleLib (Some found) []) = QString sampleLib memory"
      "sampleAmount memory = of_int ((MemoryMiB sz + 128 + 256 + 1024) * 2 ^ 20)"
    by blast
  with p(3) show ?thesis by (auto intro!: exI [of _ found] simp: add.assoc)
qed

section \<open>Keys and events\<close>

lemma openssh_key_roundtrip_witness:
  "parseOpenSSHPrivateKey (openSSHPrivateKey ''abcd'' (replicate 32 (CHR ''p'')) (replicate 64 (CHR ''s'')) ''demo'') =
     Some (replicate 64 (CHR ''s''))"
  by (rule openssh_key_roundtrip) simp_all

lemma publish_nil_delivered_witness:
  "\<exists>s'. rabbitPublish sampleAmqp None (sampleChange ''u'' ''Running'')
       (NewRabbitPublisher ''amqp://broker'', \<lparr> ext = 0, trace = [] \<rparr>) = (None, s') \<and>
     deliveredId (trace (snd s')) ''u.Running''"
proof -
  have "\<exists>s'. rabbitPublish sampleAmqp None (sampleChange ''u'' ''Running'')
       (NewRabbitPublisher ''amqp://broker'', \<lparr> ext = 0, trace = [] \<rparr>) = (None, s')"
    by (simp add: rabbitPublish_def PublishPhaseChange_def sampleAmqp_def channel_def chIsOpen_def reset_def
        connIsOpen_def NewRabbitPublisher_def Let_def)
  moreover have "eventID (sampleChange ''u'' ''Running'') = ''u.Running''" by (simp add: eventID_def sampleChange_def)
  ultimately show ?thesis using publish_nil_delivered by metis
qed

section \<open>Circuit breaker\<close>

definition defaultConfig :: CBConfig where
  "defaultConfig = \<lparr> cf_Name = ''api'', cf_MaxRequests = 0, cf_Interval = 0, cf_Timeout = 0,
     cf_ReadyToTrip = None, cf_OnStateChange = True, cf_IsSuccessful = None \<rparr>"

definition sixFailures :: "cbOp list" where
  "sixFailures = concat (replicate 6 [OpBefore 0, OpAfter 1 False 0])"

definition halfOpen :: CircuitBreaker where
  \<comment> \<open>Six failures, then a look after the timeout.\<close>
  "halfOpen = fold cbStep (sixFailures @ [OpGetState (61 * Second)]) (NewCircuitBreaker defaultConfig 0)"

definition opened :: CircuitBreaker where
  "opened = fold cbStep sixFailures (NewCircuitBreaker defaultConfig 0)"

lemma opened_simps:
  "cb_state opened = StateOpen" "cb_expiry opened = Some (60 * Second)" "cb_generation opened = 2"
  by code_simp+

lemma cbStep_fixed:
  "cb_readyToTrip (cbStep op cb) = cb_readyToTrip cb" "cb_isSuccessful (cbStep op cb) = cb_isSuccessful cb"
  by (cases op; simp add: cbStep_def breaker_defs split: CBState.split)+

lemma fold_fixed:
  "cb_readyToTrip (fold cbStep ops cb) = cb_readyToTrip cb" "cb_isSuccessful (fold cbStep ops cb) = cb_isSuccessful cb"
  by (induction ops arbitrary: cb) (simp_all add: cbStep_fixed)

lemma halfOpen_simps:
  "cb_state halfOpen = StateHalfOpen" "cb_counts halfOpen = zeroCounts" "cb_maxRequests halfOpen = 1"
  by code_simp+

lemma halfOpen_config:
  "cb_readyToTrip halfOpen = defaultTrip" "cb_isSuccessful halfOpen = (\<lambda>err. Returned (err = None))"
  unfolding halfOpen_def fold_fixed
  by (auto simp: NewCircuitBreaker_def toNewGeneration_def defaultConfig_def defaultTrip_def)

lemma half_open_admissions_witness:
  "cb_state halfOpen = StateHalfOpen \<and> admitted [OpBefore (62 * Second)] halfOpen \<le> 1"
proof -
  have "cb_state (fold cbStep (take n [OpBefore (62 * Second)]) halfOpen) = StateHalfOpen" for n
    using halfOpen_simps(1)
    by (cases n) (simp_all add: cbStep_def beforeRequest_def currentState_def Let_def)
  from half_open_admissions [OF halfOpen_def halfOpen_simps(1) this] halfOpen_simps show ?thesis
    by (simp add: zeroCounts_def)
qed

lemma open_rejects_witness:
  "fold cbStep [OpBefore Second, OpGetState (2 * Second), OpAfter 1 True (3 * Second)] opened = opened \<and>
   fst (beforeRequest (61 * Second) opened) = Inr 3"
proof -
  obtain e where e: "cb_expiry opened = Some e"
    and idle: "(\<forall>op\<in>set ops. opTime op \<le> e \<and> idleOp (cb_generation opened) op) \<Longrightarrow> fold cbStep ops opened = opened"
    and later: "t > e \<Longrightarrow> fst (beforeRequest t opened) = Inr (cb_generation opened + 1)" for ops t
    using open_rejects [OF opened_def opened_simps(1)] by blast
  have "e = 60 * Second" using e opened_simps(2) by simp
  then have "opTime op \<le> e \<and> idleOp (cb_generation opened) op"
    if "op \<in> set [OpBefore Second, OpGetState (2 * Second), OpAfter 1 True (3 * Second)]" for op
    using that opened_simps(3) by (auto simp: Second_def)
  then have "fold cbStep [OpBefore Second, OpGetState (2 * Second), OpAfter 1 True (3 * Second)] opened = opened"
    by (intro idle ballI)
  moreover have "fst (beforeRequest (61 * Second) opened) = Inr 3"
    using \<open>e = 60 * Second\<close> opened_simps(3) by (subst later) (simp_all add: Second_def)
  ultimately show ?thesis ..
qed

lemma half_open_stuck_witness:
  "\<exists>cb. cb = snd (Execute (62 * Second) (63 * Second) (Returned (Some (ErrNew ''down''))) halfOpen) \<and>
     cb_state cb = StateHalfOpen \<and> admitted [OpBefore (100 * Minute), OpGetState (200 * Minute)] cb = 0"
proof -
  let ?cb = "snd (Execute (62 * Second) (63 * Second) (Returned (Some (ErrNew ''down''))) halfOpen)"
  have "cb_isSuccessful halfOpen (Some (ErrNew ''down'')) = Returned False" by (simp add: halfOpen_config)
  moreover have "idleOp (cb_generation ?cb) op" if "op \<in> set [OpBefore (100 * Minute), OpGetState (200 * Minute)]" for op
    using that by auto
  ultimately show ?thesis
    using half_open_stuck [OF halfOpen_simps(1,2,3) halfOpen_config(1) _ refl,
        of "ErrNew ''down''" "[OpBefore (100 * Minute), OpGetState (200 * Minute)]" "62 * Second" "63 * Second"]
    by blast
qed

lemma streak_le: "streak oks \<le> length oks"
  using length_takeWhile_le [of Not "rev oks"] by (simp add: streak_def)

lemma trips_at_sixth_failure_witness:
  "cb_state (execOne (ErrNew ''down'') (1, 2, False)
     (fold (execOne (ErrNew ''down'')) (replicate 5 (0, 0, False)) (NewCircuitBreaker defaultConfig 0))) = StateOpen"
proof -
  have "streak (map succeeded (take n (replicate 5 (0, 0, False)))) < 6" for n
    using streak_le [of "map succeeded (take n (replicate 5 (0, 0, False)))"] by simp
  moreover have "streak (map succeeded (replicate 5 (0, 0, False))) = 5" by code_simp
  moreover have "cf_Interval defaultConfig = 0" "cf_ReadyToTrip defaultConfig = None" "cf_IsSuccessful defaultConfig = None"
    by (simp_all add: defaultConfig_def)
  ultimately show ?thesis using trips_at_sixth_failure [OF _ _ _ _ refl] by blast
qed

section \<open>Structured errors\<close>

definition sampleApiErrors :: apierrors where
  \<comment> \<open>Errors classified by the reason of the API status they carry.\<close>
  "sampleApiErrors = (let has = (\<lambda>r e. case e of PlainError (ErrExternal q m) \<Rightarrow> q = r | _ \<Rightarrow> False) in
     \<lparr> isNotFound = has ''NotFound'', isAlreadyExists = has ''AlreadyExists'', isUnauthorized = has ''Unauthorized'',
       isForbidden = has ''Forbidden'', isConflict = has ''Conflict'', isServerTimeout = has ''ServerTimeout'',
       isTimeout = has ''Timeout'', isTooManyRequests = has ''TooManyRequests'', isInvalid = has ''Invalid'',
       isBadRequest = has ''BadRequest'' \<rparr>)"

lemma api_error_result_witness:
  "\<exists>result err. ReconcileResult sampleApiErrors 0 (Some (PlainError (ErrExternal ''Conflict'' ''try again''))) = Returned (result, err) \<and>
     5 * Second \<le> RequeueAfter result \<and> err = None"
proof -
  have "\<not> finalFor sampleApiErrors (PlainError (ErrExternal ''Conflict'' ''try again''))"
    by (simp add: finalFor_def sampleApiErrors_def)
  then show ?thesis
    using api_error_result [of "PlainError (ErrExternal ''Conflict'' ''try again'')" sampleApiErrors 0] by auto
qed

end
