(* ===== verification/GoTime.thy ===== *)
theory GoTime
  imports GoLib "HOL-Library.Log_Nat"
begin

text \<open>
  Two further parts of the Go library: times printed in the layout \<^verbatim>\<open>time.RFC3339\<close>, in a time zone
  given by its offset from UTC in seconds, and the conversions between integers and
  \<^verbatim>\<open>float64\<close> that the backoff computation goes through.
\<close>

section \<open>Calendar\<close>

definition civil :: "int \<Rightarrow> int \<times> int \<times> int" where
  \<comment> \<open>Year, month and day of a day counted from 1970-01-01, in the proleptic Gregorian calendar:
      eras of 400 years that begin on the first of March.\<close>
  "civil days =
     (let z = days + 719468; era = z div 146097; doe = z mod 146097;
          yoe = (doe - doe div 1460 + doe div 36524 - doe div 146096) div 365;
          doy = doe - (365 * yoe + yoe div 4 - yoe div 100);
          mp = (5 * doy + 2) div 153;
          d = doy - (153 * mp + 2) div 5 + 1;
          m = (if mp < 10 then mp + 3 else mp - 9)
      in (yoe + era * 400 + (if m \<le> 2 then 1 else 0), m, d))"

definition zeroPad :: "nat \<Rightarrow> int \<Rightarrow> string" where
  \<comment> \<open>A number with at least the given number of digits.\<close>
  "zeroPad n x = (let s = Itoa \<bar>x\<bar> in (if x < 0 then ''-'' else []) @ replicate (n - length s) (CHR ''0'') @ s)"

definition RFC3339 :: "int \<Rightarrow> time \<Rightarrow> string" where
  \<comment> \<open>\<open>t.Format(time.RFC3339)\<close>, in the zone with the offset.\<close>
  "RFC3339 zone t =
     (let secs = t div Second + zone; days = secs div 86400; sod = secs mod 86400 in
      case civil days of (y, m, d) \<Rightarrow>
        zeroPad 4 y @ ''-'' @ zeroPad 2 m @ ''-'' @ zeroPad 2 d @ ''T'' @
        zeroPad 2 (sod div 3600) @ '':'' @ zeroPad 2 (sod div 60 mod 60) @ '':'' @ zeroPad 2 (sod mod 60) @
        (if zone = 0 then ''Z''
         else (if zone < 0 then ''-'' else ''+'') @ zeroPad 2 (\<bar>zone\<bar> div 3600) @ '':'' @ zeroPad 2 (\<bar>zone\<bar> div 60 mod 60)))"

lemma RFC3339_examples:
  "RFC3339 0 0 = ''1970-01-01T00:00:00Z''"
  "RFC3339 0 (1709210096 * Second) = ''2024-02-29T12:34:56Z''"
  "RFC3339 (-12600) (1709210096 * Second) = ''2024-02-29T09:04:56-03:30''"
  by code_simp+

definition Milliseconds :: "duration \<Rightarrow> int" where
  \<comment> \<open>\<open>d.Milliseconds()\<close>: division that truncates towards zero.\<close>
  "Milliseconds d = (if d < 0 then - (- d div 1000000) else d div 1000000)"

section \<open>Floating point\<close>

definition toFloat64 :: "int \<Rightarrow> int" where
  \<comment> \<open>\<open>float64(x)\<close> of an integer: the nearest multiple of a power of two with 53 bits, ties to even.\<close>
  "toFloat64 x =
     (let n = nat \<bar>x\<bar> in
      if n < 2 ^ 53 then x
      else let e = floorlog 2 n - 53; q = n div 2 ^ e; r = n mod 2 ^ e;
               q' = (if 2 * r > 2 ^ e \<or> (2 * r = 2 ^ e \<and> odd q) then q + 1 else q)
           in sgn x * int (q' * 2 ^ e))"

definition fromFloat64 :: "(int \<Rightarrow> int) \<Rightarrow> int \<Rightarrow> int" where
  \<comment> \<open>Conversion of a whole \<open>float64\<close> to a 64-bit integer; out of range the result is the
      platform's.\<close>
  "fromFloat64 outside x = (if int64 x then x else outside x)"

lemma toFloat64_exact: "\<bar>x\<bar> < 2 ^ 53 \<Longrightarrow> toFloat64 x = x"
  by (simp add: toFloat64_def nat_less_iff Let_def)

lemma fromFloat64_exact: "int64 x \<Longrightarrow> fromFloat64 outside x = x"
  by (simp add: fromFloat64_def)

end
