(* ===== verification/LegacyController.thy ===== *)
theory LegacyController
  imports KubeClient GoTime
begin

text \<open>
  The older reconciler, \<^verbatim>\<open>controllers/labsession_controller.go\<close>, that the top-level \<^verbatim>\<open>main.go\<close> starts.
  It works on unstructured objects: a LabSession is its metadata and a JSON object.  The helpers of
  \<^verbatim>\<open>k8s.io/apimachinery\<close> for nested fields and for the conversion into a typed spec are parameters
  (\<open>unstructuredLib\<close>); pods, Services, claims, the Secret and the clock are reached through the client
  of the typed reconciler (\<open>lr_Typed\<close>), whose actions are embedded in the trace.

  Every loop with retries is a recursion over the attempts; a pause is an action of the trace.  The
  per-session mutex around a status update is held for the whole of \<open>legacyUpdateStatus\<close>, so the
  update is one program; the fields \<^verbatim>\<open>DefaultResourceLimits\<close>, \<^verbatim>\<open>MaxResourceLimits\<close> and
  \<^verbatim>\<open>MaxRetries\<close> are never read by the code and left out.
\<close>

section \<open>Unstructured objects\<close>

record Unstructured =
  u_Meta :: ObjectMeta
  u_Object :: jobject

text \<open>
  A helper for nested fields returns a value and whether it was found, or an error: the field has
  another type, or a step on the way is not an object.  \<open>SetNestedMap\<close> returns the error and the object
  after the call.
\<close>

record unstructuredLib =
  NestedMap :: "jobject \<Rightarrow> string list \<Rightarrow> goerror + jobject option"
  NestedString :: "jobject \<Rightarrow> string list \<Rightarrow> goerror + string option"
  SetNestedMap :: "jobject \<Rightarrow> jobject \<Rightarrow> string list \<Rightarrow> goerror option \<times> jobject"
  FromUnstructured :: "jobject \<Rightarrow> goerror + LabSessionSpec"

datatype 'q legacyAction =
    KubeA "'q action"
  | GetUA NamespacedName "goerror + Unstructured"
  | UpdateUA Unstructured "goerror + Unstructured"
  | UpdateStatusUA Unstructured "goerror + Unstructured"
  | SleepA duration

record ('w, 'q) LegacyReconciler =
  lr_Typed :: "('w, 'q) LabSessionReconciler"
  lr_Get :: "NamespacedName \<Rightarrow> 'w \<Rightarrow> (goerror + Unstructured) \<times> 'w"
  lr_Update :: "Unstructured \<Rightarrow> 'w \<Rightarrow> (goerror + Unstructured) \<times> 'w"
  lr_UpdateStatus :: "Unstructured \<Rightarrow> 'w \<Rightarrow> (goerror + Unstructured) \<times> 'w"
  lr_Sleep :: "duration \<Rightarrow> 'w \<Rightarrow> unit \<times> 'w"
  lr_Unstructured :: unstructuredLib
  lr_Zone :: int
  lr_FloatOutside :: "int \<Rightarrow> int"
  BaseRetryDelay :: duration

type_synonym ('w, 'q, 'a) legacy = "('w, 'q legacyAction, 'a) prog"

abbreviation legacyLib :: "('w, 'q) LegacyReconciler \<Rightarrow> 'q k8slib" where
  "legacyLib R \<equiv> Lib (lr_Typed R)"

definition getU :: "('w, 'q) LegacyReconciler \<Rightarrow> NamespacedName \<Rightarrow> ('w, 'q, goerror + Unstructured) legacy" where
  "getU R k = call (lr_Get R k) (GetUA k)"

definition updateU :: "('w, 'q) LegacyReconciler \<Rightarrow> Unstructured \<Rightarrow> ('w, 'q, goerror + Unstructured) legacy" where
  "updateU R u = call (lr_Update R u) (UpdateUA u)"

definition updateStatusU :: "('w, 'q) LegacyReconciler \<Rightarrow> Unstructured \<Rightarrow> ('w, 'q, goerror + Unstructured) legacy" where
  "updateStatusU R u = call (lr_UpdateStatus R u) (UpdateStatusUA u)"

definition sleep :: "('w, 'q) LegacyReconciler \<Rightarrow> duration \<Rightarrow> ('w, 'q, unit) legacy" where
  "sleep R d = call (lr_Sleep R d) (\<lambda>_. SleepA d)"

abbreviation typed :: "('w, 'q, 'a) rec \<Rightarrow> ('w, 'q, 'a) legacy" where
  "typed m \<equiv> embed KubeA m"

section \<open>Constants\<close>

abbreviation DefaultCPULimit :: string where "DefaultCPULimit \<equiv> ''2''"
abbreviation DefaultMemoryLimit :: string where "DefaultMemoryLimit \<equiv> ''4Gi''"
abbreviation MaxCPULimit :: string where "MaxCPULimit \<equiv> ''8''"
abbreviation MaxMemoryLimit :: string where "MaxMemoryLimit \<equiv> ''16Gi''"
abbreviation MaxRetryAttempts :: nat where "MaxRetryAttempts \<equiv> 5"
abbreviation legacyFinalizer :: string where "legacyFinalizer \<equiv> ''labsession.dozlab.io/finalizer''"

definition BaseRetryInterval :: duration where "BaseRetryInterval = 2 * Second"

section \<open>Helpers\<close>

definition errorfW :: "string \<Rightarrow> goerror option \<Rightarrow> goerror" where
  \<comment> \<open>\<open>fmt.Errorf("m: %w", err)\<close>, also for a nil error.\<close>
  "errorfW m err = (case err of Some e \<Rightarrow> ErrWrap m e | None \<Rightarrow> ErrNew (m @ '': %!w(<nil>)''))"

definition stringField :: "jobject \<Rightarrow> string \<Rightarrow> string" where
  \<comment> \<open>\<open>v, _ := m[k].(string)\<close>.\<close>
  "stringField m k = (case map_of m k of Some (JString s) \<Rightarrow> s | _ \<Rightarrow> [])"

definition getStringFromMap :: "jobject option \<Rightarrow> string \<Rightarrow> string \<Rightarrow> string" where
  "getStringFromMap m k defaultVal = (case m of
     None \<Rightarrow> defaultVal
   | Some obj \<Rightarrow> (case map_of obj k of Some (JString s) \<Rightarrow> s | _ \<Rightarrow> defaultVal))"

definition mapField :: "jobject \<Rightarrow> string \<Rightarrow> jobject option" where
  \<comment> \<open>\<open>v, _ := m[k].(map[string]interface{})\<close>; \<open>None\<close> is the nil map.\<close>
  "mapField m k = (case map_of m k of Some (JObject obj) \<Rightarrow> Some obj | _ \<Rightarrow> None)"

definition getNestedString :: "unstructuredLib \<Rightarrow> jobject \<Rightarrow> string list \<Rightarrow> string \<times> bool" where
  "getNestedString U obj path = (case NestedString U obj path of Inr (Some v) \<Rightarrow> (v, True) | _ \<Rightarrow> ([], False))"

definition getStatusField :: "('w, 'q) LegacyReconciler \<Rightarrow> Unstructured \<Rightarrow> string \<Rightarrow> string" where
  "getStatusField R u field =
     (case NestedString (lr_Unstructured R) (u_Object u) [''status'', field] of Inr (Some v) \<Rightarrow> v | _ \<Rightarrow> [])"

definition legacyCalculateVMIP :: "string \<Rightarrow> string" where
  "legacyCalculateVMIP podIP =
     (let parts = Split (CHR ''.'') podIP in
      if length parts = 4
      then (case Atoi (parts ! 3) of
              Some lastOctet \<Rightarrow> Join (CHR ''.'') (parts[3 := Itoa (wrap64 (lastOctet + 1))])
            | None \<Rightarrow> [])
      else [])"

definition calculateRetryDelay :: "('w, 'q) LegacyReconciler \<Rightarrow> int \<Rightarrow> duration" where
  "calculateRetryDelay R attempt =
     (let baseDelay = (if BaseRetryDelay R = 0 then BaseRetryInterval else BaseRetryDelay R) in
      if attempt \<le> 0 then baseDelay
      else let delay = fromFloat64 (lr_FloatOutside R) (toFloat64 baseDelay * 2 ^ nat (attempt - 1)) in
           if delay > 60 * Second then 60 * Second else delay)"

definition enforceResourceLimits :: "'q k8slib \<Rightarrow> string \<Rightarrow> string \<Rightarrow> string \<Rightarrow> string" where
  "enforceResourceLimits L wanted maxAllowed resourceType = (case ParseQuantity L wanted of
     Inl err \<Rightarrow> if resourceType = ''memory'' then DefaultMemoryLimit else DefaultCPULimit
   | Inr wantedQ \<Rightarrow>
       (case ParseQuantity L maxAllowed of
          Inl err \<Rightarrow> wanted
        | Inr maxQ \<Rightarrow> if QCmp L wantedQ maxQ > 0 then maxAllowed else wanted))"

record ResourceLimits =
  rl_Memory :: string
  rl_CPU :: string

record PodConfig =
  pcf_VSCodePassword :: string

definition extractResourceLimits :: "'q k8slib \<Rightarrow> jobject \<Rightarrow> ResourceLimits" where
  "extractResourceLimits L spec =
     (let resources = mapField spec ''resources'' in
      \<lparr> rl_Memory = enforceResourceLimits L (getStringFromMap resources ''memory'' DefaultMemoryLimit) MaxMemoryLimit ''memory'',
        rl_CPU = enforceResourceLimits L (getStringFromMap resources ''cpu'' DefaultCPULimit) MaxCPULimit ''cpu'' \<rparr>)"

definition extractPodConfig :: "jobject \<Rightarrow> PodConfig" where
  "extractPodConfig spec =
     (let config = mapField spec ''config'' in
      \<lparr> pcf_VSCodePassword = getStringFromMap config ''vsCodePassword'' ''password123'' \<rparr>)"

section \<open>Retries\<close>

text \<open>
  The loops over \<open>attempt\<close>, as recursions over the attempts that are left; the pause between two
  attempts is \<open>pauseAfter\<close>.
\<close>

definition pauseAfter :: "('w, 'q) LegacyReconciler \<Rightarrow> nat \<Rightarrow> nat \<Rightarrow> ('w, 'q, unit) legacy" where
  "pauseAfter R maxAttempts attempt =
     (if int attempt < int maxAttempts - 1 then sleep R (calculateRetryDelay R (int attempt + 1)) else ret ())"

primrec getLoop ::
  "('w, 'q) LegacyReconciler \<Rightarrow> NamespacedName \<Rightarrow> goerror option \<Rightarrow> nat list \<Rightarrow> ('w, 'q, goerror + Unstructured) legacy" where
  "getLoop R key lastErr [] =
     ret (Inl (errorfW (''failed after '' @ Itoa (int MaxRetryAttempts) @ '' attempts'') lastErr))"
| "getLoop R key lastErr (attempt # attempts) = do {
     r \<leftarrow> getU R key;
     (case r of
        Inr obj \<Rightarrow> ret (Inr obj)
      | Inl err \<Rightarrow>
          if IsNotFound (legacyLib R) err then ret (Inl err)
          else do {
            _ \<leftarrow> pauseAfter R MaxRetryAttempts attempt;
            getLoop R key (Some err) attempts }) }"

definition getWithRetry :: "('w, 'q) LegacyReconciler \<Rightarrow> NamespacedName \<Rightarrow> ('w, 'q, goerror + Unstructured) legacy" where
  "getWithRetry R key = getLoop R key None [0..<MaxRetryAttempts]"

primrec updateLoop ::
  "('w, 'q) LegacyReconciler \<Rightarrow> Unstructured \<Rightarrow> nat \<Rightarrow> goerror option \<Rightarrow> nat list \<Rightarrow> ('w, 'q, goerror option) legacy" where
  "updateLoop R obj maxAttempts lastErr [] =
     ret (Some (errorfW (''failed to update after '' @ Itoa (int maxAttempts) @ '' attempts'') lastErr))"
| "updateLoop R obj maxAttempts lastErr (attempt # attempts) = do {
     r \<leftarrow> updateU R obj;
     (case r of
        Inr _ \<Rightarrow> ret None
      | Inl err \<Rightarrow> do {
          _ \<leftarrow> pauseAfter R maxAttempts attempt;
          updateLoop R obj maxAttempts (Some err) attempts }) }"

definition updateWithRetry :: "('w, 'q) LegacyReconciler \<Rightarrow> Unstructured \<Rightarrow> nat \<Rightarrow> ('w, 'q, goerror option) legacy" where
  "updateWithRetry R obj maxAttempts = updateLoop R obj maxAttempts None [0..<maxAttempts]"

definition withStatus :: "unstructuredLib \<Rightarrow> Unstructured \<Rightarrow> jobject \<Rightarrow> Unstructured" where
  \<comment> \<open>\<open>unstructured.SetNestedMap(fresh.Object, status, "status")\<close>, its error ignored.\<close>
  "withStatus U fresh status = fresh\<lparr> u_Object := snd (SetNestedMap U (u_Object fresh) status [''status'']) \<rparr>"

definition refreshObject :: "('w, 'q) LegacyReconciler \<Rightarrow> Unstructured \<Rightarrow> goerror \<Rightarrow> ('w, 'q, Unstructured) legacy" where
  \<comment> \<open>After a conflict: the object as it is now, with the status to be written.\<close>
  "refreshObject R obj err =
     (if IsConflict (legacyLib R) err
      then do {
        g \<leftarrow> getU R (keyOf (u_Meta obj));
        (case g of
           Inl getErr \<Rightarrow> ret obj
         | Inr fresh \<Rightarrow>
             (case NestedMap (lr_Unstructured R) (u_Object obj) [''status''] of
                Inr (Some status) \<Rightarrow> ret (withStatus (lr_Unstructured R) fresh status)
              | _ \<Rightarrow> ret fresh)) }
      else ret obj)"

primrec updateStatusLoop ::
  "('w, 'q) LegacyReconciler \<Rightarrow> nat \<Rightarrow> Unstructured \<Rightarrow> goerror option \<Rightarrow> nat list \<Rightarrow> ('w, 'q, goerror option) legacy" where
  "updateStatusLoop R maxAttempts obj lastErr [] =
     ret (Some (errorfW (''failed to update status after '' @ Itoa (int maxAttempts) @ '' attempts'') lastErr))"
| "updateStatusLoop R maxAttempts obj lastErr (attempt # attempts) = do {
     r \<leftarrow> updateStatusU R obj;
     (case r of
        Inr _ \<Rightarrow> ret None
      | Inl err \<Rightarrow> do {
          obj \<leftarrow> refreshObject R obj err;
          _ \<leftarrow> pauseAfter R maxAttempts attempt;
          updateStatusLoop R maxAttempts obj (Some err) attempts }) }"

definition updateStatusWithRetry ::
  "('w, 'q) LegacyReconciler \<Rightarrow> Unstructured \<Rightarrow> nat \<Rightarrow> ('w, 'q, goerror option) legacy" where
  "updateStatusWithRetry R obj maxAttempts = updateStatusLoop R maxAttempts obj None [0..<maxAttempts]"

definition statusMap :: "int \<Rightarrow> string \<Rightarrow> string \<Rightarrow> time \<Rightarrow> jobject \<Rightarrow> jobject" where
  \<comment> \<open>The status map with the extra fields added.\<close>
  "statusMap zone phase message t extraFields =
     fold (\<lambda>(k, v). AList.update k v) extraFields
       [(''phase'', JString phase), (''message'', JString message), (''lastUpdateTime'', JString (RFC3339 zone t))]"

definition legacyUpdateStatus ::
  "('w, 'q) LegacyReconciler \<Rightarrow> Unstructured \<Rightarrow> string \<Rightarrow> string \<Rightarrow> jobject \<Rightarrow> ('w, 'q, goerror option) legacy" where
  "legacyUpdateStatus R labSession phase message extraFields = do {
     g \<leftarrow> getU R (keyOf (u_Meta labSession));
     (case g of
        Inl err \<Rightarrow> ret (Some err)
      | Inr fresh \<Rightarrow> do {
          t \<leftarrow> typed (now (lr_Typed R));
          let status = statusMap (lr_Zone R) phase message t extraFields;
          updateStatusWithRetry R (withStatus (lr_Unstructured R) fresh status) MaxRetryAttempts }) }"

section \<open>Creating the objects\<close>

definition claimFor :: "'q \<Rightarrow> string \<Rightarrow> string \<Rightarrow> string \<Rightarrow> 'q PersistentVolumeClaim" where
  "claimFor q name ns sid = \<lparr>
     pvc_Meta = emptyMeta\<lparr> om_Name := name, om_Namespace := ns,
                           om_Labels := [(''app'', ''lab-environment''), (''session-id'', sid)] \<rparr>,
     pvc_AccessModes = [''ReadWriteOnce''],
     pvc_Requests = [(ResourceStorage, q)],
     pvc_StorageClassName = Some ''default'' \<rparr>"

primrec reconcilePVCLoop ::
  "('w, 'q) LegacyReconciler \<Rightarrow> Unstructured \<Rightarrow> string \<Rightarrow> (string \<times> string) list \<Rightarrow> ('w, 'q, goerror option outcome) legacy" where
  "reconcilePVCLoop R labSession sid [] = ret (Returned None)"
| "reconcilePVCLoop R labSession sid (pvcSpec # pvcSpecs) =
     (case MustParse (legacyLib R) (snd pvcSpec) of
        None \<Rightarrow> ret (Panicked ''cannot parse a claim size'')
      | Some q \<Rightarrow>
          (let pvc = claimFor q (fst pvcSpec) (om_Namespace (u_Meta labSession)) sid in
           case SetControllerReference (legacyLib R) (u_Meta labSession) (pvc_Meta pvc) of
             Inl err \<Rightarrow> ret (Returned (Some err))
           | Inr m \<Rightarrow> do {
               let pvc = pvc\<lparr> pvc_Meta := m \<rparr>;
               r \<leftarrow> typed (call (GetPVC (Client (lr_Typed R)) (keyOf m)) (GetPVCA (keyOf m)));
               (case r of
                  Inl err \<Rightarrow>
                    if IsNotFound (legacyLib R) err
                    then do {
                      c \<leftarrow> typed (call (CreatePVC (Client (lr_Typed R)) pvc) (CreatePVCA pvc));
                      (case c of
                         Inl err \<Rightarrow> ret (Returned (Some err))
                       | Inr _ \<Rightarrow> reconcilePVCLoop R labSession sid pvcSpecs) }
                    else ret (Returned (Some err))
                | Inr foundPVC \<Rightarrow> reconcilePVCLoop R labSession sid pvcSpecs) }))"

definition reconcilePVCs ::
  "('w, 'q) LegacyReconciler \<Rightarrow> Unstructured \<Rightarrow> string \<Rightarrow> ('w, 'q, goerror option outcome) legacy" where
  "reconcilePVCs R labSession sid =
     reconcilePVCLoop R labSession sid [(''vm-data-'' @ sid, ''10Gi''), (''vscode-data-'' @ sid, ''5Gi'')]"

definition buildPod :: "('w, 'q) LegacyReconciler \<Rightarrow> Unstructured \<Rightarrow> jobject \<Rightarrow> (goerror + 'q Pod) outcome" where
  "buildPod R labSession spec =
     (case FromUnstructured (lr_Unstructured R) spec of
        Inl err \<Rightarrow> Returned (Inl (ErrWrap ''invalid LabSession spec'' err))
      | Inr typedSpec \<Rightarrow>
          (let resourceLimits = extractResourceLimits (legacyLib R) spec;
               session = \<lparr> Meta = emptyMeta\<lparr> om_Namespace := om_Namespace (u_Meta labSession) \<rparr>,
                 Spec = typedSpec\<lparr>
                   Resources := (Resources typedSpec)\<lparr> rc_Memory := rl_Memory resourceLimits, rc_CPU := rl_CPU resourceLimits \<rparr>,
                   Config := (Config typedSpec)\<lparr> VSCodePassword := pcf_VSCodePassword (extractPodConfig spec) \<rparr> \<rparr>,
                 Status = emptyStatus \<rparr>
           in case BuildPod (legacyLib R) (Settings (lr_Typed R)) session of
                None \<Rightarrow> Panicked ''cannot parse a quantity''
              | Some pod \<Rightarrow> Returned (Inr pod)))"

definition legacyPodKey :: "Unstructured \<Rightarrow> string \<Rightarrow> NamespacedName" where
  "legacyPodKey labSession sid = \<lparr> nn_Namespace = om_Namespace (u_Meta labSession), nn_Name = ''lab-session-'' @ sid \<rparr>"

definition legacyServiceKey :: "Unstructured \<Rightarrow> string \<Rightarrow> NamespacedName" where
  "legacyServiceKey labSession sid = \<lparr> nn_Namespace = om_Namespace (u_Meta labSession), nn_Name = ''lab-service-'' @ sid \<rparr>"

definition createLegacyPod ::
  "('w, 'q) LegacyReconciler \<Rightarrow> Unstructured \<Rightarrow> jobject \<Rightarrow> ('w, 'q, (goerror + 'q Pod) outcome) legacy" where
  \<comment> \<open>The branch of \<open>reconcilePod\<close> for a missing pod.\<close>
  "createLegacyPod R labSession spec = do {
     (created, err) \<leftarrow> typed (EnsureSSHKeySecret (lr_Typed R) (u_Meta labSession) (stringField spec ''sessionId'')
                              (om_Namespace (u_Meta labSession)));
     (case err of
        Some e \<Rightarrow> ret (Returned (Inl e))
      | None \<Rightarrow>
          (case buildPod R labSession spec of
             Panicked p \<Rightarrow> ret (Panicked p)
           | Returned (Inl e) \<Rightarrow> ret (Returned (Inl e))
           | Returned (Inr pod) \<Rightarrow>
               (case SetControllerReference (legacyLib R) (u_Meta labSession) (pod_Meta pod) of
                  Inl e \<Rightarrow> ret (Returned (Inl e))
                | Inr m \<Rightarrow> do {
                    c \<leftarrow> typed (call (CreatePod (Client (lr_Typed R)) (pod\<lparr> pod_Meta := m \<rparr>)) (CreatePodA (pod\<lparr> pod_Meta := m \<rparr>)));
                    ret (Returned c) }))) }"

definition reconcilePod ::
  "('w, 'q) LegacyReconciler \<Rightarrow> Unstructured \<Rightarrow> jobject \<Rightarrow> ('w, 'q, (goerror + 'q Pod) outcome) legacy" where
  "reconcilePod R labSession spec = do {
     r \<leftarrow> typed (getPod (lr_Typed R) (legacyPodKey labSession (stringField spec ''sessionId'')));
     (case r of
        Inl err \<Rightarrow>
          if IsNotFound (legacyLib R) err then createLegacyPod R labSession spec
          else ret (Returned (Inl err))
      | Inr pod \<Rightarrow> ret (Returned (Inr pod))) }"

definition buildService :: "Unstructured \<Rightarrow> jobject \<Rightarrow> Service" where
  "buildService labSession spec =
     (let sid = stringField spec ''sessionId'' in
      \<lparr> svc_Meta = emptyMeta\<lparr> om_Name := ''lab-service-'' @ sid, om_Namespace := om_Namespace (u_Meta labSession) \<rparr>,
        svc_Type = [],
        svc_Selector = [(''session-id'', sid)],
        svc_Ports = [\<lparr> sp_Name = ''vscode'', sp_Port = 8080, sp_TargetPort = 8080, sp_Protocol = [] \<rparr>,
                     \<lparr> sp_Name = ''terminal'', sp_Port = 8081, sp_TargetPort = 8081, sp_Protocol = [] \<rparr>,
                     \<lparr> sp_Name = ''vm-ssh'', sp_Port = 22, sp_TargetPort = 22, sp_Protocol = [] \<rparr>],
        svc_ClusterIP = [],
        svc_LoadBalancerIngress = [] \<rparr>)"

definition reconcileService ::
  "('w, 'q) LegacyReconciler \<Rightarrow> Unstructured \<Rightarrow> jobject \<Rightarrow> ('w, 'q, goerror + Service) legacy" where
  "reconcileService R labSession spec = do {
     let key = legacyServiceKey labSession (stringField spec ''sessionId'');
     r \<leftarrow> typed (call (GetService (Client (lr_Typed R)) key) (GetServiceA key));
     (case r of
        Inl err \<Rightarrow>
          if IsNotFound (legacyLib R) err
          then (let service = buildService labSession spec in
                case SetControllerReference (legacyLib R) (u_Meta labSession) (svc_Meta service) of
                  Inl e \<Rightarrow> ret (Inl e)
                | Inr m \<Rightarrow> typed (call (CreateService (Client (lr_Typed R)) (service\<lparr> svc_Meta := m \<rparr>))
                                     (CreateServiceA (service\<lparr> svc_Meta := m \<rparr>))))
          else ret (Inl err)
      | Inr service \<Rightarrow> ret (Inr service)) }"

section \<open>The reconcile loop\<close>

definition legacyPhase :: "'q Pod \<Rightarrow> string \<times> string" where
  \<comment> \<open>The phase and the message for a pod.\<close>
  "legacyPhase pod =
     (if pst_Phase (pod_Status pod) = PodRunning then (''Running'', ''Lab session is running'')
      else if pst_Phase (pod_Status pod) = PodFailed
      then (''Failed'', ''Pod failed: '' @ pst_Message (pod_Status pod))
      else (''Creating'', ''Creating lab session resources''))"

definition legacyEndpoints :: "'q Pod \<Rightarrow> Service \<Rightarrow> jobject" where
  "legacyEndpoints pod service =
     (if pst_Phase (pod_Status pod) = PodRunning \<and> pst_PodIP (pod_Status pod) \<noteq> [] \<and> svc_ClusterIP service \<noteq> []
      then [(''vscode'', JString (''http://'' @ svc_ClusterIP service @ '':8080'')),
            (''terminal'', JString (''ws://'' @ svc_ClusterIP service @ '':8081'')),
            (''ssh'', JString (''ssh://root@'' @ svc_ClusterIP service @ '':22''))]
      else [])"

definition updateLabSessionStatus ::
  "('w, 'q) LegacyReconciler \<Rightarrow> Unstructured \<Rightarrow> 'q Pod \<Rightarrow> Service \<Rightarrow> ('w, 'q, Result \<times> goerror option) legacy" where
  "updateLabSessionStatus R labSession pod service = do {
     let (phase, message) = legacyPhase pod;
     let vmIP = (if pst_PodIP (pod_Status pod) \<noteq> [] then legacyCalculateVMIP (pst_PodIP (pod_Status pod)) else []);
     _ \<leftarrow> legacyUpdateStatus R labSession phase message
           [(''phase'', JString phase), (''message'', JString message),
            (''podName'', JString (om_Name (pod_Meta pod))), (''serviceName'', JString (om_Name (svc_Meta service))),
            (''endpoints'', JObject (legacyEndpoints pod service)),
            (''podIP'', JString (pst_PodIP (pod_Status pod))), (''vmIP'', JString vmIP)];
     (if phase = ''Creating'' then ret (requeueAfter (10 * Second), None)
      else ret (requeueAfter (30 * Second), None)) }"

type_synonym legacyReply = "(Result \<times> goerror option) outcome"

definition failLegacy :: "('w, 'q) LegacyReconciler \<Rightarrow> Unstructured \<Rightarrow> string \<Rightarrow> goerror \<Rightarrow> ('w, 'q, legacyReply) legacy" where
  \<comment> \<open>The three error branches of \<open>reconcileLabSession\<close>.\<close>
  "failLegacy R labSession what err = do {
     _ \<leftarrow> legacyUpdateStatus R labSession ''Failed'' (''Failed to create '' @ what @ '': '' @ errorString err) [];
     ret (Returned (requeueAfter (30 * Second), Some err)) }"

definition reconcileLabSession :: "('w, 'q) LegacyReconciler \<Rightarrow> Unstructured \<Rightarrow> ('w, 'q, legacyReply) legacy" where
  "reconcileLabSession R labSession =
     (case NestedMap (lr_Unstructured R) (u_Object labSession) [''spec''] of
        Inl err \<Rightarrow> ret (Returned (emptyResult, Some (errorfW ''failed to get spec'' (Some err))))
      | Inr None \<Rightarrow> ret (Returned (emptyResult, Some (errorfW ''failed to get spec'' None)))
      | Inr (Some spec) \<Rightarrow>
          (let userID = stringField spec ''userId''; sid = stringField spec ''sessionId'' in
           if userID = [] \<or> sid = []
           then ret (Returned (emptyResult, Some (ErrNew ''userId and sessionId are required'')))
           else do {
             let currentPhase = getStatusField R labSession ''phase'';
             _ \<leftarrow> (if currentPhase = [] \<or> currentPhase = ''Pending''
                   then legacyUpdateStatus R labSession ''Creating'' ''Creating lab session resources'' []
                   else ret None);
             onRet (reconcilePVCs R labSession sid) (\<lambda>err.
               case err of
                 Some e \<Rightarrow> failLegacy R labSession ''PVCs'' e
               | None \<Rightarrow>
                   onRet (reconcilePod R labSession spec) (\<lambda>p.
                     case p of
                       Inl e \<Rightarrow> failLegacy R labSession ''pod'' e
                     | Inr pod \<Rightarrow> do {
                         s \<leftarrow> reconcileService R labSession spec;
                         (case s of
                            Inl e \<Rightarrow> failLegacy R labSession ''service'' e
                          | Inr service \<Rightarrow> do {
                              reply \<leftarrow> updateLabSessionStatus R labSession pod service;
                              ret (Returned reply) }) })) }))"

definition verifyResourcesDeleted ::
  "('w, 'q) LegacyReconciler \<Rightarrow> Unstructured \<Rightarrow> string \<Rightarrow> ('w, 'q, goerror option) legacy" where
  "verifyResourcesDeleted R labSession sid = do {
     p \<leftarrow> typed (getPod (lr_Typed R) (legacyPodKey labSession sid));
     (case p of
        Inr _ \<Rightarrow> ret (Some (ErrNew (''pod lab-session-'' @ sid @ '' still exists'')))
      | Inl err \<Rightarrow>
          if \<not> IsNotFound (legacyLib R) err then ret (Some err)
          else do {
            let key = legacyServiceKey labSession sid;
            s \<leftarrow> typed (call (GetService (Client (lr_Typed R)) key) (GetServiceA key));
            (case s of
               Inr _ \<Rightarrow> ret (Some (ErrNew (''service lab-service-'' @ sid @ '' still exists'')))
             | Inl err \<Rightarrow> if \<not> IsNotFound (legacyLib R) err then ret (Some err) else ret None) }) }"

definition legacyReconcileDelete ::
  "('w, 'q) LegacyReconciler \<Rightarrow> Unstructured \<Rightarrow> ('w, 'q, Result \<times> goerror option) legacy" where
  \<comment> \<open>The deadline of two minutes is that of the calls; they may fail for any reason in the model.\<close>
  "legacyReconcileDelete R labSession = do {
     _ \<leftarrow> legacyUpdateStatus R labSession ''Terminating'' ''Cleaning up lab session resources'' [];
     let sid = fst (getNestedString (lr_Unstructured R) (u_Object labSession) [''spec'', ''sessionId'']);
     err \<leftarrow> (if sid \<noteq> [] then verifyResourcesDeleted R labSession sid else ret None);
     (case err of
        Some e \<Rightarrow> ret (requeueAfter (10 * Second), None)
      | None \<Rightarrow> do {
          let labSession = labSession\<lparr> u_Meta := (u_Meta labSession)\<lparr> om_Finalizers :=
                RemoveFinalizer (legacyLib R) (om_Finalizers (u_Meta labSession)) legacyFinalizer \<rparr> \<rparr>;
          updateErr \<leftarrow> updateWithRetry R labSession MaxRetryAttempts;
          (case updateErr of
             Some e \<Rightarrow> ret (requeueAfter (5 * Second), Some e)
           | None \<Rightarrow> ret (emptyResult, None)) }) }"

definition legacyReconcile :: "('w, 'q) LegacyReconciler \<Rightarrow> NamespacedName \<Rightarrow> ('w, 'q, legacyReply) legacy" where
  "legacyReconcile R req = do {
     g \<leftarrow> getWithRetry R req;
     (case g of
        Inl err \<Rightarrow>
          if IsNotFound (legacyLib R) err then ret (Returned (emptyResult, None))
          else ret (Returned (requeueAfter (calculateRetryDelay R 1), Some err))
      | Inr labSession \<Rightarrow>
          if om_DeletionTimestamp (u_Meta labSession) \<noteq> None
          then do { reply \<leftarrow> legacyReconcileDelete R labSession; ret (Returned reply) }
          else if \<not> ContainsFinalizer (legacyLib R) (om_Finalizers (u_Meta labSession)) legacyFinalizer
          then do {
            let labSession = labSession\<lparr> u_Meta := (u_Meta labSession)\<lparr> om_Finalizers :=
                  AddFinalizer (legacyLib R) (om_Finalizers (u_Meta labSession)) legacyFinalizer \<rparr> \<rparr>;
            u \<leftarrow> updateU R labSession;
            ret (Returned (emptyResult, case u of Inl err \<Rightarrow> Some err | Inr _ \<Rightarrow> None)) }
          else reconcileLabSession R labSession) }"

section \<open>Setting up\<close>

record legacySetup =
  ls_ResourceBuilder :: "PodSettings option"
  ls_MaxRetries :: int
  ls_BaseRetryDelay :: duration

definition watches :: "string \<Rightarrow> string \<Rightarrow> bool" where
  \<comment> \<open>The event filter, on the group and the kind of an object.\<close>
  "watches grp kind \<longleftrightarrow> grp = ''dozlab.io'' \<and> kind = ''LabSession''"

definition legacySetupWithManager ::
  "((string \<Rightarrow> string \<Rightarrow> bool) \<Rightarrow> int \<Rightarrow> legacySetup \<Rightarrow> ('w, 'e, goerror option) prog) \<Rightarrow>
   legacySetup \<Rightarrow> int \<Rightarrow> ('w, 'e, goerror option) prog" where
  \<comment> \<open>\<open>finish\<close> is the controller builder of the manager, with the filter, the concurrency and the reconciler.\<close>
  "legacySetupWithManager finish r maxConcurrentReconciles =
     (if ls_ResourceBuilder r = None
      then ret (Some (ErrNew ''LabSessionReconciler.ResourceBuilder must be set''))
      else let r = (if ls_MaxRetries r = 0 then r\<lparr> ls_MaxRetries := int MaxRetryAttempts \<rparr> else r);
               r = (if ls_BaseRetryDelay r = 0 then r\<lparr> ls_BaseRetryDelay := BaseRetryInterval \<rparr> else r)
           in finish watches maxConcurrentReconciles r)"

end
