(* ===== verification/LegacyProps.thy ===== *)
theory LegacyProps
  imports LegacyController EnsureProps "HOL-Library.Sublist"
begin

text \<open>
  What the older reconciler does, whatever the API server and the clock answer: how its retries are
  bounded, what its status updates write, what must hold before it reports a session as running or
  removes the finalizer, and how it caps what a session asks for.

  The three loops with retries share the contract of the locale \<open>retrying\<close>, in which \<open>k\<close> bounds the
  requests of interest that one attempt makes.
\<close>

section \<open>Actions\<close>

fun slept :: "'q legacyAction list \<Rightarrow> duration list" where
  "slept [] = []"
| "slept (SleepA d # es) = d # slept es"
| "slept (_ # es) = slept es"

lemma slept_append [simp]: "slept (xs @ ys) = slept xs @ slept ys"
  by (induction xs rule: slept.induct) auto

lemma slept_KubeA [simp]: "slept (map KubeA es) = []"
  by (induction es) auto

definition triesOf :: "('q legacyAction \<Rightarrow> bool) \<Rightarrow> 'q legacyAction list \<Rightarrow> nat" where
  "triesOf isTry es = length (filter isTry es)"

lemma triesOf_simps [simp]:
  "triesOf isTry [] = 0" "triesOf isTry (e # es) = (if isTry e then Suc (triesOf isTry es) else triesOf isTry es)"
  "triesOf isTry (xs @ ys) = triesOf isTry xs + triesOf isTry ys"
  by (simp_all add: triesOf_def)

fun isGetU :: "'q legacyAction \<Rightarrow> bool" where "isGetU (GetUA k r) = True" | "isGetU _ = False"
fun isUpdateU :: "'q legacyAction \<Rightarrow> bool" where "isUpdateU (UpdateUA u r) = True" | "isUpdateU _ = False"
fun isStatusU :: "'q legacyAction \<Rightarrow> bool" where "isStatusU (UpdateStatusUA u r) = True" | "isStatusU _ = False"
fun isRequest :: "'q legacyAction \<Rightarrow> bool" where "isRequest (SleepA d) = False" | "isRequest _ = True"

lemmas legacy_call_defs = getU_def updateU_def updateStatusU_def sleep_def

section \<open>Backoff\<close>

definition pauses :: "('w, 'q) LegacyReconciler \<Rightarrow> nat \<Rightarrow> nat list \<Rightarrow> duration list" where
  \<comment> \<open>The pauses of a loop that runs through the attempts.\<close>
  "pauses R n as = map (\<lambda>a. calculateRetryDelay R (int a + 1)) (filter (\<lambda>a. int a < int n - 1) as)"

lemma pauses_simps [simp]:
  "pauses R n [] = []"
  "pauses R n (a # as) = (if int a < int n - 1 then calculateRetryDelay R (int a + 1) # pauses R n as else pauses R n as)"
  by (simp_all add: pauses_def)

lemma pauseAfter_yields:
  "yields (pauseAfter R n a) (\<lambda>_ es. slept es = pauses R n [a] \<and> \<not> list_ex isStatusU es \<and> \<not> list_ex isGetU es \<and> \<not> list_ex isUpdateU es)"
  unfolding pauseAfter_def legacy_call_defs by (intro yields_rules) auto

locale retrying =
  fixes R :: "('w, 'q) LegacyReconciler" and n :: nat
    and loop :: "'s \<Rightarrow> nat list \<Rightarrow> ('w, 'q, 'a) legacy"
    and attempt :: "'s \<Rightarrow> ('w, 'q, 'a + 's) legacy"
    and isTry :: "'q legacyAction \<Rightarrow> bool" and k :: nat
  assumes loop_Nil: "yields (loop s []) (\<lambda>r es. es = [])"
    and loop_Cons: "loop s (a # as) = do {
      x \<leftarrow> attempt s;
      (case x of Inl r \<Rightarrow> ret r | Inr s' \<Rightarrow> do { _ \<leftarrow> pauseAfter R n a; loop s' as }) }"
    and attempt_cost: "yields (attempt s) (\<lambda>x es. triesOf isTry es \<le> k \<and> slept es = [])"
    and try_not_sleep: "\<not> isTry (SleepA d)"
begin

lemma pause_no_try: "yields (pauseAfter R n a) (\<lambda>_ es. slept es = pauses R n [a] \<and> triesOf isTry es = 0)"
  unfolding pauseAfter_def legacy_call_defs by (intro yields_rules) (auto simp: try_not_sleep)

lemma bounded: "yields (loop s as) (\<lambda>r es. triesOf isTry es \<le> k * length as \<and> prefix (slept es) (pauses R n as))"
proof (induction as arbitrary: s)
  case Nil
  show ?case by (rule yields_conseq [OF loop_Nil]) simp
next
  case (Cons a as)
  show ?case
    unfolding loop_Cons
    by (rule yields_bind [OF attempt_cost],
        intro yields_rules yields_bind [OF pause_no_try] yields_conseq [OF Cons.IH])
      (auto split: if_splits)
qed

end

text \<open>One round of each loop: done with a result, or the state of the next round.\<close>

definition readAttempt ::
  "('w, 'q) LegacyReconciler \<Rightarrow> NamespacedName \<Rightarrow> goerror option \<Rightarrow> ('w, 'q, (goerror + Unstructured) + goerror option) legacy" where
  "readAttempt R key lastErr = do {
     r \<leftarrow> getU R key;
     (case r of
        Inr obj \<Rightarrow> ret (Inl (Inr obj))
      | Inl err \<Rightarrow> if IsNotFound (legacyLib R) err then ret (Inl (Inl err)) else ret (Inr (Some err))) }"

definition updateAttempt ::
  "('w, 'q) LegacyReconciler \<Rightarrow> Unstructured \<Rightarrow> goerror option \<Rightarrow> ('w, 'q, goerror option + goerror option) legacy" where
  "updateAttempt R obj lastErr = do {
     r \<leftarrow> updateU R obj;
     (case r of Inr _ \<Rightarrow> ret (Inl None) | Inl err \<Rightarrow> ret (Inr (Some err))) }"

definition statusAttempt ::
  "('w, 'q) LegacyReconciler \<Rightarrow> Unstructured \<times> goerror option \<Rightarrow>
   ('w, 'q, goerror option + Unstructured \<times> goerror option) legacy" where
  "statusAttempt R s = do {
     r \<leftarrow> updateStatusU R (fst s);
     (case r of
        Inr _ \<Rightarrow> ret (Inl None)
      | Inl err \<Rightarrow> do { obj \<leftarrow> refreshObject R (fst s) err; ret (Inr (obj, Some err)) }) }"

lemmas attempt_defs = readAttempt_def updateAttempt_def statusAttempt_def refreshObject_def legacy_call_defs

interpretation reading: retrying R MaxRetryAttempts "getLoop R key" "readAttempt R key" isRequest 1 for R key
proof
  show "yields (readAttempt R key s) (\<lambda>x es. triesOf isRequest es \<le> 1 \<and> slept es = [])" for s
    unfolding attempt_defs by (intro yields_rules) simp_all
qed (simp_all add: yields_ret readAttempt_def State_Monad.bind_assoc if_distrib [of "\<lambda>m. State_Monad.bind m f" for f]
      sum.case_distrib [of "\<lambda>m. State_Monad.bind m f" for f] cong: sum.case_cong if_cong)

interpretation updating: retrying R n "updateLoop R obj n" "updateAttempt R obj" isRequest 1 for R n obj
proof
  show "yields (updateAttempt R obj s) (\<lambda>x es. triesOf isRequest es \<le> 1 \<and> slept es = [])" for s
    unfolding attempt_defs by (intro yields_rules) simp_all
qed (simp_all add: yields_ret updateAttempt_def State_Monad.bind_assoc sum.case_distrib [of "\<lambda>m. State_Monad.bind m f" for f]
      cong: sum.case_cong)

interpretation reporting: retrying R n "\<lambda>s. updateStatusLoop R n (fst s) (snd s)" "statusAttempt R" isStatusU 1 for R n
proof
  show "yields (statusAttempt R s) (\<lambda>x es. triesOf isStatusU es \<le> 1 \<and> slept es = [])" for s
    unfolding attempt_defs by (intro yields_rules) simp_all
qed (simp_all add: yields_ret statusAttempt_def State_Monad.bind_assoc sum.case_distrib [of "\<lambda>m. State_Monad.bind m f" for f]
      cong: sum.case_cong)

interpretation reporting_all: retrying R n "\<lambda>s. updateStatusLoop R n (fst s) (snd s)" "statusAttempt R" isRequest 2 for R n
proof
  show "yields (statusAttempt R s) (\<lambda>x es. triesOf isRequest es \<le> 2 \<and> slept es = [])" for s
    unfolding attempt_defs by (intro yields_rules) simp_all
qed (simp_all add: yields_ret statusAttempt_def State_Monad.bind_assoc sum.case_distrib [of "\<lambda>m. State_Monad.bind m f" for f]
      cong: sum.case_cong)

lemma retryDelay_default:
  assumes "BaseRetryDelay R = 0 \<or> BaseRetryDelay R = 2 * Second" and "0 < a" and "a \<le> 33"
  shows "calculateRetryDelay R a = min (2 ^ nat a * Second) (60 * Second)"
proof -
  obtain k where k: "nat a = Suc k" "k \<le> 32" using assms(2,3) by (cases "nat a") auto
  have "(2 :: int) ^ k \<le> 2 ^ 32" using k(2) by (rule power_increasing) simp
  moreover have "(0 :: int) \<le> 2 ^ k" by simp
  ultimately have "int64 (2 * 1000000000 * 2 ^ k)" by (auto simp: int64_def intro: order_trans [of _ 0])
  moreover have "toFloat64 (2 * 1000000000) = 2 * 1000000000" by (rule toFloat64_exact) simp
  moreover have "nat (a - 1) = k" using k(1) by simp
  ultimately show ?thesis
    using assms(1,2) k(1) by (auto simp: calculateRetryDelay_def BaseRetryInterval_def Second_def Let_def fromFloat64_exact)
qed

lemma pauses_default:
  assumes "BaseRetryDelay R = 0 \<or> BaseRetryDelay R = 2 * Second"
  shows "pauses R MaxRetryAttempts [0..<MaxRetryAttempts] = [2 * Second, 4 * Second, 8 * Second, 16 * Second]"
proof -
  have "[0..<MaxRetryAttempts] = [0, 1, 2, 3, 4]" by (simp add: upt_rec)
  then show ?thesis using assms by (simp add: retryDelay_default Second_def)
qed

text \<open>
  C13: the retries of the older reconciler are bounded.  Whatever the API server answers, reading the
  session and updating it make at most five requests each, and writing its status makes at most five
  status writes and, with the reads after a conflict, at most ten requests in all.  The pauses
  are the ones the code computes: with the default base delay of two seconds they are the first of two,
  four, eight and sixteen seconds (base times \<open>2\<close> to the number of the attempt less one, without
  jitter, where the comment in \<open>calculateRetryDelay\<close> announces base times \<open>2\<close> to the attempt, with
  jitter), so that no operation waits for more than half a minute.
\<close>

theorem retries_bounded:
  assumes "BaseRetryDelay R = 0 \<or> BaseRetryDelay R = 2 * Second"
  shows "yields (getWithRetry R key) (\<lambda>r es. triesOf isRequest es \<le> 5 \<and>
      prefix (slept es) [2 * Second, 4 * Second, 8 * Second, 16 * Second]) \<and>
    yields (updateWithRetry R obj MaxRetryAttempts) (\<lambda>r es. triesOf isRequest es \<le> 5 \<and>
      prefix (slept es) [2 * Second, 4 * Second, 8 * Second, 16 * Second]) \<and>
    yields (updateStatusWithRetry R obj MaxRetryAttempts) (\<lambda>r es.
      triesOf isStatusU es \<le> 5 \<and> triesOf isRequest es \<le> 10 \<and>
      prefix (slept es) [2 * Second, 4 * Second, 8 * Second, 16 * Second])"
proof -
  note p = pauses_default [OF assms]
  have "length [0..<MaxRetryAttempts] = 5" by simp
  then show ?thesis
    unfolding getWithRetry_def updateWithRetry_def updateStatusWithRetry_def
    using reading.bounded [of R key None "[0..<MaxRetryAttempts]", unfolded p]
      updating.bounded [of R obj MaxRetryAttempts None "[0..<MaxRetryAttempts]", unfolded p]
      yields_conj [OF reporting.bounded [of R MaxRetryAttempts "(obj, None)" "[0..<MaxRetryAttempts]", unfolded p]
        reporting_all.bounded [of R MaxRetryAttempts "(obj, None)" "[0..<MaxRetryAttempts]", unfolded p]]
    by (auto elim!: yields_conseq)
qed

section \<open>Status updates\<close>

text \<open>What the documentation says of the nested-field helpers: a map that was set is found again.\<close>

definition nested_laws :: "unstructuredLib \<Rightarrow> bool" where
  "nested_laws U \<longleftrightarrow> (\<forall>obj m f. NestedMap U (snd (SetNestedMap U obj m [f])) [f] = Inr (Some m))"

definition statusOf :: "unstructuredLib \<Rightarrow> Unstructured \<Rightarrow> jobject option" where
  "statusOf U u = (case NestedMap U (u_Object u) [''status''] of Inr m \<Rightarrow> m | Inl e \<Rightarrow> None)"

lemma statusOf_withStatus: "nested_laws U \<Longrightarrow> statusOf U (withStatus U u m) = Some m"
  by (simp add: nested_laws_def statusOf_def withStatus_def)

fun writesStatus :: "unstructuredLib \<Rightarrow> jobject \<Rightarrow> 'q legacyAction \<Rightarrow> bool" where
  \<comment> \<open>If the action writes a status, it is this one; and it does not update the object.\<close>
  "writesStatus U m (UpdateStatusUA u r) = (statusOf U u = Some m)"
| "writesStatus U m (UpdateUA u r) = False"
| "writesStatus U m _ = True"

fun okStatus :: "'q legacyAction \<Rightarrow> bool" where
  \<comment> \<open>A status write that the API server accepted.\<close>
  "okStatus (UpdateStatusUA u (Inr x)) = True"
| "okStatus _ = False"

lemma okStatus_isStatusU: "list_ex okStatus es \<Longrightarrow> list_ex isStatusU es"
  by (force simp: list_ex_iff elim!: okStatus.elims)

lemma refreshObject_yields:
  assumes "nested_laws (lr_Unstructured R)" and "statusOf (lr_Unstructured R) obj = Some m"
  shows "yields (refreshObject R obj err)
    (\<lambda>obj' es. statusOf (lr_Unstructured R) obj' = Some m \<and> list_all (writesStatus (lr_Unstructured R) m) es \<and>
       \<not> list_ex isStatusU es)"
  using assms(2) unfolding refreshObject_def legacy_call_defs
  by (intro yields_rules)
    (auto simp: statusOf_withStatus [OF assms(1)] statusOf_def [of _ obj] intro!: yields_rules split: sum.splits option.splits)

lemma pauseAfter_writes: "yields (pauseAfter R n a) (\<lambda>_ es. list_all (writesStatus U m) es \<and> \<not> list_ex isStatusU es)"
  unfolding pauseAfter_def legacy_call_defs by (intro yields_rules) auto

lemma updateStatusLoop_yields:
  assumes "nested_laws (lr_Unstructured R)" and "statusOf (lr_Unstructured R) obj = Some m"
  shows "yields (updateStatusLoop R n obj lastErr as)
    (\<lambda>r es. list_all (writesStatus (lr_Unstructured R) m) es \<and> (r = None \<longleftrightarrow> list_ex okStatus es))"
  using assms(2)
proof (induction as arbitrary: obj lastErr)
  case Nil
  show ?case by (simp add: yields_ret)
next
  case (Cons a as)
  show ?case
    unfolding updateStatusLoop.simps updateStatusU_def
    by (intro yields_rules yields_bind [OF refreshObject_yields [OF assms(1) Cons.prems]] yields_bind [OF pauseAfter_writes]
        yields_conseq [OF Cons.IH]) (auto simp: Cons.prems dest: okStatus_isStatusU)
qed

lemma legacyUpdateStatus_yields:
  assumes "nested_laws (lr_Unstructured R)"
  shows "yields (legacyUpdateStatus R u phase message extra) (\<lambda>r es.
    (\<exists>t. list_all (writesStatus (lr_Unstructured R) (statusMap (lr_Zone R) phase message t extra)) es) \<and>
    (r = None \<longleftrightarrow> list_ex okStatus es) \<and> (\<forall>a. KubeA a \<in> set es \<longrightarrow> (\<exists>t. a = NowA t)))"
proof -
  have loop: "yields (updateStatusLoop R n obj lastErr as) (\<lambda>r es. \<forall>a. KubeA a \<notin> set es)" for n obj lastErr as
  proof (induction as arbitrary: obj lastErr)
    case (Cons a as)
    have p: "yields (pauseAfter R n a) (\<lambda>r es. \<forall>a. KubeA a \<notin> set es)" for a
      unfolding pauseAfter_def legacy_call_defs by (intro yields_rules) auto
    have f: "yields (refreshObject R obj err) (\<lambda>r es. \<forall>a. KubeA a \<notin> set es)" for obj err
      unfolding refreshObject_def legacy_call_defs by (intro yields_rules) (auto intro!: yields_rules split: sum.splits option.splits)
    show ?case
      unfolding updateStatusLoop.simps updateStatusU_def
      by (intro yields_rules yields_bind [OF f] yields_bind [OF p] yields_conseq [OF Cons.IH]) auto
  qed (simp add: yields_ret)
  show ?thesis
    unfolding legacyUpdateStatus_def updateStatusWithRetry_def legacy_call_defs call_defs embed_call
    by (intro yields_rules yields_conseq [OF yields_conj [OF updateStatusLoop_yields [OF assms] loop]])
      (auto simp: statusOf_withStatus [OF assms])
qed

text \<open>
  C12: one status update writes one status.  Whatever the API server answers, all status writes of an
  update carry the same status, the one computed at its start, also when a conflict made it read the
  object again; it touches nothing else; and it reports success exactly when a write was accepted.
\<close>

theorem status_update_consistent:
  assumes "nested_laws (lr_Unstructured R)"
  shows "yields (legacyUpdateStatus R u phase message extra) (\<lambda>r es.
    (\<exists>t. \<forall>obj a. UpdateStatusUA obj a \<in> set es \<longrightarrow>
       statusOf (lr_Unstructured R) obj = Some (statusMap (lr_Zone R) phase message t extra)) \<and>
    \<not> list_ex isUpdateU es \<and> (r = None \<longleftrightarrow> list_ex okStatus es))"
proof (rule yields_conseq [OF legacyUpdateStatus_yields [OF assms]])
  fix r and es :: "'b legacyAction list"
  let ?w = "\<lambda>t. writesStatus (lr_Unstructured R) (statusMap (lr_Zone R) phase message t extra)"
  assume "(\<exists>t. list_all (?w t) es) \<and> (r = None \<longleftrightarrow> list_ex okStatus es) \<and> (\<forall>a. KubeA a \<in> set es \<longrightarrow> (\<exists>t. a = NowA t))"
  then obtain t where t: "list_all (?w t) es" "r = None \<longleftrightarrow> list_ex okStatus es" by blast
  then have "\<not> list_ex isUpdateU es" by (force simp: list_all_iff list_ex_iff elim!: isUpdateU.elims)
  with t show "(\<exists>t. \<forall>obj a. UpdateStatusUA obj a \<in> set es \<longrightarrow>
       statusOf (lr_Unstructured R) obj = Some (statusMap (lr_Zone R) phase message t extra)) \<and>
    \<not> list_ex isUpdateU es \<and> (r = None \<longleftrightarrow> list_ex okStatus es)"
    by (force simp: list_all_iff)
qed

section \<open>Reconciling\<close>

definition phaseIn :: "unstructuredLib \<Rightarrow> Unstructured \<Rightarrow> string option" where
  "phaseIn U u = (case statusOf U u of
     Some m \<Rightarrow> (case map_of m ''phase'' of Some (JString p) \<Rightarrow> Some p | _ \<Rightarrow> None)
   | None \<Rightarrow> None)"

fun reports :: "unstructuredLib \<Rightarrow> string \<Rightarrow> 'q legacyAction \<Rightarrow> bool" where
  \<comment> \<open>An action of a status update that reports the phase.\<close>
  "reports U p (UpdateStatusUA u r) = (phaseIn U u = Some p)"
| "reports U p (UpdateUA u r) = False"
| "reports U p (KubeA a) = (\<exists>t. a = NowA t)"
| "reports U p _ = True"

lemma fold_other_keys:
  "k \<notin> fst ` set extra \<Longrightarrow> map_of (fold (\<lambda>(k, v). AList.update k v) extra m) k = map_of m k"
  by (induction extra arbitrary: m) (auto simp: AList.update_conv')

lemma statusMap_phase:
  "map_of (statusMap zone p message t []) ''phase'' = Some (JString p)"
  "''phase'' \<notin> fst ` set extra \<Longrightarrow>
     map_of (statusMap zone p message t ((''phase'', JString p) # extra)) ''phase'' = Some (JString p)"
  by (simp_all add: statusMap_def fold_other_keys AList.update_conv')

lemma report_yields:
  assumes "nested_laws (lr_Unstructured R)"
    and "extra = [] \<or> (\<exists>rest. extra = (''phase'', JString p) # rest \<and> ''phase'' \<notin> fst ` set rest)"
  shows "yields (legacyUpdateStatus R u p message extra) (\<lambda>r es. list_all (reports (lr_Unstructured R) p) es)"
proof (rule yields_conseq [OF legacyUpdateStatus_yields [OF assms(1)]])
  fix r and es :: "'b legacyAction list"
  let ?U = "lr_Unstructured R"
  assume "(\<exists>t. list_all (writesStatus ?U (statusMap (lr_Zone R) p message t extra)) es) \<and>
    (r = None \<longleftrightarrow> list_ex okStatus es) \<and> (\<forall>a. KubeA a \<in> set es \<longrightarrow> (\<exists>t. a = NowA t))"
  then obtain t where t: "list_all (writesStatus ?U (statusMap (lr_Zone R) p message t extra)) es"
    and k: "\<And>a. KubeA a \<in> set es \<Longrightarrow> \<exists>t. a = NowA t" by blast
  have m: "map_of (statusMap (lr_Zone R) p message t extra) ''phase'' = Some (JString p)"
    using assms(2) statusMap_phase(1) [of "lr_Zone R" p message t]
      statusMap_phase(2) [of _ "lr_Zone R" p message t] by auto
  show "list_all (reports ?U p) es"
    unfolding list_all_iff
  proof
    fix a assume "a \<in> set es"
    with t k show "reports ?U p a" by (cases a) (auto simp: list_all_iff phaseIn_def m)
  qed
qed

fun ownedU :: "'q k8slib \<Rightarrow> ObjectMeta \<Rightarrow> 'q legacyAction \<Rightarrow> bool" where
  \<comment> \<open>If the action creates an object, it is controlled by the owner and in its namespace; and it does
      not write the session through the typed client.\<close>
  "ownedU L m (KubeA a) = (quietA a \<and> (case createdMeta a of
     None \<Rightarrow> True | Some c \<Rightarrow> IsControlledBy L c m \<and> om_Namespace c = om_Namespace m))"
| "ownedU L m _ = True"

definition creating :: "'q k8slib \<Rightarrow> ObjectMeta \<Rightarrow> 'q legacyAction list \<Rightarrow> bool" where
  \<comment> \<open>Reads and creations of owned objects only.\<close>
  "creating L m es \<longleftrightarrow> list_all (\<lambda>a. (\<exists>b. a = KubeA b) \<and> ownedU L m a) es"

lemma creating_simps [simp]:
  "creating L m []" "creating L m (a # es) \<longleftrightarrow> (\<exists>b. a = KubeA b) \<and> ownedU L m a \<and> creating L m es"
  "creating L m (xs @ ys) \<longleftrightarrow> creating L m xs \<and> creating L m ys"
  by (auto simp: creating_def)

lemma reconcilePVCs_yields:
  assumes "owner_laws (legacyLib R)"
  shows "yields (reconcilePVCs R u sid) (\<lambda>r es. creating (legacyLib R) (u_Meta u) es)"
proof -
  have "yields (reconcilePVCLoop R u sid specs) (\<lambda>r es. creating (legacyLib R) (u_Meta u) es)" for specs
  proof (induction specs)
    case (Cons x xs)
    show ?case
      unfolding reconcilePVCLoop.simps Let_def call_defs embed_call
      by (intro yields_rules yields_conseq [OF Cons.IH]) (auto simp: claimFor_def dest: owner_lawsD [OF assms])
  qed (simp add: yields_ret)
  then show ?thesis unfolding reconcilePVCs_def .
qed

definition asSession :: "Unstructured \<Rightarrow> string \<Rightarrow> LabSession" where
  "asSession u sid = \<lparr> Meta = u_Meta u, Spec = emptySpec\<lparr> SessionID := sid \<rparr>, Status = emptyStatus \<rparr>"

lemma secret_yields:
  fixes u :: Unstructured
  assumes "owner_laws (legacyLib R)"
  shows "yields (typed (EnsureSSHKeySecret (lr_Typed R) (u_Meta u) sid (om_Namespace (u_Meta u))))
    (\<lambda>r es. creating (legacyLib R) (u_Meta u) es)"
proof -
  have "yields (EnsureSSHKeySecret (lr_Typed R) (u_Meta u) sid (om_Namespace (u_Meta u)))
      (\<lambda>r es. list_all (ownedCreate (legacyLib R) (asSession u sid)) es \<and> list_all quietA es)"
    using yields_conj [OF secret.creates_owned [OF assms, of "asSession u sid"] secret.no_write [OF assms, of "asSession u sid"]]
    by (simp add: asSession_def)
  from yields_embed [OF this] show ?thesis
    by (rule yields_conseq) (force simp: creating_def list_all_iff ownedCreate_def asSession_def split: option.splits)
qed

definition podSeen :: "NamespacedName \<Rightarrow> 'q Pod \<Rightarrow> 'q legacyAction list \<Rightarrow> bool" where
  \<comment> \<open>The pod was read, or is the answer to its creation.\<close>
  "podSeen key pod es \<longleftrightarrow> KubeA (GetPodA key (Inr pod)) \<in> set es \<or> (\<exists>p. KubeA (CreatePodA p (Inr pod)) \<in> set es)"

lemma buildPod_namespace:
  "buildPod R u spec = Returned (Inr pod) \<Longrightarrow> om_Namespace (pod_Meta pod) = om_Namespace (u_Meta u)"
  by (auto simp: buildPod_def Let_def elim!: BuildPodE split: sum.splits option.splits)

lemma reconcilePod_yields:
  assumes "owner_laws (legacyLib R)"
  shows "yields (reconcilePod R u spec) (\<lambda>r es. creating (legacyLib R) (u_Meta u) es \<and>
    (\<forall>pod. r = Returned (Inr pod) \<longrightarrow> podSeen (legacyPodKey u (stringField spec ''sessionId'')) pod es))"
proof -
  have "yields (createLegacyPod R u spec) (\<lambda>r es. creating (legacyLib R) (u_Meta u) es \<and>
      (\<forall>pod. r = Returned (Inr pod) \<longrightarrow> (\<exists>p. KubeA (CreatePodA p (Inr pod)) \<in> set es)))"
    unfolding createLegacyPod_def embed_call
    by (intro yields_bind [OF secret_yields [OF assms]] yields_rules)
      (auto simp: buildPod_namespace dest: owner_lawsD [OF assms])
  note create = this
  show ?thesis
    unfolding reconcilePod_def call_defs embed_call
    by (intro yields_rules yields_conseq [OF create]) (auto simp: podSeen_def)
qed

lemma reconcileService_yields:
  assumes "owner_laws (legacyLib R)"
  shows "yields (reconcileService R u spec) (\<lambda>r es. creating (legacyLib R) (u_Meta u) es)"
  unfolding reconcileService_def Let_def embed_call
  by (intro yields_rules) (auto simp: buildService_def Let_def dest: owner_lawsD [OF assms])

text \<open>
  The actions of a reconcile are those of status updates, whose phases are known, and those that read
  or create objects.
\<close>

definition legacyRun ::
  "('w, 'q) LegacyReconciler \<Rightarrow> Unstructured \<Rightarrow> NamespacedName \<Rightarrow> 'q legacyAction list \<Rightarrow> bool" where
  "legacyRun R u key es \<longleftrightarrow> list_all (ownedU (legacyLib R) (u_Meta u)) es \<and> \<not> list_ex isUpdateU es \<and>
     (\<forall>obj a. UpdateStatusUA obj a \<in> set es \<longrightarrow>
        (\<exists>p \<in> {''Creating'', ''Running'', ''Failed''}. phaseIn (lr_Unstructured R) obj = Some p) \<and>
        (phaseIn (lr_Unstructured R) obj = Some ''Running'' \<longrightarrow>
           (\<exists>pod. podSeen key pod es \<and> pst_Phase (pod_Status pod) = PodRunning)))"

lemma reports_run:
  assumes "list_all (reports (lr_Unstructured R) p) fs" and "p \<in> {''Creating'', ''Failed''} \<or>
      p = ''Running'' \<and> (\<exists>pod. podSeen key pod es \<and> pst_Phase (pod_Status pod) = PodRunning)"
    and "legacyRun R u key es"
  shows "legacyRun R u key (es @ fs)"
proof -
  have "ownedU (legacyLib R) (u_Meta u) a \<and> \<not> isUpdateU a \<and>
      (\<forall>obj b. a = UpdateStatusUA obj b \<longrightarrow> phaseIn (lr_Unstructured R) obj = Some p)" if "a \<in> set fs" for a
    using assms(1) that by (cases a) (fastforce simp: list_all_iff)+
  then show ?thesis using assms(2,3)
    unfolding legacyRun_def podSeen_def list_all_iff list_ex_iff by (auto; blast)
qed

lemma creating_run:
  assumes "creating (legacyLib R) (u_Meta u) fs" and "legacyRun R u key es"
  shows "legacyRun R u key (es @ fs)"
proof -
  have "ownedU (legacyLib R) (u_Meta u) a \<and> (\<exists>b. a = KubeA b)" if "a \<in> set fs" for a
    using assms(1) that by (auto simp: creating_def list_all_iff)
  then show ?thesis using assms(2)
    unfolding legacyRun_def podSeen_def list_all_iff list_ex_iff by (auto; fastforce)
qed

lemma run_bind:
  assumes "yields m (\<lambda>r fs. list_all (reports (lr_Unstructured R) p) fs)" and "p \<in> {''Creating'', ''Failed''}"
    and "legacyRun R u key es" and "\<And>r fs. legacyRun R u key (es @ fs) \<Longrightarrow> yields (f r) (\<lambda>b gs. legacyRun R u key ((es @ fs) @ gs))"
  shows "yields (State_Monad.bind m f) (\<lambda>b fs. legacyRun R u key (es @ fs))"
  by (rule yields_bind [OF assms(1)]) (use assms(2-4) reports_run in fastforce)

lemma failLegacy_run:
  assumes "nested_laws (lr_Unstructured R)" and "legacyRun R u key es"
  shows "yields (failLegacy R u what err) (\<lambda>rep fs. legacyRun R u key (es @ fs))"
  unfolding failLegacy_def
  by (rule run_bind [OF report_yields [OF assms(1)]]) (auto simp: assms(2) intro: yields_ret)

lemma updateLabSessionStatus_run:
  assumes "nested_laws (lr_Unstructured R)" and "legacyRun R u key es" and "podSeen key pod es"
  shows "yields (updateLabSessionStatus R u pod service) (\<lambda>rep fs. legacyRun R u key (es @ fs))"
proof -
  obtain p m where pm: "legacyPhase pod = (p, m)" by fastforce
  then have p: "p \<in> {''Creating'', ''Failed''} \<or> p = ''Running'' \<and> pst_Phase (pod_Status pod) = PodRunning"
    by (auto simp: legacyPhase_def split: if_splits)
  have "yields (legacyUpdateStatus R u p m ((''phase'', JString p) # rest)) (\<lambda>r fs. list_all (reports (lr_Unstructured R) p) fs)"
    if "''phase'' \<notin> fst ` set rest" for rest
    using that by (intro report_yields [OF assms(1)]) auto
  note upd = this
  show ?thesis
    unfolding updateLabSessionStatus_def pm Let_def prod.case
  proof (rule yields_bind, rule upd)
    fix fs :: "'b legacyAction list"
    assume "list_all (reports (lr_Unstructured R) p) fs"
    then have "legacyRun R u key (es @ fs)" using p assms(3) by (intro reports_run [OF _ _ assms(2)]) auto
    then show "yields (if p = ''Creating'' then ret (requeueAfter (10 * Second), None) else ret (requeueAfter (30 * Second), None))
        (\<lambda>rep gs. legacyRun R u key (es @ fs @ gs))"
      by (auto intro: yields_ret)
  qed simp
qed

lemma service_step:
  assumes "owner_laws (legacyLib R)" and "nested_laws (lr_Unstructured R)" and "legacyRun R u key es" and "podSeen key pod es"
  shows "yields (do { s \<leftarrow> reconcileService R u spec;
      (case s of
         Inl e \<Rightarrow> failLegacy R u ''service'' e
       | Inr service \<Rightarrow> do { reply \<leftarrow> updateLabSessionStatus R u pod service; ret (Returned reply) }) })
    (\<lambda>rep fs. legacyRun R u key (es @ fs))"
proof (rule yields_bind [OF reconcileService_yields [OF assms(1)]])
  fix s fs
  assume "creating (legacyLib R) (u_Meta u) fs"
  then have run: "legacyRun R u key (es @ fs)" using assms(3) by (rule creating_run)
  have seen: "podSeen key pod (es @ fs)" using assms(4) by (auto simp: podSeen_def)
  show "yields (case s of Inl e \<Rightarrow> failLegacy R u ''service'' e
       | Inr service \<Rightarrow> do { reply \<leftarrow> updateLabSessionStatus R u pod service; ret (Returned reply) })
      (\<lambda>rep gs. legacyRun R u key (es @ fs @ gs))"
    using failLegacy_run [OF assms(2) run] updateLabSessionStatus_run [OF assms(2) run seen]
    by (auto intro: yields_map split: sum.split)
qed

lemma pod_step:
  assumes "owner_laws (legacyLib R)" and "nested_laws (lr_Unstructured R)"
    and "legacyRun R u (legacyPodKey u (stringField spec ''sessionId'')) es"
  shows "yields (onRet (reconcilePod R u spec) (\<lambda>p. case p of
      Inl e \<Rightarrow> failLegacy R u ''pod'' e
    | Inr pod \<Rightarrow> do {
        s \<leftarrow> reconcileService R u spec;
        (case s of
           Inl e \<Rightarrow> failLegacy R u ''service'' e
         | Inr service \<Rightarrow> do { reply \<leftarrow> updateLabSessionStatus R u pod service; ret (Returned reply) }) }))
    (\<lambda>rep fs. legacyRun R u (legacyPodKey u (stringField spec ''sessionId'')) (es @ fs))"
proof (rule yields_onRet [OF reconcilePod_yields [OF assms(1)]], goal_cases)
  case (1 p fs)
  then show ?case using creating_run assms(3) by blast
next
  case (2 r fs)
  let ?k = "legacyPodKey u (stringField spec ''sessionId'')"
  have run: "legacyRun R u ?k (es @ fs)" using 2 creating_run assms(3) by blast
  have seen: "podSeen ?k pod (es @ fs)" if "r = Inr pod" for pod using 2 that by (auto simp: podSeen_def)
  show ?case
    using failLegacy_run [OF assms(2) run] service_step [OF assms(1,2) run seen]
    by (auto split: sum.split)
qed

lemma reconcileLabSession_run:
  assumes "owner_laws (legacyLib R)" and "nested_laws (lr_Unstructured R)"
    and "NestedMap (lr_Unstructured R) (u_Object u) [''spec''] = Inr (Some spec)"
  shows "yields (reconcileLabSession R u)
    (\<lambda>rep es. legacyRun R u (legacyPodKey u (stringField spec ''sessionId'')) es)"
proof -
  let ?k = "legacyPodKey u (stringField spec ''sessionId'')"
  have nil: "legacyRun R u ?k []" by (simp add: legacyRun_def)
  have main: "yields (onRet (reconcilePVCs R u (stringField spec ''sessionId'')) (\<lambda>err. case err of
      Some e \<Rightarrow> failLegacy R u ''PVCs'' e
    | None \<Rightarrow> onRet (reconcilePod R u spec) (\<lambda>p. case p of
        Inl e \<Rightarrow> failLegacy R u ''pod'' e
      | Inr pod \<Rightarrow> do {
          s \<leftarrow> reconcileService R u spec;
          (case s of
             Inl e \<Rightarrow> failLegacy R u ''service'' e
           | Inr service \<Rightarrow> do { reply \<leftarrow> updateLabSessionStatus R u pod service; ret (Returned reply) }) })))
    (\<lambda>rep fs. legacyRun R u ?k (es @ fs))" if "legacyRun R u ?k es" for es
  proof (rule yields_onRet [OF reconcilePVCs_yields [OF assms(1)]], goal_cases)
    case (1 p fs)
    then show ?case using creating_run that by blast
  next
    case (2 err fs)
    then have run: "legacyRun R u ?k (es @ fs)" using creating_run that by blast
    show ?case
      using failLegacy_run [OF assms(2) run] pod_step [OF assms(1,2) run] by (auto split: option.split)
  qed
  have report: "yields (legacyUpdateStatus R u ''Creating'' m []) (\<lambda>r fs. list_all (reports (lr_Unstructured R) ''Creating'') fs)" for m
    by (rule report_yields [OF assms(2)]) simp
  show ?thesis
    unfolding reconcileLabSession_def assms(3) sum.case option.case Let_def
    by (intro yields_rules yields_bind [OF report] main)
      (auto intro: nil reports_run [OF _ _ nil, simplified] main [OF nil, simplified])
qed

section \<open>Deleting\<close>

definition legacyUnfinalized :: "('w, 'q) LegacyReconciler \<Rightarrow> Unstructured \<Rightarrow> Unstructured" where
  "legacyUnfinalized R u = u\<lparr> u_Meta := (u_Meta u)\<lparr> om_Finalizers :=
     RemoveFinalizer (legacyLib R) (om_Finalizers (u_Meta u)) legacyFinalizer \<rparr> \<rparr>"

definition seenGone :: "('w, 'q) LegacyReconciler \<Rightarrow> Unstructured \<Rightarrow> string \<Rightarrow> 'q legacyAction list \<Rightarrow> bool" where
  \<comment> \<open>The pod and the Service were looked for and not found.\<close>
  "seenGone R u sid es \<longleftrightarrow>
     (\<exists>e. KubeA (GetPodA (legacyPodKey u sid) (Inl e)) \<in> set es \<and> IsNotFound (legacyLib R) e) \<and>
     (\<exists>e. KubeA (GetServiceA (legacyServiceKey u sid) (Inl e)) \<in> set es \<and> IsNotFound (legacyLib R) e)"

lemma updateWithRetry_yields:
  "yields (updateWithRetry R obj MaxRetryAttempts) (\<lambda>r es. list_ex isUpdateU es \<and>
     (\<forall>e \<in> set es. (\<exists>a. e = UpdateUA obj a) \<or> (\<exists>d. e = SleepA d)))"
proof -
  have "yields (pauseAfter R n a) (\<lambda>r es. \<forall>e \<in> set es. \<exists>d. e = SleepA d)" for n a
    unfolding pauseAfter_def legacy_call_defs by (intro yields_rules) auto
  note pause = this
  have "yields (updateLoop R obj n lastErr as) (\<lambda>r es. (as \<noteq> [] \<longrightarrow> list_ex isUpdateU es) \<and>
      (\<forall>e \<in> set es. (\<exists>a. e = UpdateUA obj a) \<or> (\<exists>d. e = SleepA d)))" for n lastErr as
  proof (induction as arbitrary: lastErr)
    case (Cons a as)
    show ?case
      unfolding updateLoop.simps legacy_call_defs
      by (intro yields_rules yields_bind [OF pause] yields_conseq [OF Cons.IH]) auto
  qed (simp add: yields_ret)
  then show ?thesis
    unfolding updateWithRetry_def by (rule yields_conseq) auto
qed

lemma reports_quiet:
  assumes "list_all (reports U p) es"
  shows "\<not> list_ex isUpdateU es" "KubeA a \<in> set es \<Longrightarrow> createdMeta a = None \<and> quietA a"
    "UpdateStatusUA obj b \<in> set es \<Longrightarrow> phaseIn U obj = Some p"
proof -
  show "\<not> list_ex isUpdateU es" using assms by (force simp: list_all_iff list_ex_iff elim!: isUpdateU.elims)
  show "KubeA a \<in> set es \<Longrightarrow> createdMeta a = None \<and> quietA a" using assms by (force simp: list_all_iff)
  show "UpdateStatusUA obj b \<in> set es \<Longrightarrow> phaseIn U obj = Some p" using assms by (force simp: list_all_iff)
qed

lemma noUpdateU: "\<not> list_ex isUpdateU es \<Longrightarrow> UpdateUA obj a \<notin> set es"
  by (force simp: list_ex_iff)

definition legacyDeleting :: "('w, 'q) LegacyReconciler \<Rightarrow> Unstructured \<Rightarrow> 'q legacyAction list \<Rightarrow> bool" where
  \<comment> \<open>What may be done to a session that is being deleted: report it as terminating, remove the finalizer.\<close>
  "legacyDeleting R u es \<longleftrightarrow> (\<forall>a. KubeA a \<in> set es \<longrightarrow> createdMeta a = None \<and> quietA a) \<and>
     (\<forall>obj a. UpdateUA obj a \<in> set es \<longrightarrow> obj = legacyUnfinalized R u) \<and>
     (\<forall>obj a. UpdateStatusUA obj a \<in> set es \<longrightarrow> phaseIn (lr_Unstructured R) obj = Some ''Terminating'')"

lemma legacyReconcileDelete_yields:
  assumes "nested_laws (lr_Unstructured R)"
    and "sid = fst (getNestedString (lr_Unstructured R) (u_Object u) [''spec'', ''sessionId''])"
  shows "yields (legacyReconcileDelete R u) (\<lambda>rep es. legacyDeleting R u es \<and>
    (list_ex isUpdateU es \<longrightarrow> sid \<noteq> [] \<longrightarrow> seenGone R u sid es) \<and>
    (\<not> list_ex isUpdateU es \<longrightarrow> rep = (requeueAfter (10 * Second), None)))"
proof -
  let ?quiet = "\<lambda>es. \<not> list_ex isUpdateU es \<and> legacyDeleting R u es"
  have status: "yields (legacyUpdateStatus R u ''Terminating'' m []) (\<lambda>r es. ?quiet es)" for m
    by (rule yields_conseq [OF report_yields [OF assms(1)]])
      (auto simp: legacyDeleting_def reports_quiet noUpdateU)
  have look0: "yields (verifyResourcesDeleted R u sid) (\<lambda>r es. (r = None \<longrightarrow> seenGone R u sid es) \<and> \<not> list_ex isUpdateU es \<and>
     (\<forall>a. KubeA a \<in> set es \<longrightarrow> createdMeta a = None \<and> quietA a) \<and> (\<forall>obj a. UpdateStatusUA obj a \<notin> set es))"
    unfolding verifyResourcesDeleted_def call_defs embed_call Let_def
    by (intro yields_rules) (auto simp: seenGone_def)
  have look: "yields (if sid \<noteq> [] then verifyResourcesDeleted R u sid else ret None)
      (\<lambda>r es. (r = None \<longrightarrow> sid \<noteq> [] \<longrightarrow> seenGone R u sid es) \<and> ?quiet es)"
    by (auto intro!: yields_ret yields_conseq [OF look0] simp: legacyDeleting_def noUpdateU)
  show ?thesis
    unfolding legacyReconcileDelete_def assms(2) [symmetric] legacyUnfinalized_def [symmetric] Let_def
    by (intro yields_bind [OF status] yields_bind [OF look] yields_rules yields_bind [OF updateWithRetry_yields])
      (auto simp: list_ex_iff seenGone_def legacyDeleting_def)
qed

text \<open>
  C11: the older reconciler waits for the pod and the Service.  A reconcile of a deleted session
  creates nothing; it removes the finalizer only if, in that reconcile, it looked for the session's pod
  and Service and found neither (or the session has no id); the only update of the session is the one
  that removes the finalizer; and if it does not come to that, it asks to be called again after ten
  seconds.  No request deletes the two objects, whose owner is the session that the finalizer keeps.
\<close>

theorem legacy_delete_waits:
  assumes "nested_laws (lr_Unstructured R)"
    and "sid = fst (getNestedString (lr_Unstructured R) (u_Object u) [''spec'', ''sessionId''])"
  shows "yields (legacyReconcileDelete R u) (\<lambda>rep es.
    (\<forall>obj a. UpdateUA obj a \<in> set es \<longrightarrow> obj = legacyUnfinalized R u \<and> (sid \<noteq> [] \<longrightarrow> seenGone R u sid es)) \<and>
    (\<forall>a. KubeA a \<in> set es \<longrightarrow> createdMeta a = None) \<and>
    (\<not> list_ex isUpdateU es \<longrightarrow> rep = (requeueAfter (10 * Second), None)))"
  by (rule yields_conseq [OF legacyReconcileDelete_yields [OF assms]])
    (force simp: legacyDeleting_def list_ex_iff)

section \<open>The whole reconcile\<close>

definition legacySid :: "('w, 'q) LegacyReconciler \<Rightarrow> Unstructured \<Rightarrow> string" where
  \<comment> \<open>The session id in the spec of an object.\<close>
  "legacySid R u = (case NestedMap (lr_Unstructured R) (u_Object u) [''spec''] of
     Inr (Some spec) \<Rightarrow> stringField spec ''sessionId'' | _ \<Rightarrow> [])"

definition legacyFinalized :: "('w, 'q) LegacyReconciler \<Rightarrow> Unstructured \<Rightarrow> Unstructured" where
  "legacyFinalized R u = u\<lparr> u_Meta := (u_Meta u)\<lparr> om_Finalizers :=
     AddFinalizer (legacyLib R) (om_Finalizers (u_Meta u)) legacyFinalizer \<rparr> \<rparr>"

fun changes :: "'q legacyAction \<Rightarrow> bool" where
  \<comment> \<open>The action changes the session or creates an object.\<close>
  "changes (UpdateUA u r) = True"
| "changes (UpdateStatusUA u r) = True"
| "changes (KubeA a) = (createdMeta a \<noteq> None \<or> \<not> quietA a)"
| "changes _ = False"

fun firstRead :: "NamespacedName \<Rightarrow> 'q legacyAction list \<Rightarrow> Unstructured option" where
  \<comment> \<open>The session as the reconcile first read it.\<close>
  "firstRead key [] = None"
| "firstRead key (GetUA k (Inr u) # es) = (if k = key then Some u else firstRead key es)"
| "firstRead key (_ # es) = firstRead key es"

definition legacyAllowed :: "('w, 'q) LegacyReconciler \<Rightarrow> Unstructured \<Rightarrow> 'q legacyAction list \<Rightarrow> bool" where
  "legacyAllowed R u es \<longleftrightarrow>
     (if om_DeletionTimestamp (u_Meta u) \<noteq> None then legacyDeleting R u es
      else if \<not> ContainsFinalizer (legacyLib R) (om_Finalizers (u_Meta u)) legacyFinalizer
      then (\<exists>r. filter changes es = [UpdateUA (legacyFinalized R u) r])
      else legacyRun R u (legacyPodKey u (legacySid R u)) es)"

definition failedRead :: "NamespacedName \<Rightarrow> 'q legacyAction \<Rightarrow> bool" where
  "failedRead key a \<longleftrightarrow> (\<exists>e. a = GetUA key (Inl e)) \<or> (\<exists>d. a = SleepA d)"

lemma failedReads:
  assumes "list_all (failedRead key) es"
  shows "firstRead key (es @ fs) = firstRead key fs" "filter changes es = []"
  using assms by (induction es) (auto simp: failedRead_def)

lemma getWithRetry_reads:
  "yields (getWithRetry R key) (\<lambda>g es. case g of
     Inl e \<Rightarrow> list_all (failedRead key) es
   | Inr u \<Rightarrow> \<exists>pre. es = pre @ [GetUA key (Inr u)] \<and> list_all (failedRead key) pre)"
proof -
  have "yields (pauseAfter R n a) (\<lambda>r es. list_all (failedRead key) es)" for n a
    unfolding pauseAfter_def legacy_call_defs by (intro yields_rules) (auto simp: failedRead_def)
  note pause = this
  have "yields (getLoop R key lastErr as) (\<lambda>g es. case g of
     Inl e \<Rightarrow> list_all (failedRead key) es
   | Inr u \<Rightarrow> \<exists>pre. es = pre @ [GetUA key (Inr u)] \<and> list_all (failedRead key) pre)" for lastErr as
  proof (induction as arbitrary: lastErr)
    case (Cons a as)
    have shift: "\<exists>pre. GetUA key (Inl e) # fs @ xs @ [GetUA key (Inr u)] = pre @ [GetUA key (Inr u)] \<and> list_all (failedRead key) pre"
      if "list_all (failedRead key) fs" "list_all (failedRead key) xs" for e and fs xs :: "'b legacyAction list" and u
      using that by (intro exI [of _ "GetUA key (Inl e) # fs @ xs"]) (simp add: failedRead_def)
    show ?case
      unfolding getLoop.simps legacy_call_defs
      by (intro yields_rules yields_bind [OF pause] yields_conseq [OF Cons.IH])
        (auto simp: failedRead_def [of key "GetUA key (Inl x)" for x] shift split: sum.splits)
  qed (simp add: yields_ret)
  then show ?thesis unfolding getWithRetry_def .
qed

lemma legacyRun_reads:
  assumes "list_all (\<lambda>a. \<not> changes a) pre" and "legacyRun R u key es"
  shows "legacyRun R u key (pre @ es)"
proof -
  have "ownedU (legacyLib R) (u_Meta u) a \<and> \<not> isUpdateU a \<and> \<not> isStatusU a" if "a \<in> set pre" for a
    using assms(1) that by (cases a) (auto simp: list_all_iff)
  then show ?thesis
    using assms(2) unfolding legacyRun_def podSeen_def list_all_iff list_ex_iff by (auto; fastforce)
qed

lemma legacyAllowed_reads:
  assumes "list_all (\<lambda>a. \<not> changes a) pre" and "legacyAllowed R u es"
  shows "legacyAllowed R u (pre @ es)"
proof -
  have "filter changes pre = []" using assms(1) by (simp add: filter_empty_conv list_all_iff)
  moreover have "legacyDeleting R u (pre @ es)" if "legacyDeleting R u es"
    using that assms(1) by (fastforce simp: legacyDeleting_def list_all_iff)
  ultimately show ?thesis
    using assms(2) legacyRun_reads [OF assms(1)] by (simp add: legacyAllowed_def split: if_splits)
qed

lemma reconcileLabSession_allowed:
  assumes "owner_laws (legacyLib R)" and "nested_laws (lr_Unstructured R)"
  shows "yields (reconcileLabSession R u) (\<lambda>rep es. legacyRun R u (legacyPodKey u (legacySid R u)) es)"
proof (cases "\<exists>spec. NestedMap (lr_Unstructured R) (u_Object u) [''spec''] = Inr (Some spec)")
  case True
  then show ?thesis using reconcileLabSession_run [OF assms] by (auto simp: legacySid_def)
next
  case False
  then show ?thesis
    by (auto simp: reconcileLabSession_def legacyRun_def intro!: yields_ret split: sum.split option.split)
qed

text \<open>
  C10: what a reconcile of the older controller may do.  Whatever the API server answers: if it never
  reads the session, it changes nothing and creates nothing.  Otherwise, for the session as it first
  read it: a session that is being deleted only gets the status Terminating and has its finalizer
  removed, and nothing is created; to a session without the finalizer the finalizer is added, by one
  update that is the only change; and for any other session every object created is in the session's
  namespace and controlled by it, the session itself is not updated, every status written says
  Creating, Running or Failed, and Running only if the session's pod was read, or created, in that
  reconcile and runs.
\<close>

theorem legacy_reconcile_safe:
  assumes "owner_laws (legacyLib R)" and "nested_laws (lr_Unstructured R)"
  shows "yields (legacyReconcile R req) (\<lambda>rep es. case firstRead req es of
     None \<Rightarrow> filter changes es = [] | Some u \<Rightarrow> legacyAllowed R u es)"
  unfolding legacyReconcile_def
proof (rule yields_bind [OF getWithRetry_reads], goal_cases)
  case (1 g es)
  show ?case
  proof (cases g)
    case (Inl e)
    with 1 have "firstRead req es = None" "filter changes es = []"
      using failedReads(1) [of req es "[]"] failedReads(2) [of req es] by auto
    with Inl show ?thesis by (auto intro!: yields_ret)
  next
    case (Inr u)
    with 1 obtain pre where es: "es = pre @ [GetUA req (Inr u)]" "list_all (failedRead req) pre" by auto
    have "firstRead req (es @ fs) = Some u" for fs using es failedReads(1) [OF es(2)] by simp
    moreover have "list_all (\<lambda>a. \<not> changes a) es"
      using es failedReads(2) [OF es(2)] by (auto simp: list_all_iff filter_empty_conv)
    ultimately show ?thesis
      using legacyAllowed_reads [of es R u] unfolding Inr sum.case updateU_def Let_def
      by (intro yields_rules yields_bind [OF legacyReconcileDelete_yields [OF assms(2) refl]]
          yields_conseq [OF reconcileLabSession_allowed [OF assms]])
        (auto simp: legacyAllowed_def legacyFinalized_def list_all_iff filter_empty_conv)
  qed
qed

section \<open>What a session may ask for\<close>

definition compare_laws :: "'q k8slib \<Rightarrow> ('q \<Rightarrow> rat) \<Rightarrow> bool" where
  \<comment> \<open>\<open>Cmp\<close> compares the numbers that two quantities stand for.\<close>
  "compare_laws L amount \<longleftrightarrow> (\<forall>a b. QCmp L a b > 0 \<longleftrightarrow> amount a > amount b)"

definition literal_limits :: "'q k8slib \<Rightarrow> ('q \<Rightarrow> rat) \<Rightarrow> bool" where
  \<comment> \<open>The amounts of the limits in the source.\<close>
  "literal_limits L amount \<longleftrightarrow>
     (\<exists>q. ParseQuantity L ''2'' = Inr q \<and> amount q = 2) \<and> (\<exists>q. ParseQuantity L ''8'' = Inr q \<and> amount q = 8) \<and>
     (\<exists>q. ParseQuantity L ''4Gi'' = Inr q \<and> amount q = 4 * 2 ^ 30) \<and>
     (\<exists>q. ParseQuantity L ''16Gi'' = Inr q \<and> amount q = 16 * 2 ^ 30)"

lemma enforce_spec:
  assumes "compare_laws L amount" and "ParseQuantity L maxAllowed = Inr maxQ"
    and "ParseQuantity L (if resourceType = ''memory'' then DefaultMemoryLimit else DefaultCPULimit) = Inr dq" and "amount dq \<le> amount maxQ"
  shows "\<exists>q. ParseQuantity L (enforceResourceLimits L wanted maxAllowed resourceType) = Inr q \<and> amount q \<le> amount maxQ \<and>
    (\<forall>wq. ParseQuantity L wanted = Inr wq \<longrightarrow> amount q = min (amount wq) (amount maxQ)) \<and>
    (\<forall>e. ParseQuantity L wanted = Inl e \<longrightarrow> q = dq)"
  using assms by (cases "ParseQuantity L wanted") (auto simp: enforceResourceLimits_def compare_laws_def min_def not_less)

text \<open>
  C31: the older reconciler caps what a session asks for.  Whatever the spec says, the cpu and the
  memory handed to the pod builder are valid quantities of at most 8 and 16Gi; a valid request is kept
  if it is within the cap and otherwise replaced by the cap; an invalid one becomes the default.
\<close>

theorem legacy_limits_capped:
  assumes "compare_laws L amount" and "literal_limits L amount"
  shows "\<exists>m c. ParseQuantity L (rl_Memory (extractResourceLimits L spec)) = Inr m \<and> amount m \<le> 16 * 2 ^ 30 \<and>
    ParseQuantity L (rl_CPU (extractResourceLimits L spec)) = Inr c \<and> amount c \<le> 8 \<and>
    (\<forall>w. ParseQuantity L (getStringFromMap (mapField spec ''resources'') ''memory'' DefaultMemoryLimit) = Inr w \<longrightarrow>
       amount m = min (amount w) (16 * 2 ^ 30)) \<and>
    (\<forall>w. ParseQuantity L (getStringFromMap (mapField spec ''resources'') ''cpu'' DefaultCPULimit) = Inr w \<longrightarrow>
       amount c = min (amount w) 8) \<and>
    (\<forall>e. ParseQuantity L (getStringFromMap (mapField spec ''resources'') ''memory'' DefaultMemoryLimit) = Inl e \<longrightarrow>
       amount m = 4 * 2 ^ 30) \<and>
    (\<forall>e. ParseQuantity L (getStringFromMap (mapField spec ''resources'') ''cpu'' DefaultCPULimit) = Inl e \<longrightarrow> amount c = 2)"
proof -
  obtain q2 q8 q4 q16 where q: "ParseQuantity L ''2'' = Inr q2" "amount q2 = 2" "ParseQuantity L ''8'' = Inr q8" "amount q8 = 8"
      "ParseQuantity L ''4Gi'' = Inr q4" "amount q4 = 4 * 2 ^ 30" "ParseQuantity L ''16Gi'' = Inr q16" "amount q16 = 16 * 2 ^ 30"
    using assms(2) by (auto simp: literal_limits_def)
  let ?m = "getStringFromMap (mapField spec ''resources'') ''memory'' DefaultMemoryLimit"
  let ?c = "getStringFromMap (mapField spec ''resources'') ''cpu'' DefaultCPULimit"
  have m: "\<exists>m. ParseQuantity L (enforceResourceLimits L ?m MaxMemoryLimit ''memory'') = Inr m \<and> amount m \<le> amount q16 \<and>
      (\<forall>w. ParseQuantity L ?m = Inr w \<longrightarrow> amount m = min (amount w) (amount q16)) \<and> (\<forall>e. ParseQuantity L ?m = Inl e \<longrightarrow> m = q4)"
    by (rule enforce_spec [OF assms(1)]) (simp_all add: q)
  have c: "\<exists>c. ParseQuantity L (enforceResourceLimits L ?c MaxCPULimit ''cpu'') = Inr c \<and> amount c \<le> amount q8 \<and>
      (\<forall>w. ParseQuantity L ?c = Inr w \<longrightarrow> amount c = min (amount w) (amount q8)) \<and> (\<forall>e. ParseQuantity L ?c = Inl e \<longrightarrow> c = q2)"
    by (rule enforce_spec [OF assms(1)]) (simp_all add: q)
  from m c q(2,4,6,8) show ?thesis by (auto simp: extractResourceLimits_def Let_def)
qed

text \<open>The Service of the older reconciler reaches the pod that the shared builder makes for it.\<close>

lemma legacy_service_reaches_pod:
  assumes "buildPod R u spec = Returned (Inr pod)"
    and "\<And>t. FromUnstructured (lr_Unstructured R) spec = Inr t \<Longrightarrow> SessionID t = stringField spec ''sessionId''"
  shows "selects (buildService u spec) pod \<and>
    set (map sp_TargetPort (svc_Ports (buildService u spec))) = set (exposedPorts pod)"
proof -
  obtain t s where t: "FromUnstructured (lr_Unstructured R) spec = Inr t"
    and s: "BuildPod (legacyLib R) (Settings (lr_Typed R)) s = Some pod" "SessionID (Spec s) = SessionID t"
      "sessionNamespace s = om_Namespace (u_Meta u)"
    using assms(1) by (auto simp: buildPod_def Let_def split: sum.splits option.splits)
  have "selects (buildService u spec) pod"
    using s assms(2) [OF t] by (auto elim!: BuildPodE simp: selects_def buildService_def labLabels_def Let_def)
  with BuildPod_exposedPorts [OF s(1)] show ?thesis by (auto simp: buildService_def Let_def)
qed

end
