(* ===== verification/LabTracing.thy ===== *)
theory LabTracing
  imports KubeTypes GoTime
begin

text \<open>
  Tracing, \<^verbatim>\<open>pkg/tracing/tracing.go\<close>: the tracer and its spans, the reconciler wrapped in a span and the
  traced operation.  The OpenTelemetry library is a parameter (\<open>otel\<close>); contexts are values of an
  arbitrary type \<open>'c\<close>, spans are handles, and every call on them is an action of the trace.  The actions
  of the wrapped program are embedded as \<open>InnerT\<close>.

  The theorems say that the wrapper is transparent: what the wrapped reconciler promises about its
  result and its actions holds of the traced one, and its span is always ended, also by a panic.
\<close>

section \<open>Attributes and spans\<close>

abbreviation TracingServiceName :: string where "TracingServiceName \<equiv> ''lab-session-controller''"
abbreviation AttrNamespace :: string where "AttrNamespace \<equiv> ''k8s.namespace''"
abbreviation AttrResourceName :: string where "AttrResourceName \<equiv> ''k8s.resource.name''"
abbreviation AttrResourceKind :: string where "AttrResourceKind \<equiv> ''k8s.resource.kind''"
abbreviation AttrSessionID :: string where "AttrSessionID \<equiv> ''lab.session_id''"
abbreviation AttrUserID :: string where "AttrUserID \<equiv> ''lab.user_id''"
abbreviation AttrOperation :: string where "AttrOperation \<equiv> ''operation''"
abbreviation AttrErrorType :: string where "AttrErrorType \<equiv> ''error.type''"
abbreviation AttrRetryAttempt :: string where "AttrRetryAttempt \<equiv> ''retry.attempt''"

type_synonym attribute = "string \<times> json"
type_synonym spanHandle = nat

datatype spanKind = SpanKindServer | SpanKindInternal

datatype spanCode = CodeError | CodeOk

datatype spanOp =
    AddEvent string
  | SetAttributes "attribute list"
  | RecordErr goerror
  | SetSpanStatus spanCode string
  | EndSpan

text \<open>The sample rate is only handed on to the library; it is kept as a number.\<close>

record TracingConfig =
  tc_Enabled :: bool
  tc_OTLPEndpoint :: string
  tc_ServiceName :: string
  tc_ServiceVersion :: string
  tc_SampleRate :: rat

text \<open>
  The library: exporters, resources, providers and tracers are handles.  \<open>GlobalTracerOf\<close> is
  \<^verbatim>\<open>otel.Tracer\<close>, \<open>ProviderTracer\<close> the method \<^verbatim>\<open>Tracer\<close> of a provider.
\<close>

record ('w, 'c) otel =
  NewExporter :: "string option \<Rightarrow> 'w \<Rightarrow> (goerror + nat) \<times> 'w"
  MergeResource :: "attribute list \<Rightarrow> 'w \<Rightarrow> (goerror + nat) \<times> 'w"
  NewProvider :: "nat \<Rightarrow> nat \<Rightarrow> rat \<Rightarrow> 'w \<Rightarrow> nat \<times> 'w"
  SetProvider :: "nat \<Rightarrow> 'w \<Rightarrow> unit \<times> 'w"
  ShutdownProvider :: "nat \<Rightarrow> 'w \<Rightarrow> goerror option \<times> 'w"
  GlobalTracerOf :: "string \<Rightarrow> 'w \<Rightarrow> nat \<times> 'w"
  ProviderTracer :: "nat \<Rightarrow> string \<Rightarrow> 'w \<Rightarrow> nat \<times> 'w"
  SpanStart :: "nat \<Rightarrow> 'c \<Rightarrow> string \<Rightarrow> attribute list \<Rightarrow> spanKind \<Rightarrow> 'w \<Rightarrow> ('c \<times> spanHandle) \<times> 'w"
  SpanDo :: "spanHandle \<Rightarrow> spanOp \<Rightarrow> 'w \<Rightarrow> unit \<times> 'w"
  TraceClock :: "'w \<Rightarrow> time \<times> 'w"
  ResultIsZero :: "Result \<Rightarrow> bool"

datatype 'e traced =
    InnerT 'e
  | ExporterT "string option" "goerror + nat"
  | ResourceT "attribute list" "goerror + nat"
  | ProviderT nat
  | SetProviderT nat
  | ShutdownT nat "goerror option"
  | TracerT string nat
  | SpanStartT string "attribute list" spanKind spanHandle
  | SpanT spanHandle spanOp
  | TimeT time

type_synonym ('w, 'e, 'a) tracedProg = "('w, 'e traced, 'a) prog"

record Tracer =
  tr_tracer :: nat
  tr_config :: TracingConfig
  tr_provider :: "nat option"

definition spanDo :: "('w, 'c) otel \<Rightarrow> spanHandle \<Rightarrow> spanOp \<Rightarrow> ('w, 'e, unit) tracedProg" where
  "spanDo OT h op = call (SpanDo OT h op) (\<lambda>_. SpanT h op)"

definition traceNow :: "('w, 'c) otel \<Rightarrow> ('w, 'e, time) tracedProg" where
  "traceNow OT = call (TraceClock OT) TimeT"

section \<open>The tracer\<close>

definition NewTracer :: "('w, 'c) otel \<Rightarrow> TracingConfig \<Rightarrow> ('w, 'e, goerror + Tracer) tracedProg" where
  "NewTracer OT config =
     (if \<not> tc_Enabled config
      then do {
        t \<leftarrow> call (GlobalTracerOf OT TracingServiceName) (TracerT TracingServiceName);
        ret (Inr \<lparr> tr_tracer = t, tr_config = config, tr_provider = None \<rparr>) }
      else do {
        let endpoint = (if tc_OTLPEndpoint config \<noteq> [] then Some (tc_OTLPEndpoint config) else None);
        e \<leftarrow> call (NewExporter OT endpoint) (ExporterT endpoint);
        (case e of
           Inl err \<Rightarrow> ret (Inl (ErrWrap ''failed to create OTLP exporter'' err))
         | Inr exporter \<Rightarrow> do {
             let attrs = [(''service.name'', JString (tc_ServiceName config)),
                          (''service.version'', JString (tc_ServiceVersion config)),
                          (''environment'', JString ''production'')];
             r \<leftarrow> call (MergeResource OT attrs) (ResourceT attrs);
             (case r of
                Inl err \<Rightarrow> ret (Inl (ErrWrap ''failed to create resource'' err))
              | Inr res \<Rightarrow> do {
                  tp \<leftarrow> call (NewProvider OT exporter res (tc_SampleRate config)) ProviderT;
                  _ \<leftarrow> call (SetProvider OT tp) (\<lambda>_. SetProviderT tp);
                  t \<leftarrow> call (ProviderTracer OT tp TracingServiceName) (TracerT TracingServiceName);
                  ret (Inr \<lparr> tr_tracer = t, tr_config = config, tr_provider = Some tp \<rparr>) }) }) })"

definition CloseTracer :: "('w, 'c) otel \<Rightarrow> Tracer \<Rightarrow> ('w, 'e, goerror option) tracedProg" where
  "CloseTracer OT t = (case tr_provider t of
     Some p \<Rightarrow> call (ShutdownProvider OT p) (ShutdownT p)
   | None \<Rightarrow> ret None)"

definition StartSpan ::
  "('w, 'c) otel \<Rightarrow> Tracer \<Rightarrow> 'c \<Rightarrow> string \<Rightarrow> attribute list \<Rightarrow> spanKind \<Rightarrow> ('w, 'e, 'c \<times> spanHandle) tracedProg" where
  "StartSpan OT t ctx name attrs kind =
     call (SpanStart OT (tr_tracer t) ctx name attrs kind) (\<lambda>r. SpanStartT name attrs kind (snd r))"

definition ReconcileSpan ::
  "('w, 'c) otel \<Rightarrow> Tracer \<Rightarrow> 'c \<Rightarrow> string \<Rightarrow> string \<Rightarrow> ('w, 'e, 'c \<times> spanHandle) tracedProg" where
  "ReconcileSpan OT t ctx namespace name = StartSpan OT t ctx ''reconcile''
     [(AttrNamespace, JString namespace), (AttrResourceName, JString name),
      (AttrResourceKind, JString ''LabSession''), (AttrOperation, JString ''reconcile'')] SpanKindServer"

definition OperationSpan ::
  "('w, 'c) otel \<Rightarrow> Tracer \<Rightarrow> 'c \<Rightarrow> string \<Rightarrow> attribute list \<Rightarrow> ('w, 'e, 'c \<times> spanHandle) tracedProg" where
  "OperationSpan OT t ctx operation attrs =
     StartSpan OT t ctx operation ((AttrOperation, JString operation) # attrs) SpanKindInternal"

definition creationSpan ::
  "('w, 'c) otel \<Rightarrow> Tracer \<Rightarrow> 'c \<Rightarrow> string \<Rightarrow> string \<Rightarrow> string \<Rightarrow> ('w, 'e, 'c \<times> spanHandle) tracedProg" where
  "creationSpan OT t ctx name namespace sid = StartSpan OT t ctx name
     [(AttrNamespace, JString namespace), (AttrSessionID, JString sid), (AttrOperation, JString name)] SpanKindInternal"

definition PodCreationSpan ::
  "('w, 'c) otel \<Rightarrow> Tracer \<Rightarrow> 'c \<Rightarrow> string \<Rightarrow> string \<Rightarrow> ('w, 'e, 'c \<times> spanHandle) tracedProg" where
  "PodCreationSpan OT t ctx namespace sid = creationSpan OT t ctx ''create-pod'' namespace sid"

definition ServiceCreationSpan ::
  "('w, 'c) otel \<Rightarrow> Tracer \<Rightarrow> 'c \<Rightarrow> string \<Rightarrow> string \<Rightarrow> ('w, 'e, 'c \<times> spanHandle) tracedProg" where
  "ServiceCreationSpan OT t ctx namespace sid = creationSpan OT t ctx ''create-service'' namespace sid"

definition PVCCreationSpan ::
  "('w, 'c) otel \<Rightarrow> Tracer \<Rightarrow> 'c \<Rightarrow> string \<Rightarrow> string \<Rightarrow> ('w, 'e, 'c \<times> spanHandle) tracedProg" where
  "PVCCreationSpan OT t ctx namespace sid = creationSpan OT t ctx ''create-pvc'' namespace sid"

definition RetrySpan ::
  "('w, 'c) otel \<Rightarrow> Tracer \<Rightarrow> 'c \<Rightarrow> string \<Rightarrow> int \<Rightarrow> ('w, 'e, 'c \<times> spanHandle) tracedProg" where
  "RetrySpan OT t ctx operation attempt = StartSpan OT t ctx (''retry-'' @ operation)
     [(AttrOperation, JString operation), (AttrRetryAttempt, JInt attempt)] SpanKindInternal"

section \<open>Span utilities\<close>

definition RecordSpanError :: "('w, 'c) otel \<Rightarrow> spanHandle \<Rightarrow> goerror option \<Rightarrow> string \<Rightarrow> ('w, 'e, unit) tracedProg" where
  "RecordSpanError OT h err errorType = (case err of
     None \<Rightarrow> ret ()
   | Some e \<Rightarrow> do {
       _ \<leftarrow> spanDo OT h (RecordErr e);
       _ \<leftarrow> spanDo OT h (SetAttributes [(AttrErrorType, JString errorType), (''error'', JBool True)]);
       spanDo OT h (SetSpanStatus CodeError (errorString e)) })"

definition RecordSuccess :: "('w, 'c) otel \<Rightarrow> spanHandle \<Rightarrow> ('w, 'e, unit) tracedProg" where
  "RecordSuccess OT h = do {
     _ \<leftarrow> spanDo OT h (SetAttributes [(''success'', JBool True)]);
     spanDo OT h (SetSpanStatus CodeOk []) }"

definition AddSessionContext :: "('w, 'c) otel \<Rightarrow> spanHandle \<Rightarrow> string \<Rightarrow> string \<Rightarrow> ('w, 'e, unit) tracedProg" where
  "AddSessionContext OT h sid userID =
     spanDo OT h (SetAttributes [(AttrSessionID, JString sid), (AttrUserID, JString userID)])"

definition AddResourceContext ::
  "('w, 'c) otel \<Rightarrow> spanHandle \<Rightarrow> string \<Rightarrow> string \<Rightarrow> string \<Rightarrow> ('w, 'e, unit) tracedProg" where
  "AddResourceContext OT h kind namespace name =
     spanDo OT h (SetAttributes [(AttrResourceKind, JString kind), (AttrNamespace, JString namespace),
       (AttrResourceName, JString name)])"

section \<open>The traced reconciler\<close>

type_synonym ('w, 'c, 'e) reconciler = "'c \<Rightarrow> NamespacedName \<Rightarrow> ('w, 'e, (Result \<times> goerror option) outcome) prog"

definition TracedReconcile ::
  "('w, 'c) otel \<Rightarrow> Tracer \<Rightarrow> ('w, 'c, 'e) reconciler \<Rightarrow> 'c \<Rightarrow> NamespacedName \<Rightarrow>
   ('w, 'e, (Result \<times> goerror option) outcome) tracedProg" where
  \<comment> \<open>The deferred \<open>span.End()\<close> runs on every way out.\<close>
  "TracedReconcile OT t reconciler ctx req = do {
     (spanCtx, span) \<leftarrow> ReconcileSpan OT t ctx (nn_Namespace req) (nn_Name req);
     start \<leftarrow> traceNow OT;
     _ \<leftarrow> spanDo OT span (AddEvent ''reconciliation.started'');
     out \<leftarrow> embed InnerT (reconciler spanCtx req);
     (case out of
        Panicked p \<Rightarrow> do { _ \<leftarrow> spanDo OT span EndSpan; ret (Panicked p) }
      | Returned (result, err) \<Rightarrow> do {
          stop \<leftarrow> traceNow OT;
          _ \<leftarrow> spanDo OT span (SetAttributes [(''reconcile.duration_ms'', JInt (Milliseconds (stop - start))),
                                             (''reconcile.requeue'', JBool (\<not> ResultIsZero OT result))]);
          _ \<leftarrow> (if RequeueAfter result > 0
                then spanDo OT span (SetAttributes [(''reconcile.requeue_after_ms'', JInt (Milliseconds (RequeueAfter result)))])
                else ret ());
          _ \<leftarrow> (if err \<noteq> None
                then do { _ \<leftarrow> RecordSpanError OT span err ''reconciliation''; spanDo OT span (AddEvent ''reconciliation.failed'') }
                else do { _ \<leftarrow> RecordSuccess OT span; spanDo OT span (AddEvent ''reconciliation.completed'') });
          _ \<leftarrow> spanDo OT span EndSpan;
          ret (Returned (result, err)) }) }"

definition TracedOperation ::
  "('w, 'c) otel \<Rightarrow> Tracer \<Rightarrow> 'c \<Rightarrow> string \<Rightarrow> ('c \<Rightarrow> ('w, 'e, goerror option outcome) prog) \<Rightarrow>
   ('w, 'e, goerror option outcome) tracedProg" where
  "TracedOperation OT t ctx name fn = do {
     (spanCtx, span) \<leftarrow> OperationSpan OT t ctx name [];
     start \<leftarrow> traceNow OT;
     _ \<leftarrow> spanDo OT span (AddEvent (name @ ''.started''));
     out \<leftarrow> embed InnerT (fn spanCtx);
     (case out of
        Panicked p \<Rightarrow> do { _ \<leftarrow> spanDo OT span EndSpan; ret (Panicked p) }
      | Returned err \<Rightarrow> do {
          stop \<leftarrow> traceNow OT;
          _ \<leftarrow> spanDo OT span (SetAttributes [(''duration_ms'', JInt (Milliseconds (stop - start)))]);
          _ \<leftarrow> (if err \<noteq> None
                then do { _ \<leftarrow> RecordSpanError OT span err name; spanDo OT span (AddEvent (name @ ''.failed'')) }
                else do { _ \<leftarrow> RecordSuccess OT span; spanDo OT span (AddEvent (name @ ''.completed'')) });
          _ \<leftarrow> spanDo OT span EndSpan;
          ret (Returned err) }) }"

section \<open>The global tracer\<close>

text \<open>The variable \<^verbatim>\<open>GlobalTracer\<close> is passed and returned.\<close>

definition InitTracing ::
  "('w, 'c) otel \<Rightarrow> TracingConfig \<Rightarrow> Tracer option \<Rightarrow> ('w, 'e, goerror option \<times> Tracer option) tracedProg" where
  "InitTracing OT config global = do {
     r \<leftarrow> NewTracer OT config;
     (case r of Inl err \<Rightarrow> ret (Some err, global) | Inr t \<Rightarrow> ret (None, Some t)) }"

definition GetTracer :: "('w, 'c) otel \<Rightarrow> Tracer option \<Rightarrow> ('w, 'e, Tracer \<times> Tracer option) tracedProg" where
  "GetTracer OT global = (case global of
     Some t \<Rightarrow> ret (t, global)
   | None \<Rightarrow> do {
       h \<leftarrow> call (GlobalTracerOf OT TracingServiceName) (TracerT TracingServiceName);
       let t = \<lparr> tr_tracer = h, tr_config = \<lparr> tc_Enabled = False, tc_OTLPEndpoint = [], tc_ServiceName = [],
                   tc_ServiceVersion = [], tc_SampleRate = 0 \<rparr>, tr_provider = None \<rparr>;
       ret (t, Some t) })"

definition StartOperation ::
  "('w, 'c) otel \<Rightarrow> Tracer option \<Rightarrow> 'c \<Rightarrow> string \<Rightarrow> ('w, 'e, ('c \<times> spanHandle) \<times> Tracer option) tracedProg" where
  "StartOperation OT global ctx name = do {
     (t, global) \<leftarrow> GetTracer OT global;
     r \<leftarrow> OperationSpan OT t ctx name [];
     ret (r, global) }"

definition TraceOperation ::
  "('w, 'c) otel \<Rightarrow> Tracer option \<Rightarrow> 'c \<Rightarrow> string \<Rightarrow> ('c \<Rightarrow> ('w, 'e, goerror option outcome) prog) \<Rightarrow>
   ('w, 'e, goerror option outcome \<times> Tracer option) tracedProg" where
  "TraceOperation OT global ctx name fn = do {
     (t, global) \<leftarrow> GetTracer OT global;
     r \<leftarrow> TracedOperation OT t ctx name fn;
     ret (r, global) }"

section \<open>Transparency\<close>

definition spanStory :: "spanHandle \<Rightarrow> bool option \<Rightarrow> 'e traced list \<Rightarrow> bool" where
  \<comment> \<open>The life of a span: every span action is on it; it is ended once, at the end; its status is the
      verdict, and is not set if there is none.\<close>
  "spanStory h verdict es \<longleftrightarrow>
     (\<forall>k op. SpanT k op \<in> set es \<longrightarrow> k = h) \<and>
     last es = SpanT h EndSpan \<and> SpanT h EndSpan \<notin> set (butlast es) \<and>
     ((\<exists>m. SpanT h (SetSpanStatus CodeError m) \<in> set es) \<longleftrightarrow> verdict = Some False) \<and>
     ((\<exists>m. SpanT h (SetSpanStatus CodeOk m) \<in> set es) \<longleftrightarrow> verdict = Some True)"

fun isInner :: "'e traced \<Rightarrow> bool" where
  "isInner (InnerT e) = True"
| "isInner _ = False"

definition wrapped :: "('r \<Rightarrow> bool option) \<Rightarrow> ('r \<Rightarrow> 'e list \<Rightarrow> bool) \<Rightarrow> 'r \<Rightarrow> 'e traced list \<Rightarrow> bool" where
  \<comment> \<open>One run of the wrapped program, with the result, inside one span.\<close>
  "wrapped verdict Q r es \<longleftrightarrow> (\<exists>fs pre post h. es = pre @ map InnerT fs @ post \<and> Q r fs \<and>
     \<not> list_ex isInner (pre @ post) \<and> (\<exists>n as k. hd es = SpanStartT n as k h) \<and> spanStory h (verdict r) es)"

lemmas trace_defs = StartSpan_def traceNow_def spanDo_def RecordSpanError_def RecordSuccess_def

lemma wrappedI:
  assumes "Q r fs" and "\<not> list_ex isInner (SpanStartT n as k h # pre @ post)"
    and "spanStory h (verdict r) (SpanStartT n as k h # pre @ post)" and "post \<noteq> []"
  shows "wrapped verdict Q r (SpanStartT n as k h # pre @ map InnerT fs @ post)"
  unfolding wrapped_def
proof (intro exI conjI)
  show "SpanStartT n as k h # pre @ map InnerT fs @ post = (SpanStartT n as k h # pre) @ map InnerT fs @ post" by simp
  show "spanStory h (verdict r) (SpanStartT n as k h # pre @ map InnerT fs @ post)"
    using assms(3,4) by (auto simp: spanStory_def butlast_append)
qed (use assms in auto)

fun reconcileVerdict :: "(Result \<times> goerror option) outcome \<Rightarrow> bool option" where
  "reconcileVerdict (Returned (result, err)) = Some (err = None)"
| "reconcileVerdict (Panicked p) = None"

fun operationVerdict :: "goerror option outcome \<Rightarrow> bool option" where
  "operationVerdict (Returned err) = Some (err = None)"
| "operationVerdict (Panicked p) = None"

text \<open>
  C32: tracing is transparent.  Whatever a reconciler promises of its result and its actions (a
  statement \<open>Q\<close> of the trace logic), the traced reconciler promises of its result and of the actions of
  the reconciler, which runs exactly once.  Around it there is one span: it is ended exactly once, as
  the last action, also when the reconciler panics; its status is an error exactly if the reconciler
  returned one, and ok exactly if it returned none.
\<close>

theorem traced_reconcile_transparent:
  assumes "\<And>c. yields (reconciler c req) Q"
  shows "yields (TracedReconcile OT t reconciler ctx req) (wrapped reconcileVerdict Q)"
  unfolding TracedReconcile_def ReconcileSpan_def trace_defs
  by (intro yields_rules yields_bind_embed [OF assms])
    (auto intro!: yields_rules wrappedI [where pre = "[_, _]", simplified] simp: spanStory_def split: outcome.splits)

text \<open>The same for an operation.\<close>

lemma traced_operation_transparent:
  assumes "\<And>c. yields (fn c) Q"
  shows "yields (TracedOperation OT t ctx name fn) (wrapped operationVerdict Q)"
  unfolding TracedOperation_def OperationSpan_def trace_defs
  by (intro yields_rules yields_bind_embed [OF assms])
    (auto intro!: yields_rules wrappedI [where pre = "[_, _]", simplified] simp: spanStory_def split: outcome.splits)

text \<open>
  The global tracer: once there is one, \<open>GetTracer\<close> returns it and makes no call; without
  initialisation it makes one without a provider, and keeps it.
\<close>

lemma GetTracer_yields:
  "yields (GetTracer OT global) (\<lambda>r es. snd r = Some (fst r) \<and>
     (\<forall>t. global = Some t \<longrightarrow> fst r = t \<and> es = []) \<and> (global = None \<longrightarrow> tr_provider (fst r) = None \<and> length es = 1))"
  unfolding GetTracer_def by (intro yields_rules) auto

lemma InitTracing_yields:
  "yields (InitTracing OT config global) (\<lambda>r es.
     (fst r \<noteq> None \<longrightarrow> snd r = global) \<and> (fst r = None \<longrightarrow> (\<exists>t. snd r = Some t \<and> tr_config t = config \<and>
        (tr_provider t \<noteq> None \<longleftrightarrow> tc_Enabled config))))"
  unfolding InitTracing_def NewTracer_def by (intro yields_rules) auto

end
