(* ===== verification/GoMaps.thy ===== *)
theory GoMaps
  imports LabPrelude "HOL-Library.Multiset"
begin

text \<open>
  Loops over Go maps.  A map is an association list with distinct keys; a \<^verbatim>\<open>range\<close> over it visits the
  entries in an order that the language does not fix, given by a function that permutes them.
\<close>

definition rangeOrder :: "(('k \<times> 'v) list \<Rightarrow> ('k \<times> 'v) list) \<Rightarrow> bool" where
  \<comment> \<open>A range over a map visits every entry once, in some order.\<close>
  "rangeOrder order \<longleftrightarrow> (\<forall>m. mset (order m) = mset m)"

definition putAll :: "('k \<times> 'v) list \<Rightarrow> ('k \<times> 'v) list \<Rightarrow> ('k \<times> 'v) list" where
  \<comment> \<open>The loop \<open>for k, v := range entries { m[k] = v }\<close>.\<close>
  "putAll entries m = fold (\<lambda>(k, v). AList.update k v) entries m"

lemma putAll_map: "map_of (putAll entries m) = map_of m ++ map_of (rev entries)"
  unfolding putAll_def
proof (induction entries arbitrary: m)
  case (Cons x xs)
  then show ?case by (cases x) (auto simp: AList.update_conv' map_add_def fun_eq_iff split: option.splits)
qed simp

lemma putAll_distinct: "distinct (map fst m) \<Longrightarrow> distinct (map fst (putAll entries m))"
  unfolding putAll_def
  by (induction entries arbitrary: m) (auto intro: AList.distinct_update)

lemma map_of_mset:
  assumes "mset xs = mset ys" and "distinct (map fst ys)"
  shows "map_of xs = map_of ys"
proof -
  have "mset (map fst xs) = mset (map fst ys)" using assms(1) by (metis mset_map)
  then have "distinct (map fst xs)" using assms(2) mset_eq_imp_distinct_iff by blast
  moreover have "set xs = set ys" using assms(1) by (rule mset_eq_setD)
  ultimately show ?thesis using assms(2) map_of_inject_set by blast
qed

lemma putAll_copy:
  \<comment> \<open>A loop that puts every entry of a map into an empty one copies it, in whatever order.\<close>
  assumes "rangeOrder order" and "distinct (map fst m)"
  shows "map_of (putAll (order m) []) = map_of m"
proof -
  have "map_of (rev (order m)) = map_of m"
    using assms by (intro map_of_mset) (auto simp: rangeOrder_def)
  then show ?thesis by (simp add: putAll_map)
qed

end
