(* ===== verification/LabLogging.thy ===== *)
theory LabLogging
  imports GoTime GoMaps
begin

text \<open>
  Structured logging, \<^verbatim>\<open>pkg/logging/logger.go\<close>.  The logger underneath (\<^verbatim>\<open>logr\<close>) is a parameter: loggers
  are values of an arbitrary type \<open>'l\<close>, contexts of a type \<open>'c\<close>, and each entry that is logged is an action
  of the trace.  The order in which Go iterates over a map is a parameter too (\<open>MapOrder\<close>); that it
  visits every entry once is the hypothesis \<open>order_laws\<close>.
\<close>

section \<open>The logger underneath\<close>

text \<open>A level is an integer; the four constants are the declared ones.\<close>

type_synonym LogLevel = int

abbreviation DebugLevel :: LogLevel where "DebugLevel \<equiv> 0"
abbreviation InfoLevel :: LogLevel where "InfoLevel \<equiv> 1"
abbreviation WarnLevel :: LogLevel where "WarnLevel \<equiv> 2"
abbreviation ErrorLevel :: LogLevel where "ErrorLevel \<equiv> 3"

definition levelString :: "LogLevel \<Rightarrow> string" where
  "levelString l =
     (if l = DebugLevel then ''DEBUG''
      else if l = InfoLevel then ''INFO''
      else if l = WarnLevel then ''WARN''
      else if l = ErrorLevel then ''ERROR''
      else ''UNKNOWN'')"

type_synonym Fields = jobject

record ('w, 'l, 'c) logr =
  RootLog :: 'l
  LogWithName :: "'l \<Rightarrow> string \<Rightarrow> 'l"
  LogWithValues :: "'l \<Rightarrow> jobject \<Rightarrow> 'l"
  LogInfo :: "'l \<Rightarrow> int \<Rightarrow> string \<Rightarrow> jobject \<Rightarrow> 'w \<Rightarrow> unit \<times> 'w"
  LogError :: "'l \<Rightarrow> goerror option \<Rightarrow> string \<Rightarrow> jobject \<Rightarrow> 'w \<Rightarrow> unit \<times> 'w"
  SpanContext :: "'c \<Rightarrow> (string \<times> string) option"
  TypeName :: "goerror \<Rightarrow> string"
  MapOrder :: "jobject \<Rightarrow> jobject"
  LogClock :: "'w \<Rightarrow> time \<times> 'w"
  LogZone :: int

datatype ('l, 'e) logged =
    InnerL 'e
  | InfoL 'l int string jobject
  | ErrorL 'l "goerror option" string jobject
  | TimeL time

type_synonym ('w, 'l, 'e, 'a) logProg = "('w, ('l, 'e) logged, 'a) prog"

record 'l Logger =
  lg_base :: 'l
  lg_name :: string

section \<open>Loggers\<close>

definition NewLogger :: "('w, 'l, 'c) logr \<Rightarrow> string \<Rightarrow> 'l Logger" where
  "NewLogger G name = \<lparr> lg_base = LogWithName G (RootLog G) name, lg_name = name \<rparr>"

definition LoggerWithContext :: "('w, 'l, 'c) logr \<Rightarrow> 'l Logger \<Rightarrow> 'c \<Rightarrow> 'l Logger" where
  "LoggerWithContext G l ctx = (case SpanContext G ctx of
     None \<Rightarrow> l
   | Some (traceId, spanId) \<Rightarrow>
       l\<lparr> lg_base := LogWithValues G (lg_base l) [(''trace_id'', JString traceId), (''span_id'', JString spanId)] \<rparr>)"

definition WithFields :: "('w, 'l, 'c) logr \<Rightarrow> 'l Logger \<Rightarrow> Fields \<Rightarrow> 'l Logger" where
  "WithFields G l fs = l\<lparr> lg_base := LogWithValues G (lg_base l) (MapOrder G fs) \<rparr>"

definition WithLabSession :: "('w, 'l, 'c) logr \<Rightarrow> 'l Logger \<Rightarrow> string \<Rightarrow> string \<Rightarrow> string \<Rightarrow> 'l Logger" where
  "WithLabSession G l namespace sid userID = WithFields G l
     [(''namespace'', JString namespace), (''session_id'', JString sid), (''user_id'', JString userID)]"

definition WithResource :: "('w, 'l, 'c) logr \<Rightarrow> 'l Logger \<Rightarrow> string \<Rightarrow> string \<Rightarrow> string \<Rightarrow> 'l Logger" where
  "WithResource G l kind namespace name = WithFields G l
     [(''resource_kind'', JString kind), (''resource_namespace'', JString namespace), (''resource_name'', JString name)]"

definition WithError :: "('w, 'l, 'c) logr \<Rightarrow> 'l Logger \<Rightarrow> goerror option \<Rightarrow> 'l Logger" where
  "WithError G l err = (case err of
     None \<Rightarrow> l
   | Some e \<Rightarrow> WithFields G l
       [(''error'', JString (errorString e)), (''error_type'', JString (TypeName G e)), (''has_error'', JBool True)])"

definition mergeFields :: "('w, 'l, 'c) logr \<Rightarrow> Fields list \<Rightarrow> jobject" where
  "mergeFields G fieldsList = fold (\<lambda>fs. putAll (MapOrder G fs)) fieldsList []"

definition logWithFields ::
  "('w, 'l, 'c) logr \<Rightarrow> 'l Logger \<Rightarrow> LogLevel \<Rightarrow> string \<Rightarrow> Fields list \<Rightarrow> ('w, 'l, 'e, unit) logProg" where
  "logWithFields G l level msg fieldsList = do {
     let allFields = mergeFields G fieldsList;
     t \<leftarrow> call (LogClock G) TimeL;
     let allFields = AList.update ''timestamp'' (JString (RFC3339 (LogZone G) t)) allFields;
     let allFields = AList.update ''level'' (JString (levelString level)) allFields;
     let allFields = AList.update ''logger'' (JString (lg_name l)) allFields;
     let values = MapOrder G allFields;
     (if level = DebugLevel
      then call (LogInfo G (lg_base l) 1 msg values) (\<lambda>_. InfoL (lg_base l) 1 msg values)
      else if level = InfoLevel
      then call (LogInfo G (lg_base l) 0 msg values) (\<lambda>_. InfoL (lg_base l) 0 msg values)
      else if level = WarnLevel
      then call (LogInfo G (lg_base l) 0 (''WARN: '' @ msg) values) (\<lambda>_. InfoL (lg_base l) 0 (''WARN: '' @ msg) values)
      else if level = ErrorLevel
      then call (LogError G (lg_base l) None msg values) (\<lambda>_. ErrorL (lg_base l) None msg values)
      else ret ()) }"

definition Debug :: "('w, 'l, 'c) logr \<Rightarrow> 'l Logger \<Rightarrow> string \<Rightarrow> Fields list \<Rightarrow> ('w, 'l, 'e, unit) logProg" where
  "Debug G l msg fieldsList = logWithFields G l DebugLevel msg fieldsList"

definition Info :: "('w, 'l, 'c) logr \<Rightarrow> 'l Logger \<Rightarrow> string \<Rightarrow> Fields list \<Rightarrow> ('w, 'l, 'e, unit) logProg" where
  "Info G l msg fieldsList = logWithFields G l InfoLevel msg fieldsList"

definition Warn :: "('w, 'l, 'c) logr \<Rightarrow> 'l Logger \<Rightarrow> string \<Rightarrow> Fields list \<Rightarrow> ('w, 'l, 'e, unit) logProg" where
  "Warn G l msg fieldsList = logWithFields G l WarnLevel msg fieldsList"

definition Error :: "('w, 'l, 'c) logr \<Rightarrow> 'l Logger \<Rightarrow> goerror option \<Rightarrow> string \<Rightarrow> Fields list \<Rightarrow> ('w, 'l, 'e, unit) logProg" where
  "Error G l err msg fieldsList = logWithFields G (WithError G l err) ErrorLevel msg fieldsList"

definition DebugWithContext :: "('w, 'l, 'c) logr \<Rightarrow> 'l Logger \<Rightarrow> 'c \<Rightarrow> string \<Rightarrow> Fields list \<Rightarrow> ('w, 'l, 'e, unit) logProg" where
  "DebugWithContext G l ctx msg fieldsList = Debug G (LoggerWithContext G l ctx) msg fieldsList"

definition InfoWithContext :: "('w, 'l, 'c) logr \<Rightarrow> 'l Logger \<Rightarrow> 'c \<Rightarrow> string \<Rightarrow> Fields list \<Rightarrow> ('w, 'l, 'e, unit) logProg" where
  "InfoWithContext G l ctx msg fieldsList = Info G (LoggerWithContext G l ctx) msg fieldsList"

definition WarnWithContext :: "('w, 'l, 'c) logr \<Rightarrow> 'l Logger \<Rightarrow> 'c \<Rightarrow> string \<Rightarrow> Fields list \<Rightarrow> ('w, 'l, 'e, unit) logProg" where
  "WarnWithContext G l ctx msg fieldsList = Warn G (LoggerWithContext G l ctx) msg fieldsList"

definition ErrorWithContext ::
  "('w, 'l, 'c) logr \<Rightarrow> 'l Logger \<Rightarrow> 'c \<Rightarrow> goerror option \<Rightarrow> string \<Rightarrow> Fields list \<Rightarrow> ('w, 'l, 'e, unit) logProg" where
  "ErrorWithContext G l ctx err msg fieldsList = Error G (LoggerWithContext G l ctx) err msg fieldsList"

section \<open>Reconcile and event loggers\<close>

record 'l ReconcileLogger =
  rl_Logger :: "'l Logger"
  rl_namespace :: string
  rl_name :: string

definition NewReconcileLogger :: "('w, 'l, 'c) logr \<Rightarrow> string \<Rightarrow> string \<Rightarrow> string \<Rightarrow> 'l ReconcileLogger" where
  "NewReconcileLogger G name namespace resourceName =
     \<lparr> rl_Logger = WithFields G (NewLogger G ''reconciler'')
         [(''controller'', JString name), (''resource_namespace'', JString namespace), (''resource_name'', JString resourceName)],
       rl_namespace = namespace, rl_name = resourceName \<rparr>"

definition StartReconcile :: "('w, 'l, 'c) logr \<Rightarrow> 'l ReconcileLogger \<Rightarrow> 'c \<Rightarrow> ('w, 'l, 'e, 'l ReconcileLogger) logProg" where
  "StartReconcile G rl ctx = do {
     _ \<leftarrow> InfoWithContext G (rl_Logger rl) ctx ''Starting reconciliation'' [];
     ret (rl\<lparr> rl_Logger := LoggerWithContext G (rl_Logger rl) ctx \<rparr>) }"

definition EndReconcile ::
  "('w, 'l, 'c) logr \<Rightarrow> 'l ReconcileLogger \<Rightarrow> 'c \<Rightarrow> duration \<Rightarrow> goerror option \<Rightarrow> ('w, 'l, 'e, unit) logProg" where
  "EndReconcile G rl ctx duration err = do {
     let fs = [(''duration_ms'', JInt (Milliseconds duration)), (''success'', JBool (err = None))];
     (if err \<noteq> None then ErrorWithContext G (rl_Logger rl) ctx err ''Reconciliation failed'' [fs]
      else InfoWithContext G (rl_Logger rl) ctx ''Reconciliation completed'' [fs]) }"

definition LogOperation ::
  "('w, 'l, 'c) logr \<Rightarrow> 'l ReconcileLogger \<Rightarrow> 'c \<Rightarrow> string \<Rightarrow> ('w, 'e, goerror option outcome) prog \<Rightarrow>
   ('w, 'l, 'e, goerror option outcome) logProg" where
  "LogOperation G rl ctx operation fn = do {
     start \<leftarrow> call (LogClock G) TimeL;
     _ \<leftarrow> DebugWithContext G (rl_Logger rl) ctx (''Starting '' @ operation) [];
     out \<leftarrow> embed InnerL fn;
     (case out of
        Panicked p \<Rightarrow> ret (Panicked p)
      | Returned err \<Rightarrow> do {
          stop \<leftarrow> call (LogClock G) TimeL;
          let fs = [(''operation'', JString operation), (''duration_ms'', JInt (Milliseconds (stop - start))),
                    (''success'', JBool (err = None))];
          _ \<leftarrow> (if err \<noteq> None
                then ErrorWithContext G (rl_Logger rl) ctx err (''Operation '' @ operation @ '' failed'') [fs]
                else DebugWithContext G (rl_Logger rl) ctx (''Operation '' @ operation @ '' completed'') [fs]);
          ret (Returned err) }) }"

definition NewEventLogger :: "('w, 'l, 'c) logr \<Rightarrow> 'l Logger" where
  "NewEventLogger G = NewLogger G ''events''"

definition LogEvent ::
  "('w, 'l, 'c) logr \<Rightarrow> 'l Logger \<Rightarrow> 'c \<Rightarrow> string \<Rightarrow> string \<Rightarrow> string \<Rightarrow> jobject \<Rightarrow> ('w, 'l, 'e, unit) logProg" where
  "LogEvent G el ctx eventType reason message obj = do {
     let fs = [(''event_type'', JString eventType), (''reason'', JString reason), (''object'', JObject obj)];
     (if eventType = ''Warning'' then WarnWithContext G el ctx message [fs]
      else if eventType = ''Error''
      then ErrorWithContext G el ctx (Some (ErrNew (''kubernetes event: '' @ message))) message [fs]
      else InfoWithContext G el ctx message [fs]) }"

section \<open>What is logged\<close>

definition order_laws :: "('w, 'l, 'c) logr \<Rightarrow> bool" where
  "order_laws G \<longleftrightarrow> rangeOrder (MapOrder G)"

lemma mergeFields_spec:
  assumes "order_laws G" and "\<And>fs. fs \<in> set fieldsList \<Longrightarrow> distinct (map fst fs)"
  shows "map_of (mergeFields G fieldsList) = foldl (++) Map.empty (map map_of fieldsList)"
    "distinct (map fst (mergeFields G fieldsList))"
proof -
  have one: "map_of (rev (MapOrder G fs)) = map_of fs" if "distinct (map fst fs)" for fs
    using that assms(1) by (intro map_of_mset) (auto simp: order_laws_def rangeOrder_def)
  show "map_of (mergeFields G fieldsList) = foldl (++) Map.empty (map map_of fieldsList)"
    using assms(2) unfolding mergeFields_def
    by (induction fieldsList rule: rev_induct) (auto simp: putAll_map one)
  show "distinct (map fst (mergeFields G fieldsList))"
    unfolding mergeFields_def by (induction fieldsList rule: rev_induct) (auto intro: putAll_distinct)
qed

definition entry :: "'l Logger \<Rightarrow> LogLevel \<Rightarrow> string \<Rightarrow> jobject \<Rightarrow> ('l, 'e) logged option" where
  \<comment> \<open>The entry of a level: nothing is written for a level that is not declared.\<close>
  "entry l level msg kvs =
     (if level = DebugLevel then Some (InfoL (lg_base l) 1 msg kvs)
      else if level = InfoLevel then Some (InfoL (lg_base l) 0 msg kvs)
      else if level = WarnLevel then Some (InfoL (lg_base l) 0 (''WARN: '' @ msg) kvs)
      else if level = ErrorLevel then Some (ErrorL (lg_base l) None msg kvs)
      else None)"

lemma entry_some: "(\<exists>e. entry l level msg kvs = Some e) \<longleftrightarrow> level \<in> {DebugLevel, InfoLevel, WarnLevel, ErrorLevel}"
  by (auto simp: entry_def)

fun writes :: "'e option \<Rightarrow> 'e list" where
  "writes None = []"
| "writes (Some e) = [e]"

lemma logWithFields_yields:
  "yields (logWithFields G l level msg fieldsList) (\<lambda>_ es. \<exists>t. es = TimeL t # writes (entry l level msg
     (MapOrder G (AList.update ''logger'' (JString (lg_name l)) (AList.update ''level'' (JString (levelString level))
        (AList.update ''timestamp'' (JString (RFC3339 (LogZone G) t)) (mergeFields G fieldsList)))))))"
  unfolding logWithFields_def by (intro yields_rules) (auto simp: entry_def)

text \<open>
  C34: what an entry says.  A call of the logger with one of the four declared levels writes exactly one
  entry, of the level asked for; with any other value it writes nothing.
  The fields of the entry, as a map, are the given fields, a later group overriding an earlier one, with
  the time, the level and the name of the logger set last: no field of the caller can replace them.
\<close>

theorem log_entry_fields:
  assumes "order_laws G" and "\<And>fs. fs \<in> set fieldsList \<Longrightarrow> distinct (map fst fs)"
  shows "yields (logWithFields G l level msg fieldsList) (\<lambda>_ es. \<exists>t kvs. es = TimeL t # writes (entry l level msg kvs) \<and>
    (entry l level msg kvs = None \<longleftrightarrow> level \<notin> {DebugLevel, InfoLevel, WarnLevel, ErrorLevel}) \<and>
    map_of kvs = (foldl (++) Map.empty (map map_of fieldsList))(''timestamp'' \<mapsto> JString (RFC3339 (LogZone G) t),
      ''level'' \<mapsto> JString (levelString level), ''logger'' \<mapsto> JString (lg_name l)))"
proof (rule yields_conseq [OF logWithFields_yields], elim exE, intro exI conjI, assumption)
  fix t
  let ?m = "AList.update ''logger'' (JString (lg_name l)) (AList.update ''level'' (JString (levelString level))
    (AList.update ''timestamp'' (JString (RFC3339 (LogZone G) t)) (mergeFields G fieldsList)))"
  have "distinct (map fst ?m)"
    by (intro AList.distinct_update mergeFields_spec(2) [OF assms])

  show "entry l level msg (MapOrder G ?m) = None \<longleftrightarrow> level \<notin> {DebugLevel, InfoLevel, WarnLevel, ErrorLevel}"
    using entry_some [of l level msg "MapOrder G ?m"] by (metis not_None_eq)
  have "map_of (MapOrder G ?m) = map_of ?m"
    using \<open>distinct (map fst ?m)\<close> assms(1) by (intro map_of_mset) (auto simp: order_laws_def rangeOrder_def)
  then show "map_of (MapOrder G ?m) = (foldl (++) Map.empty (map map_of fieldsList))
      (''timestamp'' \<mapsto> JString (RFC3339 (LogZone G) t), ''level'' \<mapsto> JString (levelString level), ''logger'' \<mapsto> JString (lg_name l))"
    by (simp add: AList.update_conv' mergeFields_spec(1) [OF assms])
qed

section \<open>Logged operations\<close>

fun isInnerL :: "('l, 'e) logged \<Rightarrow> bool" where
  "isInnerL (InnerL e) = True"
| "isInnerL _ = False"

fun isEntry :: "('l, 'e) logged \<Rightarrow> bool" where
  "isEntry (InfoL l v m kvs) = True"
| "isEntry (ErrorL l e m kvs) = True"
| "isEntry _ = False"

fun isErrorEntry :: "('l, 'e) logged \<Rightarrow> bool" where
  "isErrorEntry (ErrorL l e m kvs) = True"
| "isErrorEntry _ = False"

lemma log_once:
  "yields (logWithFields G l level msg fieldsList) (\<lambda>_ es. \<not> list_ex isInnerL es \<and>
     (level \<in> {DebugLevel, InfoLevel, WarnLevel, ErrorLevel} \<longrightarrow>
        (\<exists>e. filter isEntry es = [e] \<and> (isErrorEntry e \<longleftrightarrow> level = ErrorLevel))))"
  by (rule yields_conseq [OF logWithFields_yields]) (auto simp: entry_def split: if_splits)

definition loggedAround :: "(goerror option outcome \<Rightarrow> 'e list \<Rightarrow> bool) \<Rightarrow> goerror option outcome \<Rightarrow> ('l, 'e) logged list \<Rightarrow> bool" where
  \<comment> \<open>One run of the operation, one entry before it and, unless it panics, one after it.\<close>
  "loggedAround Q r es \<longleftrightarrow> (\<exists>pre fs post. es = pre @ map InnerL fs @ post \<and> Q r fs \<and>
     \<not> list_ex isInnerL (pre @ post) \<and> length (filter isEntry pre) = 1 \<and>
     (case r of
        Panicked p \<Rightarrow> post = []
      | Returned err \<Rightarrow> (\<exists>e. filter isEntry post = [e] \<and> (isErrorEntry e \<longleftrightarrow> err \<noteq> None))))"

lemma loggedAround_Panicked:
  assumes "Q (Panicked p) fs" and "\<not> list_ex isInnerL pre" and "filter isEntry pre = [e]"
  shows "loggedAround Q (Panicked p) (TimeL t # pre @ map InnerL fs)"
  using assms unfolding loggedAround_def
  by (intro exI [of _ "TimeL t # pre"] exI [of _ fs] exI [of _ "[]"]) simp

lemma loggedAround_Returned:
  assumes "Q (Returned err) fs" and "\<not> list_ex isInnerL (pre @ post)" and "filter isEntry pre = [e]"
    and "filter isEntry post = [e']" and "isErrorEntry e' \<longleftrightarrow> err \<noteq> None"
  shows "loggedAround Q (Returned err) (TimeL t # pre @ map InnerL fs @ TimeL t' # post)"
  using assms unfolding loggedAround_def
  by (intro exI [of _ "TimeL t # pre"] exI [of _ fs] exI [of _ "TimeL t' # post"]) simp

text \<open>
  A logged operation is run exactly once and its error is returned unchanged; whatever it promises of
  its result and its actions (\<open>Q\<close>), it promises when logged.  Before it one entry is written, after it
  one more, an error entry exactly if it failed; a panic passes through without a second entry.
\<close>

lemma log_operation_transparent:
  assumes "yields fn Q"
  shows "yields (LogOperation G rl ctx operation fn) (loggedAround Q)"
  unfolding LogOperation_def DebugWithContext_def Debug_def ErrorWithContext_def Error_def Let_def
  by (intro yields_rules yields_bind [OF log_once] yields_bind_embed [OF assms])
    (auto intro!: yields_rules yields_bind [OF log_once] loggedAround_Panicked loggedAround_Returned split: outcome.splits)

end
