(* ===== verification/DeepCopy.thy ===== *)
theory DeepCopy
  imports LabTypes GoMaps
begin

text \<open>
  The deep copies of \<^verbatim>\<open>internal/controller/types.go\<close>.  Elsewhere in the development a session is a
  value; here it is what it is in memory: a structure whose endpoints, conditions and times are
  references into a heap, so that a copy that shares one of them with the original shows.

  The metadata and its copy function are the library's: structures of an arbitrary type \<open>'m\<close>, with
  what they refer to and what they stand for (\<open>metaLib\<close>).
\<close>

section \<open>Memory\<close>

type_synonym addr = nat

record StatusStruct =
  ss_Phase :: SessionPhase
  ss_Message :: string
  ss_Reason :: string
  ss_PodName :: string
  ss_ServiceName :: string
  ss_PodIP :: string
  ss_VMIP :: string
  ss_Endpoints :: "addr option"
  ss_Conditions :: "addr option"
  ss_StartTime :: "addr option"
  ss_LastTransitionTime :: "addr option"
  ss_ObservedGeneration :: int
  ss_Usage :: LabSessionUsage

record 'm SessionStruct =
  so_TypeMeta :: "string \<times> string"
  so_Meta :: 'm
  so_Spec :: LabSessionSpec
  so_Status :: StatusStruct

record 'm ListStruct =
  li_TypeMeta :: "string \<times> string"
  li_ListMeta :: 'm
  li_Items :: "addr option"

datatype 'm cell =
    NoCell
  | MapCell gomap
  | ConditionsCell "Condition list"
  | TimeCell time
  | SessionCell "'m SessionStruct"
  | ItemsCell "'m SessionStruct list"
  | ListCell "'m ListStruct"
  | MetaCell 'm

record 'm heap =
  cells :: "addr \<Rightarrow> 'm cell"
  lim :: addr

definition alloc :: "'m cell \<Rightarrow> ('m heap, addr) state" where
  "alloc c = State (\<lambda>h. (lim h, h\<lparr> cells := (cells h)(lim h := c), lim := Suc (lim h) \<rparr>))"

definition deref :: "addr \<Rightarrow> ('m heap, 'm cell) state" where
  "deref a = State (\<lambda>h. (cells h a, h))"

text \<open>
  The library: how a time and a condition are copied, how metadata is copied, which metadata is
  well-formed in memory, which addresses it refers to and what it stands for; and the order of a
  range over a map.
\<close>

record 'm metaLib =
  CopyTime :: "time \<Rightarrow> time"
  CopyCondition :: "Condition \<Rightarrow> Condition"
  CopyMeta :: "'m \<Rightarrow> ('m heap, 'm) state"
  CopyListMeta :: "'m \<Rightarrow> ('m heap, 'm) state"
  metaOk :: "'m heap \<Rightarrow> 'm \<Rightarrow> bool"
  metaRefs :: "'m heap \<Rightarrow> 'm \<Rightarrow> addr set"
  metaValue :: "'m heap \<Rightarrow> 'm \<Rightarrow> json"
  EndpointOrder :: "gomap \<Rightarrow> gomap"

section \<open>Copies\<close>

definition copyRef :: "('m cell \<Rightarrow> 'm cell) \<Rightarrow> addr option \<Rightarrow> ('m heap, addr option) state" where
  \<comment> \<open>\<open>if in.F != nil { *out = copy }\<close>: a new cell with the copied content; nil stays nil.\<close>
  "copyRef f r = (case r of
     None \<Rightarrow> ret None
   | Some a \<Rightarrow> do { c \<leftarrow> deref a; b \<leftarrow> alloc (f c); ret (Some b) })"

fun copyEndpoints :: "'m metaLib \<Rightarrow> 'm cell \<Rightarrow> 'm cell" where
  "copyEndpoints M (MapCell m) = MapCell (putAll (EndpointOrder M m) [])"
| "copyEndpoints M c = c"

fun copyConditions :: "'m metaLib \<Rightarrow> 'm cell \<Rightarrow> 'm cell" where
  "copyConditions M (ConditionsCell cs) = ConditionsCell (map (CopyCondition M) cs)"
| "copyConditions M c = c"

fun copyTimeCell :: "'m metaLib \<Rightarrow> 'm cell \<Rightarrow> 'm cell" where
  "copyTimeCell M (TimeCell t) = TimeCell (CopyTime M t)"
| "copyTimeCell M c = c"

definition StatusDeepCopyInto :: "'m metaLib \<Rightarrow> StatusStruct \<Rightarrow> ('m heap, StatusStruct) state" where
  "StatusDeepCopyInto M st = do {
     let out = st;
     e \<leftarrow> copyRef (copyEndpoints M) (ss_Endpoints st);
     let out = out\<lparr> ss_Endpoints := e \<rparr>;
     c \<leftarrow> copyRef (copyConditions M) (ss_Conditions st);
     let out = out\<lparr> ss_Conditions := c \<rparr>;
     s \<leftarrow> copyRef (copyTimeCell M) (ss_StartTime st);
     let out = out\<lparr> ss_StartTime := s \<rparr>;
     l \<leftarrow> copyRef (copyTimeCell M) (ss_LastTransitionTime st);
     ret (out\<lparr> ss_LastTransitionTime := l \<rparr>) }"

definition SpecDeepCopyInto :: "LabSessionSpec \<Rightarrow> LabSessionSpec" where
  \<comment> \<open>The spec and the structures in it have no references.\<close>
  "SpecDeepCopyInto spec = spec\<lparr> Resources := Resources spec, Config := Config spec, CustomImages := CustomImages spec \<rparr>"

definition SessionDeepCopyInto :: "'m metaLib \<Rightarrow> 'm SessionStruct \<Rightarrow> ('m heap, 'm SessionStruct) state" where
  "SessionDeepCopyInto M session = do {
     let out = session;
     let out = out\<lparr> so_TypeMeta := so_TypeMeta session \<rparr>;
     m \<leftarrow> CopyMeta M (so_Meta session);
     let out = out\<lparr> so_Meta := m, so_Spec := SpecDeepCopyInto (so_Spec session) \<rparr>;
     st \<leftarrow> StatusDeepCopyInto M (so_Status session);
     ret (out\<lparr> so_Status := st \<rparr>) }"

fun sessionIn :: "'m cell \<Rightarrow> 'm SessionStruct option" where
  "sessionIn (SessionCell s) = Some s"
| "sessionIn _ = None"

definition SessionDeepCopy :: "'m metaLib \<Rightarrow> addr option \<Rightarrow> ('m heap, addr option) state" where
  \<comment> \<open>\<open>DeepCopy\<close> on a pointer, which is nil or the address of a session.\<close>
  "SessionDeepCopy M p = (case p of
     None \<Rightarrow> ret None
   | Some a \<Rightarrow> do {
       c \<leftarrow> deref a;
       (case sessionIn c of
          None \<Rightarrow> ret None
        | Some session \<Rightarrow> do {
            out \<leftarrow> SessionDeepCopyInto M session;
            b \<leftarrow> alloc (SessionCell out);
            ret (Some b) }) })"

text \<open>
  An interface value is nil or holds a pointer: \<^verbatim>\<open>DeepCopyObject\<close> makes the nil pointer the nil
  interface, so that a caller's test for nil sees it.
\<close>

datatype runtimeObject = NilObject | SessionObject addr | ListObject addr

definition SessionDeepCopyObject :: "'m metaLib \<Rightarrow> addr option \<Rightarrow> ('m heap, runtimeObject) state" where
  "SessionDeepCopyObject M p = do {
     c \<leftarrow> SessionDeepCopy M p;
     ret (case c of None \<Rightarrow> NilObject | Some a \<Rightarrow> SessionObject a) }"

primrec copyItems :: "'m metaLib \<Rightarrow> 'm SessionStruct list \<Rightarrow> ('m heap, 'm SessionStruct list) state" where
  "copyItems M [] = ret []"
| "copyItems M (s # ss) = do { x \<leftarrow> SessionDeepCopyInto M s; xs \<leftarrow> copyItems M ss; ret (x # xs) }"

fun itemsIn :: "'m cell \<Rightarrow> 'm SessionStruct list" where
  "itemsIn (ItemsCell xs) = xs"
| "itemsIn _ = []"

definition ListDeepCopyInto :: "'m metaLib \<Rightarrow> 'm ListStruct \<Rightarrow> ('m heap, 'm ListStruct) state" where
  "ListDeepCopyInto M l = do {
     let out = l\<lparr> li_TypeMeta := li_TypeMeta l \<rparr>;
     m \<leftarrow> CopyListMeta M (li_ListMeta l);
     let out = out\<lparr> li_ListMeta := m \<rparr>;
     (case li_Items l of
        None \<Rightarrow> ret out
      | Some a \<Rightarrow> do {
          c \<leftarrow> deref a;
          xs \<leftarrow> copyItems M (itemsIn c);
          b \<leftarrow> alloc (ItemsCell xs);
          ret (out\<lparr> li_Items := Some b \<rparr>) }) }"

fun listIn :: "'m cell \<Rightarrow> 'm ListStruct option" where
  "listIn (ListCell l) = Some l"
| "listIn _ = None"

definition ListDeepCopy :: "'m metaLib \<Rightarrow> addr option \<Rightarrow> ('m heap, addr option) state" where
  "ListDeepCopy M p = (case p of
     None \<Rightarrow> ret None
   | Some a \<Rightarrow> do {
       c \<leftarrow> deref a;
       (case listIn c of
          None \<Rightarrow> ret None
        | Some l \<Rightarrow> do {
            out \<leftarrow> ListDeepCopyInto M l;
            b \<leftarrow> alloc (ListCell out);
            ret (Some b) }) })"

definition ListDeepCopyObject :: "'m metaLib \<Rightarrow> addr option \<Rightarrow> ('m heap, runtimeObject) state" where
  "ListDeepCopyObject M p = do {
     c \<leftarrow> ListDeepCopy M p;
     ret (case c of None \<Rightarrow> NilObject | Some a \<Rightarrow> ListObject a) }"

end
