(* ===== verification/CopyProps.thy ===== *)
theory CopyProps
  imports DeepCopy
begin

text \<open>
  What a deep copy promises.  The locale \<open>copier\<close> is the contract of one copy function: the copy
  stands for the same value, it refers only to memory that was not allocated before, and it leaves
  the memory that was allocated as it was.  From the contract follows what a cache relies on: a
  write through the copy never shows in the original, and the other way round.  The status, the
  session and the items of a list are copiers when the metadata's copy function is one.
\<close>

section \<open>The contract\<close>

definition grows :: "'m heap \<Rightarrow> 'm heap \<Rightarrow> bool" where
  \<comment> \<open>Memory was allocated and nothing that was there has changed.\<close>
  "grows h h' \<longleftrightarrow> lim h \<le> lim h' \<and> (\<forall>a < lim h. cells h' a = cells h a)"

lemma grows_refl [simp, intro]: "grows h h" by (simp add: grows_def)

lemma grows_trans [trans]: "grows h h1 \<Longrightarrow> grows h1 h2 \<Longrightarrow> grows h h2"
  by (auto simp: grows_def)

definition agree :: "addr set \<Rightarrow> 'm heap \<Rightarrow> 'm heap \<Rightarrow> bool" where
  "agree A h h' \<longleftrightarrow> lim h \<le> lim h' \<and> (\<forall>a \<in> A. cells h' a = cells h a)"

lemma grows_agree: "grows h h' \<Longrightarrow> A \<subseteq> {..< lim h} \<Longrightarrow> agree A h h'"
  by (auto simp: grows_def agree_def)

definition store :: "addr \<Rightarrow> 'm cell \<Rightarrow> 'm heap \<Rightarrow> 'm heap" where
  "store a c h = h\<lparr> cells := (cells h)(a := c) \<rparr>"

lemma store_agree: "a \<notin> A \<Longrightarrow> agree A h (store a c h)"
  by (auto simp: agree_def store_def)

lemma agree_subset: "agree A h h' \<Longrightarrow> B \<subseteq> A \<Longrightarrow> agree B h h'"
  by (auto simp: agree_def)

definition copied :: "('m heap \<Rightarrow> 'x \<Rightarrow> bool) \<Rightarrow> ('m heap \<Rightarrow> 'x \<Rightarrow> 'v) \<Rightarrow> ('m heap \<Rightarrow> 'x \<Rightarrow> addr set)
    \<Rightarrow> 'm heap \<Rightarrow> 'x \<Rightarrow> 'm heap \<Rightarrow> 'x \<Rightarrow> bool" where
  "copied ok view refs h x h' y \<longleftrightarrow>
     grows h h' \<and> ok h' y \<and> view h' y = view h x \<and> refs h' y \<subseteq> {lim h ..< lim h'}"

locale copier =
  fixes ok :: "'m heap \<Rightarrow> 'x \<Rightarrow> bool"
    and view :: "'m heap \<Rightarrow> 'x \<Rightarrow> 'v"
    and refs :: "'m heap \<Rightarrow> 'x \<Rightarrow> addr set"
    and copy :: "'x \<Rightarrow> ('m heap, 'x) state"
  assumes refs_allocated: "ok h x \<Longrightarrow> refs h x \<subseteq> {..< lim h}"
    and local: "ok h x \<Longrightarrow> agree (refs h x) h h' \<Longrightarrow> ok h' x \<and> view h' x = view h x \<and> refs h' x = refs h x"
    and copies: "ok h x \<Longrightarrow> run_state (copy x) h = (y, h') \<Longrightarrow> copied ok view refs h x h' y"
begin

lemma kept: "ok h x \<Longrightarrow> grows h h' \<Longrightarrow> ok h' x \<and> view h' x = view h x \<and> refs h' x = refs h x"
  using local grows_agree refs_allocated by blast

lemma copied_within:
  \<comment> \<open>A copy made between two allocations is a copy over the whole.\<close>
  assumes "ok h x" and "grows h h1" and "copied ok view refs h1 x h2 y" and "grows h2 h3"
  shows "copied ok view refs h x h3 y"
proof -
  have "ok h3 y \<and> view h3 y = view h2 y \<and> refs h3 y = refs h2 y"
    using assms(3,4) by (intro kept) (simp_all add: copied_def)
  moreover have "view h1 x = view h x" using kept assms(1,2) by blast
  moreover have "grows h h3" using assms by (auto simp: copied_def intro: grows_trans)
  moreover have "{lim h1 ..< lim h2} \<subseteq> {lim h ..< lim h3}" using assms(2,4) by (auto simp: grows_def)
  ultimately show ?thesis using assms(3) unfolding copied_def by auto
qed

lemma copy_grows: "ok h x \<Longrightarrow> run_state (copy x) h = (y, h') \<Longrightarrow> grows h h'"
  using copies by (simp add: copied_def)

lemma copy_then:
  assumes "ok h x" and "grows h h1" and "run_state (copy x) h1 = (y, h2)"
  shows "grows h h2" and "grows h2 h3 \<Longrightarrow> copied ok view refs h x h3 y"
proof -
  have c: "copied ok view refs h1 x h2 y" using assms kept copies by blast
  show "grows h h2" using c assms(2) by (auto simp: copied_def intro: grows_trans)
  show "grows h2 h3 \<Longrightarrow> copied ok view refs h x h3 y" using copied_within assms(1,2) c by blast
qed

lemma apart:
  assumes "ok h x" and "copied ok view refs h x h' y"
  shows "refs h' x \<inter> refs h' y = {}"
  using assms kept [of h x h'] refs_allocated [of h x] by (fastforce simp: copied_def)

lemma write_to_copy:
  assumes "ok h x" and "copied ok view refs h x h' y" and "a \<in> refs h' y"
  shows "view (store a c h') x = view h x"
proof -
  have k: "ok h' x" "view h' x = view h x" using kept [OF assms(1), of h'] assms(2) by (simp_all add: copied_def)
  have "a \<notin> refs h' x" using apart assms by blast
  then show ?thesis using k local store_agree by metis
qed

lemma write_to_original:
  assumes "ok h x" and "copied ok view refs h x h' y" and "a \<in> refs h' x"
  shows "view (store a c h') y = view h x"
proof -
  have "ok h' y" "view h' y = view h x" using assms(2) by (auto simp: copied_def)
  moreover have "a \<notin> refs h' y" using apart assms by blast
  ultimately show ?thesis using local store_agree by metis
qed

end

text \<open>The spec holds no references: its copy function is a copier whatever the library does.\<close>

interpretation spec: copier "\<lambda>h s. True" "\<lambda>h s. s" "\<lambda>h s. {}" "\<lambda>s. ret (SpecDeepCopyInto s)"
  by unfold_locales (auto simp: SpecDeepCopyInto_def copied_def)

section \<open>References\<close>

definition refOk :: "('m cell \<Rightarrow> bool) \<Rightarrow> 'm heap \<Rightarrow> addr option \<Rightarrow> bool" where
  "refOk P h r \<longleftrightarrow> (case r of None \<Rightarrow> True | Some a \<Rightarrow> a < lim h \<and> P (cells h a))"

definition refView :: "('m cell \<Rightarrow> 'v) \<Rightarrow> 'm heap \<Rightarrow> addr option \<Rightarrow> 'v option" where
  "refView f h r = map_option (\<lambda>a. f (cells h a)) r"

definition refSet :: "addr option \<Rightarrow> addr set" where
  "refSet r = set_option r"

lemma copyRef_copier:
  assumes "\<And>c. P c \<Longrightarrow> P (f c) \<and> v (f c) = v c"
  shows "copier (refOk P) (refView v) (\<lambda>h. refSet) (copyRef f)"
proof
  show "refSet r \<subseteq> {..< lim h}" if "refOk P h r" for h :: "'a heap" and r
    using that by (cases r) (auto simp: refOk_def refSet_def)
  show "refOk P h' r \<and> refView v h' r = refView v h r \<and> refSet r = refSet r"
    if "refOk P h r" and "agree (refSet r) h h'" for h h' :: "'a heap" and r
    using that by (cases r) (auto simp: refOk_def refSet_def refView_def agree_def)
  show "copied (refOk P) (refView v) (\<lambda>h. refSet) h r h' r'"
    if "refOk P h r" and "run_state (copyRef f r) h = (r', h')" for h h' :: "'a heap" and r r'
    using that assms
    by (cases r) (auto simp: copyRef_def refOk_def refSet_def refView_def copied_def grows_def alloc_def deref_def)
qed

fun isMap :: "'m cell \<Rightarrow> bool" where "isMap (MapCell m) = distinct (map fst m)" | "isMap _ = False"
fun isConditions :: "'m cell \<Rightarrow> bool" where "isConditions (ConditionsCell cs) = True" | "isConditions _ = False"
fun isTime :: "'m cell \<Rightarrow> bool" where "isTime (TimeCell t) = True" | "isTime _ = False"

fun mapIn :: "'m cell \<Rightarrow> string \<Rightarrow> string option" where "mapIn (MapCell m) = map_of m" | "mapIn _ = Map.empty"
fun conditionsIn :: "'m cell \<Rightarrow> Condition list" where "conditionsIn (ConditionsCell cs) = cs" | "conditionsIn _ = []"
fun timeIn :: "'m cell \<Rightarrow> time" where "timeIn (TimeCell t) = t" | "timeIn _ = 0"

section \<open>Sessions\<close>

definition copy_laws :: "'m metaLib \<Rightarrow> bool" where
  \<comment> \<open>The library's copies: a time and a condition are copied as values, a range visits every
    entry, and metadata of objects and of lists is deeply copied.\<close>
  "copy_laws M \<longleftrightarrow>
     (\<forall>t. CopyTime M t = t) \<and> (\<forall>c. CopyCondition M c = c) \<and> rangeOrder (EndpointOrder M) \<and>
     copier (metaOk M) (metaValue M) (metaRefs M) (CopyMeta M) \<and>
     copier (metaOk M) (metaValue M) (metaRefs M) (CopyListMeta M)"

lemma copy_lawsD:
  assumes "copy_laws M"
  shows "CopyTime M t = t" and "CopyCondition M = id" and "rangeOrder (EndpointOrder M)"
    and "copier (metaOk M) (metaValue M) (metaRefs M) (CopyMeta M)"
    and "copier (metaOk M) (metaValue M) (metaRefs M) (CopyListMeta M)"
  using assms by (auto simp: copy_laws_def)

lemma endpoints_copier:
  "copy_laws M \<Longrightarrow> copier (refOk isMap) (refView mapIn) (\<lambda>h. refSet) (copyRef (copyEndpoints M))"
  by (rule copyRef_copier, erule isMap.elims) (simp_all add: putAll_copy putAll_distinct copy_lawsD)

lemma conditions_copier:
  "copy_laws M \<Longrightarrow> copier (refOk isConditions) (refView conditionsIn) (\<lambda>h. refSet) (copyRef (copyConditions M))"
  by (rule copyRef_copier, erule isConditions.elims) (simp_all add: copy_lawsD)

lemma time_copier: "copy_laws M \<Longrightarrow> copier (refOk isTime) (refView timeIn) (\<lambda>h. refSet) (copyRef (copyTimeCell M))"
  by (rule copyRef_copier, erule isTime.elims) (simp_all add: copy_lawsD)

definition statusOk :: "'m heap \<Rightarrow> StatusStruct \<Rightarrow> bool" where
  "statusOk h st \<longleftrightarrow> refOk isMap h (ss_Endpoints st) \<and> refOk isConditions h (ss_Conditions st) \<and>
     refOk isTime h (ss_StartTime st) \<and> refOk isTime h (ss_LastTransitionTime st)"

definition statusView :: "'m heap \<Rightarrow> StatusStruct \<Rightarrow>
    StatusStruct \<times> (string \<Rightarrow> string option) option \<times> Condition list option \<times> time option \<times> time option" where
  \<comment> \<open>The values a status stands for, with nil apart from empty.\<close>
  "statusView h st =
     (st\<lparr> ss_Endpoints := None, ss_Conditions := None, ss_StartTime := None, ss_LastTransitionTime := None \<rparr>,
      refView mapIn h (ss_Endpoints st), refView conditionsIn h (ss_Conditions st),
      refView timeIn h (ss_StartTime st), refView timeIn h (ss_LastTransitionTime st))"

definition statusRefs :: "StatusStruct \<Rightarrow> addr set" where
  "statusRefs st = refSet (ss_Endpoints st) \<union> refSet (ss_Conditions st) \<union>
     refSet (ss_StartTime st) \<union> refSet (ss_LastTransitionTime st)"

lemma run_bind_iff: "run_state (State_Monad.bind m f) h = (y, h2) \<longleftrightarrow>
    (\<exists>x h1. run_state m h = (x, h1) \<and> run_state (f x) h1 = (y, h2))"
  by (cases "run_state m h") auto

lemma status_copied:
  assumes laws: "copy_laws M" and ok: "statusOk h st" and run: "run_state (StatusDeepCopyInto M st) h = (out, h')"
  shows "copied statusOk statusView (\<lambda>h. statusRefs) h st h' out"
proof -
  note E = endpoints_copier [OF laws] and C = conditions_copier [OF laws] and T = time_copier [OF laws]
  obtain e h1 c h2 s h3 l where
    1: "run_state (copyRef (copyEndpoints M) (ss_Endpoints st)) h = (e, h1)" and
    2: "run_state (copyRef (copyConditions M) (ss_Conditions st)) h1 = (c, h2)" and
    3: "run_state (copyRef (copyTimeCell M) (ss_StartTime st)) h2 = (s, h3)" and
    4: "run_state (copyRef (copyTimeCell M) (ss_LastTransitionTime st)) h3 = (l, h')" and
    out: "out = st\<lparr> ss_Endpoints := e, ss_Conditions := c, ss_StartTime := s, ss_LastTransitionTime := l \<rparr>"
    using run unfolding StatusDeepCopyInto_def Let_def run_bind_iff by (auto simp: run_bind_iff)
  have oks: "refOk isMap h (ss_Endpoints st)" "refOk isConditions h (ss_Conditions st)"
    "refOk isTime h (ss_StartTime st)" "refOk isTime h (ss_LastTransitionTime st)"
    using ok by (simp_all add: statusOk_def)
  note g1 = copier.copy_then(1) [OF E oks(1) grows_refl 1]
  note g2 = copier.copy_then(1) [OF C oks(2) g1 2]
  note g3 = copier.copy_then(1) [OF T oks(3) g2 3]
  note g4 = copier.copy_then(1) [OF T oks(4) g3 4]
  have h3: "grows h3 h'"
    using copier.copy_grows [OF T _ 4] copier.kept [OF T oks(4) g3] by blast
  have h2: "grows h2 h'"
    using copier.copy_grows [OF T _ 3] copier.kept [OF T oks(3) g2] h3 grows_trans by blast
  have h1: "grows h1 h'"
    using copier.copy_grows [OF C _ 2] copier.kept [OF C oks(2) g1] h2 grows_trans by blast
  show ?thesis
    using copier.copy_then(2) [OF E oks(1) grows_refl 1 h1] copier.copy_then(2) [OF C oks(2) g1 2 h2]
      copier.copy_then(2) [OF T oks(3) g2 3 h3] copier.copy_then(2) [OF T oks(4) g3 4 grows_refl]
    unfolding copied_def statusOk_def statusView_def statusRefs_def out by simp
qed

lemma status_copier:
  assumes "copy_laws M"
  shows "copier statusOk statusView (\<lambda>h. statusRefs) (StatusDeepCopyInto M)"
proof
  note rules = copier.refs_allocated [OF endpoints_copier [OF assms]] copier.refs_allocated [OF conditions_copier [OF assms]]
    copier.refs_allocated [OF time_copier [OF assms]]
  show "statusRefs st \<subseteq> {..< lim h}" if "statusOk h st" for h :: "'a heap" and st
    using that rules unfolding statusOk_def statusRefs_def by blast
  show "statusOk h' st \<and> statusView h' st = statusView h st \<and> statusRefs st = statusRefs st"
    if "statusOk h st" and "agree (statusRefs st) h h'" for h h' :: "'a heap" and st
    using that copier.local [OF endpoints_copier [OF assms], of h "ss_Endpoints st" h']
      copier.local [OF conditions_copier [OF assms], of h "ss_Conditions st" h']
      copier.local [OF time_copier [OF assms], of h "ss_StartTime st" h']
      copier.local [OF time_copier [OF assms], of h "ss_LastTransitionTime st" h']
    by (simp add: statusOk_def statusView_def statusRefs_def agree_def)
qed (rule status_copied [OF assms])

definition sessionOk :: "'m metaLib \<Rightarrow> 'm heap \<Rightarrow> 'm SessionStruct \<Rightarrow> bool" where
  "sessionOk M h s \<longleftrightarrow> metaOk M h (so_Meta s) \<and> statusOk h (so_Status s)"

definition sessionView where
  "sessionView M h s = (so_TypeMeta s, metaValue M h (so_Meta s), so_Spec s, statusView h (so_Status s))"

definition sessionRefs :: "'m metaLib \<Rightarrow> 'm heap \<Rightarrow> 'm SessionStruct \<Rightarrow> addr set" where
  "sessionRefs M h s = metaRefs M h (so_Meta s) \<union> statusRefs (so_Status s)"

lemma session_copied:
  assumes laws: "copy_laws M" and ok: "sessionOk M h s" and run: "run_state (SessionDeepCopyInto M s) h = (out, h')"
  shows "copied (sessionOk M) (sessionView M) (sessionRefs M) h s h' out"
proof -
  note P = copy_lawsD(4) [OF laws] and S = status_copier [OF laws]
  obtain m h1 st where
    1: "run_state (CopyMeta M (so_Meta s)) h = (m, h1)" and
    2: "run_state (StatusDeepCopyInto M (so_Status s)) h1 = (st, h')" and
    out: "out = s\<lparr> so_Meta := m, so_Spec := SpecDeepCopyInto (so_Spec s), so_Status := st \<rparr>"
    using run unfolding SessionDeepCopyInto_def Let_def run_bind_iff by (auto simp: run_bind_iff)
  have oks: "metaOk M h (so_Meta s)" "statusOk h (so_Status s)" using ok by (simp_all add: sessionOk_def)
  note g1 = copier.copy_then(1) [OF P oks(1) grows_refl 1]
  have h1: "grows h1 h'" using copier.copy_grows [OF S _ 2] copier.kept [OF S oks(2) g1] by blast
  show ?thesis
    using copier.copy_then(2) [OF P oks(1) grows_refl 1 h1] copier.copy_then(2) [OF S oks(2) g1 2 grows_refl]
    unfolding copied_def sessionOk_def sessionView_def sessionRefs_def out by (simp add: SpecDeepCopyInto_def)
qed

lemma session_copier:
  assumes "copy_laws M"
  shows "copier (sessionOk M) (sessionView M) (sessionRefs M) (SessionDeepCopyInto M)"
proof
  note P = copy_lawsD(4) [OF assms] and S = status_copier [OF assms]
  show "sessionRefs M h s \<subseteq> {..< lim h}" if "sessionOk M h s" for h s
    using that copier.refs_allocated [OF P] copier.refs_allocated [OF S]
    unfolding sessionOk_def sessionRefs_def by blast
  show "sessionOk M h' s \<and> sessionView M h' s = sessionView M h s \<and> sessionRefs M h' s = sessionRefs M h s"
    if "sessionOk M h s" and "agree (sessionRefs M h s) h h'" for h h' s
    using that copier.local [OF P, of h "so_Meta s" h'] copier.local [OF S, of h "so_Status s" h']
    by (simp add: sessionOk_def sessionView_def sessionRefs_def agree_def)
qed (rule session_copied [OF assms])

section \<open>Lists\<close>

definition itemsRefs :: "'m metaLib \<Rightarrow> 'm heap \<Rightarrow> 'm SessionStruct list \<Rightarrow> addr set" where
  "itemsRefs M h xs = \<Union> (sessionRefs M h ` set xs)"

lemma itemsRefs_simps [simp]:
  "itemsRefs M h [] = {}" "itemsRefs M h (x # xs) = sessionRefs M h x \<union> itemsRefs M h xs"
  by (auto simp: itemsRefs_def)

lemma items_local:
  assumes "copy_laws M" and "list_all (sessionOk M h) xs" and "agree (itemsRefs M h xs) h h'"
  shows "list_all (sessionOk M h') xs \<and> map (sessionView M h') xs = map (sessionView M h) xs \<and> itemsRefs M h' xs = itemsRefs M h xs"
  using assms(2,3)
proof (induction xs)
  case (Cons x xs)
  have "agree (sessionRefs M h x) h h'" "agree (itemsRefs M h xs) h h'"
    using Cons.prems(2) by (auto elim: agree_subset)
  then show ?case using Cons copier.local [OF session_copier [OF assms(1)], of h x h'] by simp
qed simp

lemma items_allocated:
  assumes "copy_laws M" and "list_all (sessionOk M h) xs"
  shows "itemsRefs M h xs \<subseteq> {..< lim h}"
  using assms(2)
proof (induction xs)
  case (Cons x xs)
  then show ?case using copier.refs_allocated [OF session_copier [OF assms(1)], of h x] by simp
qed simp

lemma items_copied:
  assumes laws: "copy_laws M"
  shows "list_all (sessionOk M h) xs \<Longrightarrow> run_state (copyItems M xs) h = (ys, h') \<Longrightarrow>
    copied (\<lambda>h. list_all (sessionOk M h)) (\<lambda>h. map (sessionView M h)) (itemsRefs M) h xs h' ys"
proof (induction xs arbitrary: h ys)
  case Nil
  then show ?case by (simp add: copied_def)
next
  case (Cons x xs)
  note S = session_copier [OF laws]
  have oks: "sessionOk M h x" "list_all (sessionOk M h) xs" using Cons.prems by simp_all
  obtain y h1 zs where 1: "run_state (SessionDeepCopyInto M x) h = (y, h1)"
    and 2: "run_state (copyItems M xs) h1 = (zs, h')" and ys: "ys = y # zs"
    using Cons.prems(2) unfolding copyItems.simps run_bind_iff by (auto simp: run_bind_iff)
  note g1 = copier.copy_then(1) [OF S oks(1) grows_refl 1]
  note kept = items_local [OF laws oks(2) grows_agree [OF g1 items_allocated [OF laws oks(2)]]]
  then have rest: "copied (\<lambda>h. list_all (sessionOk M h)) (\<lambda>h. map (sessionView M h)) (itemsRefs M) h1 xs h' zs"
    using Cons.IH [OF _ 2] by blast
  have "grows h1 h'" using rest by (simp add: copied_def)
  note first = copier.copy_then(2) [OF S oks(1) grows_refl 1 this]
  have "{lim h1 ..< lim h'} \<subseteq> {lim h ..< lim h'}" using g1 by (auto simp: grows_def)
  then show ?case using rest first kept unfolding copied_def ys by auto
qed

fun isItems :: "('m SessionStruct \<Rightarrow> bool) \<Rightarrow> 'm cell \<Rightarrow> bool" where
  "isItems P (ItemsCell xs) = list_all P xs"
| "isItems P _ = False"

definition listOk :: "'m metaLib \<Rightarrow> 'm heap \<Rightarrow> 'm ListStruct \<Rightarrow> bool" where
  "listOk M h l \<longleftrightarrow> metaOk M h (li_ListMeta l) \<and> refOk (isItems (sessionOk M h)) h (li_Items l)"

definition listView where
  "listView M h l = (li_TypeMeta l, metaValue M h (li_ListMeta l),
     refView (\<lambda>c. map (sessionView M h) (itemsIn c)) h (li_Items l))"

definition listRefs :: "'m metaLib \<Rightarrow> 'm heap \<Rightarrow> 'm ListStruct \<Rightarrow> addr set" where
  "listRefs M h l = metaRefs M h (li_ListMeta l) \<union>
     (case li_Items l of None \<Rightarrow> {} | Some a \<Rightarrow> insert a (itemsRefs M h (itemsIn (cells h a))))"

lemma isItems_iff: "isItems P c \<longleftrightarrow> (\<exists>xs. c = ItemsCell xs \<and> list_all P xs)"
  by (cases c) auto

lemma list_local:
  assumes "copy_laws M" and "listOk M h l" and "agree (listRefs M h l) h h'"
  shows "listOk M h' l \<and> listView M h' l = listView M h l \<and> listRefs M h' l = listRefs M h l"
proof -
  have meta: "agree (metaRefs M h (li_ListMeta l)) h h'" using assms(3) by (rule agree_subset) (simp add: listRefs_def)
  note P = copier.local [OF copy_lawsD(5) [OF assms(1)], of h "li_ListMeta l" h']
  show ?thesis
  proof (cases "li_Items l")
    case None
    then show ?thesis using assms(2) P meta by (simp add: listOk_def listView_def listRefs_def refOk_def refView_def)
  next
    case (Some a)
    then obtain xs where xs: "cells h a = ItemsCell xs" "list_all (sessionOk M h) xs" and a: "a < lim h"
      using assms(2) by (auto simp: listOk_def refOk_def isItems_iff)
    have "agree (itemsRefs M h xs) h h'" "cells h' a = cells h a" "lim h \<le> lim h'"
      using assms(3) Some xs by (auto simp: listRefs_def agree_def)
    then show ?thesis using assms(2) Some xs a P meta items_local [OF assms(1) xs(2)]
      by (simp add: listOk_def listView_def listRefs_def refOk_def refView_def)
  qed
qed

lemma list_allocated:
  assumes "copy_laws M" and "listOk M h l"
  shows "listRefs M h l \<subseteq> {..< lim h}"
  using assms(2) copier.refs_allocated [OF copy_lawsD(5) [OF assms(1)], of h "li_ListMeta l"] items_allocated [OF assms(1), of h]
  by (auto simp: listOk_def listRefs_def refOk_def isItems_iff split: option.splits) blast

lemma alloc_grows:
  assumes "run_state (alloc c) h = (b, h')"
  shows "grows h h'" and "b = lim h" and "cells h' b = c" and "lim h' = Suc (lim h)"
  using assms by (auto simp: alloc_def grows_def)

lemma list_copied:
  assumes laws: "copy_laws M" and ok: "listOk M h l" and run: "run_state (ListDeepCopyInto M l) h = (out, h')"
  shows "copied (listOk M) (listView M) (listRefs M) h l h' out"
proof -
  note P = copy_lawsD(5) [OF laws]
  have metaok: "metaOk M h (li_ListMeta l)" using ok by (simp add: listOk_def)
  obtain m h1 where 1: "run_state (CopyListMeta M (li_ListMeta l)) h = (m, h1)" by fastforce
  note g1 = copier.copy_then(1) [OF P metaok grows_refl 1]
  note meta = copier.copy_then(2) [OF P metaok grows_refl 1]
  show ?thesis
  proof (cases "li_Items l")
    case None
    then have "h' = h1" "out = l\<lparr> li_ListMeta := m \<rparr>" using run 1 by (auto simp: ListDeepCopyInto_def run_bind_iff)
    then show ?thesis using meta [OF grows_refl] None
      by (simp add: copied_def listOk_def listView_def listRefs_def refOk_def refView_def)
  next
    case (Some a)
    then obtain xs where xs: "cells h a = ItemsCell xs" "list_all (sessionOk M h) xs" and a: "a < lim h"
      using ok by (auto simp: listOk_def refOk_def isItems_iff)
    have "cells h1 a = ItemsCell xs" using g1 a xs by (simp add: grows_def)
    then obtain ys h2 b where 2: "run_state (copyItems M xs) h1 = (ys, h2)"
      and 3: "run_state (alloc (ItemsCell ys)) h2 = (b, h')"
      and out: "out = l\<lparr> li_ListMeta := m, li_Items := Some b \<rparr>"
      using run 1 Some by (auto simp: ListDeepCopyInto_def run_bind_iff deref_def split: prod.splits)
    note kept = items_local [OF laws xs(2) grows_agree [OF g1 items_allocated [OF laws xs(2)]]]
    then have items: "copied (\<lambda>h. list_all (sessionOk M h)) (\<lambda>h. map (sessionView M h)) (itemsRefs M) h1 xs h2 ys"
      using items_copied [OF laws _ 2] by blast
    then have ys: "list_all (sessionOk M h2) ys" "grows h1 h2" by (simp_all add: copied_def)
    note new = alloc_grows [OF 3]
    note kept' = items_local [OF laws ys(1) grows_agree [OF new(1) items_allocated [OF laws ys(1)]]]
    note whole = meta [OF grows_trans [OF ys(2) new(1)]]
    have sub: "{lim h1 ..< lim h2} \<subseteq> {lim h ..< lim h'}" "b \<in> {lim h ..< lim h'}"
      using g1 new ys by (auto simp: grows_def)
    then have "itemsRefs M h' ys \<subseteq> {lim h ..< lim h'}" using items kept' by (auto simp: copied_def)
    then show ?thesis using whole items kept kept' new Some xs out sub
      unfolding copied_def listOk_def listView_def listRefs_def refOk_def refView_def by simp
  qed
qed

lemma list_copier:
  assumes "copy_laws M"
  shows "copier (listOk M) (listView M) (listRefs M) (ListDeepCopyInto M)"
  using list_allocated [OF assms] list_local [OF assms] list_copied [OF assms] by (rule copier.intro)

section \<open>Properties\<close>

text \<open>
  C14: \<open>DeepCopy\<close> gives a new session with the same value, nil pointers, nil maps and nil slices
  included, and the two share no memory: a write through any reference of the copy leaves the
  original as it was, a write through any reference of the original leaves the copy as it was.  The
  controller mutates sessions it read from the informer's cache, and relies on this.
\<close>

theorem session_copy_independent:
  assumes laws: "copy_laws M" and cell: "cells h a = SessionCell s" and ok: "sessionOk M h s"
  shows "\<exists>b s' h'. run_state (SessionDeepCopyObject M (Some a)) h = (SessionObject b, h') \<and>
      lim h \<le> b \<and> cells h' b = SessionCell s' \<and> sessionView M h' s' = sessionView M h s \<and>
      (\<forall>x \<in> sessionRefs M h' s'. \<forall>c. sessionView M (store x c h') s = sessionView M h s) \<and>
      (\<forall>x \<in> sessionRefs M h' s. \<forall>c. sessionView M (store x c h') s' = sessionView M h s)"
proof -
  note S = session_copier [OF laws]
  obtain s' h1 where 1: "run_state (SessionDeepCopyInto M s) h = (s', h1)" by fastforce
  obtain b h' where 2: "run_state (alloc (SessionCell s')) h1 = (b, h')" by fastforce
  note new = alloc_grows [OF 2]
  have whole: "copied (sessionOk M) (sessionView M) (sessionRefs M) h s h' s'"
    using copier.copy_then(2) [OF S ok grows_refl 1 new(1)] .
  have "lim h \<le> b" using copier.copy_grows [OF S ok 1] new(2) by (simp add: grows_def)
  moreover have "run_state (SessionDeepCopyObject M (Some a)) h = (SessionObject b, h')"
    using 1 2 cell by (simp add: SessionDeepCopyObject_def SessionDeepCopy_def deref_def)
  ultimately show ?thesis
    using whole new(3) copier.write_to_copy [OF S ok whole] copier.write_to_original [OF S ok whole]
    unfolding copied_def by blast
qed

text \<open>
  C28: copying a list keeps memory well-typed: the copy of a list whose references point to cells of
  their types is such a list again and the original still is; it has the same items in the same
  order, and no reference of one, of its items or of their metadata is a reference of the other.
\<close>

theorem list_copy_well_typed:
  assumes laws: "copy_laws M" and ok: "listOk M h l" and run: "run_state (ListDeepCopyInto M l) h = (out, h')"
  shows "listOk M h' out \<and> listOk M h' l \<and> listView M h' out = listView M h l \<and> listView M h' l = listView M h l \<and>
    listRefs M h' out \<inter> listRefs M h' l = {}"
proof -
  note L = list_copier [OF laws]
  note c = list_copied [OF laws ok run]
  show ?thesis using c copier.kept [OF L ok] copier.apart [OF L ok c] unfolding copied_def by blast
qed

lemma nil_copies: "run_state (SessionDeepCopyObject M None) h = (NilObject, h)" "run_state (ListDeepCopyObject M None) h = (NilObject, h)"
  by (simp_all add: SessionDeepCopyObject_def SessionDeepCopy_def ListDeepCopyObject_def ListDeepCopy_def)

end
