(* ===== verification/GoFlags.thy ===== *)
theory GoFlags
  imports GoLib
begin

text \<open>
  The command line as the \<^verbatim>\<open>flag\<close> package of the Go library reads it (\<^verbatim>\<open>flag.Parse()\<close> on the
  default flag set, which exits on an error): the syntax of one argument, the flags that are defined,
  and the loop over the arguments.  The loop ends in a list of the values that were set, in order, or
  in the status the process exits with.
\<close>

section \<open>The syntax of an argument\<close>

datatype argSyntax = NoFlag | BadSyntax | FlagArg string "string option"

definition splitFlag :: "string \<Rightarrow> argSyntax" where
  \<comment> \<open>One or two dashes, a name, and possibly a value after the first equals sign.  An argument that
      is no flag, and the argument of two dashes, end the flags.\<close>
  "splitFlag s =
     (if length s < 2 \<or> hd s \<noteq> CHR ''-'' \<or> s = ''--'' then NoFlag
      else let name = (if s ! 1 = CHR ''-'' then drop 2 s else drop 1 s) in
        if name = [] \<or> hd name = CHR ''-'' \<or> hd name = CHR ''='' then BadSyntax
        else FlagArg (takeWhile (\<lambda>c. c \<noteq> CHR ''='') name)
          (case dropWhile (\<lambda>c. c \<noteq> CHR ''='') name of [] \<Rightarrow> None | eq # v \<Rightarrow> Some v))"

section \<open>Defined flags\<close>

record flagSpec =
  fs_IsBool :: bool
  fs_Accepts :: "string \<Rightarrow> bool" \<comment> \<open>whether setting the value returns no error\<close>

definition ParseBool :: "string \<Rightarrow> bool option" where
  "ParseBool v =
     (if v \<in> {''1'', ''t'', ''T'', ''TRUE'', ''true'', ''True''} then Some True
      else if v \<in> {''0'', ''f'', ''F'', ''FALSE'', ''false'', ''False''} then Some False
      else None)"

definition stringFlag :: flagSpec where
  "stringFlag = \<lparr> fs_IsBool = False, fs_Accepts = (\<lambda>v. True) \<rparr>"

definition boolFlag :: flagSpec where
  "boolFlag = \<lparr> fs_IsBool = True, fs_Accepts = (\<lambda>v. ParseBool v \<noteq> None) \<rparr>"

definition valueFlag :: "(string \<Rightarrow> 'a option) \<Rightarrow> flagSpec" where
  "valueFlag parser = \<lparr> fs_IsBool = False, fs_Accepts = (\<lambda>v. parser v \<noteq> None) \<rparr>"

type_synonym formalFlags = "string \<Rightarrow> flagSpec option"

section \<open>Parsing\<close>

abbreviation exitHelp :: int where "exitHelp \<equiv> 0"
abbreviation exitUsage :: int where "exitUsage \<equiv> 2"

definition setFlag ::
  "flagSpec \<Rightarrow> string \<Rightarrow> string \<Rightarrow> int + (string \<times> string) list \<Rightarrow> int + (string \<times> string) list" where
  "setFlag spec name v rest =
     (if \<not> fs_Accepts spec v then Inl exitUsage
      else case rest of Inl code \<Rightarrow> Inl code | Inr vals \<Rightarrow> Inr ((name, v) # vals))"

fun parseArgs :: "formalFlags \<Rightarrow> string list \<Rightarrow> int + (string \<times> string) list" where
  "parseArgs F [] = Inr []"
| "parseArgs F (s # args) = (case splitFlag s of
     NoFlag \<Rightarrow> Inr []
   | BadSyntax \<Rightarrow> Inl exitUsage
   | FlagArg name value \<Rightarrow>
       (case F name of
          None \<Rightarrow> Inl (if name = ''help'' \<or> name = ''h'' then exitHelp else exitUsage)
        | Some spec \<Rightarrow>
            (case value of
               Some v \<Rightarrow> setFlag spec name v (parseArgs F args)
             | None \<Rightarrow>
                 if fs_IsBool spec then setFlag spec name ''true'' (parseArgs F args)
                 else (case args of
                         [] \<Rightarrow> Inl exitUsage
                       | v # args' \<Rightarrow> setFlag spec name v (parseArgs F args')))))"

definition typedFlag :: "(string \<Rightarrow> 'a option) \<Rightarrow> (string \<times> string) list \<Rightarrow> string \<Rightarrow> 'a \<Rightarrow> 'a" where
  \<comment> \<open>The variable of a flag after parsing: the last value that was set, or the default.  A value
      that does not parse is not set: \<open>parseArgs\<close> exits on it.\<close>
  "typedFlag parser vals name deflt =
     (case map_of (rev vals) name of
        None \<Rightarrow> deflt
      | Some v \<Rightarrow> (case parser v of Some x \<Rightarrow> x | None \<Rightarrow> deflt))"

section \<open>What parsing guarantees\<close>

fun acceptedFlag :: "formalFlags \<Rightarrow> string \<times> string \<Rightarrow> bool" where
  \<comment> \<open>The flag is defined and its type accepts the value.\<close>
  "acceptedFlag F (name, v) = (case F name of None \<Rightarrow> False | Some spec \<Rightarrow> fs_Accepts spec v)"

fun asksHelp :: "argSyntax \<Rightarrow> bool" where
  "asksHelp (FlagArg name v) = (name = ''help'' \<or> name = ''h'')"
| "asksHelp _ = False"

lemma setFlag_Inr:
  "setFlag spec name v rest = Inr vals \<longleftrightarrow> fs_Accepts spec v \<and> (\<exists>vs. rest = Inr vs \<and> vals = (name, v) # vs)"
  by (auto simp: setFlag_def split: sum.splits)

lemma setFlag_Inl:
  "setFlag spec name v rest = Inl code \<longleftrightarrow> (\<not> fs_Accepts spec v \<and> code = 2) \<or> (fs_Accepts spec v \<and> rest = Inl code)"
  by (auto simp: setFlag_def split: sum.splits)

lemma parseArgs_accepted: "parseArgs F args = Inr vals \<Longrightarrow> list_all (acceptedFlag F) vals"
  by (induction F args arbitrary: vals rule: parseArgs.induct)
    (auto simp: setFlag_Inr split: argSyntax.splits option.splits if_splits list.splits)

lemma parseArgs_exit:
  "parseArgs F args = Inl code \<Longrightarrow> code = exitUsage \<or> (code = exitHelp \<and> list_ex (asksHelp \<circ> splitFlag) args)"
proof (induction F args arbitrary: code rule: parseArgs.induct)
  case (2 F s args)
  show ?case
  proof (cases "\<exists>name value spec. splitFlag s = FlagArg name value \<and> F name = Some spec")
    case True
    then obtain name "value" spec where s: "splitFlag s = FlagArg name value" "F name = Some spec" by blast
    consider v where "value = Some v" | "value = None" "fs_IsBool spec" | "value = None" "\<not> fs_IsBool spec" "args = []"
      | v args' where "value = None" "\<not> fs_IsBool spec" "args = v # args'"
      by (cases "value"; cases args) auto
    then show ?thesis
    proof cases
      case 1
      with "2.IH"(3) [OF s] "2.prems" s show ?thesis by (auto simp: setFlag_Inl)
    next
      case 2
      with "2.IH"(1) [OF s] "2.prems" s show ?thesis by (auto simp: setFlag_Inl)
    next
      case 3
      with "2.prems" s show ?thesis by simp
    next
      case (4 v args')
      with "2.IH"(2) [OF s] "2.prems" s show ?thesis by (auto simp: setFlag_Inl)
    qed
  next
    case False
    with "2.prems" show ?thesis by (cases "splitFlag s") (auto split: option.splits if_splits)
  qed
qed simp

lemma parseArgs_undefined:
  assumes "splitFlag s = FlagArg name v" and "F name = None"
  shows "parseArgs F (s # args) = Inl (if name = ''help'' \<or> name = ''h'' then exitHelp else exitUsage)"
  using assms by simp

lemma typedFlag_accepted:
  assumes "parseArgs F args = Inr vals" and "F name = Some spec" and "\<And>v. fs_Accepts spec v \<longleftrightarrow> parser v \<noteq> None"
    and "map_of (rev vals) name = Some v"
  shows "parser v = Some (typedFlag parser vals name deflt)"
proof -
  have "(name, v) \<in> set vals" using map_of_SomeD [OF assms(4)] by simp
  with parseArgs_accepted [OF assms(1)] have "acceptedFlag F (name, v)" unfolding list_all_iff by blast
  with assms(2,3) have "parser v \<noteq> None" by simp
  with assms(4) show ?thesis by (auto simp: typedFlag_def)
qed

end
