(* ===== verification/MainProps.thy ===== *)
theory MainProps
  imports MainProgram
begin

text \<open>
  What the two programs promise about starting and stopping.  \<open>launch N\<close> is the postcondition that
  the stages of a program are proved to establish, from the last stage to the first: a start comes
  after the actions \<open>N\<close>, and the exit status is 0 exactly when the manager ran and stopped without
  an error.
\<close>

section \<open>Stages\<close>

fun isStart :: "'r mainAction \<Rightarrow> bool" where
  "isStart (StartM e) = True"
| "isStart _ = False"

definition launch :: "'r mainAction set \<Rightarrow> int \<Rightarrow> 'r mainAction list \<Rightarrow> bool" where
  "launch N code es \<longleftrightarrow>
     (code = 0 \<longleftrightarrow> StartM None \<in> set es) \<and>
     (code \<noteq> 0 \<longrightarrow> code = 1 \<and> ((\<exists>msg. ErrorM msg \<in> set es) \<or> ConfigM False \<in> set es)) \<and>
     (\<forall>pre e post. es = pre @ StartM e # post \<longrightarrow> N \<subseteq> set pre)"

lemma launch_Cons:
  assumes "launch N code es" and "\<not> isStart a"
  shows "launch (insert a N) code (a # es)"
proof -
  have "insert a N \<subseteq> set pre" if "a # es = pre @ StartM e # post" for pre e post
    using that assms(1,2) by (cases pre) (auto simp: launch_def)
  then show ?thesis using assms unfolding launch_def by auto
qed

lemma launch_mono: "launch N code es \<Longrightarrow> M \<subseteq> N \<Longrightarrow> launch M code es"
  unfolding launch_def by (metis (no_types, lifting) subset_trans)

lemma launch_skip: "launch N code es \<Longrightarrow> \<not> isStart a \<Longrightarrow> launch N code (a # es)"
  by (rule launch_mono [OF launch_Cons]) auto

lemma launch_failed: "\<not> isStart a \<Longrightarrow> launch N 1 [a, ErrorM msg]"
  by (auto simp: launch_def Cons_eq_append_conv)

lemma launch_died: "launch N 1 [ConfigM False]"
  by (auto simp: launch_def Cons_eq_append_conv)

definition launches :: "'r mainAction set \<Rightarrow> ('w, 'r, int) main \<Rightarrow> bool" where
  "launches N m \<longleftrightarrow> yields m (\<lambda>code es. launch N code es)"

lemma launches_say: "launches N k \<Longrightarrow> launches N (do { _ \<leftarrow> say a; k })" if "\<not> isStart a"
  unfolding launches_def say_def
  by (intro yields_rules, erule yields_conseq) (use that in \<open>auto intro: launch_skip\<close>)

lemma launches_orExit:
  assumes m: "yields m (\<lambda>e es. es = [act e])" and a: "\<And>e. \<not> isStart (act e)" and k: "launches N k"
  shows "launches (insert (act None) N) (orExit m msg k)"
  unfolding launches_def orExit_def
proof (rule yields_bind [OF m])
  fix err and es1 :: "'b mainAction list"
  assume es1: "es1 = [act err]"
  show "yields (case err of None \<Rightarrow> k | Some e \<Rightarrow> do { _ \<leftarrow> say (ErrorM msg); ret 1 })
      (\<lambda>code es2. launch (insert (act None) N) code (es1 @ es2))"
  proof (cases err)
    case None
    then show ?thesis using k a es1 unfolding launches_def
      by (auto elim!: yields_conseq intro: launch_Cons)
  next
    case (Some e)
    then show ?thesis using a es1 unfolding say_def
      by (auto intro!: yields_rules launch_failed)
  qed
qed

lemma launches_call:
  assumes "\<And>e. \<not> isStart (act e)" and "launches N k"
  shows "launches (insert (act None) N) (orExit (call f act) msg k)"
  using assms by (intro launches_orExit) (auto intro: yields_call)

lemma launches_orDie: "launches N k \<Longrightarrow> launches N (orDie C k)"
  unfolding launches_def orDie_def
  by (intro yields_rules, erule yields_conseq) (auto intro: launch_skip launch_died)

lemma launches_start:
  assumes "yields k (\<lambda>code es. code = 0 \<and> \<not> list_ex isStart es)"
  shows "launches {} (orExit (startManager C) msg k)"
proof -
  have starts: "launch {} 0 (StartM None # es)" for es :: "'b mainAction list"
    by (simp add: launch_def)
  have fails: "launch {} 1 [StartM (Some e), ErrorM msg]" for e
    by (simp add: launch_def)
  show ?thesis
    unfolding launches_def orExit_def startManager_def say_def
    by (intro yields_rules yields_conseq [OF assms]) (auto simp: starts fails)
qed

section \<open>The programs\<close>

lemma launches_if: "launches N k \<Longrightarrow> \<not> isStart a \<Longrightarrow> launches N (do { _ \<leftarrow> (if b then say a else ret ()); k })"
  by (cases b) (simp_all add: launches_say)

lemma launches_publisher: "launches N k \<Longrightarrow> launches N (do { _ \<leftarrow> usePublisher url p; k })"
  unfolding launches_def usePublisher_def say_def
  by (intro yields_rules; erule yields_conseq) (auto intro!: launch_skip)

lemmas manager_calls = newManager_def addHealthzCheck_def addReadyzCheck_def SetupWithManager_def

definition labStages where
  "labStages f R = {NewManagerM (labManagerOptions f) None,
     CompleteM (labController (maxConcurrentReconciles f)) R None,
     HealthzM ''healthz'' Ping None, ReadyzM ''readyz'' Ping None,
     ReadyzM ''cache-sync'' (CacheSync (cacheSyncTimeout f)) None}"

lemma deferredClose_zero: "yields (deferredClose A url) (\<lambda>code es. code = 0 \<and> \<not> list_ex isStart es)"
  unfolding deferredClose_def by (intro yields_rules) auto

definition refusedArgs :: "string list \<Rightarrow> int \<Rightarrow> bool" where
  \<comment> \<open>How the flag package ends the process: status 2, or 0 if one of the arguments asks for help.\<close>
  "refusedArgs args code \<longleftrightarrow> code = exitUsage \<or> (code = exitHelp \<and> list_ex (asksHelp \<circ> splitFlag) args)"

lemma labMain_refused:
  assumes "parseArgs (labFlags P) args = Inl code"
  shows "yields (labMain C A K L parse P Getenv args) (\<lambda>c es. c = code \<and> es = [])"
  using assms unfolding labMain_def by (simp add: yields_ret)

lemma labMain_launches:
  assumes "parseArgs (labFlags P) args = Inr vals"
  shows "yields (labMain C A K L parse P Getenv args) (\<lambda>code es. launch {} code es \<and>
     (list_ex isStart es \<longrightarrow> (\<exists>R p. setupReconciler A K L parse Getenv vals = Some (R, p) \<and>
        launch (labStages (parseFlags P vals) R) code es)))"
proof (cases "setupReconciler A K L parse Getenv vals")
  case None
  then show ?thesis using assms unfolding labMain_def say_def
    by (auto intro!: yields_rules simp: launch_def Cons_eq_append_conv)
next
  case (Some x)
  obtain R p where x: "x = (R, p)" by fastforce
  have "launches (labStages (parseFlags P vals) R) (labMain C A K L parse P Getenv args)"
    unfolding labMain_def assms Some x labStages_def manager_calls namespaceNotice_def option.case prod.case sum.case Let_def
    by (intro launches_say launches_if launches_orDie launches_call launches_publisher launches_start
        deferredClose_zero) simp_all
  then show ?thesis
    unfolding launches_def by (rule yields_conseq) (use Some x launch_mono in blast)
qed

text \<open>
  C15: the program starts its manager only when its arguments are accepted and the settings are
  valid, and after everything is registered.  If the flag package refuses the arguments, the process
  ends at once, without any other action, with status 2 (an undefined flag, bad syntax, a missing or
  malformed value) or, if an argument asks for help, 0.  Otherwise every value set is one of a defined flag
  that accepts it, and: the manager is started only if the settings of these values are valid, after
  it was created with the options of the flags, the controller was registered with the assembled
  reconciler and every check, the cache's readiness included, was added; the status is 0 exactly when the
  manager ran and stopped without an error; and every other way out, before or after the start, has
  status 1 and an error in the log (or a missing cluster configuration).
\<close>

theorem main_starts_ready:
  "yields (labMain C A K L parse P Getenv args) (\<lambda>code es.
     case parseArgs (labFlags P) args of
       Inl c \<Rightarrow> code = c \<and> refusedArgs args c \<and> es = []
     | Inr vals \<Rightarrow> list_all (acceptedFlag (labFlags P)) vals \<and> launch {} code es \<and>
         (list_ex isStart es \<longrightarrow> (\<exists>R p. setupReconciler A K L parse Getenv vals = Some (R, p) \<and>
            launch (labStages (parseFlags P vals) R) code es)))"
proof (cases "parseArgs (labFlags P) args")
  case (Inl code)
  then show ?thesis
    using parseArgs_exit [OF Inl] by (auto simp: refusedArgs_def intro: yields_conseq [OF labMain_refused [OF Inl]])
next
  case (Inr vals)
  then show ?thesis
    using parseArgs_accepted [OF Inr] by (auto intro: yields_conseq [OF labMain_launches [OF Inr]])
qed

definition legacyStages where
  "legacyStages f settings = {NewManagerM (legacyManagerOptions f) None,
     CompleteM (legacyController watches (maxConcurrentReconciles f))
       \<lparr> ls_ResourceBuilder = Some settings, ls_MaxRetries = int MaxRetryAttempts, ls_BaseRetryDelay = BaseRetryInterval \<rparr> None,
     HealthzM ''healthz'' Ping None, ReadyzM ''readyz'' Ping None,
     HealthzM ''controller-dependencies'' ControllerDependencies None,
     ReadyzM ''cache-sync'' (CacheSync (cacheSyncTimeout f)) None}"

definition servesHTTP2 :: "managerOptions \<Rightarrow> bool" where
  \<comment> \<open>Some server offers a protocol besides HTTP/1.1, whatever its configuration was before the options.\<close>
  "servesHTTP2 opts \<longleftrightarrow> (\<exists>c. fold (\<lambda>f c. f c) (mo_MetricsTLSOpts opts) c \<noteq> [''http/1.1''] \<or>
     fold (\<lambda>f c. f c) (mo_WebhookTLSOpts opts) c \<noteq> [''http/1.1''])"

lemma legacy_http2: "servesHTTP2 (legacyManagerOptions f) \<longleftrightarrow> enableHTTP2 f"
  by (auto simp: servesHTTP2_def legacyManagerOptions_def tlsOpts_def disableHTTP2_def)

lemma legacy_setup_call:
  "legacySetupWithManager finish \<lparr> ls_ResourceBuilder = Some settings, ls_MaxRetries = 0, ls_BaseRetryDelay = 0 \<rparr> n =
   finish watches n \<lparr> ls_ResourceBuilder = Some settings, ls_MaxRetries = int MaxRetryAttempts, ls_BaseRetryDelay = BaseRetryInterval \<rparr>"
  by (simp add: legacySetupWithManager_def)

text \<open>
  The older program starts its manager only on valid settings, after the manager, the controller
  (with the default retries and retry delay) and all four checks are registered; and no server
  of that manager offers HTTP/2 unless the flag enables it.  Its exit status is as above.
\<close>

lemma legacyMain_refused:
  assumes "parseArgs (legacyFlags P) args = Inl code"
  shows "yields (legacyMain C L parse P Getenv args) (\<lambda>c es. c = code \<and> refusedArgs args code \<and> es = [])"
  using assms parseArgs_exit [OF assms] unfolding legacyMain_def by (simp add: yields_ret refusedArgs_def)

lemma legacy_main_starts_ready:
  assumes "parseArgs (legacyFlags P) args = Inr vals"
  shows "yields (legacyMain C L parse P Getenv args) (\<lambda>code es. launch {} code es \<and>
     (list_ex isStart es \<longrightarrow> Validate L parse (BindFlags Getenv vals) = [] \<and>
        (servesHTTP2 (legacyManagerOptions (legacyParseFlags P vals)) \<longleftrightarrow> enableHTTP2 (legacyParseFlags P vals)) \<and>
        launch (legacyStages (legacyParseFlags P vals) (BindFlags Getenv vals)) code es))"
proof (cases "Validate L parse (BindFlags Getenv vals) = []")
  case False
  then show ?thesis using assms unfolding legacyMain_def say_def
    by (auto intro!: yields_rules simp: launch_def Cons_eq_append_conv Let_def)
next
  case True
  have "launches (legacyStages (legacyParseFlags P vals) (BindFlags Getenv vals)) (legacyMain C L parse P Getenv args)"
    unfolding legacyMain_def assms True legacyStages_def manager_calls namespaceNotice_def sum.case Let_def legacy_setup_call
    by (simp only: simp_thms if_False if_True)
      (intro launches_say launches_if launches_orDie launches_call launches_start; auto intro: yields_ret)
  then show ?thesis
    unfolding launches_def by (rule yields_conseq) (use True launch_mono legacy_http2 in blast)
qed

section \<open>Shutdown\<close>

definition endsWith :: "('w, 'r, int) main \<Rightarrow> ('w, 'r, int) main \<Rightarrow> bool" where
  \<comment> \<open>The first program returns 0 only by running the second last.\<close>
  "endsWith m k \<longleftrightarrow> (\<forall>w w'. run_state m w = (0, w') \<longrightarrow> (\<exists>w1. run_state k w1 = (0, w')))"

lemma endsWith_refl: "endsWith m m" by (auto simp: endsWith_def)

lemma endsWith_bind: "(\<And>x. endsWith (f x) k) \<Longrightarrow> endsWith (State_Monad.bind m f) k"
  by (auto simp: endsWith_def split: prod.splits)

lemma endsWith_ret: "n \<noteq> 0 \<Longrightarrow> endsWith (ret n) k"
  by (simp add: endsWith_def)

lemma endsWith_exit: "endsWith (do { _ \<leftarrow> say a; ret 1 }) k"
  by (intro endsWith_bind endsWith_ret) simp

lemma endsWith_orExit: "endsWith m k \<Longrightarrow> endsWith (orExit x msg m) k"
  unfolding orExit_def by (rule endsWith_bind) (simp add: endsWith_exit split: option.splits)

lemma endsWith_orDie: "endsWith m k \<Longrightarrow> endsWith (orDie C m) k"
  unfolding orDie_def by (rule endsWith_bind) (simp add: endsWith_ret)

lemma main_ends:
  assumes "parseArgs (labFlags P) args = Inr vals"
  shows "endsWith (labMain C A K L parse P Getenv args) (deferredClose A (rabbitMQURL Getenv vals))"
  unfolding labMain_def assms Let_def
  by (auto split: option.splits intro!: endsWith_ret endsWith_exit endsWith_bind endsWith_orDie endsWith_orExit endsWith_refl)

lemma closePublisher_closed:
  assumes "closePublisher A s = (err, s')"
  shows "rp_closed (fst s') \<and> rp_conn (fst s') = None \<and> rp_ch (fst s') = None"
  using assms by (auto simp: closePublisher_def Close_def Let_def split: prod.splits)

text \<open>
  A clean stop leaves nothing open.  When the program with a broker URL was not asked for help and
  returns with status 0,
  its publisher is closed and holds no connection and no channel, so that a late publish fails
  instead of dialling again.
\<close>

lemma main_closes_publisher:
  assumes "run_state (labMain C A K L parse P Getenv args) w = (0, w')"
    and "parseArgs (labFlags P) args = Inr vals" and "rabbitMQURL Getenv vals \<noteq> []"
  shows "rp_closed (fst (ext w')) \<and> rp_conn (fst (ext w')) = None \<and> rp_ch (fst (ext w')) = None"
proof -
  obtain w1 where "run_state (deferredClose A (rabbitMQURL Getenv vals)) w1 = (0, w')"
    using assms(1) main_ends [OF assms(2)] unfolding endsWith_def by blast
  then obtain err where "closePublisher A (ext w1) = (err, ext w')"
    using assms(3) by (auto simp: deferredClose_def split: prod.splits)
  then show ?thesis by (rule closePublisher_closed)
qed

section \<open>Probes\<close>

text \<open>
  The pod is reported ready only when the cache is synchronised; the dependency check passes exactly
  when there is a configuration, a client can be made of it and the API server answers.
\<close>

lemma cache_ready_iff:
  "fst (run_state (runCheck B showDuration (CacheSync t)) w) = Healthy \<longleftrightarrow> fst (WaitForCacheSync B t w)"
  by (simp split: prod.splits)

lemma dependencies_healthy_iff:
  assumes "ProbeConfig B w = (found, w1)" and "NewForConfig B w1 = (e1, w2)" and "ServerVersion B w2 = (e2, w3)"
  shows "fst (run_state (runCheck B showDuration ControllerDependencies) w) = Healthy \<longleftrightarrow> found \<and> e1 = None \<and> e2 = None"
  using assms by (auto simp: checkControllerDependencies_def split: option.splits)

end
