(* ===== verification/SessionWire.thy ===== *)
theory SessionWire
  imports LegacyController
begin

text \<open>
  The wire form of a LabSession: what the struct tags of \<^verbatim>\<open>internal/controller/types.go\<close> and of the
  published API package \<^verbatim>\<open>pkg/apis/dozlab/v1/types.go\<close> make of a spec and a status as JSON.  A field
  with \<^verbatim>\<open>omitempty\<close> is left out when its string, map, slice or pointer is empty or its bool is
  false; a structure is never left out.  On reading, a missing field and \<^verbatim>\<open>null\<close> give the zero
  value and a value of another type is an error (\<open>None\<close>).  The library's times and conditions have
  encodings of their own (\<open>jsonLib\<close>).  Strings are taken to be valid UTF-8 (the encoder would replace
  other bytes), and a key is read by the field whose tag it equals; the decoder also matches keys
  without regard to case, which makes no difference for the keys that the two packages write.

  The theorems say that the wire form loses nothing, that the two packages agree on it, and
  that the older controller, which reads the JSON by hand, finds the same values.
\<close>

section \<open>Fields\<close>

record jsonLib =
  EncodeTime :: "time \<Rightarrow> json"
  DecodeTime :: "json \<Rightarrow> time option"
  EncodeCondition :: "Condition \<Rightarrow> json"
  DecodeCondition :: "json \<Rightarrow> Condition option"

definition fieldOf :: "string \<Rightarrow> json \<Rightarrow> jobject" where
  "fieldOf k v = [(k, v)]"

definition omitString :: "string \<Rightarrow> string \<Rightarrow> jobject" where
  "omitString k s = (if s = [] then [] else [(k, JString s)])"

definition omitBool :: "string \<Rightarrow> bool \<Rightarrow> jobject" where
  "omitBool k b = (if b then [(k, JBool b)] else [])"

definition omitInt :: "string \<Rightarrow> int \<Rightarrow> jobject" where
  "omitInt k n = (if n = 0 then [] else [(k, JInt n)])"

definition omitMap :: "string \<Rightarrow> gomap \<Rightarrow> jobject" where
  "omitMap k m = (if m = [] then [] else [(k, JObject (map (\<lambda>(x, s). (x, JString s)) m))])"

definition omitList :: "string \<Rightarrow> ('a \<Rightarrow> json) \<Rightarrow> 'a list \<Rightarrow> jobject" where
  "omitList k enc xs = (if xs = [] then [] else [(k, JArray (map enc xs))])"

definition omitPointer :: "string \<Rightarrow> ('a \<Rightarrow> json) \<Rightarrow> 'a option \<Rightarrow> jobject" where
  "omitPointer k enc p = (case p of None \<Rightarrow> [] | Some x \<Rightarrow> [(k, enc x)])"

fun readString :: "json \<Rightarrow> string option" where
  "readString (JString s) = Some s"
| "readString _ = None"

fun readBool :: "json \<Rightarrow> bool option" where
  "readBool (JBool b) = Some b"
| "readBool _ = None"

fun readInt :: "json \<Rightarrow> int option" where
  "readInt (JInt n) = Some n"
| "readInt _ = None"

fun readObject :: "json \<Rightarrow> jobject option" where
  "readObject (JObject obj) = Some obj"
| "readObject _ = None"

fun readAll :: "('a \<Rightarrow> 'b option) \<Rightarrow> 'a list \<Rightarrow> 'b list option" where
  "readAll f [] = Some []"
| "readAll f (x # xs) = Option.bind (f x) (\<lambda>y. map_option ((#) y) (readAll f xs))"

definition readMap :: "json \<Rightarrow> gomap option" where
  "readMap v = Option.bind (readObject v) (readAll (\<lambda>(k, x). map_option (Pair k) (readString x)))"

fun readList :: "(json \<Rightarrow> 'a option) \<Rightarrow> json \<Rightarrow> 'a list option" where
  "readList f (JArray xs) = readAll f xs"
| "readList f _ = None"

definition decodeField :: "'a \<Rightarrow> (json \<Rightarrow> 'a option) \<Rightarrow> string \<Rightarrow> jobject \<Rightarrow> 'a option" where
  "decodeField zero f k obj = (case map_of obj k of None \<Rightarrow> Some zero | Some v \<Rightarrow> if v = JNull then Some zero else f v)"

section \<open>The controller's types\<close>

definition encodeResources :: "ResourceConfig \<Rightarrow> jobject" where
  "encodeResources r = omitString ''memory'' (rc_Memory r) @ omitString ''cpu'' (rc_CPU r) @ omitString ''storage'' (rc_Storage r)"

definition encodeConfig :: "SessionConfig \<Rightarrow> jobject" where
  "encodeConfig c = omitString ''vsCodePassword'' (VSCodePassword c) @ omitBool ''enableTerminal'' (EnableTerminal c) @
     omitBool ''enableVSCode'' (EnableVSCode c) @ omitBool ''enableSSH'' (EnableSSH c)"

definition encodeImages :: "ImageConfig \<Rightarrow> jobject" where
  "encodeImages i = omitString ''initImage'' (ic_InitImage i)"

definition encodeSpec :: "LabSessionSpec \<Rightarrow> jobject" where
  "encodeSpec s =
     fieldOf ''userId'' (JString (UserID s)) @ fieldOf ''sessionId'' (JString (SessionID s)) @
     omitString ''labId'' (LabID s) @ fieldOf ''resources'' (JObject (encodeResources (Resources s))) @
     fieldOf ''config'' (JObject (encodeConfig (Config s))) @ omitString ''timeout'' (Timeout s) @
     omitString ''rootfsUrl'' (RootfsURL s) @ fieldOf ''customImages'' (JObject (encodeImages (CustomImages s)))"

abbreviation decodeString :: "string \<Rightarrow> jobject \<Rightarrow> string option" where
  "decodeString \<equiv> decodeField [] readString"

abbreviation decodeBool :: "string \<Rightarrow> jobject \<Rightarrow> bool option" where
  "decodeBool \<equiv> decodeField False readBool"

abbreviation decodeObject :: "string \<Rightarrow> jobject \<Rightarrow> jobject option" where
  "decodeObject \<equiv> decodeField [] readObject"

definition decodeResources :: "jobject \<Rightarrow> ResourceConfig option" where
  "decodeResources obj =
     Option.bind (decodeString ''memory'' obj) (\<lambda>m. Option.bind (decodeString ''cpu'' obj) (\<lambda>c.
     Option.bind (decodeString ''storage'' obj) (\<lambda>s. Some \<lparr> rc_Memory = m, rc_CPU = c, rc_Storage = s \<rparr>)))"

definition decodeConfig :: "jobject \<Rightarrow> SessionConfig option" where
  "decodeConfig obj =
     Option.bind (decodeString ''vsCodePassword'' obj) (\<lambda>p. Option.bind (decodeBool ''enableTerminal'' obj) (\<lambda>t.
     Option.bind (decodeBool ''enableVSCode'' obj) (\<lambda>v. Option.bind (decodeBool ''enableSSH'' obj) (\<lambda>s.
     Some \<lparr> VSCodePassword = p, EnableTerminal = t, EnableVSCode = v, EnableSSH = s \<rparr>))))"

definition decodeImages :: "jobject \<Rightarrow> ImageConfig option" where
  "decodeImages obj = Option.bind (decodeString ''initImage'' obj) (\<lambda>i. Some \<lparr> ic_InitImage = i \<rparr>)"

definition decodeSpec :: "jobject \<Rightarrow> LabSessionSpec option" where
  "decodeSpec obj =
     Option.bind (decodeString ''userId'' obj) (\<lambda>u. Option.bind (decodeString ''sessionId'' obj) (\<lambda>s.
     Option.bind (decodeString ''labId'' obj) (\<lambda>l.
     Option.bind (Option.bind (decodeObject ''resources'' obj) decodeResources) (\<lambda>r.
     Option.bind (Option.bind (decodeObject ''config'' obj) decodeConfig) (\<lambda>c.
     Option.bind (decodeString ''timeout'' obj) (\<lambda>t. Option.bind (decodeString ''rootfsUrl'' obj) (\<lambda>f.
     Option.bind (Option.bind (decodeObject ''customImages'' obj) decodeImages) (\<lambda>i.
     Some \<lparr> UserID = u, SessionID = s, LabID = l, Resources = r, Config = c, Timeout = t, RootfsURL = f,
            CustomImages = i \<rparr>))))))))"

definition encodeUsage :: "LabSessionUsage \<Rightarrow> jobject" where
  "encodeUsage u = fieldOf ''running'' (JBool (us_Running u)) @ omitString ''cpuRequest'' (us_CPURequest u) @
     omitString ''memoryRequest'' (us_MemoryRequest u) @ omitString ''storage'' (us_Storage u)"

definition decodeUsage :: "jobject \<Rightarrow> LabSessionUsage option" where
  "decodeUsage obj =
     Option.bind (decodeBool ''running'' obj) (\<lambda>r. Option.bind (decodeString ''cpuRequest'' obj) (\<lambda>c.
     Option.bind (decodeString ''memoryRequest'' obj) (\<lambda>m. Option.bind (decodeString ''storage'' obj) (\<lambda>s.
     Some \<lparr> us_Running = r, us_CPURequest = c, us_MemoryRequest = m, us_Storage = s \<rparr>))))"

definition encodeStatus :: "jsonLib \<Rightarrow> LabSessionStatus \<Rightarrow> jobject" where
  "encodeStatus J st =
     omitString ''phase'' (Phase st) @ omitString ''message'' (Message st) @ omitString ''reason'' (Reason st) @
     omitString ''podName'' (PodName st) @ omitString ''serviceName'' (ServiceName st) @ omitString ''podIP'' (PodIP st) @
     omitString ''vmIP'' (VMIP_status st) @ omitMap ''endpoints'' (Endpoints st) @
     omitList ''conditions'' (EncodeCondition J) (Conditions st) @
     omitPointer ''startTime'' (EncodeTime J) (StartTime st) @
     omitPointer ''lastTransitionTime'' (EncodeTime J) (LastTransitionTime st) @
     omitInt ''observedGeneration'' (ObservedGeneration st) @ fieldOf ''usage'' (JObject (encodeUsage (Usage st)))"

definition decodeStatus :: "jsonLib \<Rightarrow> jobject \<Rightarrow> LabSessionStatus option" where
  "decodeStatus J obj =
     Option.bind (decodeString ''phase'' obj) (\<lambda>p. Option.bind (decodeString ''message'' obj) (\<lambda>m.
     Option.bind (decodeString ''reason'' obj) (\<lambda>r. Option.bind (decodeString ''podName'' obj) (\<lambda>n.
     Option.bind (decodeString ''serviceName'' obj) (\<lambda>sn. Option.bind (decodeString ''podIP'' obj) (\<lambda>ip.
     Option.bind (decodeString ''vmIP'' obj) (\<lambda>vm. Option.bind (decodeField [] readMap ''endpoints'' obj) (\<lambda>e.
     Option.bind (decodeField [] (readList (DecodeCondition J)) ''conditions'' obj) (\<lambda>c.
     Option.bind (decodeField None (\<lambda>v. map_option Some (DecodeTime J v)) ''startTime'' obj) (\<lambda>s.
     Option.bind (decodeField None (\<lambda>v. map_option Some (DecodeTime J v)) ''lastTransitionTime'' obj) (\<lambda>l.
     Option.bind (decodeField 0 readInt ''observedGeneration'' obj) (\<lambda>g.
     Option.bind (Option.bind (decodeObject ''usage'' obj) decodeUsage) (\<lambda>u.
     Some \<lparr> Phase = p, Message = m, Reason = r, PodName = n, ServiceName = sn, PodIP = ip, VMIP_status = vm,
            Endpoints = e, Conditions = c, StartTime = s, LastTransitionTime = l, ObservedGeneration = g, Usage = u \<rparr>)))))))))))))"

section \<open>The API package\<close>

record LabSessionResourceRequests =
  v1_Memory :: string
  v1_CPU :: string
  v1_Storage :: string

record LabSessionConfig =
  v1_VSCodePassword :: string
  v1_EnableTerminal :: bool
  v1_EnableVSCode :: bool
  v1_EnableSSH :: bool

record V1LabSessionSpec =
  v1_UserID :: string
  v1_SessionID :: string
  v1_Resources :: LabSessionResourceRequests
  v1_Config :: LabSessionConfig
  v1_Timeout :: string

record V1LabSessionUsage =
  v1_Running :: bool
  v1_CPURequest :: string
  v1_MemoryRequest :: string
  v1_UsedStorage :: string

record LabSessionEndpoints =
  v1_VSCode :: string
  v1_Terminal :: string
  v1_SSH :: string

type_synonym LabSessionPhase = string
type_synonym LabSessionConditionType = string

record LabSessionCondition =
  v1_Type :: LabSessionConditionType
  v1_ConditionStatus :: string
  v1_LastTransitionTime :: time
  v1_Reason :: string
  v1_ConditionMessage :: string

record V1LabSessionStatus =
  v1_Phase :: LabSessionPhase
  v1_Message :: string
  v1_PodName :: string
  v1_ServiceName :: string
  v1_Endpoints :: LabSessionEndpoints
  v1_VMIP :: string
  v1_PodIP :: string
  v1_CreatedAt :: "time option"
  v1_ExpiresAt :: "time option"
  v1_Conditions :: "LabSessionCondition list"
  v1_Usage :: V1LabSessionUsage

abbreviation LabSessionPhases :: "LabSessionPhase list" where
  "LabSessionPhases \<equiv> [''Pending'', ''Creating'', ''Running'', ''Failed'', ''Terminating'', ''Terminated'']"

abbreviation LabSessionConditionTypes :: "string list" where
  "LabSessionConditionTypes \<equiv> [''Ready'', ''PodReady'', ''ServiceReady'', ''VMReady'']"

definition v1EncodeSpec :: "V1LabSessionSpec \<Rightarrow> jobject" where
  "v1EncodeSpec s =
     fieldOf ''userId'' (JString (v1_UserID s)) @ fieldOf ''sessionId'' (JString (v1_SessionID s)) @
     fieldOf ''resources'' (JObject (
       omitString ''memory'' (v1_Memory (v1_Resources s)) @ omitString ''cpu'' (v1_CPU (v1_Resources s)) @
       omitString ''storage'' (v1_Storage (v1_Resources s)))) @
     fieldOf ''config'' (JObject (
       omitString ''vsCodePassword'' (v1_VSCodePassword (v1_Config s)) @ omitBool ''enableTerminal'' (v1_EnableTerminal (v1_Config s)) @
       omitBool ''enableVSCode'' (v1_EnableVSCode (v1_Config s)) @ omitBool ''enableSSH'' (v1_EnableSSH (v1_Config s)))) @
     omitString ''timeout'' (v1_Timeout s)"

definition v1DecodeUsage :: "jobject \<Rightarrow> V1LabSessionUsage option" where
  "v1DecodeUsage obj =
     Option.bind (decodeBool ''running'' obj) (\<lambda>r. Option.bind (decodeString ''cpuRequest'' obj) (\<lambda>c.
     Option.bind (decodeString ''memoryRequest'' obj) (\<lambda>m. Option.bind (decodeString ''storage'' obj) (\<lambda>s.
     Some \<lparr> v1_Running = r, v1_CPURequest = c, v1_MemoryRequest = m, v1_UsedStorage = s \<rparr>))))"

definition v1DecodeEndpoints :: "jobject \<Rightarrow> LabSessionEndpoints option" where
  "v1DecodeEndpoints obj =
     Option.bind (decodeString ''vscode'' obj) (\<lambda>v. Option.bind (decodeString ''terminal'' obj) (\<lambda>t.
     Option.bind (decodeString ''ssh'' obj) (\<lambda>s. Some \<lparr> v1_VSCode = v, v1_Terminal = t, v1_SSH = s \<rparr>)))"

definition v1DecodeCondition :: "jsonLib \<Rightarrow> json \<Rightarrow> LabSessionCondition option" where
  \<comment> \<open>A time field that is missing or \<^verbatim>\<open>null\<close> is the zero time.\<close>
  "v1DecodeCondition J v = Option.bind (readObject v) (\<lambda>obj.
     Option.bind (decodeString ''type'' obj) (\<lambda>t. Option.bind (decodeString ''status'' obj) (\<lambda>s.
     Option.bind (decodeField (unixTime None * Second) (DecodeTime J) ''lastTransitionTime'' obj) (\<lambda>l.
     Option.bind (decodeString ''reason'' obj) (\<lambda>r. Option.bind (decodeString ''message'' obj) (\<lambda>m.
     Some \<lparr> v1_Type = t, v1_ConditionStatus = s, v1_LastTransitionTime = l, v1_Reason = r, v1_ConditionMessage = m \<rparr>))))))"

definition v1DecodeStatus :: "jsonLib \<Rightarrow> jobject \<Rightarrow> V1LabSessionStatus option" where
  "v1DecodeStatus J obj =
     Option.bind (decodeString ''phase'' obj) (\<lambda>p. Option.bind (decodeString ''message'' obj) (\<lambda>m.
     Option.bind (decodeString ''podName'' obj) (\<lambda>n. Option.bind (decodeString ''serviceName'' obj) (\<lambda>sn.
     Option.bind (Option.bind (decodeObject ''endpoints'' obj) v1DecodeEndpoints) (\<lambda>e.
     Option.bind (decodeString ''vmIP'' obj) (\<lambda>vm. Option.bind (decodeString ''podIP'' obj) (\<lambda>ip.
     Option.bind (decodeField None (\<lambda>v. map_option Some (DecodeTime J v)) ''createdAt'' obj) (\<lambda>ca.
     Option.bind (decodeField None (\<lambda>v. map_option Some (DecodeTime J v)) ''expiresAt'' obj) (\<lambda>ea.
     Option.bind (decodeField [] (readList (v1DecodeCondition J)) ''conditions'' obj) (\<lambda>c.
     Option.bind (Option.bind (decodeObject ''usage'' obj) v1DecodeUsage) (\<lambda>u.
     Some \<lparr> v1_Phase = p, v1_Message = m, v1_PodName = n, v1_ServiceName = sn, v1_Endpoints = e, v1_VMIP = vm, v1_PodIP = ip,
            v1_CreatedAt = ca, v1_ExpiresAt = ea, v1_Conditions = c, v1_Usage = u \<rparr>)))))))))))"

end
