(* ===== verification/WireProps.thy ===== *)
theory WireProps
  imports SessionWire
begin

text \<open>
  The wire form of sessions: round trips, agreement of the controller's types with the API
  package, and what the older controller reads.  The rules \<open>wire\<close> decode one field of an encoded
  structure: they step over the fields before it.
\<close>

named_theorems wire \<open>decoding a field of an encoded structure\<close>

lemma decode_here [wire]:
  "f v = Some x \<Longrightarrow> v \<noteq> JNull \<Longrightarrow> decodeField z f k (fieldOf k v @ rest) = Some x"
  by (simp add: decodeField_def fieldOf_def)

lemma decode_string_here [wire]:
  "map_of rest k = None \<Longrightarrow> decodeField [] readString k (omitString k s @ rest) = Some s"
  by (simp add: decodeField_def omitString_def)

lemma decode_bool_here [wire]:
  "map_of rest k = None \<Longrightarrow> decodeField False readBool k (omitBool k b @ rest) = Some b"
  by (simp add: decodeField_def omitBool_def)

lemma decode_int_here [wire]:
  "map_of rest k = None \<Longrightarrow> decodeField 0 readInt k (omitInt k n @ rest) = Some n"
  by (simp add: decodeField_def omitInt_def)

lemma readAll_map: "(\<And>x. x \<in> set xs \<Longrightarrow> f (g x) = Some (h x)) \<Longrightarrow> readAll f (map g xs) = Some (map h xs)"
  by (induction xs) auto

lemma readMap_encoded: "readMap (JObject (map (\<lambda>(x, s). (x, JString s)) m)) = Some m"
proof -
  have "readAll (\<lambda>(k, x). map_option (Pair k) (readString x)) (map (\<lambda>(x, s). (x, JString s)) m) = Some (map (\<lambda>p. p) m)"
    by (rule readAll_map) auto
  then show ?thesis by (simp add: readMap_def)
qed

lemma decode_map_here [wire]:
  "map_of rest k = None \<Longrightarrow> decodeField [] readMap k (omitMap k m @ rest) = Some m"
  by (simp add: decodeField_def omitMap_def readMap_encoded)

lemma decode_list_here:
  "map_of rest k = None \<Longrightarrow> (\<And>x. x \<in> set xs \<Longrightarrow> f (enc x) = Some (h x)) \<Longrightarrow>
   decodeField [] (readList f) k (omitList k enc xs @ rest) = Some (map h xs)"
  by (simp add: decodeField_def omitList_def readAll_map)

lemma decode_pointer_here [wire]:
  "map_of rest k = None \<Longrightarrow> (\<And>x. p = Some x \<Longrightarrow> f (enc x) = Some x \<and> enc x \<noteq> JNull) \<Longrightarrow>
   decodeField None (\<lambda>v. map_option Some (f v)) k (omitPointer k enc p @ rest) = Some p"
  by (cases p) (simp_all add: decodeField_def omitPointer_def)

lemma map_of_fields [wire]:
  "map_of (fieldOf k v) k' = (if k' = k then Some v else None)"
  "map_of (omitString k s) k' = (if k' = k \<and> s \<noteq> [] then Some (JString s) else None)"
  "map_of (omitBool k b) k' = (if k' = k \<and> b then Some (JBool b) else None)"
  "map_of (omitInt k n) k' = (if k' = k \<and> n \<noteq> 0 then Some (JInt n) else None)"
  "k' \<noteq> k \<Longrightarrow> map_of (omitMap k m) k' = None"
  "k' \<noteq> k \<Longrightarrow> map_of (omitList k enc xs) k' = None"
  "k' \<noteq> k \<Longrightarrow> map_of (omitPointer k enc p) k' = None"
  by (auto simp: fieldOf_def omitString_def omitBool_def omitInt_def omitMap_def omitList_def omitPointer_def split: option.splits)

lemma decode_skip: "map_of obj k = None \<Longrightarrow> decodeField z f k (obj @ rest) = decodeField z f k rest"
  by (simp add: decodeField_def map_add_def split: option.splits)

lemma decode_missing: "map_of obj k = None \<Longrightarrow> decodeField z f k obj = Some z"
  by (simp add: decodeField_def)

lemma map_of_append_None: "map_of (xs @ ys) k = None \<longleftrightarrow> map_of xs k = None \<and> map_of ys k = None"
  by (auto simp: map_add_def split: option.splits)

text \<open>The last field of a structure has nothing after it.\<close>

lemma decode_last [wire]:
  "f v = Some x \<Longrightarrow> v \<noteq> JNull \<Longrightarrow> decodeField z f k (fieldOf k v) = Some x"
  "decodeField [] readString k (omitString k s) = Some s"
  "decodeField False readBool k (omitBool k b) = Some b"
  using decode_here [where rest = "[]"] decode_string_here [where rest = "[]"] decode_bool_here [where rest = "[]"] by simp_all

lemmas wire_steps = wire decode_skip map_of_append_None

section \<open>Round trips\<close>

lemma resources_roundtrip [simp]: "decodeResources (encodeResources r) = Some r"
  unfolding decodeResources_def encodeResources_def by (simp add: wire_steps del: map_of_append)

lemma config_roundtrip [simp]: "decodeConfig (encodeConfig c) = Some c"
  unfolding decodeConfig_def encodeConfig_def by (simp add: wire_steps del: map_of_append)

lemma images_roundtrip [simp]: "decodeImages (encodeImages i) = Some i"
  unfolding decodeImages_def encodeImages_def by (simp add: wire_steps del: map_of_append)

lemma usage_roundtrip [simp]: "decodeUsage (encodeUsage u) = Some u"
  unfolding decodeUsage_def encodeUsage_def by (simp add: wire_steps del: map_of_append)

lemma spec_roundtrip: "decodeSpec (encodeSpec s) = Some s"
  unfolding decodeSpec_def encodeSpec_def by (simp add: wire_steps del: map_of_append)

definition exactTime :: "jsonLib \<Rightarrow> time \<Rightarrow> bool" where
  \<comment> \<open>The wire form of a time is RFC 3339 text: it keeps whole seconds, and the zero time is \<^verbatim>\<open>null\<close>.\<close>
  "exactTime J t \<longleftrightarrow> DecodeTime J (EncodeTime J t) = Some t \<and> EncodeTime J t \<noteq> JNull"

definition exactCondition :: "jsonLib \<Rightarrow> Condition \<Rightarrow> bool" where
  "exactCondition J c \<longleftrightarrow> DecodeCondition J (EncodeCondition J c) = Some c"

definition exactStatus :: "jsonLib \<Rightarrow> LabSessionStatus \<Rightarrow> bool" where
  "exactStatus J st \<longleftrightarrow> pred_option (exactTime J) (StartTime st) \<and> pred_option (exactTime J) (LastTransitionTime st) \<and>
     list_all (exactCondition J) (Conditions st)"

lemma decode_conditions:
  "list_all (exactCondition J) cs \<Longrightarrow> map_of rest k = None \<Longrightarrow>
   decodeField [] (readList (DecodeCondition J)) k (omitList k (EncodeCondition J) cs @ rest) = Some cs"
  using decode_list_here [where h = "\<lambda>x. x" and xs = cs and f = "DecodeCondition J" and enc = "EncodeCondition J"]
  by (simp add: list_all_iff exactCondition_def)

lemma decode_time:
  "pred_option (exactTime J) p \<Longrightarrow> map_of rest k = None \<Longrightarrow>
   decodeField None (\<lambda>v. map_option Some (DecodeTime J v)) k (omitPointer k (EncodeTime J) p @ rest) = Some p"
  by (rule decode_pointer_here) (auto simp: exactTime_def)

text \<open>
  Nothing of a session is lost on the wire.  Decoding the JSON of a spec gives the spec, for
  every spec; decoding the JSON of a status gives the status, when its times are whole seconds, as
  the library's encoding of times has it, and its conditions survive the library's encoding.
\<close>

lemma session_wire_roundtrip:
  assumes "exactStatus J st"
  shows "decodeSpec (encodeSpec s) = Some s \<and> decodeStatus J (encodeStatus J st) = Some st"
proof
  show "decodeSpec (encodeSpec s) = Some s" by (rule spec_roundtrip)
  have t: "pred_option (exactTime J) (StartTime st)" "pred_option (exactTime J) (LastTransitionTime st)"
    and c: "list_all (exactCondition J) (Conditions st)"
    using assms by (auto simp: exactStatus_def)
  show "decodeStatus J (encodeStatus J st) = Some st"
    unfolding decodeStatus_def encodeStatus_def
    by (simp add: wire_steps decode_time [OF t(1)] decode_time [OF t(2)] decode_conditions [OF c] del: map_of_append)
qed

section \<open>The API package\<close>

definition apiSpec :: "V1LabSessionSpec \<Rightarrow> LabSessionSpec" where
  \<comment> \<open>What the controller makes of a spec of the API package: the same values, and no lab, no
    rootfs and no images of the lab's own.\<close>
  "apiSpec s = \<lparr> UserID = v1_UserID s, SessionID = v1_SessionID s, LabID = [],
     Resources = \<lparr> rc_Memory = v1_Memory (v1_Resources s), rc_CPU = v1_CPU (v1_Resources s), rc_Storage = v1_Storage (v1_Resources s) \<rparr>,
     Config = \<lparr> VSCodePassword = v1_VSCodePassword (v1_Config s), EnableTerminal = v1_EnableTerminal (v1_Config s),
                EnableVSCode = v1_EnableVSCode (v1_Config s), EnableSSH = v1_EnableSSH (v1_Config s) \<rparr>,
     Timeout = v1_Timeout s, RootfsURL = [], CustomImages = \<lparr> ic_InitImage = [] \<rparr> \<rparr>"

lemma decode_nothing:
  "decodeImages [] = Some \<lparr> ic_InitImage = [] \<rparr>"
  by (simp add: decodeImages_def decode_missing)

lemma decode_api_spec: "decodeSpec (v1EncodeSpec s) = Some (apiSpec s)"
proof -
  have "v1EncodeSpec s = fieldOf ''userId'' (JString (v1_UserID s)) @ fieldOf ''sessionId'' (JString (v1_SessionID s)) @
     fieldOf ''resources'' (JObject (encodeResources (Resources (apiSpec s)))) @
     fieldOf ''config'' (JObject (encodeConfig (Config (apiSpec s)))) @ omitString ''timeout'' (v1_Timeout s)"
    by (simp add: v1EncodeSpec_def encodeResources_def encodeConfig_def apiSpec_def)
  then show ?thesis
    unfolding decodeSpec_def by (simp add: wire_steps decode_missing decode_nothing del: map_of_append) (simp add: apiSpec_def)
qed

definition condition_wire :: "jsonLib \<Rightarrow> bool" where
  \<comment> \<open>The library's condition is an object with these fields, all of them always present.\<close>
  "condition_wire J \<longleftrightarrow> (\<forall>c. \<exists>obj. EncodeCondition J c = JObject obj \<and>
     map_of obj ''type'' = Some (JString (cond_Type c)) \<and> map_of obj ''status'' = Some (JString (cond_Status c)) \<and>
     map_of obj ''lastTransitionTime'' = Some (EncodeTime J (cond_LastTransitionTime c)) \<and>
     map_of obj ''reason'' = Some (JString (cond_Reason c)) \<and> map_of obj ''message'' = Some (JString (cond_Message c)))"

definition apiCondition :: "Condition \<Rightarrow> LabSessionCondition" where
  "apiCondition c = \<lparr> v1_Type = cond_Type c, v1_ConditionStatus = cond_Status c,
     v1_LastTransitionTime = cond_LastTransitionTime c, v1_Reason = cond_Reason c, v1_ConditionMessage = cond_Message c \<rparr>"

definition apiStatus :: "LabSessionStatus \<Rightarrow> V1LabSessionStatus" where
  "apiStatus st = \<lparr> v1_Phase = Phase st, v1_Message = Message st, v1_PodName = PodName st, v1_ServiceName = ServiceName st,
     v1_Endpoints = \<lparr> v1_VSCode = mget (Endpoints st) ''vscode'', v1_Terminal = mget (Endpoints st) ''terminal'',
                       v1_SSH = mget (Endpoints st) ''ssh'' \<rparr>,
     v1_VMIP = VMIP_status st, v1_PodIP = PodIP st, v1_CreatedAt = None, v1_ExpiresAt = None,
     v1_Conditions = map apiCondition (Conditions st),
     v1_Usage = \<lparr> v1_Running = us_Running (Usage st), v1_CPURequest = us_CPURequest (Usage st),
                   v1_MemoryRequest = us_MemoryRequest (Usage st), v1_UsedStorage = us_Storage (Usage st) \<rparr> \<rparr>"

lemma api_usage: "v1DecodeUsage (encodeUsage u) = Some \<lparr> v1_Running = us_Running u, v1_CPURequest = us_CPURequest u,
    v1_MemoryRequest = us_MemoryRequest u, v1_UsedStorage = us_Storage u \<rparr>"
  unfolding v1DecodeUsage_def encodeUsage_def by (simp add: wire_steps del: map_of_append)

lemma decode_map_entry:
  "decodeField [] readString k (map (\<lambda>(x, s). (x, JString s)) m) = Some (mget m k)"
  by (induction m) (auto simp: decodeField_def mget_def split: option.splits)

lemma api_endpoints: "v1DecodeEndpoints (map (\<lambda>(x, s). (x, JString s)) m) =
    Some \<lparr> v1_VSCode = mget m ''vscode'', v1_Terminal = mget m ''terminal'', v1_SSH = mget m ''ssh'' \<rparr>"
  by (simp add: v1DecodeEndpoints_def decode_map_entry)

lemma decode_object_map:
  "map_of rest k = None \<Longrightarrow> decodeField [] readObject k (omitMap k m @ rest) = Some (map (\<lambda>(x, s). (x, JString s)) m)"
  by (simp add: decodeField_def omitMap_def)

lemma api_condition:
  assumes "condition_wire J" and "exactTime J (cond_LastTransitionTime c)"
  shows "v1DecodeCondition J (EncodeCondition J c) = Some (apiCondition c)"
proof -
  obtain obj where "EncodeCondition J c = JObject obj" "map_of obj ''type'' = Some (JString (cond_Type c))"
      "map_of obj ''status'' = Some (JString (cond_Status c))" "map_of obj ''reason'' = Some (JString (cond_Reason c))"
      "map_of obj ''lastTransitionTime'' = Some (EncodeTime J (cond_LastTransitionTime c))"
      "map_of obj ''message'' = Some (JString (cond_Message c))"
    using assms(1) unfolding condition_wire_def by blast
  then show ?thesis
    using assms(2) by (simp add: v1DecodeCondition_def decodeField_def apiCondition_def exactTime_def)
qed

text \<open>
  C30: the two Go packages agree on the wire.  The controller reads a spec that a client wrote with
  the API package's types as the same values with the lab's fields empty, and a client reads the
  controller's status, for every condition time the wire form keeps, as the same phase, names,
  addresses, conditions and usage, with the endpoints of the names it knows; the creation and
  expiry times of the API package are never filled.
\<close>

theorem api_packages_agree:
  assumes "condition_wire J" and "list_all (\<lambda>c. exactTime J (cond_LastTransitionTime c)) (Conditions st)"
  shows "decodeSpec (v1EncodeSpec s) = Some (apiSpec s) \<and> v1DecodeStatus J (encodeStatus J st) = Some (apiStatus st)"
proof
  show "decodeSpec (v1EncodeSpec s) = Some (apiSpec s)" by (rule decode_api_spec)
  have c: "decodeField [] (readList (v1DecodeCondition J)) k (omitList k (EncodeCondition J) (Conditions st) @ rest) =
      Some (map apiCondition (Conditions st))" if "map_of rest k = None" for k rest
    using that assms api_condition by (intro decode_list_here) (auto simp: list_all_iff)
  show "v1DecodeStatus J (encodeStatus J st) = Some (apiStatus st)"
    unfolding v1DecodeStatus_def encodeStatus_def
    by (simp add: wire_steps decode_missing [where k = "''createdAt''"] decode_missing [where k = "''expiresAt''"]
        c decode_object_map api_usage api_endpoints del: map_of_append) (simp add: apiStatus_def)
qed

section \<open>The older controller\<close>

definition orDefault :: "string \<Rightarrow> string \<Rightarrow> string" where
  "orDefault s d = (if s = [] then d else s)"

text \<open>
  The older controller, which takes the fields of a spec from the JSON by hand, reads what the
  typed controller would: the ids as they are, and the sizes and the password with its defaults where
  the spec leaves them out.
\<close>

lemma legacy_reads_wire:
  shows "stringField (encodeSpec s) ''sessionId'' = SessionID s"
    and "stringField (encodeSpec s) ''userId'' = UserID s"
    and "extractPodConfig (encodeSpec s) = \<lparr> pcf_VSCodePassword = orDefault (VSCodePassword (Config s)) ''password123'' \<rparr>"
    and "extractResourceLimits L (encodeSpec s) = \<lparr>
      rl_Memory = enforceResourceLimits L (orDefault (rc_Memory (Resources s)) DefaultMemoryLimit) MaxMemoryLimit ''memory'',
      rl_CPU = enforceResourceLimits L (orDefault (rc_CPU (Resources s)) DefaultCPULimit) MaxCPULimit ''cpu'' \<rparr>"
  by (simp_all add: stringField_def encodeSpec_def extractPodConfig_def extractResourceLimits_def mapField_def getStringFromMap_def
      encodeConfig_def encodeResources_def wire map_add_def orDefault_def)

end
