(* ===== verification/SampleLegacy.thy ===== *)
theory SampleLegacy
  imports SampleCluster LegacyProps LabTracing LabLogging CopyProps MainProps WireProps
begin

text \<open>
  Concrete instances of the parameters of the other components: the nested-field helpers and a client
  for the older reconciler, OpenTelemetry, the log library, metadata in memory, a manager and the
  wire form of times and conditions.
\<close>

section \<open>Unstructured objects\<close>

fun sampleNested :: "jobject \<Rightarrow> string list \<Rightarrow> goerror + json option" where
  "sampleNested obj [] = Inl (ErrNew ''no field'')"
| "sampleNested obj [f] = Inr (map_of obj f)"
| "sampleNested obj (f # g # fs) = (case map_of obj f of
     None \<Rightarrow> Inr None
   | Some (JObject inner) \<Rightarrow> sampleNested inner (g # fs)
   | Some _ \<Rightarrow> Inl (ErrNew ''not an object''))"

definition sampleUnstructured :: unstructuredLib where
  "sampleUnstructured = \<lparr>
     NestedMap = (\<lambda>obj fs. case sampleNested obj fs of
        Inl e \<Rightarrow> Inl e | Inr None \<Rightarrow> Inr None | Inr (Some (JObject m)) \<Rightarrow> Inr (Some m) | Inr (Some _) \<Rightarrow> Inl (ErrNew ''not an object'')),
     NestedString = (\<lambda>obj fs. case sampleNested obj fs of
        Inl e \<Rightarrow> Inl e | Inr None \<Rightarrow> Inr None | Inr (Some (JString s)) \<Rightarrow> Inr (Some s) | Inr (Some _) \<Rightarrow> Inl (ErrNew ''not a string'')),
     SetNestedMap = (\<lambda>obj m fs. case fs of [f] \<Rightarrow> (None, AList.update f (JObject m) obj) | _ \<Rightarrow> (Some (ErrNew ''unsupported''), obj)),
     FromUnstructured = (\<lambda>obj. case decodeSpec obj of None \<Rightarrow> Inl (ErrNew ''cannot convert'') | Some s \<Rightarrow> Inr s) \<rparr>"

lemma sample_nested_laws: "nested_laws sampleUnstructured"
  by (simp add: nested_laws_def sampleUnstructured_def AList.update_conv')

definition sampleObject :: Unstructured where
  "sampleObject = \<lparr> u_Meta = emptyMeta\<lparr> om_Name := ''s1'', om_Namespace := ''labs'', om_UID := ''uid-1'', om_Finalizers := [legacyFinalizer] \<rparr>,
     u_Object = [(''spec'', JObject [(''userId'', JString ''user''), (''sessionId'', JString ''demo'')])] \<rparr>"

definition legacyWith :: "(NamespacedName \<Rightarrow> cluster \<Rightarrow> (goerror + Unstructured) \<times> cluster) \<Rightarrow> (cluster, int) LegacyReconciler" where
  "legacyWith get = \<lparr> lr_Typed = sampleR, lr_Get = get, lr_Update = (\<lambda>u w. (Inr u, w)), lr_UpdateStatus = (\<lambda>u w. (Inr u, w)),
     lr_Sleep = (\<lambda>d w. ((), (fst w + d, snd w))), lr_Unstructured = sampleUnstructured, lr_Zone = 0, lr_FloatOutside = (\<lambda>x. 0),
     BaseRetryDelay = 0 \<rparr>"

definition legacyR :: "(cluster, int) LegacyReconciler" where
  "legacyR = legacyWith (\<lambda>k w. (Inr sampleObject, w))"

definition brokenR :: "(cluster, int) LegacyReconciler" where
  "brokenR = legacyWith (\<lambda>k w. (Inl (ErrExternal ''InternalError'' ''etcd unavailable''), w))"

definition legacyStart :: "(cluster, int legacyAction) world" where
  "legacyStart = \<lparr> ext = (0, []), trace = [] \<rparr>"

definition legacyTrace :: "(cluster, int, 'a) legacy \<Rightarrow> int legacyAction list" where
  "legacyTrace m = trace (snd (run_state m legacyStart))"

lemma legacy_yields: "yields m Q \<Longrightarrow> Q (fst (run_state m legacyStart)) (legacyTrace m)"
  using yields_run [of m Q legacyStart] by (simp add: legacyTrace_def legacyStart_def)

lemma legacyR_simps:
  "lr_Typed legacyR = sampleR" "lr_Unstructured legacyR = sampleUnstructured" "BaseRetryDelay legacyR = 0"
  "lr_Typed brokenR = sampleR" "BaseRetryDelay brokenR = 0"
  "lr_Get legacyR k w = (Inr sampleObject, w)" "lr_UpdateStatus legacyR u w = (Inr u, w)" "lr_Update legacyR u w = (Inr u, w)"
  "lr_Get brokenR k w = (Inl (ErrExternal ''InternalError'' ''etcd unavailable''), w)"
  by (simp_all add: legacyR_def brokenR_def legacyWith_def)

lemma sample_compare_laws: "compare_laws sampleLib sampleAmount"
  by (auto simp: compare_laws_def sampleLib_def sampleAmount_def sgn_if divide_less_cancel)

lemma sample_literal_limits: "literal_limits sampleLib sampleAmount"
proof -
  have "ParseQuantity sampleLib ''2'' = Inr 2000" "ParseQuantity sampleLib ''8'' = Inr 8000"
    "ParseQuantity sampleLib ''4Gi'' = Inr (4000 * 2 ^ 30)" "ParseQuantity sampleLib ''16Gi'' = Inr (16000 * 2 ^ 30)"
    by code_simp+
  then show ?thesis by (simp add: literal_limits_def sampleAmount_def)
qed

section \<open>Tracing and logging\<close>

definition sampleOtel :: "(nat, unit) otel" where
  "sampleOtel = \<lparr> NewExporter = (\<lambda>u n. (Inr n, n + 1)), MergeResource = (\<lambda>as n. (Inr n, n + 1)),
     NewProvider = (\<lambda>e r q n. (n, n + 1)), SetProvider = (\<lambda>p n. ((), n)), ShutdownProvider = (\<lambda>p n. (None, n)),
     GlobalTracerOf = (\<lambda>s n. (n, n + 1)), ProviderTracer = (\<lambda>p s n. (n, n + 1)),
     SpanStart = (\<lambda>t c name as k n. (((), n), n + 1)), SpanDo = (\<lambda>h op n. ((), n)), TraceClock = (\<lambda>n. (int n, n)),
     ResultIsZero = (\<lambda>r. r = emptyResult) \<rparr>"

definition sampleTracer :: Tracer where
  "sampleTracer = \<lparr> tr_tracer = 0, tr_config = \<lparr> tc_Enabled = False, tc_OTLPEndpoint = [], tc_ServiceName = [], tc_ServiceVersion = [],
     tc_SampleRate = 0 \<rparr>, tr_provider = None \<rparr>"

definition sampleLog :: "(nat, unit, unit) logr" where
  "sampleLog = \<lparr> RootLog = (), LogWithName = (\<lambda>l n. l), LogWithValues = (\<lambda>l kv. l), LogInfo = (\<lambda>l v m kv n. ((), n)),
     LogError = (\<lambda>l e m kv n. ((), n)), SpanContext = (\<lambda>c. None), TypeName = (\<lambda>e. ''error''), MapOrder = rev,
     LogClock = (\<lambda>n. (int n, n)), LogZone = 0 \<rparr>"

section \<open>Memory\<close>

text \<open>Metadata here is its labels: nil, or a reference to a map.\<close>

fun labelsIn :: "(addr option) cell \<Rightarrow> json" where
  "labelsIn (MapCell m) = JObject (map (\<lambda>(k, v). (k, JString v)) m)"
| "labelsIn _ = JNull"

fun orNull :: "json option \<Rightarrow> json" where
  "orNull None = JNull"
| "orNull (Some v) = v"

definition sampleMeta :: "(addr option) metaLib" where
  "sampleMeta = \<lparr> CopyTime = (\<lambda>t. t), CopyCondition = (\<lambda>c. c), CopyMeta = copyRef (\<lambda>c. c), CopyListMeta = copyRef (\<lambda>c. c),
     metaOk = refOk isMap, metaRefs = (\<lambda>h. refSet),
     metaValue = (\<lambda>h r. orNull (refView labelsIn h r)), EndpointOrder = rev \<rparr>"

lemma sample_meta_copier: "copier (refOk isMap) (\<lambda>h r. orNull (refView labelsIn h r)) (\<lambda>h. refSet) (copyRef (\<lambda>c. c))"
proof -
  have C: "copier (refOk isMap) (refView labelsIn) (\<lambda>h. refSet) (copyRef (\<lambda>c. c))" by (rule copyRef_copier) simp
  show ?thesis
  proof
    show "refSet r \<subseteq> {..< lim h}" if "refOk isMap h r" for h :: "(addr option) heap" and r
      using copier.refs_allocated [OF C that] .
    show "refOk isMap h' r \<and> orNull (refView labelsIn h' r) = orNull (refView labelsIn h r) \<and> refSet r = refSet r"
      if "refOk isMap h r" "agree (refSet r) h h'" for h h' :: "(addr option) heap" and r
      using copier.local [OF C that] by simp
    show "copied (refOk isMap) (\<lambda>h r. orNull (refView labelsIn h r)) (\<lambda>h. refSet) h r h' y"
      if "refOk isMap h r" "run_state (copyRef (\<lambda>c. c) r) h = (y, h')" for h h' :: "(addr option) heap" and r y
      using copier.copies [OF C that] by (simp add: copied_def)
  qed
qed

lemma sample_copy_laws: "copy_laws sampleMeta"
  using sample_meta_copier by (simp add: copy_laws_def sampleMeta_def rangeOrder_def)

definition sampleStruct :: "(addr option) SessionStruct" where
  "sampleStruct = \<lparr> so_TypeMeta = (''LabSession'', ''dozlab.io/v1''), so_Meta = Some 4, so_Spec = emptySpec,
     so_Status = \<lparr> ss_Phase = ''Running'', ss_Message = [], ss_Reason = [], ss_PodName = ''p'', ss_ServiceName = ''s'', ss_PodIP = [],
       ss_VMIP = [], ss_Endpoints = Some 0, ss_Conditions = Some 1, ss_StartTime = Some 2, ss_LastTransitionTime = None,
       ss_ObservedGeneration = 1, ss_Usage = emptyUsage \<rparr> \<rparr>"

definition sampleHeap :: "(addr option) heap" where
  "sampleHeap = \<lparr> cells = (\<lambda>a. [MapCell [(''vscode'', ''https://labs.example.org'')],
       ConditionsCell [sampleCondition ''Ready'' ''True'' 2], TimeCell 5, SessionCell sampleStruct, MapCell [(''app'', ''lab'')],
       ItemsCell [sampleStruct, sampleStruct\<lparr> so_Meta := None \<rparr>]] ! a), lim = 6 \<rparr>"

definition sampleList :: "(addr option) ListStruct" where
  "sampleList = \<lparr> li_TypeMeta = (''LabSessionList'', ''dozlab.io/v1''), li_ListMeta = None, li_Items = Some 5 \<rparr>"

lemma sample_heap_ok: "sessionOk sampleMeta sampleHeap sampleStruct" "listOk sampleMeta sampleHeap sampleList"
  "cells sampleHeap 3 = SessionCell sampleStruct"
  by (simp_all add: sessionOk_def listOk_def statusOk_def refOk_def sampleMeta_def sampleHeap_def sampleStruct_def sampleList_def)

section \<open>Manager and wire\<close>

definition sampleManager :: "('w, 'r) manager" where
  "sampleManager = \<lparr> GetConfig = (\<lambda>w. (True, w)), NewManager = (\<lambda>opts w. (None, w)), Complete = (\<lambda>spec r w. (None, w)),
     AddHealthzCheck = (\<lambda>n c w. (None, w)), AddReadyzCheck = (\<lambda>n c w. (None, w)), StartManager = (\<lambda>w. (None, w)) \<rparr>"

definition sampleParsers :: flagParsers where
  "sampleParsers = \<lparr> ParseDuration = (\<lambda>v. map_option (\<lambda>n. n * Second) (Atoi v)), ParseInt = Atoi,
     LibraryFlags = map_of [(''kubeconfig'', stringFlag), (''zap-devel'', boolFlag)] \<rparr>"

definition encodeSampleCondition :: "Condition \<Rightarrow> json" where
  "encodeSampleCondition c = JObject [(''type'', JString (cond_Type c)), (''status'', JString (cond_Status c)),
     (''observedGeneration'', JInt (cond_ObservedGeneration c)), (''lastTransitionTime'', JInt (cond_LastTransitionTime c)),
     (''reason'', JString (cond_Reason c)), (''message'', JString (cond_Message c))]"

definition decodeSampleCondition :: "json \<Rightarrow> Condition option" where
  "decodeSampleCondition v = (case v of
     JObject [(_, JString t), (_, JString s), (_, JInt g), (_, JInt l), (_, JString r), (_, JString m)] \<Rightarrow>
       Some \<lparr> cond_Type = t, cond_Status = s, cond_ObservedGeneration = g, cond_LastTransitionTime = l, cond_Reason = r, cond_Message = m \<rparr>
   | _ \<Rightarrow> None)"

definition sampleJson :: jsonLib where
  "sampleJson = \<lparr> EncodeTime = JInt, DecodeTime = readInt, EncodeCondition = encodeSampleCondition,
     DecodeCondition = decodeSampleCondition \<rparr>"

definition sampleStatus :: LabSessionStatus where
  "sampleStatus = emptyStatus\<lparr> Phase := ''Running'', Endpoints := [(''vscode'', ''https://labs.example.org'')],
     Conditions := [sampleCondition ''Ready'' ''True'' 2], StartTime := Some 5 \<rparr>"

lemma sample_wire: "condition_wire sampleJson" "exactStatus sampleJson sampleStatus"
  "list_all (\<lambda>c. exactTime sampleJson (cond_LastTransitionTime c)) (Conditions sampleStatus)"
  by (simp_all add: condition_wire_def exactStatus_def exactTime_def exactCondition_def sampleJson_def sampleStatus_def emptyStatus_def
      encodeSampleCondition_def decodeSampleCondition_def)

end
