(* ===== verification/LabMetrics.thy ===== *)
theory LabMetrics
  imports GoLib
begin

text \<open>
  Metrics, \<^verbatim>\<open>pkg/metrics/metrics.go\<close>.  The Prometheus library is a parameter: what the collector does
  is the sequence of the operations it performs on the metrics, each named with its label values.  A
  duration is observed in seconds; the number \<^verbatim>\<open>d.Seconds()\<close> is represented by the duration itself.

  The library adds up: \<open>counterValue\<close> and \<open>gaugeValue\<close> are the documented meaning of the operations.
\<close>

datatype metric =
    labSessionsCreated
  | labSessionsDeleted
  | labSessionErrors
  | labSessionsActive
  | reconcileDuration
  | podCreationDuration
  | resourceUsage

fun metricName :: "metric \<Rightarrow> string" where
  "metricName labSessionsCreated = ''lab_sessions_created_total''"
| "metricName labSessionsDeleted = ''lab_sessions_deleted_total''"
| "metricName labSessionErrors = ''lab_session_errors_total''"
| "metricName labSessionsActive = ''lab_sessions_active''"
| "metricName reconcileDuration = ''lab_session_reconcile_duration_seconds''"
| "metricName podCreationDuration = ''lab_session_pod_creation_duration_seconds''"
| "metricName resourceUsage = ''lab_session_resource_usage''"

fun metricLabels :: "metric \<Rightarrow> string list" where
  "metricLabels labSessionsCreated = [''namespace'', ''user_id'']"
| "metricLabels labSessionsDeleted = [''namespace'', ''user_id'', ''reason'']"
| "metricLabels labSessionErrors = [''namespace'', ''session_id'', ''error_type'']"
| "metricLabels labSessionsActive = [''namespace'']"
| "metricLabels reconcileDuration = [''namespace'', ''result'']"
| "metricLabels podCreationDuration = [''namespace'']"
| "metricLabels resourceUsage = [''namespace'', ''session_id'', ''resource_type'']"

datatype 'v metricOp =
    Inc metric "string list"
  | Dec metric "string list"
  | Observe metric "string list" duration
  | SetTo metric "string list" 'v

section \<open>The collector\<close>

definition InitMetrics :: "metric list" where
  \<comment> \<open>The metrics that \<open>Init\<close> registers.\<close>
  "InitMetrics = [labSessionsCreated, labSessionsDeleted, labSessionErrors, labSessionsActive,
     reconcileDuration, podCreationDuration, resourceUsage]"

definition RecordLabSessionCreated :: "string \<Rightarrow> string \<Rightarrow> 'v metricOp list" where
  "RecordLabSessionCreated namespace userID =
     [Inc labSessionsCreated [namespace, userID], Inc labSessionsActive [namespace]]"

definition RecordLabSessionDeleted :: "string \<Rightarrow> string \<Rightarrow> string \<Rightarrow> 'v metricOp list" where
  "RecordLabSessionDeleted namespace userID reason =
     [Inc labSessionsDeleted [namespace, userID, reason], Dec labSessionsActive [namespace]]"

definition RecordLabSessionError :: "string \<Rightarrow> string \<Rightarrow> string \<Rightarrow> 'v metricOp list" where
  "RecordLabSessionError namespace sid errorType = [Inc labSessionErrors [namespace, sid, errorType]]"

definition RecordReconcileDuration :: "string \<Rightarrow> string \<Rightarrow> duration \<Rightarrow> 'v metricOp list" where
  "RecordReconcileDuration namespace result duration = [Observe reconcileDuration [namespace, result] duration]"

definition RecordPodCreationDuration :: "string \<Rightarrow> duration \<Rightarrow> 'v metricOp list" where
  "RecordPodCreationDuration namespace duration = [Observe podCreationDuration [namespace] duration]"

definition RecordResourceUsage :: "string \<Rightarrow> string \<Rightarrow> string \<Rightarrow> 'v \<Rightarrow> 'v metricOp list" where
  "RecordResourceUsage namespace sid resourceType v = [SetTo resourceUsage [namespace, sid, resourceType] v]"

text \<open>A timer is the time it was started; the collector it holds has no fields.\<close>

type_synonym Timer = time

definition NewTimer :: "time \<Rightarrow> Timer" where
  "NewTimer now = now"

definition RecordReconcile :: "Timer \<Rightarrow> string \<Rightarrow> string \<Rightarrow> time \<Rightarrow> 'v metricOp list" where
  "RecordReconcile t namespace result now = RecordReconcileDuration namespace result (now - t)"

definition RecordPodCreation :: "Timer \<Rightarrow> string \<Rightarrow> time \<Rightarrow> 'v metricOp list" where
  "RecordPodCreation t namespace now = RecordPodCreationDuration namespace (now - t)"

definition GetMetrics :: "time \<Rightarrow> jobject" where
  "GetMetrics now = [(''collector_initialized'', JBool True), (''timestamp'', JInt (unixTime (Some now)))]"

section \<open>Records\<close>

text \<open>The calls of a collector.\<close>

datatype 'v collectorCall =
    SessionCreated string string
  | SessionDeleted string string string
  | SessionError string string string
  | Reconciled string string duration
  | PodCreated string duration
  | UsageOf string string string 'v

fun opsOf :: "'v collectorCall \<Rightarrow> 'v metricOp list" where
  "opsOf (SessionCreated ns u) = RecordLabSessionCreated ns u"
| "opsOf (SessionDeleted ns u r) = RecordLabSessionDeleted ns u r"
| "opsOf (SessionError ns s e) = RecordLabSessionError ns s e"
| "opsOf (Reconciled ns r d) = RecordReconcileDuration ns r d"
| "opsOf (PodCreated ns d) = RecordPodCreationDuration ns d"
| "opsOf (UsageOf ns s r v) = RecordResourceUsage ns s r v"

fun opMetric :: "'v metricOp \<Rightarrow> metric \<times> string list" where
  "opMetric (Inc m ls) = (m, ls)"
| "opMetric (Dec m ls) = (m, ls)"
| "opMetric (Observe m ls d) = (m, ls)"
| "opMetric (SetTo m ls v) = (m, ls)"

definition counted :: "metric \<Rightarrow> string list \<Rightarrow> 'v metricOp list \<Rightarrow> int" where
  \<comment> \<open>The value of a counter or a gauge: the increments minus the decrements.\<close>
  "counted m ls ops = (\<Sum>op\<leftarrow>ops. if op = Inc m ls then 1 else if op = Dec m ls then - 1 else 0)"

lemma counted_append [simp]: "counted m ls (xs @ ys) = counted m ls xs + counted m ls ys"
  by (simp add: counted_def)

fun isCreated :: "string \<Rightarrow> 'v collectorCall \<Rightarrow> bool" where
  "isCreated ns (SessionCreated n u) = (n = ns)"
| "isCreated ns _ = False"

fun isDeleted :: "string \<Rightarrow> 'v collectorCall \<Rightarrow> bool" where
  "isDeleted ns (SessionDeleted n u r) = (n = ns)"
| "isDeleted ns _ = False"

lemmas record_defs = RecordLabSessionCreated_def RecordLabSessionDeleted_def RecordLabSessionError_def
  RecordReconcileDuration_def RecordPodCreationDuration_def RecordResourceUsage_def

text \<open>
  C33: the gauge of active sessions.  After any sequence of records, in every namespace the number of
  active sessions is the number of sessions recorded as created minus the number recorded as deleted;
  every operation names as many label values as its metric has labels and is on a metric that \<open>Init\<close>
  registers, under a name no other metric has.
\<close>

theorem active_sessions:
  "counted labSessionsActive [ns] (concat (map opsOf calls)) =
     int (length (filter (isCreated ns) calls)) - int (length (filter (isDeleted ns) calls)) \<and>
   (\<forall>op \<in> set (concat (map opsOf calls)). length (snd (opMetric op)) = length (metricLabels (fst (opMetric op))) \<and>
      fst (opMetric op) \<in> set InitMetrics) \<and>
   distinct (map metricName InitMetrics)"
proof (intro conjI)
  show "counted labSessionsActive [ns] (concat (map opsOf calls)) =
      int (length (filter (isCreated ns) calls)) - int (length (filter (isDeleted ns) calls))"
  proof (induction calls)
    case Nil
    show ?case by (simp add: counted_def)
  next
    case (Cons c cs)
    then show ?case by (cases c) (simp_all add: record_defs counted_def)
  qed
  show "\<forall>op \<in> set (concat (map opsOf calls)). length (snd (opMetric op)) = length (metricLabels (fst (opMetric op))) \<and>
      fst (opMetric op) \<in> set InitMetrics"
  proof
    fix op
    assume "op \<in> set (concat (map opsOf calls))"
    then obtain c where "op \<in> set (opsOf c)" by auto
    then show "length (snd (opMetric op)) = length (metricLabels (fst (opMetric op))) \<and> fst (opMetric op) \<in> set InitMetrics"
      by (cases c) (auto simp: record_defs InitMetrics_def)
  qed
  show "distinct (map metricName InitMetrics)" by (simp add: InitMetrics_def)
qed

end
