(* ===== verification/HistoryProps.thy ===== *)
theory HistoryProps
  imports ReconcilerProps
begin

text \<open>
  Many reconciles of one session.  The manager runs the reconciles of a session one after the other;
  between them and during them other clients may change the session.  \<open>storedPhases p es\<close> are the
  phases a trace stores when the store has the phase \<open>p\<close> at the start; it is \<open>None\<close> when an answer carries
  another phase than the stored one, that is, when someone else wrote the phase or a read was stale.
  Otherwise the phases follow the machine, over any number of reconciles.
\<close>

primrec reconcileAll :: "('w, 'q) LabSessionReconciler \<Rightarrow> NamespacedName list \<Rightarrow> ('w, 'q, unit) rec" where
  \<comment> \<open>The worker of a key: the results only decide when the next reconcile comes.\<close>
  "reconcileAll R [] = ret ()"
| "reconcileAll R (req # reqs) = do { _ \<leftarrow> Reconcile R req; reconcileAll R reqs }"

fun storedPhases :: "SessionPhase \<Rightarrow> 'q action list \<Rightarrow> SessionPhase list option" where
  \<comment> \<open>The phases the trace stores, from the phase \<open>p\<close>; \<open>None\<close> if an answer has a phase that is not
    the stored one.\<close>
  "storedPhases p [] = Some []"
| "storedPhases p (GetSessionA k (Inr s) # es) = (if Phase (Status s) = p then storedPhases p es else None)"
| "storedPhases p (UpdateStatusA s (Inr s') # es) = map_option ((#) (Phase (Status s))) (storedPhases (Phase (Status s)) es)"
| "storedPhases p (PatchA b s (Inr s') # es) = (if Phase (Status s') = p then storedPhases p es else None)"
| "storedPhases p (a # es) = storedPhases p es"

lemma storedPhases_append:
  "storedPhases p (es @ fs) = Option.bind (storedPhases p es) (\<lambda>ps. map_option ((@) ps) (storedPhases (last (p # ps)) fs))"
proof (induction p es rule: storedPhases.induct)
  case (1 p)
  show ?case by (cases "storedPhases p fs") auto
next
  case (3 p s s' es)
  then show ?case
    by (cases "storedPhases (Phase (Status s)) es";
        cases "storedPhases (last (Phase (Status s) # the (storedPhases (Phase (Status s)) es))) fs") auto
qed auto

lemma phases_append: "phases p ps \<Longrightarrow> phases (last (p # ps)) qs \<Longrightarrow> phases p (ps @ qs)"
  by (induction rule: phases.induct) (auto intro: phases.intros split: if_splits)

lemma storedPhases_phases:
  "storedPhases p es = Some ps \<Longrightarrow> phaseOK del p (writes es) \<Longrightarrow> phases p ps"
  by (induction p es arbitrary: ps rule: storedPhases.induct) (auto intro: phases.intros split: if_splits)

lemma storedPhases_no_writes: "storedPhases p es = Some ps \<Longrightarrow> writes es = [] \<Longrightarrow> ps = []"
  by (induction p es arbitrary: ps rule: storedPhases.induct) (auto split: if_splits)

lemma Reconcile_history:
  assumes "owner_laws (Lib R)"
  shows "yields (Reconcile R req) (\<lambda>rep es. \<forall>p ps. storedPhases p es = Some ps \<longrightarrow> phases p ps)"
proof (rule yields_conseq [OF Reconcile_phase [OF assms]], intro allI impI)
  fix rep es p ps
  assume step: "case es of
      GetSessionA k (Inr s) # rest \<Rightarrow> k = req \<and>
        phaseOK (om_DeletionTimestamp (Meta s) \<noteq> None) (Phase (Status s)) (writes rest)
    | _ \<Rightarrow> writes es = []" and run: "storedPhases p es = Some ps"
  show "phases p ps"
  proof (cases "\<exists>k s rest. es = GetSessionA k (Inr s) # rest")
    case True
    then obtain k s rest where es: "es = GetSessionA k (Inr s) # rest" by blast
    from run have "storedPhases p rest = Some ps" "Phase (Status s) = p"
      unfolding es by (auto split: if_splits)
    then show ?thesis using step storedPhases_phases by (auto simp: es)
  next
    case False
    then have "writes es = []" using step by (auto split: list.splits action.splits sum.splits)
    then show ?thesis using storedPhases_no_writes [OF run] phases.stopped by simp
  qed
qed

lemma reconcileAll_history:
  assumes "owner_laws (Lib R)"
  shows "yields (reconcileAll R reqs) (\<lambda>_ es. \<forall>p ps. storedPhases p es = Some ps \<longrightarrow> phases p ps)"
proof (induction reqs)
  case Nil
  show ?case by (auto intro!: yields_ret phases.stopped)
next
  case (Cons req reqs)
  show ?case unfolding reconcileAll.simps
  proof (rule yields_bind [OF Reconcile_history [OF assms]], rule yields_conseq [OF Cons.IH], intro allI impI)
    fix es fs p ps and u :: unit
    assume "\<forall>p ps. storedPhases p es = Some ps \<longrightarrow> phases p ps" "\<forall>p ps. storedPhases p fs = Some ps \<longrightarrow> phases p ps"
      "storedPhases p (es @ fs) = Some ps"
    then show "phases p ps" by (auto simp: storedPhases_append bind_eq_Some_conv intro: phases_append)
  qed
qed

lemma phases_split: "phases p (ps @ q # qs) \<Longrightarrow> phases q qs"
  by (induction ps arbitrary: p) (auto elim: phases.cases)

text \<open>
  C3: the life of a session.  Over any number of reconciles, whatever the API server, the clock and the
  bus answer, as long as the phases in the answers are those the controller stored: the stored
  phases are a path of the phase machine.  So a new session is never running before it was creating,
  and after a failure, or once it is terminating, the only phase ever stored is Terminating.
\<close>

theorem session_history:
  assumes "owner_laws (Lib R)"
  shows "yields (reconcileAll R reqs) (\<lambda>_ es. \<forall>p ps. storedPhases p es = Some ps \<longrightarrow>
    phases p ps \<and>
    (p \<in> {[], SessionPhasePending} \<and> SessionPhaseRunning \<in> set ps \<longrightarrow> hd ps = SessionPhaseCreating) \<and>
    (\<forall>qs q rs. ps = qs @ q # rs \<and> q \<in> {SessionPhaseFailed, SessionPhaseTerminating} \<longrightarrow> set rs \<subseteq> {SessionPhaseTerminating}))"
  by (rule yields_conseq [OF reconcileAll_history [OF assms]])
    (use running_needs_creating failed_absorbing phases_split in fastforce)

end
