(* ===== verification/FurtherWitnesses.thy ===== *)
theory FurtherWitnesses
  imports Witnesses SampleLegacy LabMetrics HistoryProps
begin

text \<open>
  The properties of the older controller, of tracing, metrics, logging, deep copies, the programs and
  the wire form, applied at the concrete instances of \<^verbatim>\<open>SampleLegacy\<close>.
\<close>

section \<open>Histories\<close>

lemma session_history_witness:
  "storedPhases [] (sampleTrace (reconcileAll sampleR [keyOf (Meta sampleSession)])) = Some [SessionPhaseCreating] \<and>
   phases [] [SessionPhaseCreating]"
proof -
  have stored: "storedPhases [] (sampleTrace (reconcileAll sampleR [keyOf (Meta sampleSession)])) = Some [SessionPhaseCreating]"
    by (simp add: sample_run Reconcile_def publishPhase_def reconcilePhase_def reconcilePending_def sampleSession_def newSession_def)
  with sample_yields [OF session_history [of sampleR "[keyOf (Meta sampleSession)]"]] show ?thesis
    by (simp add: sampleR_simps)
qed

section \<open>The older controller\<close>

lemma retries_bounded_witness:
  "triesOf isRequest (legacyTrace (getWithRetry brokenR (keyOf (u_Meta sampleObject)))) \<le> 5 \<and>
   prefix (slept (legacyTrace (getWithRetry brokenR (keyOf (u_Meta sampleObject)))))
     [2 * Second, 4 * Second, 8 * Second, 16 * Second]"
  using retries_bounded [of brokenR] legacy_yields by (simp add: legacyR_simps) blast

lemmas legacy_run = legacyUpdateStatus_def updateStatusWithRetry_def getU_def updateStatusU_def legacyR_simps embed_call
  call_defs sampleR_simps sampleKube_def upt_rec Let_def

lemma status_update_consistent_witness:
  "list_ex okStatus (legacyTrace (legacyUpdateStatus legacyR sampleObject ''Creating'' ''m'' []))"
proof -
  have "yields (legacyUpdateStatus legacyR sampleObject ''Creating'' ''m'' []) (\<lambda>r es. r = None \<longleftrightarrow> list_ex okStatus es)"
    by (rule yields_conseq [OF status_update_consistent]) (simp_all add: legacyR_simps sample_nested_laws)
  moreover have "fst (run_state (legacyUpdateStatus legacyR sampleObject ''Creating'' ''m'' []) legacyStart) = None"
    by (simp add: legacy_run legacyStart_def)
  ultimately show ?thesis using legacy_yields by blast
qed

lemma sample_first_read:
  "yields (legacyReconcile legacyR key) (\<lambda>rep es. firstRead key es = Some sampleObject)"
proof -
  have upt: "[0..<MaxRetryAttempts] = 0 # [1..<MaxRetryAttempts]" by (simp add: upt_conv_Cons)
  have "om_DeletionTimestamp (u_Meta sampleObject) = None"
    "ContainsFinalizer (legacyLib legacyR) (om_Finalizers (u_Meta sampleObject)) legacyFinalizer"
    by (simp_all add: sampleObject_def emptyMeta_def legacyR_simps sampleR_simps sampleLib_simps)
  then show ?thesis
    unfolding legacyReconcile_def getWithRetry_def upt getLoop.simps getU_def
    by (intro yields_bind_bind yields_bind_call_known [where r = "Inr sampleObject"])
      (auto simp: legacyR_simps sampleR_simps sample_nested_laws intro!: yields_bind_ret yields_conseq [OF reconcileLabSession_allowed])
qed

lemma legacy_reconcile_safe_witness:
  "legacyAllowed legacyR sampleObject (legacyTrace (legacyReconcile legacyR (keyOf (u_Meta sampleObject))))"
proof -
  let ?key = "keyOf (u_Meta sampleObject)"
  have "firstRead ?key (legacyTrace (legacyReconcile legacyR ?key)) = Some sampleObject"
    by (rule legacy_yields [OF sample_first_read])
  with legacy_yields [OF legacy_reconcile_safe [of legacyR ?key]] show ?thesis
    by (simp add: legacyR_simps sampleR_simps sample_nested_laws)
qed

lemma legacy_delete_waits_witness:
  "seenGone legacyR sampleObject ''demo'' (legacyTrace (legacyReconcileDelete legacyR sampleObject))"
proof -
  let ?es = "legacyTrace (legacyReconcileDelete legacyR sampleObject)"
  have sid: "''demo'' = fst (getNestedString (lr_Unstructured legacyR) (u_Object sampleObject) [''spec'', ''sessionId''])"
    by (simp add: getNestedString_def legacyR_simps sampleUnstructured_def sampleObject_def)
  have "\<exists>obj a. UpdateUA obj a \<in> set ?es"
    using sid unfolding legacyReconcileDelete_def sid [symmetric]
    by (simp add: legacy_run legacyTrace_def legacyStart_def verifyResourcesDeleted_def updateWithRetry_def updateU_def
        sampleLib_simps notFound_def)
  then show ?thesis
    using legacy_yields [OF legacy_delete_waits [OF _ sid]] by (auto simp: legacyR_simps sample_nested_laws)
qed

lemma legacy_limits_capped_witness:
  "\<exists>m. ParseQuantity sampleLib (rl_Memory (extractResourceLimits sampleLib
        [(''resources'', JObject [(''memory'', JString ''64Gi'')])])) = Inr m \<and> sampleAmount m = 16 * 2 ^ 30"
proof -
  have "ParseQuantity sampleLib ''64Gi'' = Inr (64000 * 2 ^ 30)" by code_simp
  then show ?thesis
    using legacy_limits_capped [OF sample_compare_laws sample_literal_limits, of "[(''resources'', JObject [(''memory'', JString ''64Gi'')])]"]
    by (auto simp: getStringFromMap_def mapField_def sampleAmount_def)
qed

section \<open>Tracing, metrics and logging\<close>

lemma traced_reconcile_transparent_witness:
  "yields (TracedReconcile sampleOtel sampleTracer (\<lambda>c req. ret (Returned (requeueNow, None)) :: (nat, nat, (Result \<times> goerror option) outcome) prog)
     () (keyOf emptyMeta))
   (wrapped reconcileVerdict (\<lambda>r es. r = Returned (requeueNow, None) \<and> es = []))"
  by (rule traced_reconcile_transparent) (simp add: yields_ret)

lemma active_sessions_witness:
  "counted labSessionsActive [''labs''] (concat (map opsOf
     [SessionCreated ''labs'' ''u'', SessionCreated ''labs'' ''v'', SessionDeleted ''labs'' ''u'' ''done'', SessionCreated ''other'' ''u''
      :: nat collectorCall])) = 1"
  using active_sessions [of "''labs''" "[SessionCreated ''labs'' ''u'', SessionCreated ''labs'' ''v'',
      SessionDeleted ''labs'' ''u'' ''done'', SessionCreated ''other'' ''u'' :: nat collectorCall]"] by simp

lemma log_entry_fields_witness:
  "\<exists>t kvs. drop 0 (trace (snd (run_state (logWithFields sampleLog \<lparr> lg_base = (), lg_name = ''test'' \<rparr> InfoLevel ''hello''
        [[(''level'', JString ''fake''), (''a'', JInt 1)]]) \<lparr> ext = 0, trace = [] :: (unit, nat) logged list \<rparr>))) =
      [TimeL t, InfoL () 0 ''hello'' kvs] \<and>
    map_of kvs ''level'' = Some (JString ''INFO'') \<and> map_of kvs ''a'' = Some (JInt 1)"
proof -
  have "order_laws sampleLog" by (simp add: order_laws_def sampleLog_def rangeOrder_def)
  moreover have "distinct (map fst fs)" if "fs \<in> set [[(''level'', JString ''fake''), (''a'', JInt 1)]]" for fs
    using that by simp
  ultimately have "yields (logWithFields sampleLog \<lparr> lg_base = (), lg_name = ''test'' \<rparr> InfoLevel ''hello''
        [[(''level'', JString ''fake''), (''a'', JInt 1)]] :: (nat, unit, nat, unit) logProg)
      (\<lambda>_ es. \<exists>t kvs. es = [TimeL t, InfoL () 0 ''hello'' kvs] \<and>
        map_of kvs ''level'' = Some (JString ''INFO'') \<and> map_of kvs ''a'' = Some (JInt 1))"
    by (intro yields_conseq [OF log_entry_fields]) (auto simp: fun_eq_iff entry_def levelString_def)
  from yields_run [OF this, of "\<lparr> ext = 0, trace = [] \<rparr>"] show ?thesis by simp
qed

section \<open>Memory\<close>

lemma session_copy_independent_witness:
  "\<exists>b s' h'. run_state (SessionDeepCopyObject sampleMeta (Some 3)) sampleHeap = (SessionObject b, h') \<and> 6 \<le> b \<and>
     cells h' b = SessionCell s' \<and> sessionView sampleMeta h' s' = sessionView sampleMeta sampleHeap sampleStruct"
  using session_copy_independent [OF sample_copy_laws sample_heap_ok(3,1)] by (auto simp: sampleHeap_def)

lemma list_copy_well_typed_witness:
  "listOk sampleMeta (snd (run_state (ListDeepCopyInto sampleMeta sampleList) sampleHeap))
     (fst (run_state (ListDeepCopyInto sampleMeta sampleList) sampleHeap))"
  using list_copy_well_typed [OF sample_copy_laws sample_heap_ok(2) surjective_pairing] by blast

section \<open>Programs and wire\<close>

definition sampleCommandLine :: "string list" where
  "sampleCommandLine = [''--vm-image=vm'', ''-init-image'', ''init'', ''--terminal-image'', ''term'',
     ''-rabbitmq-url=amqp://broker'']"

lemma sample_parsed: "parseArgs (labFlags sampleParsers) sampleCommandLine = Inr sampleArgs"
  by code_simp

lemma main_starts_ready_witness:
  "launch (labStages (parseFlags sampleParsers sampleArgs) assembledR) 0 (trace (snd (run_state
       (labMain sampleManager sampleAmqp staticKube sampleLib anyURL sampleParsers noEnv sampleCommandLine)
       \<lparr> ext = (NewRabbitPublisher [], \<lparr> ext = 0, trace = [] \<rparr>), trace = [] \<rparr>))) \<and>
   fst (run_state (labMain sampleManager sampleAmqp staticKube sampleLib anyURL sampleParsers noEnv [''-help''])
       \<lparr> ext = (NewRabbitPublisher [], \<lparr> ext = 0, trace = [] \<rparr>), trace = [] \<rparr>) = 0"
proof -
  let ?w = "\<lparr> ext = (NewRabbitPublisher [], \<lparr> ext = 0, trace = [] \<rparr>), trace = [] \<rparr>"
  let ?main = "labMain sampleManager sampleAmqp staticKube sampleLib anyURL sampleParsers noEnv"
  note ready = main_starts_ready [of sampleManager sampleAmqp staticKube sampleLib anyURL sampleParsers noEnv]
  have run: "fst (run_state (?main sampleCommandLine) ?w) = 0 \<and> list_ex isStart (trace (snd (run_state (?main sampleCommandLine) ?w)))"
    by (simp add: labMain_def sample_parsed sample_setup say_def namespaceNotice_def orDie_def orExit_def newManager_def usePublisher_def
        SetupWithManager_def addHealthzCheck_def addReadyzCheck_def startManager_def sampleManager_def deferredClose_def Let_def
        split: prod.splits)
  have asked: "parseArgs (labFlags sampleParsers) [''-help''] = Inl 0" by code_simp
  from yields_run [OF ready [of sampleCommandLine], of ?w] yields_run [OF ready [of "[''-help'']"], of ?w]
  show ?thesis using run asked sample_parsed sample_setup by auto
qed

lemma api_packages_agree_witness:
  "\<exists>v. v1DecodeStatus sampleJson (encodeStatus sampleJson sampleStatus) = Some v \<and>
     v1_VSCode (v1_Endpoints v) = ''https://labs.example.org''"
  using api_packages_agree [OF sample_wire(1,3)]
  by (simp add: apiStatus_def sampleStatus_def emptyStatus_def mget_def)

end
