(* ===== verification/Spec2Isabelle.thy ===== *)
theory Spec2Isabelle
  imports FurtherWitnesses
begin

text \<open>
  \<^bold>\<open>The dozlab controller: a model and its properties\<close>

  The repository is a Kubernetes controller.  A user's lab is a custom resource, a LabSession; the
  controller gives it two volume claims, a Secret with an SSH key pair, a pod (a Firecracker VM
  with a terminal and an editor beside it), a Service and an Ingress, reports its progress in the
  status and on a message bus, and lets the objects be collected when the session is deleted.

  \<^bold>\<open>Parts and how they interact.\<close>  \<^verbatim>\<open>cmd/controller/main.go\<close> reads the settings, validates them, opens
  the RabbitMQ publisher and starts the reconciler.  The manager of controller-runtime calls
  \<^verbatim>\<open>Reconcile\<close> for one session at a time; every call reads the session, publishes the stored phase
  if it was not published yet and runs the handler of the phase.  The handlers call the resource
  builder (pure functions from the session to Kubernetes objects), the SSH key code and the API
  server.  The top-level \<^verbatim>\<open>main.go\<close> starts an older reconciler, \<^verbatim>\<open>controllers/\<close>, that does the same work on
  unstructured objects and shares the builder and the SSH key code.  The packages under \<^verbatim>\<open>pkg/\<close> are
  libraries beside them: circuit breaker, structured errors, tracing, metrics, logging, and the API's
  published Go types.

  \<^bold>\<open>Theories\<close> (files under \<^verbatim>\<open>src/\<close>):

  \<^item> \<^verbatim>\<open>LabPrelude\<close>: the program monad (the library's state monad over a world: the state of the
    external systems and the trace of the interactions with them), panics as outcomes, and the trace
    logic \<open>yields m Q\<close>: whatever the external systems answer, \<open>m\<close> appends actions \<open>es\<close> to the trace
    and returns \<open>r\<close> with \<open>Q r es\<close>.  Its rules are collected in \<open>yields_rules\<close>.
  \<^item> \<^verbatim>\<open>GoLib\<close>: error values, decimal printing and parsing, the string functions, durations and 64-bit
    wrap-around, as the sources use them, with their laws.  \<^verbatim>\<open>GoTime\<close>: RFC 3339 text, milliseconds and the
    rounding of a duration through a 64-bit float.  \<^verbatim>\<open>GoMaps\<close>: ranges over maps in any order.  \<^verbatim>\<open>GoFlags\<close>:
    the command line as \<^verbatim>\<open>flag.Parse\<close> reads it, with its exits.
  \<^item> \<^verbatim>\<open>KubeTypes\<close>: the API objects, and the Kubernetes libraries as a record of parameters
    (\<open>k8slib\<close>) with the documented laws the theorems may assume.
  \<^item> \<^verbatim>\<open>LabTypes\<close>: \<^verbatim>\<open>internal/controller/types.go\<close>, the session's spec, status, phases and conditions.
  \<^item> \<^verbatim>\<open>PodSettings\<close>: \<^verbatim>\<open>pod_settings.go\<close>, flags, environment and validation.
  \<^item> \<^verbatim>\<open>ResourceBuilder\<close>: \<^verbatim>\<open>resource_builder.go\<close> and \<^verbatim>\<open>ingress.go\<close>, one definition per builder function;
    \<^verbatim>\<open>BuilderProps\<close>: mounts, volumes and claims fit; the Service selects its own pod only and
    its ports are exposed; Ingress routes of sessions with different ids do not meet; the VM size is
    bounded for every request and the VM container dimensioned for it; exactly when a builder panics.
  \<^item> \<^verbatim>\<open>LabUsage\<close>: \<^verbatim>\<open>usage.go\<close>; the loops compute the sums of the requests, and what they are for the
    pod the builder makes.
  \<^item> \<^verbatim>\<open>LabEvents\<close>: \<^verbatim>\<open>internal/events/publisher.go\<close> over an abstract AMQP library.  No connection leaks,
    no message goes out on a channel that is not in confirm mode or without the durable exchange
    declared, nil means confirmed, a closed publisher stays silent.  The locale \<open>event_bus\<close> is what a client needs of a bus.
  \<^item> \<^verbatim>\<open>SshWire\<close>: the encodings of \<^verbatim>\<open>ssh_keys.go\<close>, byte by byte, with the round trips of the private and
    the public key.  The locale \<open>wire_codec\<close> is the contract of the length-prefixed fields.
  \<^item> \<^verbatim>\<open>KubeClient\<close>: the API server, recorder, clock and random source as the reconciler calls them, and
    the Secret of \<^verbatim>\<open>ssh_keys.go\<close>.
  \<^item> \<^verbatim>\<open>Reconciler\<close>: \<^verbatim>\<open>reconciler.go\<close>, \<open>ensureIngress\<close> and \<open>sessionPod\<close>: one definition per function;
    \<open>reconcileCreating\<close> is split at its numbered steps.
  \<^item> \<^verbatim>\<open>EnsureProps\<close>: the contract of the operations that create an object if it is missing (locale
    \<open>ensure_step\<close>, interpreted on the claims, the Secret, the pod, the Service and the Ingress).
  \<^item> \<^verbatim>\<open>ReconcilerProps\<close>: the abstract phase machine \<open>phaseStep\<close> and that a reconcile implements it; what
    holds when a session becomes running or fails; which errors are final; deletion; publishing.
    \<^verbatim>\<open>LifecycleProps\<close>: objects of other owners, the Secret, finished sessions.
    \<^verbatim>\<open>HistoryProps\<close>: any number of reconciles of one session; the phases they store are a path of the
    machine.
  \<^item> \<^verbatim>\<open>ControllerSetup\<close>: the assembly of \<^verbatim>\<open>cmd/controller/main.go\<close>; the locale \<open>announcing\<close> connects
    the reconciler with a bus and is interpreted on the assembled controller.
  \<^item> \<^verbatim>\<open>Breakers\<close>: \<^verbatim>\<open>pkg/circuitbreaker/circuit_breaker.go\<close> with 32-bit counters and a 64-bit
    generation; the locale \<open>machine\<close> lifts invariants to sequences of operations and is interpreted on
    the breaker and on the manager.
  \<^item> \<^verbatim>\<open>LabErrors\<close>: \<^verbatim>\<open>pkg/errors/errors.go\<close>, the builder, the classification of Kubernetes errors, the
    result and the callbacks an error leads to, and the counters.
  \<^item> \<^verbatim>\<open>LegacyController\<close>: \<^verbatim>\<open>controllers/labsession_controller.go\<close>, one definition per function, the loops with
    retries as recursions over the attempts; \<^verbatim>\<open>LegacyProps\<close>: the loops are bounded (locale \<open>retrying\<close>,
    interpreted on reading, updating and reporting), one update writes one status, what a whole
    reconcile may change, create and report, that a deletion waits, and that requests are capped.
  \<^item> \<^verbatim>\<open>DeepCopy\<close>: the copy functions of \<^verbatim>\<open>types.go\<close> over a heap of cells, where sharing shows; \<^verbatim>\<open>CopyProps\<close>: the
    contract of a copy function (locale \<open>copier\<close>), that the status, the session and lists fulfil it, and
    that a copy and its original cannot influence each other.
  \<^item> \<^verbatim>\<open>MainProgram\<close>: both \<^verbatim>\<open>main\<close> functions from the command line on, the options of the manager and the
    health checks; \<^verbatim>\<open>MainProps\<close>: a manager is started only when the flags are accepted and everything is
    valid and registered, what an exit status means, that
    HTTP/2 is off unless enabled, and that a clean stop closes the publisher.
  \<^item> \<^verbatim>\<open>SessionWire\<close>: the JSON that the struct tags of \<^verbatim>\<open>types.go\<close> and of \<^verbatim>\<open>pkg/apis/dozlab/v1/types.go\<close> give;
    \<^verbatim>\<open>WireProps\<close>: round trips, agreement of the two packages, and what the older controller reads.
  \<^item> \<^verbatim>\<open>LabTracing\<close>, \<^verbatim>\<open>LabMetrics\<close>, \<^verbatim>\<open>LabLogging\<close>: \<^verbatim>\<open>pkg/tracing\<close>, \<^verbatim>\<open>pkg/metrics\<close> and \<^verbatim>\<open>pkg/logging\<close> over abstract
    libraries.  A traced or logged operation does what the operation does, inside a span that is
    always ended; the gauge of active sessions counts; what an entry of the log says.
  \<^item> \<^verbatim>\<open>SampleCluster\<close>, \<^verbatim>\<open>SampleLegacy\<close>, \<^verbatim>\<open>Witnesses\<close>, \<^verbatim>\<open>FurtherWitnesses\<close>: concrete libraries, an API server, a
    broker, a manager and memory on which the hypotheses of the properties hold, and the properties
    applied there.

  \<^bold>\<open>State and effects.\<close>  A Go method that modifies the session through its pointer returns the session.
  Every request to the API server, the broker, the clock and the event recorder is one entry of the
  trace with its answer; the answer comes from a function that is a parameter of the model, so every
  property holds for every behaviour of these systems, errors and concurrent changes by others
  included.  Errors are values of \<open>goerror\<close>; a panic of \<^verbatim>\<open>resource.MustParse\<close> is \<open>None\<close> in the builder and
  \<open>Panicked\<close> in the reconciler.  Integers of the VM size and the sums of \<open>int64\<close> values wrap.  A session is
  a value, but in \<^verbatim>\<open>DeepCopy\<close>, where it is a structure with references.  \<^verbatim>\<open>os.Exit\<close> ends a program with
  its status and without the deferred calls.

  \<^bold>\<open>Termination.\<close>  No definition needs fuel: the loops of the sources run over finite lists, and the
  padding loop of the private key ends when the length is a multiple of eight (a \<open>function\<close> with a
  measure).  The loops with retries recurse over their five attempts.  That a handler returns and does not panic is a property of its own
  (\<open>creating_returns\<close>, \<open>builders_panic_iff\<close>).

  \<^bold>\<open>Parameters.\<close>  Code outside the repository is never defined: the Kubernetes libraries
  (quantities, owner references, finalizers, conditions, error classes), the API server, the AMQP
  library, \<^verbatim>\<open>url.Parse\<close>, \<^verbatim>\<open>json.Marshal\<close>, key generation and random bytes, the helpers for unstructured
  objects, OpenTelemetry, the log library, controller-runtime's manager, the flags it and zap define, the parsers of durations and integers, and
  the copies and the wire form of metadata, times and conditions.  The hypotheses about them are
  \<open>owner_laws\<close>, \<open>quantity_laws\<close>, \<open>literals_parse\<close>, \<open>literal_amounts\<close>, \<open>condition_laws\<close>,
  \<open>finalizer_laws\<close>, \<open>error_laws\<close>, \<open>nested_laws\<close>, \<open>compare_laws\<close>, \<open>literal_limits\<close>, \<open>order_laws\<close>,
  \<open>copy_laws\<close>, \<open>condition_wire\<close> and, of single values, \<open>exactTime\<close> and \<open>exactCondition\<close>; of single
  traces, in conclusions, \<open>answersByName\<close>, \<open>storesConditions\<close> and \<open>clockWithin\<close>.

  \<^bold>\<open>What modelling showed.\<close>  An unparsable storage request panics the controller
  (\<open>builders_panic_iff\<close>); a transient error at the Secret fails a session for good
  (\<open>secret_error_is_final\<close>); the largest cpu requests overflow to one vCPU (\<open>vm_cpu_overflow\<close>); a pod
  address ending in 255 gives a VM address that is none (\<open>vm_ip_next\<close>); sessions with one id in two
  namespaces share their public paths (\<open>ingress_collision\<close>); with the default settings one
  failed probe blocks a circuit breaker (\<open>half_open_stuck\<close>), and its reset does not close it
  (\<open>reset_keeps_open\<close>); the classification of no error is not a nil error (\<open>classified_nil_panics\<close>);
  the older controller pauses for half as long as its comment says and without jitter
  (\<open>retries_bounded\<close>), and waits on deletion for objects that nothing deletes (\<open>legacy_delete_waits\<close>).

  \<^bold>\<open>Not modelled.\<close>  Scheme registration and leader election: calls into the libraries.  The effect of
  zap's flags on the logger, and the values of the log calls in \<^verbatim>\<open>main\<close> (their messages are kept).  Text
  that is not valid UTF-8, on the wire.  The per-session
  mutex of the older controller is one program; the races on the map that holds the mutexes are
  outside a sequential model.

  \<^bold>\<open>Still to come\<close>, in this order: interleavings of the reconciles of different sessions; stale reads and
  resource versions in the histories; the JSON form of the events.
\<close>

end
